(* ===== verification/Prelude.thy ===== *)
theory Prelude
  imports Main "HOL-Library.Word" "HOL-Library.Multiset" "HOL-Library.Sublist"
begin

text \<open>
  Shared vocabulary of the development.

  \<^item> Rust machine integers are words of their width; \<open>+\<close>, \<open>*\<close> and \<open>-\<close> wrap, which is what the
    release profile of the workspace does (no \<^verbatim>\<open>overflow-checks\<close> in \<^verbatim>\<open>Cargo.toml\<close>).  The explicit
    \<^verbatim>\<open>checked_*\<close>, \<^verbatim>\<open>saturating_*\<close> and \<^verbatim>\<open>try_into\<close> operations of the standard library are defined here.
  \<^item> A Rust computation of type \<^verbatim>\<open>Result<A, E>\<close> that may also panic (an \<^verbatim>\<open>expect\<close>, an assertion, a
    division by zero, an index out of range) has the type \<open>('a, 'e) result\<close>.
  \<^item> The generic lemmas below are declared for the simplifier or collected in \<open>rust_arith\<close> (reading
    machine arithmetic as natural-number arithmetic) and \<open>rust_defs\<close> (the standard-library wrappers).
\<close>

named_theorems rust_arith
named_theorems rust_defs

section \<open>Machine integers\<close>

type_synonym u8 = "8 word"
type_synonym u16 = "16 word"
type_synonym u32 = "32 word"
type_synonym u64 = "64 word"
type_synonym u128 = "128 word"
type_synonym bytes = "u8 list"

definition checked_sub :: "'a::len word \<Rightarrow> 'a word \<Rightarrow> 'a word option" where
  "checked_sub a b = (if b \<le> a then Some (a - b) else None)"

definition checked_add :: "'a::len word \<Rightarrow> 'a word \<Rightarrow> 'a word option" where
  "checked_add a b = (if a + b < a then None else Some (a + b))"

definition checked_mul :: "'a::len word \<Rightarrow> 'a word \<Rightarrow> 'a word option" where
  "checked_mul a b = (if unat a * unat b < 2 ^ LENGTH('a) then Some (a * b) else None)"

definition saturating_sub :: "'a::len word \<Rightarrow> 'a word \<Rightarrow> 'a word" where
  "saturating_sub a b = (if b \<le> a then a - b else 0)"

definition saturating_add :: "'a::len word \<Rightarrow> 'a word \<Rightarrow> 'a word" where
  "saturating_add a b = (if a + b < a then - 1 else a + b)"

text \<open>\<open>try_narrow\<close> is \<^verbatim>\<open>TryFrom\<close> between unsigned integers: it succeeds exactly when the value fits.\<close>

definition try_narrow :: "'a::len word \<Rightarrow> 'b::len word option" where
  "try_narrow a = (if unat a < 2 ^ LENGTH('b) then Some (ucast a) else None)"

lemma unat_bound: "unat (a :: 'a::len word) < 2 ^ LENGTH('a)"
  by (rule unsigned_less)

lemma add_wraps_iff:
  fixes a :: "'a::len word"
  shows "a + b < a \<longleftrightarrow> 2 ^ LENGTH('a) \<le> unat a + unat b"
proof -
  have "unat (a + b) < unat a \<longleftrightarrow> 2 ^ LENGTH('a) \<le> unat a + unat b"
    unfolding unat_plus_if_size word_size by (rule if_split [THEN iffD2]) (use unat_bound [of b] in linarith)
  then show ?thesis
    by (simp add: word_less_nat_alt)
qed

lemma checked_sub_eq_Some [rust_arith]:
  "checked_sub a b = Some c \<longleftrightarrow> unat b \<le> unat a \<and> unat c = unat a - unat b"
  by (auto simp: checked_sub_def word_le_nat_alt unat_sub word_unat_eq_iff split: if_splits)

lemma checked_sub_eq_None [rust_arith]: "checked_sub a b = None \<longleftrightarrow> unat a < unat b"
  by (auto simp: checked_sub_def word_le_nat_alt split: if_splits)

lemma checked_add_eq_Some [rust_arith]:
  fixes a :: "'a::len word"
  shows "checked_add a b = Some c \<longleftrightarrow> unat a + unat b < 2 ^ LENGTH('a) \<and> unat c = unat a + unat b"
  by (auto simp: checked_add_def add_wraps_iff word_unat_eq_iff unat_plus_if_size word_size)

lemma checked_mul_eq_Some [rust_arith]:
  fixes a :: "'a::len word"
  shows "checked_mul a b = Some c \<longleftrightarrow> unat a * unat b < 2 ^ LENGTH('a) \<and> unat c = unat a * unat b"
  by (auto simp: checked_mul_def word_unat_eq_iff unat_word_ariths)

lemma unat_saturating_sub [rust_arith]: "unat (saturating_sub a b) = unat a - unat b"
  by (auto simp: saturating_sub_def word_le_nat_alt unat_sub)

lemma unat_saturating_add [rust_arith]:
  fixes a :: "'a::len word"
  shows "unat (saturating_add a b) = min (2 ^ LENGTH('a) - 1) (unat a + unat b)"
  by (auto simp: saturating_add_def add_wraps_iff unsigned_minus_1_eq_mask mask_eq_exp_minus_1
      unat_plus_if_size word_size)

lemma try_narrow_eq_Some [rust_arith]:
  fixes a :: "'a::len word" and b :: "'b::len word"
  shows "try_narrow a = Some b \<longleftrightarrow> unat a = unat b"
proof -
  have "unat (ucast a :: 'b word) = unat a" if "unat a < 2 ^ LENGTH('b)"
    using that by (simp add: unsigned_ucast_eq take_bit_nat_eq_self)
  then show ?thesis
    using unat_bound [of b] by (auto simp: try_narrow_def word_unat_eq_iff)
qed

lemma try_narrow_eq_None [rust_arith]:
  "(try_narrow (a :: 'a::len word) :: 'b::len word option) = None \<longleftrightarrow> 2 ^ LENGTH('b) \<le> unat a"
  by (auto simp: try_narrow_def)

lemma unat_add_no_wrap [rust_arith]:
  fixes a :: "'a::len word"
  shows "unat a + unat b < 2 ^ LENGTH('a) \<Longrightarrow> unat (a + b) = unat a + unat b"
  by (simp add: unat_word_ariths)

lemma unat_mult_no_wrap [rust_arith]:
  fixes a :: "'a::len word"
  shows "unat a * unat b < 2 ^ LENGTH('a) \<Longrightarrow> unat (a * b) = unat a * unat b"
  by (simp add: unat_word_ariths)

lemma unat_of_nat_small [rust_arith]: "n < 2 ^ LENGTH('a) \<Longrightarrow> unat (of_nat n :: 'a::len word) = n"
  by (simp add: unat_of_nat take_bit_nat_eq_self)

lemma unat_div_word [rust_arith]: "unat ((a :: 'a::len word) div b) = unat a div unat b"
  by (rule unat_div_distrib)

lemma unat_mod_word [rust_arith]: "unat ((a :: 'a::len word) mod b) = unat a mod unat b"
  by (rule unat_mod_distrib)

lemma unat_ucast_up [rust_arith]:
  "LENGTH('a) \<le> LENGTH('b) \<Longrightarrow> unat (ucast (a :: 'a::len word) :: 'b::len word) = unat a"
  by (simp add: unsigned_ucast_eq)
    (metis less_le_trans one_le_numeral power_increasing take_bit_nat_eq_self unat_bound)

lemma eq_of_nat_iff: "unat (w :: 'a::len word) = n \<Longrightarrow> w = of_nat n"
  by auto

section \<open>Results and panics\<close>

datatype ('a, 'e) result = Ok 'a | Err 'e | Panic

primrec rbind :: "('a, 'e) result \<Rightarrow> ('a \<Rightarrow> ('b, 'e) result) \<Rightarrow> ('b, 'e) result" where
  "rbind (Ok a) f = f a"
| "rbind (Err e) f = Err e"
| "rbind Panic f = Panic"

primrec map_err :: "('e \<Rightarrow> 'f) \<Rightarrow> ('a, 'e) result \<Rightarrow> ('a, 'f) result" where
  "map_err f (Ok a) = Ok a"
| "map_err f (Err e) = Err (f e)"
| "map_err f Panic = Panic"

primrec ok_or :: "'e \<Rightarrow> 'a option \<Rightarrow> ('a, 'e) result" where
  "ok_or e None = Err e"
| "ok_or e (Some a) = Ok a"

primrec expect :: "'a option \<Rightarrow> ('a, 'e) result" where
  "expect None = Panic"
| "expect (Some a) = Ok a"

primrec ok :: "('a, 'e) result \<Rightarrow> 'a option" where
  "ok (Ok a) = Some a"
| "ok (Err e) = None"
| "ok Panic = None"

text \<open>
  A computation that cannot fail but may panic has the type \<open>'a may_panic\<close>, with \<open>None\<close> the panic;
  \<open>expect\<close> embeds it into the results.  Integer division and remainder panic on a zero divisor.
\<close>

type_synonym 'a may_panic = "'a option"

definition div_or_panic :: "'a::len word \<Rightarrow> 'a word \<Rightarrow> 'a word may_panic" where
  "div_or_panic a b = (if b = 0 then None else Some (a div b))"

definition rem_or_panic :: "'a::len word \<Rightarrow> 'a word \<Rightarrow> 'a word may_panic" where
  "rem_or_panic a b = (if b = 0 then None else Some (a mod b))"

definition rdiv :: "'a::len word \<Rightarrow> 'a word \<Rightarrow> ('a word, 'e) result" where
  "rdiv a b = expect (div_or_panic a b)"

lemma rbind_eq_Ok [simp]: "rbind r f = Ok b \<longleftrightarrow> (\<exists>a. r = Ok a \<and> f a = Ok b)"
  by (cases r) auto

lemma rbind_eq_Err [simp]: "rbind r f = Err e \<longleftrightarrow> r = Err e \<or> (\<exists>a. r = Ok a \<and> f a = Err e)"
  by (cases r) auto

lemma rbind_eq_Panic [simp]: "rbind r f = Panic \<longleftrightarrow> r = Panic \<or> (\<exists>a. r = Ok a \<and> f a = Panic)"
  by (cases r) auto

lemma map_err_eq_Ok [simp]: "map_err f r = Ok a \<longleftrightarrow> r = Ok a"
  by (cases r) auto

lemma map_err_eq_Panic [simp]: "map_err f r = Panic \<longleftrightarrow> r = Panic"
  by (cases r) auto

lemma map_err_eq_Err [simp]: "map_err f r = Err e \<longleftrightarrow> (\<exists>d. r = Err d \<and> e = f d)"
  by (cases r) auto

lemma ok_or_eq [simp]:
  "ok_or e x = Ok a \<longleftrightarrow> x = Some a"
  "ok_or e x = Err d \<longleftrightarrow> x = None \<and> d = e"
  "ok_or e x \<noteq> Panic"
  by (cases x; auto)+

lemma expect_eq [simp]:
  "expect x = Ok a \<longleftrightarrow> x = Some a"
  "expect x = Panic \<longleftrightarrow> x = None"
  "expect x \<noteq> Err e"
  by (cases x; auto)+

lemma ok_eq_Some [simp]: "ok r = Some a \<longleftrightarrow> r = Ok a"
  by (cases r) auto

lemma div_or_panic_eq [simp]:
  "div_or_panic a b = Some c \<longleftrightarrow> b \<noteq> 0 \<and> c = a div b"
  "div_or_panic a b = None \<longleftrightarrow> b = 0"
  by (auto simp: div_or_panic_def)

lemma rem_or_panic_eq [simp]:
  "rem_or_panic a b = Some c \<longleftrightarrow> b \<noteq> 0 \<and> c = a mod b"
  "rem_or_panic a b = None \<longleftrightarrow> b = 0"
  by (auto simp: rem_or_panic_def)

lemma rdiv_eq [simp]:
  "rdiv a b = Ok c \<longleftrightarrow> b \<noteq> 0 \<and> c = a div b"
  "rdiv a b = Panic \<longleftrightarrow> b = 0"
  "rdiv a b \<noteq> Err e"
  by (auto simp: rdiv_def)

lemmas result_eqs = rbind_eq_Ok rbind_eq_Err rbind_eq_Panic ok_or_eq expect_eq rdiv_eq

declare checked_sub_def [rust_defs] checked_add_def [rust_defs] checked_mul_def [rust_defs]
  saturating_sub_def [rust_defs] saturating_add_def [rust_defs] try_narrow_def [rust_defs]
  rdiv_def [rust_defs] div_or_panic_def [rust_defs] rem_or_panic_def [rust_defs]

section \<open>Lists\<close>

text \<open>\<^verbatim>\<open>Iterator::position\<close>.\<close>

fun position :: "('a \<Rightarrow> bool) \<Rightarrow> 'a list \<Rightarrow> nat option" where
  "position P [] = None"
| "position P (x # xs) = (if P x then Some 0 else map_option Suc (position P xs))"

lemma position_eq_Some:
  "position P xs = Some i \<Longrightarrow> i < length xs \<and> P (xs ! i)"
  by (induction xs arbitrary: i) (auto split: if_splits)

lemma position_eq_None: "position P xs = None \<longleftrightarrow> (\<forall>x \<in> set xs. \<not> P x)"
  by (induction xs) auto

lemma position_append_first: "(\<forall>x \<in> set xs. \<not> P x) \<Longrightarrow> P y \<Longrightarrow> position P (xs @ y # ys) = Some (length xs)"
  by (induction xs) auto

end
