(* ===== verification/MainchainEpoch.thy ===== *)
theory MainchainEpoch
  imports Prelude
begin

text \<open>
  Derivation of Cardano epochs and slots from timestamps:
  \<^verbatim>\<open>toolkit/primitives/domain/src/mainchain_epoch.rs\<close>.

  Timestamps and durations are millisecond counts (\<^verbatim>\<open>sp_core::offchain::{Timestamp, Duration}\<close> wrap a
  \<^verbatim>\<open>u64\<close>).  The lemmas read every operation as exact arithmetic on natural numbers: which epoch and slot
  a timestamp falls in, on which inputs each error is returned, and how slots and epochs invert.
\<close>

section \<open>Data\<close>

record mainchain_epoch_config =
  first_epoch_timestamp_millis :: u64
  epoch_duration_millis :: u64
  first_epoch_number :: u32
  first_slot_number :: u64

datatype epoch_derivation_error = TimestampTooSmall | EpochTooBig | EpochTooSmall | SlotTooSmall

section \<open>Operations\<close>

definition slots_per_epoch :: "mainchain_epoch_config \<Rightarrow> u64" where
  "slots_per_epoch c = epoch_duration_millis c div 1000"

definition epochs_passed :: "mainchain_epoch_config \<Rightarrow> u64 \<Rightarrow> (u32, epoch_derivation_error) result" where
  "epochs_passed c timestamp =
     rbind (ok_or TimestampTooSmall (checked_sub timestamp (first_epoch_timestamp_millis c))) (\<lambda>time_elapsed.
     rbind (rdiv time_elapsed (epoch_duration_millis c)) (\<lambda>q.
     rbind (ok_or EpochTooBig (try_narrow q)) (\<lambda>res.
       if res > 0x7FFFFFFF then Err EpochTooBig else Ok res)))"

definition timestamp_to_mainchain_epoch ::
  "mainchain_epoch_config \<Rightarrow> u64 \<Rightarrow> (u32, epoch_derivation_error) result" where
  "timestamp_to_mainchain_epoch c timestamp =
     rbind (epochs_passed c timestamp) (\<lambda>n. Ok (saturating_add (first_epoch_number c) n))"

definition timestamp_to_mainchain_slot_number ::
  "mainchain_epoch_config \<Rightarrow> u64 \<Rightarrow> (u64, epoch_derivation_error) result" where
  "timestamp_to_mainchain_slot_number c timestamp =
     rbind (ok_or TimestampTooSmall (checked_sub timestamp (first_epoch_timestamp_millis c))) (\<lambda>time_elapsed.
       Ok (first_slot_number c + time_elapsed div 1000))"

definition mainchain_epoch_to_timestamp :: "mainchain_epoch_config \<Rightarrow> u32 \<Rightarrow> u64" where
  "mainchain_epoch_to_timestamp c epoch =
     (let time_elapsed = epoch_duration_millis c * ucast epoch
      in first_epoch_timestamp_millis c + time_elapsed)"

definition first_slot_of_epoch ::
  "mainchain_epoch_config \<Rightarrow> u32 \<Rightarrow> (u64, epoch_derivation_error) result" where
  "first_slot_of_epoch c epoch =
     rbind (ok_or EpochTooSmall (checked_sub epoch (first_epoch_number c))) (\<lambda>epochs_since_first_epoch.
       Ok (ucast epochs_since_first_epoch * slots_per_epoch c + first_slot_number c))"

definition epoch_for_slot ::
  "mainchain_epoch_config \<Rightarrow> u64 \<Rightarrow> (u32, epoch_derivation_error) result" where
  "epoch_for_slot c slot =
     rbind (ok_or SlotTooSmall (checked_sub slot (first_slot_number c))) (\<lambda>slots_since_first_slot.
     rbind (rdiv slots_since_first_slot (slots_per_epoch c)) (\<lambda>q.
     rbind (ok_or EpochTooBig (try_narrow q)) (\<lambda>n.
       Ok (first_epoch_number c + n))))"

section \<open>Arithmetic readings\<close>

lemma unat_lt_2_64: "unat (s :: u64) < 2 ^ 64"
  using unat_bound [of s] by simp

lemma gt_i32_max_iff: "(res :: u32) > 0x7FFFFFFF \<longleftrightarrow> 2 ^ 31 \<le> unat res"
  by (simp add: word_less_nat_alt Suc_le_eq [symmetric])

lemma epochs_passed_eq_Ok:
  "epochs_passed c t = Ok n \<longleftrightarrow>
     epoch_duration_millis c \<noteq> 0
     \<and> unat (first_epoch_timestamp_millis c) \<le> unat t
     \<and> unat n = (unat t - unat (first_epoch_timestamp_millis c)) div unat (epoch_duration_millis c)
     \<and> unat n < 2 ^ 31"
  by (cases "first_epoch_timestamp_millis c \<le> t")
    (auto simp: epochs_passed_def checked_sub_def gt_i32_max_iff try_narrow_eq_Some unat_div_word
      unat_sub word_le_nat_alt not_le split: if_splits)

lemma epochs_passed_EpochTooBig:
  assumes "epoch_duration_millis c \<noteq> 0" "unat (first_epoch_timestamp_millis c) \<le> unat t"
    and "2 ^ 31 \<le> (unat t - unat (first_epoch_timestamp_millis c)) div unat (epoch_duration_millis c)"
  shows "epochs_passed c t = Err EpochTooBig"
proof (cases "epochs_passed c t")
  case (Ok n)
  then show ?thesis
    using assms(3) by (simp add: epochs_passed_eq_Ok)
qed (use assms in \<open>auto simp: epochs_passed_def checked_sub_eq_None split: if_splits\<close>)

lemma timestamp_to_mainchain_epoch_eq_Ok:
  assumes "unat (first_epoch_number c) + 2 ^ 31 \<le> 2 ^ 32"
  shows "timestamp_to_mainchain_epoch c t = Ok e \<longleftrightarrow>
     epoch_duration_millis c \<noteq> 0
     \<and> unat (first_epoch_timestamp_millis c) \<le> unat t
     \<and> unat e = unat (first_epoch_number c)
          + (unat t - unat (first_epoch_timestamp_millis c)) div unat (epoch_duration_millis c)
     \<and> (unat t - unat (first_epoch_timestamp_millis c)) div unat (epoch_duration_millis c) < 2 ^ 31"
    (is "?L \<longleftrightarrow> ?R")
proof -
  let ?q = "(unat t - unat (first_epoch_timestamp_millis c)) div unat (epoch_duration_millis c)"
  have sat: "unat (saturating_add (first_epoch_number c) n) = unat (first_epoch_number c) + unat n"
    if "unat n < 2 ^ 31" for n :: u32
    using that assms by (simp add: unat_saturating_add)
  have "?R" if "epochs_passed c t = Ok n" "e = saturating_add (first_epoch_number c) n" for n
    using that sat [of n] by (auto simp: epochs_passed_eq_Ok)
  moreover have "?L" if ?R
  proof -
    have n: "unat (of_nat ?q :: u32) = ?q"
      using that by (simp add: unat_of_nat_small)
    then have "epochs_passed c t = Ok (of_nat ?q)"
      using that by (simp add: epochs_passed_eq_Ok)
    moreover have "e = saturating_add (first_epoch_number c) (of_nat ?q)"
      using that sat [of "of_nat ?q"] n by (simp add: word_unat_eq_iff)
    ultimately show ?thesis
      by (simp add: timestamp_to_mainchain_epoch_def)
  qed
  ultimately show ?thesis
    by (auto simp: timestamp_to_mainchain_epoch_def)
qed

lemma timestamp_to_mainchain_slot_number_eq:
  assumes "unat (first_epoch_timestamp_millis c) \<le> unat t"
    and "unat (first_slot_number c) + (unat t - unat (first_epoch_timestamp_millis c)) div 1000 < 2 ^ 64"
  shows "\<exists>s. timestamp_to_mainchain_slot_number c t = Ok s
     \<and> unat s = unat (first_slot_number c) + (unat t - unat (first_epoch_timestamp_millis c)) div 1000"
proof -
  let ?d = "t - first_epoch_timestamp_millis c"
  have d: "unat ?d = unat t - unat (first_epoch_timestamp_millis c)"
    using assms(1) by (simp add: unat_sub word_le_nat_alt)
  have "unat (first_slot_number c + ?d div 1000)
      = unat (first_slot_number c) + (unat t - unat (first_epoch_timestamp_millis c)) div 1000"
    using assms(2) d by (simp add: unat_add_no_wrap unat_div_word)
  then show ?thesis
    using assms(1)
    by (simp add: timestamp_to_mainchain_slot_number_def checked_sub_def word_le_nat_alt)
qed

lemma epoch_for_slot_eq:
  assumes "slots_per_epoch c \<noteq> 0" and "unat (first_slot_number c) \<le> unat s"
    and "unat (first_epoch_number c) + (unat s - unat (first_slot_number c)) div unat (slots_per_epoch c) < 2 ^ 32"
  shows "epoch_for_slot c s = Ok (of_nat (unat (first_epoch_number c)
           + (unat s - unat (first_slot_number c)) div unat (slots_per_epoch c)))"
proof -
  let ?q = "(unat s - unat (first_slot_number c)) div unat (slots_per_epoch c)"
  have q: "unat ((s - first_slot_number c) div slots_per_epoch c) = ?q"
    using assms(2) by (simp add: unat_div_word unat_sub word_le_nat_alt)
  have n: "unat (of_nat ?q :: u32) = ?q"
    using assms(3) by (simp add: unat_of_nat_small)
  then have "try_narrow ((s - first_slot_number c) div slots_per_epoch c) = Some (of_nat ?q :: u32)"
    using q by (simp add: try_narrow_eq_Some)
  then show ?thesis
    using assms(1,2) by (simp add: epoch_for_slot_def checked_sub_def word_le_nat_alt rdiv_def)
qed

lemma first_slot_of_epoch_eq:
  assumes "unat (first_epoch_number c) \<le> unat e"
    and "(unat e - unat (first_epoch_number c)) * unat (slots_per_epoch c) + unat (first_slot_number c) < 2 ^ 64"
  shows "\<exists>f. first_slot_of_epoch c e = Ok f
     \<and> unat f = (unat e - unat (first_epoch_number c)) * unat (slots_per_epoch c) + unat (first_slot_number c)"
proof -
  let ?n = "ucast (e - first_epoch_number c) :: u64"
  have n: "unat ?n = unat e - unat (first_epoch_number c)"
    using assms(1) by (simp add: unat_ucast_up unat_sub word_le_nat_alt)
  have m: "unat (?n * slots_per_epoch c) = (unat e - unat (first_epoch_number c)) * unat (slots_per_epoch c)"
    using assms(2) n by (simp add: unat_mult_no_wrap)
  then have "unat (?n * slots_per_epoch c + first_slot_number c)
      = (unat e - unat (first_epoch_number c)) * unat (slots_per_epoch c) + unat (first_slot_number c)"
    using assms(2) by (simp add: unat_add_no_wrap)
  then show ?thesis
    using assms(1) by (simp add: first_slot_of_epoch_def checked_sub_def word_le_nat_alt)
qed

section \<open>Correctness\<close>

text \<open>On every input with a non-zero epoch duration, \<open>timestamp_to_mainchain_epoch\<close> returns the
  number of the epoch whose half-open time interval contains the timestamp; it returns
  \<open>TimestampTooSmall\<close> exactly before the first epoch and \<open>EpochTooBig\<close> exactly when \<open>2 ^ 31\<close> or more
  epochs have passed, and it never panics.\<close>

theorem timestamp_to_mainchain_epoch_spec:
  assumes "epoch_duration_millis c \<noteq> 0" and "unat (first_epoch_number c) + 2 ^ 31 \<le> 2 ^ 32"
  defines "start \<equiv> unat (first_epoch_timestamp_millis c)" and "dur \<equiv> unat (epoch_duration_millis c)"
  shows "case timestamp_to_mainchain_epoch c t of
     Ok e \<Rightarrow> (\<exists>n < 2 ^ 31. unat e = unat (first_epoch_number c) + n
               \<and> start + n * dur \<le> unat t \<and> unat t < start + (n + 1) * dur)
   | Err TimestampTooSmall \<Rightarrow> unat t < start
   | Err EpochTooBig \<Rightarrow> start + 2 ^ 31 * dur \<le> unat t
   | _ \<Rightarrow> False"
proof -
  have dur: "0 < dur"
    using assms(1) by (simp add: dur_def unat_gt_0)
  show ?thesis
  proof (cases "start \<le> unat t")
    case False
    then show ?thesis
      by (simp add: timestamp_to_mainchain_epoch_def epochs_passed_def checked_sub_def
          word_le_nat_alt start_def)
  next
    case True
    let ?n = "(unat t - start) div dur"
    show ?thesis
    proof (cases "?n < 2 ^ 31")
      case small: True
      let ?e = "of_nat (unat (first_epoch_number c) + ?n) :: u32"
      have e: "unat ?e = unat (first_epoch_number c) + ?n"
        using small assms(2) by (intro unat_of_nat_small) simp
      then have "timestamp_to_mainchain_epoch c t = Ok ?e"
        using True small assms(1) timestamp_to_mainchain_epoch_eq_Ok [OF assms(2)]
        by (simp add: start_def dur_def)
      moreover have "?n * dur \<le> unat t - start" "unat t - start < (?n + 1) * dur"
        using dur by (simp_all add: div_times_less_eq_dividend dividend_less_div_times add.commute)
      then have "start + ?n * dur \<le> unat t" "unat t < start + (?n + 1) * dur"
        using True by linarith+
      ultimately show ?thesis
        using e small by auto
    next
      case False
      have "2 ^ 31 * dur \<le> ?n * dur"
        using False by (intro mult_le_mono1) simp
      also have "\<dots> \<le> unat t - start"
        by (rule div_times_less_eq_dividend)
      finally have "start + 2 ^ 31 * dur \<le> unat t"
        using True by linarith
      moreover have "epochs_passed c t = Err EpochTooBig"
        using assms(1) True False by (intro epochs_passed_EpochTooBig) (simp_all add: start_def dur_def)
      ultimately show ?thesis
        by (simp add: timestamp_to_mainchain_epoch_def)
    qed
  qed
qed

definition cardano_preprod :: mainchain_epoch_config where
  "cardano_preprod = \<lparr> first_epoch_timestamp_millis = 1655769600000, epoch_duration_millis = 432000000,
     first_epoch_number = 4, first_slot_number = 86400 \<rparr>"

theorem timestamp_to_mainchain_epoch_spec_witness:
  "case timestamp_to_mainchain_epoch cardano_preprod 1656201600000 of
     Ok e \<Rightarrow> (\<exists>n < 2 ^ 31. unat e = unat (first_epoch_number cardano_preprod) + n
               \<and> 1655769600000 + n * 432000000 \<le> (1656201600000 :: nat)
               \<and> (1656201600000 :: nat) < 1655769600000 + (n + 1) * 432000000)
   | _ \<Rightarrow> False"
  using timestamp_to_mainchain_epoch_spec [of cardano_preprod 1656201600000]
  by (simp add: cardano_preprod_def timestamp_to_mainchain_epoch_def epochs_passed_def rust_defs)

text \<open>Slots and epochs invert each other: the epoch computed for a slot is one whose slot range
  contains that slot, and the epoch of the first slot of an epoch is that epoch.\<close>

theorem epoch_for_slot_first_slot_of_epoch:
  assumes "slots_per_epoch c \<noteq> 0" and "unat (first_slot_number c) \<le> unat s"
    and "unat (first_epoch_number c)
           + (unat s - unat (first_slot_number c)) div unat (slots_per_epoch c) < 2 ^ 32"
  shows "\<exists>e f. epoch_for_slot c s = Ok e \<and> first_slot_of_epoch c e = Ok f \<and> epoch_for_slot c f = Ok e
     \<and> unat f \<le> unat s \<and> unat s < unat f + unat (slots_per_epoch c)"
proof -
  let ?S = "unat (slots_per_epoch c)" and ?d = "unat s - unat (first_slot_number c)"
  let ?q = "?d div ?S"
  let ?e = "of_nat (unat (first_epoch_number c) + ?q) :: u32"
  have S: "0 < ?S"
    using assms(1) by (simp add: unat_gt_0)
  have e: "unat ?e - unat (first_epoch_number c) = ?q" "unat (first_epoch_number c) \<le> unat ?e"
    using unat_of_nat_small [of "unat (first_epoch_number c) + ?q", where 'a=32] assms(3) by simp_all
  have le: "?q * ?S \<le> ?d" "?d < ?q * ?S + ?S"
    using S div_times_less_eq_dividend [of ?d ?S] dividend_less_div_times [of ?S ?d]
    by (simp_all add: add.commute)
  then have "?q * ?S + unat (first_slot_number c) < 2 ^ 64"
    using unat_lt_2_64 [of s] assms(2) by linarith
  then obtain f where f: "first_slot_of_epoch c ?e = Ok f"
      "unat f = ?q * ?S + unat (first_slot_number c)"
    using first_slot_of_epoch_eq [of c ?e] e by auto
  then have "(unat f - unat (first_slot_number c)) div ?S = ?q"
    using S by simp
  then have "epoch_for_slot c f = Ok ?e"
    using epoch_for_slot_eq [of c f] assms f(2) by simp
  moreover have "unat f \<le> unat s" "unat s < unat f + ?S"
    using le f(2) assms(2) by linarith+
  ultimately show ?thesis
    using epoch_for_slot_eq [OF assms] f(1) by blast
qed

theorem epoch_for_slot_first_slot_of_epoch_witness:
  "\<exists>e f. epoch_for_slot cardano_preprod 1000000 = Ok e \<and> first_slot_of_epoch cardano_preprod e = Ok f
     \<and> epoch_for_slot cardano_preprod f = Ok e
     \<and> unat f \<le> 1000000 \<and> 1000000 < unat f + 432000"
  using epoch_for_slot_first_slot_of_epoch [of cardano_preprod 1000000]
  by (simp add: cardano_preprod_def slots_per_epoch_def)

text \<open>The two routes from a timestamp to an epoch agree: when the epoch duration is a whole number
  of one-second slots, the epoch of the slot of a timestamp is the epoch of the timestamp.\<close>

theorem epoch_for_slot_of_timestamp:
  assumes "epoch_duration_millis c \<noteq> 0"
    and "unat (epoch_duration_millis c) = 1000 * unat (slots_per_epoch c)"
    and "unat (first_epoch_number c) + 2 ^ 31 \<le> 2 ^ 32"
    and "unat (first_slot_number c) + (unat t - unat (first_epoch_timestamp_millis c)) div 1000 < 2 ^ 64"
    and "timestamp_to_mainchain_epoch c t = Ok e"
  shows "\<exists>s. timestamp_to_mainchain_slot_number c t = Ok s \<and> epoch_for_slot c s = Ok e"
proof -
  let ?d = "unat t - unat (first_epoch_timestamp_millis c)"
  have t: "unat (first_epoch_timestamp_millis c) \<le> unat t"
    and e: "unat e = unat (first_epoch_number c) + ?d div unat (epoch_duration_millis c)"
    using assms(5) by (simp_all add: timestamp_to_mainchain_epoch_eq_Ok [OF assms(3)])
  obtain s where s: "timestamp_to_mainchain_slot_number c t = Ok s"
      "unat s = unat (first_slot_number c) + ?d div 1000"
    using timestamp_to_mainchain_slot_number_eq [OF t assms(4)] by auto
  have q: "(unat s - unat (first_slot_number c)) div unat (slots_per_epoch c)
      = ?d div unat (epoch_duration_millis c)"
    by (simp add: s(2) assms(2) div_mult2_eq)
  have "slots_per_epoch c \<noteq> 0"
    using assms(1,2) by (auto simp: word_unat_eq_iff)
  then have "epoch_for_slot c s = Ok (of_nat (unat e))"
    using epoch_for_slot_eq [of c s] s(2) q e unat_bound [of e] by simp
  then show ?thesis
    using s(1) by simp
qed

theorem epoch_for_slot_of_timestamp_witness:
  "\<exists>s. timestamp_to_mainchain_slot_number cardano_preprod 1656201600001 = Ok s
     \<and> epoch_for_slot cardano_preprod s = Ok 5"
  using epoch_for_slot_of_timestamp [of cardano_preprod 1656201600001 5]
  by (simp add: cardano_preprod_def slots_per_epoch_def timestamp_to_mainchain_epoch_def
      epochs_passed_def rust_defs)

text \<open>C37. \<open>mainchain_epoch_to_timestamp\<close> counts epochs from \<open>first_epoch_timestamp_millis\<close> but does not
  subtract \<open>first_epoch_number\<close>: mapping an epoch to a timestamp and back yields the epoch shifted by
  \<open>first_epoch_number\<close>, so the two conversions are inverse exactly when that number is zero.\<close>

theorem mainchain_epoch_to_timestamp_shifted:
  assumes "epoch_duration_millis c \<noteq> 0" and "unat (first_epoch_number c) + 2 ^ 31 \<le> 2 ^ 32"
    and "unat e < 2 ^ 31"
    and "unat (first_epoch_timestamp_millis c) + unat (epoch_duration_millis c) * unat e < 2 ^ 64"
  shows "timestamp_to_mainchain_epoch c (mainchain_epoch_to_timestamp c e) = Ok (first_epoch_number c + e)
    \<and> (timestamp_to_mainchain_epoch c (mainchain_epoch_to_timestamp c e) = Ok e
           \<longleftrightarrow> first_epoch_number c = 0)"
proof -
  have "unat (mainchain_epoch_to_timestamp c e)
      = unat (first_epoch_timestamp_millis c) + unat (epoch_duration_millis c) * unat e"
    using assms(4) unat_mult_no_wrap [of "epoch_duration_millis c" "ucast e"]
    by (simp add: mainchain_epoch_to_timestamp_def Let_def unat_ucast_up unat_add_no_wrap)
  then have "timestamp_to_mainchain_epoch c (mainchain_epoch_to_timestamp c e)
      = Ok (first_epoch_number c + e)"
    using assms by (simp add: timestamp_to_mainchain_epoch_eq_Ok unat_add_no_wrap unat_gt_0)
  then show ?thesis
    by simp
qed

theorem mainchain_epoch_to_timestamp_shifted_witness:
  "timestamp_to_mainchain_epoch cardano_preprod (mainchain_epoch_to_timestamp cardano_preprod 5) = Ok 9"
  using mainchain_epoch_to_timestamp_shifted [of cardano_preprod 5]
  by (simp add: cardano_preprod_def)

end
