(* ===== verification/SidechainSlots.thy ===== *)
theory SidechainSlots
  imports Prelude
begin

text \<open>
  Partner-chain slots and epochs: \<^verbatim>\<open>toolkit/primitives/sidechain-slots/src/lib.rs\<close>.

  A slot and a partner-chain epoch are \<^verbatim>\<open>u64\<close> numbers, \<^verbatim>\<open>SlotsPerEpoch\<close> a \<^verbatim>\<open>u32\<close>.  The two conversions of
  \<^verbatim>\<open>sp_consensus_slots::Slot\<close> (\<^verbatim>\<open>from_timestamp\<close> and \<^verbatim>\<open>timestamp\<close>) are third-party code and are passed as
  arguments.  The lemmas show that epochs partition the slots: every slot is the first slot of its
  epoch plus its number in the epoch.
\<close>

section \<open>Operations\<close>

definition default_slots_per_epoch :: u32 where
  "default_slots_per_epoch = 60"

definition epoch_number :: "u64 \<Rightarrow> u32 \<Rightarrow> u64 may_panic" where
  "epoch_number slot spe = div_or_panic slot (ucast spe)"

definition sc_first_slot_number :: "u64 \<Rightarrow> u32 \<Rightarrow> u64" where
  "sc_first_slot_number epoch spe = epoch * ucast spe"

definition slot_number_in_epoch :: "u64 \<Rightarrow> u32 \<Rightarrow> u32 may_panic" where
  "slot_number_in_epoch slot spe = Option.bind (rem_or_panic slot (ucast spe)) try_narrow"

definition is_last_slot_of_an_epoch :: "u64 \<Rightarrow> u32 \<Rightarrow> bool may_panic" where
  "is_last_slot_of_an_epoch slot spe =
     Option.bind (slot_number_in_epoch slot spe) (\<lambda>n. Some (n = spe - 1))"

record sc_slot_config =
  config_slots_per_epoch :: u32
  config_slot_duration :: u64

definition config_epoch_number :: "sc_slot_config \<Rightarrow> u64 \<Rightarrow> u64 may_panic" where
  "config_epoch_number c slot = epoch_number slot (config_slots_per_epoch c)"

definition config_first_slot_number :: "sc_slot_config \<Rightarrow> u64 \<Rightarrow> u64" where
  "config_first_slot_number c epoch = sc_first_slot_number epoch (config_slots_per_epoch c)"

definition slot_from_timestamp ::
  "(u64 \<Rightarrow> u64 \<Rightarrow> u64) \<Rightarrow> sc_slot_config \<Rightarrow> u64 \<Rightarrow> u64" where
  "slot_from_timestamp from_timestamp c timestamp = from_timestamp timestamp (config_slot_duration c)"

definition epoch_start_time ::
  "(u64 \<Rightarrow> u64 \<Rightarrow> u64 option) \<Rightarrow> sc_slot_config \<Rightarrow> u64 \<Rightarrow> u64 option" where
  "epoch_start_time slot_timestamp c epoch =
     slot_timestamp (config_first_slot_number c epoch) (config_slot_duration c)"

section \<open>Slots within epochs\<close>

lemma unat_ucast_spe [simp]: "unat (ucast (spe :: u32) :: u64) = unat spe"
  by (simp add: unat_ucast_up)

lemma ucast_spe_eq_0 [simp]: "(ucast (spe :: u32) :: u64) = 0 \<longleftrightarrow> spe = 0"
  by (simp only: word_unat_eq_iff unat_ucast_spe unsigned_0)

lemma slot_number_in_epoch_eq:
  assumes "spe \<noteq> 0"
  shows "\<exists>i. slot_number_in_epoch slot spe = Some i \<and> unat i = unat slot mod unat spe"
proof -
  have "unat slot mod unat spe < 2 ^ 32"
    using assms unat_bound [of spe] by (simp add: unat_gt_0 less_trans [OF mod_less_divisor])
  then have "unat (of_nat (unat slot mod unat spe) :: u32) = unat slot mod unat spe"
    by (simp add: unat_of_nat_small)
  then have "try_narrow (slot mod ucast spe) = Some (of_nat (unat slot mod unat spe) :: u32)"
    by (simp add: try_narrow_eq_Some unat_mod_word)
  then show ?thesis
    using assms \<open>unat (of_nat _ :: u32) = _\<close> by (simp add: slot_number_in_epoch_def bind_eq_Some_conv)
qed

lemma epoch_number_eq:
  "spe \<noteq> 0 \<Longrightarrow> \<exists>e. epoch_number slot spe = Some e \<and> unat e = unat slot div unat spe"
  by (simp add: epoch_number_def unat_div_word)

lemma unat_sc_first_slot_number:
  "unat epoch * unat spe < 2 ^ 64 \<Longrightarrow> unat (sc_first_slot_number epoch spe) = unat epoch * unat spe"
  by (simp add: sc_first_slot_number_def unat_mult_no_wrap)

text \<open>With a non-zero number of slots per epoch no slot operation panics, and every slot is the
  first slot of its epoch plus its (in-range) number within the epoch; the last-slot test holds
  exactly when the next slot belongs to the next epoch.\<close>

theorem slot_decomposition:
  assumes "spe \<noteq> 0" and "unat slot + 1 < 2 ^ 64"
  shows "\<exists>e i. epoch_number slot spe = Some e \<and> slot_number_in_epoch slot spe = Some i
     \<and> unat i < unat spe
     \<and> unat slot = unat (sc_first_slot_number e spe) + unat i
     \<and> is_last_slot_of_an_epoch slot spe = Some (epoch_number (slot + 1) spe = Some (e + 1))"
proof -
  have spe: "0 < unat spe"
    using assms(1) by (simp add: unat_gt_0)
  obtain e where e: "epoch_number slot spe = Some e" "unat e = unat slot div unat spe"
    using epoch_number_eq [OF assms(1)] by blast
  obtain i where i: "slot_number_in_epoch slot spe = Some i" "unat i = unat slot mod unat spe"
    using slot_number_in_epoch_eq [OF assms(1)] by blast
  obtain e' where e': "epoch_number (slot + 1) spe = Some e'" "unat e' = unat (slot + 1) div unat spe"
    using epoch_number_eq [OF assms(1)] by blast
  have bound: "unat i < unat spe"
    using spe i(2) by simp
  have fits: "unat e * unat spe \<le> unat slot"
    using e(2) by simp
  then have first: "unat (sc_first_slot_number e spe) = unat e * unat spe"
    using unat_sc_first_slot_number [of e spe] assms(2) by linarith
  have slot1: "unat (slot + 1) = Suc (unat slot)"
    using assms(2) by (simp add: unat_add_no_wrap)
  have e1: "unat (e + 1) = Suc (unat e)"
    using assms(2) e(2) le_less_trans [OF div_le_dividend [of "unat slot" "unat spe"]]
    by (subst unat_add_no_wrap) simp_all
  have last: "i = spe - 1 \<longleftrightarrow> Suc (unat i) = unat spe"
    using spe by (auto simp: word_unat_eq_iff unat_sub word_le_nat_alt)
  have "e' = e + 1 \<longleftrightarrow> Suc (unat i) = unat spe"
    using e'(2) slot1 e1 e(2) i(2) spe by (auto simp: word_unat_eq_iff div_Suc mod_Suc)
  then have "is_last_slot_of_an_epoch slot spe = Some (epoch_number (slot + 1) spe = Some (e + 1))"
    using last by (simp add: is_last_slot_of_an_epoch_def i(1) e'(1))
  then show ?thesis
    using e i bound first by auto
qed

theorem slot_decomposition_witness:
  "\<exists>e i. epoch_number 119 60 = Some e \<and> slot_number_in_epoch 119 60 = Some i \<and> unat i < 60
     \<and> 119 = unat (sc_first_slot_number e 60) + unat i
     \<and> is_last_slot_of_an_epoch 119 60 = Some (epoch_number (119 + 1) 60 = Some (e + 1))"
  using slot_decomposition [of 60 119] by simp

end
