(* ===== verification/CommitteePallet.thy ===== *)
theory CommitteePallet
  imports Prelude
begin

text \<open>
  The committee pallet: \<^verbatim>\<open>toolkit/pallets/session-validator-management/src/lib.rs\<close> with the inherent
  errors and main-chain scripts of \<^verbatim>\<open>toolkit/primitives/session-validator-management/src/lib.rs\<close>.

  The pallet's storage is the record \<open>committee_pallet\<close>.  \<^verbatim>\<open>T::AuthorityId\<close>, \<^verbatim>\<open>T::AuthorityKeys\<close> and
  \<^verbatim>\<open>T::AuthoritySelectionInputs\<close> are the type variables \<open>'a\<close>, \<open>'k\<close> and \<open>'i\<close>; the configuration functions
  \<^verbatim>\<open>T::select_authorities\<close>, \<^verbatim>\<open>T::current_epoch_number\<close> and \<^verbatim>\<open>T::MaxValidators\<close> are arguments of the
  operations that call them.  \<^verbatim>\<open>InherentData::get_data\<close> is represented by its result for the pallet's
  inherent identifier.
\<close>

section \<open>Data\<close>

datatype committee_inherent_error = InvalidValidators | CommitteeNeedsToBeStoredOneEpochInAdvance

definition is_fatal_error :: "committee_inherent_error \<Rightarrow> bool" where
  "is_fatal_error e = True"

record main_chain_scripts =
  committee_candidate_address :: bytes
  d_parameter_policy_id :: bytes
  permissioned_candidates_policy_id :: bytes

record ('a, 'k) committee_info =
  epoch :: u64
  committee :: "('a \<times> 'k) list"

definition default_committee_info :: "('a, 'k) committee_info" where
  "default_committee_info = \<lparr> epoch = 0, committee = [] \<rparr>"

record ('a, 'k) committee_pallet =
  CurrentCommittee :: "('a, 'k) committee_info"
  NextCommittee :: "('a, 'k) committee_info option"
  MainChainScriptsConfiguration :: main_chain_scripts

datatype committee_pallet_error = InvalidEpoch | UnnecessarySetCall

datatype 'e dispatch_error = BadOrigin | Module 'e

datatype 'acc origin = RootOrigin | SignedOrigin 'acc | NoneOrigin

datatype ('a, 'k) committee_call =
  SetCall "('a \<times> 'k) list" u64
| SetMainChainScriptsCall bytes bytes bytes

type_synonym ('a, 'k, 'i) select_authorities_fn = "'i \<Rightarrow> u64 \<Rightarrow> ('a \<times> 'k) list option may_panic"
type_synonym 'i inherent_data = "('i option, unit) result"

section \<open>Genesis and hooks\<close>

text \<open>\<^verbatim>\<open>BoundedVec::truncate_from\<close> keeps the longest allowed prefix.\<close>

definition truncate_from :: "nat \<Rightarrow> 'a list \<Rightarrow> 'a list" where
  "truncate_from bound xs = take bound xs"

definition committee_genesis_build ::
  "nat \<Rightarrow> ('a \<times> 'k) list \<Rightarrow> main_chain_scripts \<Rightarrow> ('a, 'k) committee_pallet" where
  "committee_genesis_build max_validators initial_authorities scripts =
     \<lparr> CurrentCommittee = \<lparr> epoch = 0, committee = truncate_from max_validators initial_authorities \<rparr>,
       NextCommittee = None,
       MainChainScriptsConfiguration = scripts \<rparr>"

definition committee_on_initialize ::
  "u64 \<Rightarrow> nat \<Rightarrow> ('a, 'k) committee_pallet \<Rightarrow> ('a, 'k) committee_pallet" where
  "committee_on_initialize current_epoch_number block_nr p =
     (if block_nr = 1
      then p \<lparr> CurrentCommittee := (CurrentCommittee p) \<lparr> epoch := current_epoch_number \<rparr> \<rparr>
      else p)"

section \<open>Inherents\<close>

definition inherent_data_to_authority_selection_inputs :: "'i inherent_data \<Rightarrow> 'i may_panic" where
  "inherent_data_to_authority_selection_inputs data =
     (case data of Ok (Some inputs) \<Rightarrow> Some inputs | _ \<Rightarrow> None)"

definition calculate_committee_from_inherent_data ::
  "('a, 'k, 'i) select_authorities_fn \<Rightarrow> 'i inherent_data \<Rightarrow> u64 \<Rightarrow> ('a \<times> 'k) list option may_panic" where
  "calculate_committee_from_inherent_data select data epoch_number =
     Option.bind (inherent_data_to_authority_selection_inputs data) (\<lambda>inputs. select inputs epoch_number)"

definition calculate_committee ::
  "('a, 'k, 'i) select_authorities_fn \<Rightarrow> 'i \<Rightarrow> u64 \<Rightarrow> ('a \<times> 'k) list option may_panic" where
  "calculate_committee select inputs sidechain_epoch = select inputs sidechain_epoch"

definition committee_create_inherent ::
  "('a, 'k, 'i) select_authorities_fn \<Rightarrow> ('a, 'k) committee_pallet \<Rightarrow> 'i inherent_data
    \<Rightarrow> ('a, 'k) committee_call option may_panic" where
  "committee_create_inherent select p data =
     (if NextCommittee p \<noteq> None then Some None
      else let for_epoch_number = epoch (CurrentCommittee p) + 1 in
        map_option (\<lambda>calculated. case calculated of
            Some validators \<Rightarrow> Some (SetCall validators for_epoch_number)
          | None \<Rightarrow> Some (SetCall (committee (CurrentCommittee p)) for_epoch_number))
          (calculate_committee_from_inherent_data select data for_epoch_number))"

definition committee_check_inherent ::
  "('a, 'k, 'i) select_authorities_fn \<Rightarrow> ('a, 'k) committee_pallet \<Rightarrow> ('a, 'k) committee_call
    \<Rightarrow> 'i inherent_data \<Rightarrow> (unit, committee_inherent_error) result" where
  "committee_check_inherent select p call data =
     (case call of
        SetCall validators_param for_epoch_number_param \<Rightarrow>
          rbind (expect (calculate_committee_from_inherent_data select data for_epoch_number_param))
            (\<lambda>calculated.
               let validators = (case calculated of
                     Some vs \<Rightarrow> vs
                   | None \<Rightarrow> committee (case NextCommittee p of Some n \<Rightarrow> n | None \<Rightarrow> CurrentCommittee p))
               in if validators_param \<noteq> validators then Err InvalidValidators else Ok ())
      | _ \<Rightarrow> Ok ())"

definition committee_is_inherent :: "('a, 'k) committee_call \<Rightarrow> bool" where
  "committee_is_inherent call = (case call of SetCall _ _ \<Rightarrow> True | _ \<Rightarrow> False)"

definition committee_is_inherent_required ::
  "('a, 'k) committee_pallet \<Rightarrow> committee_inherent_error option" where
  "committee_is_inherent_required p =
     (if NextCommittee p = None then Some CommitteeNeedsToBeStoredOneEpochInAdvance else None)"

section \<open>Calls\<close>

definition set_committee ::
  "'acc origin \<Rightarrow> ('a \<times> 'k) list \<Rightarrow> u64 \<Rightarrow> ('a, 'k) committee_pallet
    \<Rightarrow> (('a, 'k) committee_pallet, committee_pallet_error dispatch_error) result" where
  "set_committee origin validators for_epoch_number p =
     (if origin \<noteq> NoneOrigin then Err BadOrigin
      else let expected_epoch_number = epoch (CurrentCommittee p) + 1 in
        if for_epoch_number \<noteq> expected_epoch_number then Err (Module InvalidEpoch)
        else Ok (p \<lparr> NextCommittee := Some \<lparr> epoch = for_epoch_number, committee = validators \<rparr> \<rparr>))"

definition set_main_chain_scripts ::
  "'acc origin \<Rightarrow> bytes \<Rightarrow> bytes \<Rightarrow> bytes \<Rightarrow> ('a, 'k) committee_pallet
    \<Rightarrow> (('a, 'k) committee_pallet, committee_pallet_error dispatch_error) result" where
  "set_main_chain_scripts origin address d_param_policy permissioned_policy p =
     (if origin \<noteq> RootOrigin then Err BadOrigin
      else Ok (p \<lparr> MainChainScriptsConfiguration :=
                 \<lparr> committee_candidate_address = address,
                   d_parameter_policy_id = d_param_policy,
                   permissioned_candidates_policy_id = permissioned_policy \<rparr> \<rparr>))"

definition committee_dispatch ::
  "'acc origin \<Rightarrow> ('a, 'k) committee_call \<Rightarrow> ('a, 'k) committee_pallet
    \<Rightarrow> (('a, 'k) committee_pallet, committee_pallet_error dispatch_error) result" where
  "committee_dispatch origin call p =
     (case call of
        SetCall validators e \<Rightarrow> set_committee origin validators e p
      | SetMainChainScriptsCall a d pc \<Rightarrow> set_main_chain_scripts origin a d pc p)"

section \<open>Queries and rotation\<close>

definition get_next_unset_epoch_number :: "('a, 'k) committee_pallet \<Rightarrow> u64" where
  "get_next_unset_epoch_number p =
     (case NextCommittee p of
        Some next_committee \<Rightarrow> epoch next_committee + 1
      | None \<Rightarrow> epoch (CurrentCommittee p) + 1)"

definition get_current_authority :: "('a, 'k) committee_pallet \<Rightarrow> nat \<Rightarrow> 'a option" where
  "get_current_authority p index =
     (if index < length (committee (CurrentCommittee p))
      then Some (fst (committee (CurrentCommittee p) ! index)) else None)"

definition current_committee_storage :: "('a, 'k) committee_pallet \<Rightarrow> ('a, 'k) committee_info" where
  "current_committee_storage p = CurrentCommittee p"

definition next_committee_storage :: "('a, 'k) committee_pallet \<Rightarrow> ('a, 'k) committee_info option" where
  "next_committee_storage p = NextCommittee p"

definition next_committee :: "nat \<Rightarrow> ('a, 'k) committee_pallet \<Rightarrow> 'a list option" where
  "next_committee max_validators p =
     map_option (\<lambda>n. truncate_from max_validators (map fst (committee n))) (NextCommittee p)"

definition get_current_committee :: "('a, 'k) committee_pallet \<Rightarrow> u64 \<times> 'a list" where
  "get_current_committee p =
     (epoch (CurrentCommittee p), map fst (committee (CurrentCommittee p)))"

definition get_next_committee :: "('a, 'k) committee_pallet \<Rightarrow> (u64 \<times> 'a list) option" where
  "get_next_committee p = map_option (\<lambda>n. (epoch n, map fst (committee n))) (NextCommittee p)"

definition rotate_committee_to_next_epoch ::
  "('a \<Rightarrow> 'acc) \<Rightarrow> ('a, 'k) committee_pallet \<Rightarrow> ('acc \<times> 'k) list option \<times> ('a, 'k) committee_pallet" where
  "rotate_committee_to_next_epoch into p =
     (case NextCommittee p of
        None \<Rightarrow> (None, p)
      | Some n \<Rightarrow> (Some (map (\<lambda>(pub_key, keys). (into pub_key, keys)) (committee n)),
                   p \<lparr> NextCommittee := None, CurrentCommittee := n \<rparr>))"

end
