(* ===== verification/SessionPallet.thy ===== *)
theory SessionPallet
  imports Prelude
begin

text \<open>
  The session pallet: \<^verbatim>\<open>toolkit/pallets/partner-chains-session/src/lib.rs\<close>.

  The pallet is generic over a session manager, a session handler and \<^verbatim>\<open>frame_system\<close>.  The record
  \<open>session_config\<close> holds what \<^verbatim>\<open>T: Config\<close> provides: the manager's methods act on an abstract manager state
  \<open>'m\<close>, \<^verbatim>\<open>frame_system\<close>'s provider counting on an abstract state \<open>'s\<close>.  Calls to the session handler and
  deposited events only leave the pallet; they are recorded, in order, in the log of the world.  The
  Boolean \<open>polkadot_js_compat\<close> is the cargo feature of that name.
\<close>

section \<open>Data\<close>

datatype ('v, 'k) session_event =
  OnGenesisSession "('v \<times> 'k) list"
| OnBeforeSessionEnding
| OnNewSession bool "('v \<times> 'k) list" "('v \<times> 'k) list"
| OnDisabled u32
| NewSessionEvent u32

record ('v, 'k) session_pallet =
  Validators :: "'v list"
  ValidatorsAndKeys :: "('v \<times> 'k) list"
  CurrentIndex :: u32
  DisabledValidators :: "u32 list"

record ('v, 'k, 'm, 's) session_world =
  session :: "('v, 'k) session_pallet"
  manager :: 'm
  system :: 's
  session_log :: "('v, 'k) session_event list"

record ('v, 'k, 'm, 's, 'acc) session_config =
  polkadot_js_compat :: bool
  into_account :: "'v \<Rightarrow> 'acc"
  inc_providers :: "'acc \<Rightarrow> 's \<Rightarrow> 's"
  dec_providers :: "'acc \<Rightarrow> 's \<Rightarrow> ('s, unit) result"
  cfg_should_end_session :: "nat \<Rightarrow> 'm \<Rightarrow> bool"
  cfg_new_session :: "u32 \<Rightarrow> 'm \<Rightarrow> (('v \<times> 'k) list option \<times> 'm) may_panic"
  cfg_new_session_genesis :: "u32 \<Rightarrow> 'm \<Rightarrow> (('v \<times> 'k) list option \<times> 'm) may_panic"
  cfg_end_session :: "u32 \<Rightarrow> 'm \<Rightarrow> 'm"
  cfg_start_session :: "u32 \<Rightarrow> 'm \<Rightarrow> 'm"
  handler_key_type_ids :: "nat list"
  keys_key_ids :: "nat list"

definition empty_session_pallet :: "('v, 'k) session_pallet" where
  "empty_session_pallet =
     \<lparr> Validators = [], ValidatorsAndKeys = [], CurrentIndex = 0, DisabledValidators = [] \<rparr>"

definition log_event ::
  "('v, 'k) session_event \<Rightarrow> ('v, 'k, 'm, 's) session_world \<Rightarrow> ('v, 'k, 'm, 's) session_world" where
  "log_event e w = w \<lparr> session_log := session_log w @ [e] \<rparr>"

section \<open>Account providers\<close>

definition acc_ids :: "('v, 'k, 'm, 's, 'acc) session_config \<Rightarrow> ('v \<times> 'k) list \<Rightarrow> 'acc list" where
  "acc_ids T validators = map (\<lambda>(v_id, _). into_account T v_id) validators"

fun dec_all :: "('v, 'k, 'm, 's, 'acc) session_config \<Rightarrow> 'acc list \<Rightarrow> 's \<Rightarrow> 's may_panic" where
  "dec_all T [] s = Some s"
| "dec_all T (a # as) s = (case dec_providers T a s of Ok s' \<Rightarrow> dec_all T as s' | _ \<Rightarrow> None)"

text \<open>The two \<^verbatim>\<open>BTreeSet\<close> differences are iterated in ascending account order.\<close>

definition change_account_providers ::
  "('v, 'k, 'm, 's, 'acc::linorder) session_config \<Rightarrow> 'acc list \<Rightarrow> 'acc list \<Rightarrow> 's \<Rightarrow> 's may_panic" where
  "change_account_providers T new_ids old_ids s =
     (let to_inc = sorted_list_of_set (set new_ids - set old_ids);
          to_dec = sorted_list_of_set (set old_ids - set new_ids)
      in dec_all T to_dec (fold (inc_providers T) to_inc s))"

definition rotate_validators ::
  "('v, 'k, 'm, 's, 'acc::linorder) session_config \<Rightarrow> ('v \<times> 'k) list
    \<Rightarrow> ('v, 'k, 'm, 's) session_world \<Rightarrow> ('v, 'k, 'm, 's) session_world may_panic" where
  "rotate_validators T new_validators w =
     (let st1 = (session w) \<lparr> ValidatorsAndKeys := new_validators \<rparr>;
          st2 = (if polkadot_js_compat T then st1 \<lparr> Validators := map fst new_validators \<rparr> else st1)
      in map_option
           (\<lambda>s. w \<lparr> session := st2 \<lparr> DisabledValidators := [] \<rparr>, system := s \<rparr>)
           (change_account_providers T (acc_ids T new_validators)
              (acc_ids T (ValidatorsAndKeys st2)) (system w)))"

section \<open>Genesis\<close>

definition session_new_session_genesis ::
  "('v, 'k, 'm, 's, 'acc) session_config \<Rightarrow> u32 \<Rightarrow> ('v, 'k, 'm, 's) session_world
    \<Rightarrow> (('v \<times> 'k) list option \<times> ('v, 'k, 'm, 's) session_world) may_panic" where
  "session_new_session_genesis T index w =
     map_option (\<lambda>(vs, m). (vs, w \<lparr> manager := m \<rparr>)) (cfg_new_session_genesis T index (manager w))"

definition session_new_session ::
  "('v, 'k, 'm, 's, 'acc) session_config \<Rightarrow> u32 \<Rightarrow> ('v, 'k, 'm, 's) session_world
    \<Rightarrow> (('v \<times> 'k) list option \<times> ('v, 'k, 'm, 's) session_world) may_panic" where
  "session_new_session T index w =
     map_option (\<lambda>(vs, m). (vs, w \<lparr> manager := m \<rparr>)) (cfg_new_session T index (manager w))"

definition session_genesis_build ::
  "('v, 'k, 'm, 's, 'acc::linorder) session_config \<Rightarrow> ('v \<times> 'k) list
    \<Rightarrow> ('v, 'k, 'm, 's) session_world \<Rightarrow> ('v, 'k, 'm, 's) session_world may_panic" where
  "session_genesis_build T config_validators w =
     (if length (handler_key_type_ids T) \<noteq> length (keys_key_ids T) then None
      else if list_ex (\<lambda>(sk, kk). sk \<noteq> kk) (zip (handler_key_type_ids T) (keys_key_ids T)) then None
      else Option.bind (session_new_session_genesis T 0 w) (\<lambda>(maybe_genesis_validators, w1).
        let initial_validators =
              (case maybe_genesis_validators of Some vs \<Rightarrow> vs | None \<Rightarrow> config_validators)
        in map_option
             (\<lambda>w2. let w3 = log_event (OnGenesisSession initial_validators) w2
                   in w3 \<lparr> manager := cfg_start_session T 0 (manager w3) \<rparr>)
             (rotate_validators T initial_validators w1)))"

section \<open>Session rotation\<close>

definition rotate_session ::
  "('v, 'k, 'm, 's, 'acc::linorder) session_config \<Rightarrow> ('v, 'k, 'm, 's) session_world
    \<Rightarrow> ('v, 'k, 'm, 's) session_world may_panic" where
  "rotate_session T w =
     (let session_index = CurrentIndex (session w);
          w1 = log_event OnBeforeSessionEnding w;
          w2 = w1 \<lparr> manager := cfg_end_session T session_index (manager w1) \<rparr>;
          session_index = session_index + 1;
          w3 = w2 \<lparr> session := (session w2) \<lparr> CurrentIndex := session_index \<rparr> \<rparr>
      in Option.bind (session_new_session T session_index w3) (\<lambda>(maybe_validators, w4).
         Option.bind
           (case maybe_validators of
              Some validators \<Rightarrow>
                map_option (\<lambda>w5. (validators, True, w5)) (rotate_validators T validators w4)
            | None \<Rightarrow> Some (ValidatorsAndKeys (session w4), False, w4))
           (\<lambda>(validators, changed, w5).
              let w6 = w5 \<lparr> manager := cfg_start_session T session_index (manager w5) \<rparr>;
                  w7 = log_event (NewSessionEvent session_index) w6
              in Some (log_event (OnNewSession changed validators []) w7))))"

definition session_on_initialize ::
  "('v, 'k, 'm, 's, 'acc::linorder) session_config \<Rightarrow> nat \<Rightarrow> ('v, 'k, 'm, 's) session_world
    \<Rightarrow> ('v, 'k, 'm, 's) session_world may_panic" where
  "session_on_initialize T n w =
     (if cfg_should_end_session T n (manager w) then rotate_session T w else Some w)"

section \<open>Disabling validators\<close>

text \<open>
  \<open>binary_search\<close> gives the answer of \<^verbatim>\<open>slice::binary_search\<close> on a sorted slice without duplicates: the
  position of the element, or the position where inserting it keeps the slice sorted.
\<close>

definition binary_search :: "u32 list \<Rightarrow> u32 \<Rightarrow> nat + nat" where
  "binary_search xs x =
     (let i = length (takeWhile (\<lambda>y. y < x) xs)
      in if i < length xs \<and> xs ! i = x then Inl i else Inr i)"

definition disable_index ::
  "u32 \<Rightarrow> ('v, 'k, 'm, 's) session_world \<Rightarrow> bool \<times> ('v, 'k, 'm, 's) session_world" where
  "disable_index i w =
     (if i \<ge> of_nat (length (Validators (session w))) then (False, w)
      else let disabled = DisabledValidators (session w) in
        case binary_search disabled i of
          Inr index \<Rightarrow>
            (True, log_event (OnDisabled i)
               (w \<lparr> session := (session w)
                      \<lparr> DisabledValidators := take index disabled @ i # drop index disabled \<rparr> \<rparr>))
        | Inl _ \<Rightarrow> (False, w))"

definition disable ::
  "'v \<Rightarrow> ('v, 'k, 'm, 's) session_world \<Rightarrow> bool \<times> ('v, 'k, 'm, 's) session_world" where
  "disable c w =
     (case position (\<lambda>(i, _). i = c) (ValidatorsAndKeys (session w)) of
        Some i \<Rightarrow> disable_index (of_nat i) w
      | None \<Rightarrow> (False, w))"

definition is_disabled :: "u32 \<Rightarrow> ('v, 'k) session_pallet \<Rightarrow> bool" where
  "is_disabled index p = (case binary_search (DisabledValidators p) index of Inl _ \<Rightarrow> True | Inr _ \<Rightarrow> False)"

definition is_registered :: "'v \<Rightarrow> ('v, 'k) session_pallet \<Rightarrow> bool" where
  "is_registered v_id p = list_ex (\<lambda>(vid, _). vid = v_id) (ValidatorsAndKeys p)"

section \<open>Rotation\<close>

lemma change_account_providers_same [simp]: "change_account_providers T ids ids s = Some s"
  by (simp add: change_account_providers_def)

text \<open>The old identifiers are read back after the new list has been stored, so both sides agree.\<close>

lemma rotate_validators_eq:
  "rotate_validators T vs w = Some (w \<lparr> session := (session w)
     \<lparr> ValidatorsAndKeys := vs,
       Validators := (if polkadot_js_compat T then map fst vs else Validators (session w)),
       DisabledValidators := [] \<rparr> \<rparr>)"
  by (simp add: rotate_validators_def)

lemma rotate_session_Some:
  assumes "cfg_new_session T (CurrentIndex (session w) + 1)
             (cfg_end_session T (CurrentIndex (session w)) (manager w)) = Some (Some vs, m)"
  shows "rotate_session T w = Some (w
     \<lparr> session := \<lparr> Validators = (if polkadot_js_compat T then map fst vs else Validators (session w)),
         ValidatorsAndKeys = vs, CurrentIndex = CurrentIndex (session w) + 1, DisabledValidators = [] \<rparr>,
       manager := cfg_start_session T (CurrentIndex (session w) + 1) m,
       session_log := session_log w @ [OnBeforeSessionEnding,
         NewSessionEvent (CurrentIndex (session w) + 1), OnNewSession True vs []] \<rparr>)"
  using assms
  by (simp add: rotate_session_def session_new_session_def rotate_validators_eq log_event_def Let_def)

lemma rotate_session_None:
  assumes "cfg_new_session T (CurrentIndex (session w) + 1)
             (cfg_end_session T (CurrentIndex (session w)) (manager w)) = Some (None, m)"
  shows "rotate_session T w = Some (w
     \<lparr> session := (session w) \<lparr> CurrentIndex := CurrentIndex (session w) + 1 \<rparr>,
       manager := cfg_start_session T (CurrentIndex (session w) + 1) m,
       session_log := session_log w @ [OnBeforeSessionEnding,
         NewSessionEvent (CurrentIndex (session w) + 1),
         OnNewSession False (ValidatorsAndKeys (session w)) []] \<rparr>)"
  using assms
  by (simp add: rotate_session_def session_new_session_def log_event_def Let_def)

lemma rotate_session_panic:
  "rotate_session T w = None \<longleftrightarrow> cfg_new_session T (CurrentIndex (session w) + 1)
     (cfg_end_session T (CurrentIndex (session w)) (manager w)) = None"
proof (cases "cfg_new_session T (CurrentIndex (session w) + 1)
     (cfg_end_session T (CurrentIndex (session w)) (manager w))")
  case None
  then show ?thesis
    by (simp add: rotate_session_def session_new_session_def log_event_def Let_def)
next
  case (Some r)
  then show ?thesis
    by (cases r; cases "fst r") (simp_all add: rotate_session_Some rotate_session_None)
qed

section \<open>The contract of a session manager\<close>

text \<open>
  What the pallet needs of a session manager: whenever it asks for the session to end, it can plan the
  next one without panicking, and all of its methods keep its invariant.
\<close>

locale session_manager_contract =
  fixes T :: "('v, 'k, 'm, 's, 'acc::linorder) session_config"
    and mgr_inv :: "'m \<Rightarrow> bool"
  assumes new_session_defined: "mgr_inv m \<Longrightarrow> cfg_should_end_session T n m \<Longrightarrow>
      \<exists>vs m'. cfg_new_session T i (cfg_end_session T j m) = Some (Some vs, m') \<and> mgr_inv m'"
    and start_session_inv: "mgr_inv m \<Longrightarrow> mgr_inv (cfg_start_session T i m)"
begin

lemma on_initialize_defined:
  assumes "mgr_inv (manager w)"
  shows "\<exists>w'. session_on_initialize T n w = Some w' \<and> mgr_inv (manager w')
     \<and> CurrentIndex (session w') = CurrentIndex (session w)
         + (if cfg_should_end_session T n (manager w) then 1 else 0)"
proof (cases "cfg_should_end_session T n (manager w)")
  case True
  then obtain vs m where "cfg_new_session T (CurrentIndex (session w) + 1)
      (cfg_end_session T (CurrentIndex (session w)) (manager w)) = Some (Some vs, m)" "mgr_inv m"
    using new_session_defined [OF assms True] by blast
  then show ?thesis
    using True by (simp add: session_on_initialize_def rotate_session_Some start_session_inv)
next
  case False
  then show ?thesis
    using assms by (simp add: session_on_initialize_def)
qed

lemma on_initialize_validators:
  assumes "mgr_inv (manager w)" and "cfg_should_end_session T n (manager w)"
  shows "\<exists>vs m w'. cfg_new_session T (CurrentIndex (session w) + 1)
        (cfg_end_session T (CurrentIndex (session w)) (manager w)) = Some (Some vs, m)
     \<and> session_on_initialize T n w = Some w'
     \<and> ValidatorsAndKeys (session w') = vs \<and> DisabledValidators (session w') = []
     \<and> last (session_log w') = OnNewSession True vs []"
proof -
  obtain vs m where "cfg_new_session T (CurrentIndex (session w) + 1)
      (cfg_end_session T (CurrentIndex (session w)) (manager w)) = Some (Some vs, m)"
    using new_session_defined [OF assms] by blast
  then show ?thesis
    using assms(2) by (simp add: session_on_initialize_def rotate_session_Some)
qed

end

section \<open>The list of disabled validators\<close>

definition disabled_inv :: "('v, 'k) session_pallet \<Rightarrow> bool" where
  "disabled_inv p = sorted_wrt (<) (DisabledValidators p)"

lemma takeWhile_less_split:
  assumes "sorted_wrt (<) xs"
  shows "\<forall>y \<in> set (takeWhile (\<lambda>y. y < x) xs). y < x"
    and "\<forall>y \<in> set (dropWhile (\<lambda>y. y < x) xs). x \<le> (y :: u32)"
proof -
  show "\<forall>y \<in> set (takeWhile (\<lambda>y. y < x) xs). y < x"
    using set_takeWhileD by fastforce
  show "\<forall>y \<in> set (dropWhile (\<lambda>y. y < x) xs). x \<le> y"
    using assms
  proof (induction xs)
    case (Cons a xs)
    then show ?case
      by (auto simp: not_less intro: order.trans less_imp_le)
  qed simp
qed

lemma nth_length_takeWhile_eq:
  "length (takeWhile P xs) < length xs \<Longrightarrow> xs ! length (takeWhile P xs) = hd (dropWhile P xs)"
  by (metis append_Nil2 hd_drop_conv_nth dropWhile_eq_drop)

lemma binary_search_Inl_iff:
  assumes "sorted_wrt (<) xs"
  shows "(\<exists>i. binary_search xs x = Inl i) \<longleftrightarrow> x \<in> set xs"
proof
  assume "\<exists>i. binary_search xs x = Inl i"
  then show "x \<in> set xs"
    by (auto simp: binary_search_def Let_def split: if_splits) (metis nth_mem)
next
  assume x: "x \<in> set xs"
  let ?d = "dropWhile (\<lambda>y. y < x) xs"
  have xd: "x \<in> set ?d"
    using x takeWhile_less_split(1) [OF assms, of x] takeWhile_dropWhile_id [of "\<lambda>y. y < x" xs]
    by (metis Un_iff less_irrefl set_append)
  then obtain y ys where d: "?d = y # ys"
    by (cases ?d) auto
  have "sorted_wrt (<) ?d"
    using assms by (metis sorted_wrt_append takeWhile_dropWhile_id)
  then have "y = x"
    using xd d takeWhile_less_split(2) [OF assms, of x] by auto
  moreover have "length (takeWhile (\<lambda>y. y < x) xs) < length xs"
    using d by (metis length_append less_add_same_cancel1 length_greater_0_conv list.distinct(1)
        takeWhile_dropWhile_id)
  ultimately show "\<exists>i. binary_search xs x = Inl i"
    using d by (simp add: binary_search_def Let_def nth_length_takeWhile_eq)
qed

lemma is_disabled_iff: "disabled_inv p \<Longrightarrow> is_disabled i p \<longleftrightarrow> i \<in> set (DisabledValidators p)"
  using binary_search_Inl_iff [of "DisabledValidators p" i]
  by (auto simp: is_disabled_def disabled_inv_def split: sum.splits)

lemma insert_at_binary_search:
  assumes "sorted_wrt (<) xs" and "binary_search xs x = Inr i"
  shows "sorted_wrt (<) (take i xs @ x # drop i xs)"
    and "set (take i xs @ x # drop i xs) = insert x (set xs)"
proof -
  have i: "i = length (takeWhile (\<lambda>y. y < x) xs)"
    using assms(2) by (auto simp: binary_search_def Let_def split: if_splits)
  have t: "take i xs = takeWhile (\<lambda>y. y < x) xs" and d: "drop i xs = dropWhile (\<lambda>y. y < x) xs"
    by (simp_all add: i takeWhile_eq_take [symmetric] dropWhile_eq_drop [symmetric])
  have "x \<notin> set xs"
    using binary_search_Inl_iff [OF assms(1), of x] assms(2) by auto
  then have "\<forall>y \<in> set (drop i xs). x < y"
    using takeWhile_less_split(2) [OF assms(1), of x] d in_set_dropD
    by (metis order.not_eq_order_implies_strict)
  moreover have "\<forall>y \<in> set (take i xs). y < x"
    using takeWhile_less_split(1) [OF assms(1), of x] t by simp
  moreover have "sorted_wrt (<) (take i xs @ drop i xs)"
    using assms(1) by simp
  ultimately show "sorted_wrt (<) (take i xs @ x # drop i xs)"
    unfolding sorted_wrt_append by (auto intro: less_trans)
  show "set (take i xs @ x # drop i xs) = insert x (set xs)"
    using set_append [of "take i xs" "drop i xs"] by auto
qed

lemma disable_index_effect:
  assumes "disabled_inv (session w)" and "unat i < length (Validators (session w))"
    and "length (Validators (session w)) < 2 ^ 32"
  shows "\<exists>w'. disable_index i w = (\<not> is_disabled i (session w), w')
     \<and> disabled_inv (session w') \<and> ValidatorsAndKeys (session w') = ValidatorsAndKeys (session w)
     \<and> set (DisabledValidators (session w')) = insert i (set (DisabledValidators (session w)))"
proof -
  have range: "\<not> i \<ge> of_nat (length (Validators (session w)))"
    using assms(2,3) by (simp add: word_le_nat_alt unat_of_nat_small)
  show ?thesis
  proof (cases "binary_search (DisabledValidators (session w)) i")
    case (Inl j)
    then have "i \<in> set (DisabledValidators (session w))"
      using assms(1) binary_search_Inl_iff by (auto simp: disabled_inv_def)
    then show ?thesis
      using Inl range assms(1) by (auto simp: disable_index_def is_disabled_def)
  next
    case (Inr j)
    then show ?thesis
      using range assms(1)
        insert_at_binary_search [of "DisabledValidators (session w)" i j]
      by (simp add: disable_index_def is_disabled_def disabled_inv_def Let_def log_event_def)
  qed
qed

section \<open>Reachable session states\<close>

text \<open>
  \<open>session_reach T w\<close>: the world \<open>w\<close> is reached from the genesis of the pallet by block initialisations
  and by disabling validators, in any order and number.
\<close>

inductive session_reach ::
  "('v, 'k, 'm, 's, 'acc::linorder) session_config \<Rightarrow> ('v, 'k, 'm, 's) session_world \<Rightarrow> bool"
  for T where
  genesis: "session_genesis_build T vs w0 = Some w \<Longrightarrow> session w0 = empty_session_pallet
    \<Longrightarrow> session_reach T w"
| on_initialize: "session_reach T w \<Longrightarrow> session_on_initialize T n w = Some w' \<Longrightarrow> session_reach T w'"
| disable: "session_reach T w \<Longrightarrow> disable c w = (b, w') \<Longrightarrow> session_reach T w'"

definition session_inv :: "bool \<Rightarrow> ('v, 'k) session_pallet \<Rightarrow> bool" where
  "session_inv js_compat p =
     (disabled_inv p \<and> Validators p = (if js_compat then map fst (ValidatorsAndKeys p) else []))"

lemma session_inv_genesis:
  assumes "session_genesis_build T vs w0 = Some w" "session w0 = empty_session_pallet"
  shows "session_inv (polkadot_js_compat T) (session w)"
  using assms
  by (cases "polkadot_js_compat T"; auto simp: session_genesis_build_def session_new_session_genesis_def rotate_validators_eq Let_def
      log_event_def session_inv_def disabled_inv_def empty_session_pallet_def bind_eq_Some_conv
      split: if_splits option.splits)

lemma session_inv_on_initialize:
  assumes "session_inv (polkadot_js_compat T) (session w)" "session_on_initialize T n w = Some w'"
  shows "session_inv (polkadot_js_compat T) (session w')"
proof (cases "cfg_should_end_session T n (manager w)")
  case True
  then have r: "rotate_session T w = Some w'"
    using assms(2) by (simp add: session_on_initialize_def)
  then obtain vs m where "cfg_new_session T (CurrentIndex (session w) + 1)
      (cfg_end_session T (CurrentIndex (session w)) (manager w)) = Some (vs, m)"
    using rotate_session_panic [of T w] by fastforce
  then show ?thesis
    using r assms(1) by (cases vs) (auto simp: rotate_session_Some rotate_session_None session_inv_def
        disabled_inv_def)
next
  case False
  then show ?thesis
    using assms by (simp add: session_on_initialize_def)
qed

lemma disable_index_session:
  assumes "disable_index i w = (b, w')" "disabled_inv (session w)"
  shows "disabled_inv (session w')" "Validators (session w') = Validators (session w)"
    "ValidatorsAndKeys (session w') = ValidatorsAndKeys (session w)"
  using assms insert_at_binary_search [of "DisabledValidators (session w)" i]
  by (auto simp: disable_index_def Let_def log_event_def disabled_inv_def
      split: if_splits sum.splits)

lemma session_inv_disable:
  assumes "session_inv c (session w)" "disable v w = (b, w')"
  shows "session_inv c (session w')"
proof (cases "position (\<lambda>(i, _). i = v) (ValidatorsAndKeys (session w))")
  case None
  then show ?thesis
    using assms by (simp add: disable_def)
next
  case (Some i)
  then show ?thesis
    using assms disable_index_session [of "of_nat i" w b w']
    by (simp add: disable_def session_inv_def)
qed

lemma session_reach_inv: "session_reach T w \<Longrightarrow> session_inv (polkadot_js_compat T) (session w)"
  by (induction rule: session_reach.induct)
    (blast intro: session_inv_genesis session_inv_on_initialize session_inv_disable)+

section \<open>Correctness\<close>

text \<open>When validators are mirrored for Polkadot.js, disabling a registered validator always leaves
  the index of its first entry disabled and every other index as it was; the call reports whether the
  index was newly disabled, and the list of disabled indices stays strictly sorted, in every state
  reachable from genesis.\<close>

theorem disable_registered:
  assumes "session_reach T w" and "polkadot_js_compat T" and "is_registered v (session w)"
    and "length (ValidatorsAndKeys (session w)) < 2 ^ 32"
  shows "\<exists>i w'. i < length (ValidatorsAndKeys (session w))
     \<and> fst (ValidatorsAndKeys (session w) ! i) = v
     \<and> disable v w = (\<not> is_disabled (of_nat i) (session w), w')
     \<and> is_disabled (of_nat i) (session w')
     \<and> (\<forall>j. j \<noteq> of_nat i \<longrightarrow> is_disabled j (session w') = is_disabled j (session w))
     \<and> sorted_wrt (<) (DisabledValidators (session w'))"
proof -
  have inv: "disabled_inv (session w)" "Validators (session w) = map fst (ValidatorsAndKeys (session w))"
    using session_reach_inv [OF assms(1)] assms(2) by (simp_all add: session_inv_def)
  obtain i where pos: "position (\<lambda>(i, _). i = v) (ValidatorsAndKeys (session w)) = Some i"
    using assms(3) position_eq_None [of "\<lambda>(i, _). i = v" "ValidatorsAndKeys (session w)"]
    by (auto simp: is_registered_def list_ex_iff)
  then have i: "i < length (ValidatorsAndKeys (session w))" "fst (ValidatorsAndKeys (session w) ! i) = v"
    using position_eq_Some [OF pos] by (auto simp: case_prod_beta)
  have "unat (of_nat i :: u32) < length (Validators (session w))"
    using i(1) assms(4) inv(2) by (simp add: unat_of_nat_small)
  then obtain w' where w': "disable_index (of_nat i) w = (\<not> is_disabled (of_nat i) (session w), w')"
      "disabled_inv (session w')"
      "set (DisabledValidators (session w')) = insert (of_nat i) (set (DisabledValidators (session w)))"
    using disable_index_effect [OF inv(1)] inv(2) assms(4) by (metis length_map)
  then show ?thesis
    using pos i inv(1)
    by (intro exI [of _ i] exI [of _ w']) (auto simp: disable_def is_disabled_iff disabled_inv_def)
qed

text \<open>A small instance: numbered validators, a manager that always plans validators 7 and 9.\<close>

definition demo_config :: "bool \<Rightarrow> (nat, nat, unit, nat \<Rightarrow> nat, nat) session_config" where
  "demo_config js_compat =
     \<lparr> polkadot_js_compat = js_compat, into_account = (\<lambda>v. v),
       inc_providers = (\<lambda>a s. s(a := Suc (s a))),
       dec_providers = (\<lambda>a s. if s a = 0 then Err () else Ok (s(a := s a - 1))),
       cfg_should_end_session = (\<lambda>_ _. True),
       cfg_new_session = (\<lambda>_ m. Some (Some [(7, 70), (9, 90)], m)),
       cfg_new_session_genesis = (\<lambda>_ m. Some (Some [(7, 70), (9, 90)], m)),
       cfg_end_session = (\<lambda>_ m. m), cfg_start_session = (\<lambda>_ m. m),
       handler_key_type_ids = [0, 1], keys_key_ids = [0, 1] \<rparr>"

definition demo_world :: "bool \<Rightarrow> (nat, nat, unit, nat \<Rightarrow> nat) session_world" where
  "demo_world js_compat =
     \<lparr> session = \<lparr> Validators = (if js_compat then [7, 9] else []),
         ValidatorsAndKeys = [(7, 70), (9, 90)], CurrentIndex = 0, DisabledValidators = [] \<rparr>,
       manager = (), system = (\<lambda>_. 0), session_log = [OnGenesisSession [(7, 70), (9, 90)]] \<rparr>"

definition demo_start :: "(nat, nat, unit, nat \<Rightarrow> nat) session_world" where
  "demo_start = \<lparr> session = empty_session_pallet, manager = (), system = (\<lambda>_. 0), session_log = [] \<rparr>"

lemma demo_world_reach: "session_reach (demo_config c) (demo_world c)"
  by (rule session_reach.genesis [where vs = "[]" and ?w0.0 = demo_start])
    (simp_all add: session_genesis_build_def session_new_session_genesis_def demo_config_def
      demo_world_def demo_start_def rotate_validators_eq log_event_def Let_def empty_session_pallet_def)

lemma demo_world_facts:
  "polkadot_js_compat (demo_config c) = c" "is_registered 9 (session (demo_world c))"
  "length (ValidatorsAndKeys (session (demo_world c))) < 2 ^ 32"
  by (simp_all add: demo_config_def demo_world_def is_registered_def)

theorem disable_registered_witness:
  "\<exists>i w'. i < length (ValidatorsAndKeys (session (demo_world True)))
     \<and> fst (ValidatorsAndKeys (session (demo_world True)) ! i) = 9
     \<and> disable 9 (demo_world True) = (\<not> is_disabled (of_nat i) (session (demo_world True)), w')
     \<and> is_disabled (of_nat i) (session w')"
  using disable_registered [OF demo_world_reach [of True] _ demo_world_facts(2,3)] demo_world_facts(1)
  by blast

text \<open>C35. Without the \<^verbatim>\<open>polkadot-js-compat\<close> feature no validator can ever be disabled: in every reachable
  state \<open>disable\<close> reports failure and changes nothing, because \<open>disable_index\<close> bounds the index by the
  \<open>Validators\<close> list, which only that feature fills.\<close>

theorem disable_without_compat:
  assumes "session_reach T w" and "\<not> polkadot_js_compat T"
  shows "disable v w = (False, w)"
  using session_reach_inv [OF assms(1)] assms(2)
  by (auto simp: session_inv_def disable_def disable_index_def split: option.splits)

theorem disable_without_compat_witness: "disable 9 (demo_world False) = (False, demo_world False)"
  using disable_without_compat [OF demo_world_reach [of False], of 9] demo_world_facts(1) by blast

text \<open>C36. Rotating validators never touches an account's provider count, whoever joins or leaves: the
  identifiers compared as old and new are the same list, since the new one is stored first.\<close>

theorem rotate_validators_keeps_providers:
  "map_option system (rotate_validators T new_validators w) = Some (system w)"
  by (simp add: rotate_validators_eq)

end
