(* ===== verification/SessionManager.thy ===== *)
theory SessionManager
  imports Prelude CommitteePallet SessionPallet
begin

text \<open>
  The session managers of \<^verbatim>\<open>toolkit/primitives/session-manager/src/\<close>: \<^verbatim>\<open>ValidatorManagementSessionManager\<close>
  (\<^verbatim>\<open>lib.rs\<close>), which drives the session pallet from the committee pallet, and \<^verbatim>\<open>PalletSessionSupport\<close>
  (\<^verbatim>\<open>pallet_session_support.rs\<close>), which does the same for \<^verbatim>\<open>pallet_session\<close>.

  The managers' state is the storage of the committee pallet and the \<^verbatim>\<open>CurrentIndex\<close> of the stubbed
  \<^verbatim>\<open>pallet_session\<close>.  The lemmas show that the manager satisfies the contract of the session pallet: a session
  is only ended when the next committee is known, so planning the next session never panics.
\<close>

section \<open>State\<close>

record ('a, 'k) manager_state =
  committees :: "('a, 'k) committee_pallet"
  pallet_session_index :: u32

section \<open>The manager for the session pallet\<close>

definition vm_new_session_genesis ::
  "('a \<Rightarrow> 'acc) \<Rightarrow> u32 \<Rightarrow> ('a, 'k) manager_state
    \<Rightarrow> (('acc \<times> 'k) list option \<times> ('a, 'k) manager_state) may_panic" where
  "vm_new_session_genesis into new_index m =
     Some (Some (map (\<lambda>(v, keys). (into v, keys)) (committee (current_committee_storage (committees m)))), m)"

definition vm_new_session ::
  "('a \<Rightarrow> 'acc) \<Rightarrow> u32 \<Rightarrow> ('a, 'k) manager_state
    \<Rightarrow> (('acc \<times> 'k) list option \<times> ('a, 'k) manager_state) may_panic" where
  "vm_new_session into new_index m =
     (let m1 = m \<lparr> pallet_session_index := new_index \<rparr>;
          (rotated, p) = rotate_committee_to_next_epoch into (committees m1)
      in map_option (\<lambda>validators. (Some validators, m1 \<lparr> committees := p \<rparr>)) rotated)"

definition vm_end_session :: "u32 \<Rightarrow> ('a, 'k) manager_state \<Rightarrow> ('a, 'k) manager_state" where
  "vm_end_session end_index m = m"

definition vm_start_session :: "u32 \<Rightarrow> ('a, 'k) manager_state \<Rightarrow> ('a, 'k) manager_state" where
  "vm_start_session start_index m = m"

definition vm_should_end_session ::
  "nat \<Rightarrow> u64 \<Rightarrow> nat \<Rightarrow> ('a, 'k) manager_state \<Rightarrow> bool" where
  "vm_should_end_session max_validators current_epoch_number n m =
     (current_epoch_number > epoch (current_committee_storage (committees m))
      \<and> next_committee max_validators (committees m) \<noteq> None)"

section \<open>The manager for pallet session\<close>

definition ps_new_session_genesis ::
  "('a \<Rightarrow> 'acc) \<Rightarrow> u32 \<Rightarrow> ('a, 'k) manager_state \<Rightarrow> ('acc list option \<times> ('a, 'k) manager_state) may_panic" where
  "ps_new_session_genesis into new_index m =
     Some (Some (map (\<lambda>(v, _). into v) (committee (current_committee_storage (committees m)))), m)"

definition ps_new_session ::
  "('a \<Rightarrow> 'acc) \<Rightarrow> u32 \<Rightarrow> ('a, 'k) manager_state \<Rightarrow> ('acc list option \<times> ('a, 'k) manager_state) may_panic" where
  "ps_new_session into new_index m =
     (let m1 = m \<lparr> pallet_session_index := new_index \<rparr>;
          (rotated, p) = rotate_committee_to_next_epoch into (committees m1)
      in map_option (\<lambda>validators. (Some (map fst validators), m1 \<lparr> committees := p \<rparr>)) rotated)"

definition ps_should_end_session ::
  "nat \<Rightarrow> u64 \<Rightarrow> nat \<Rightarrow> ('a, 'k) manager_state \<Rightarrow> bool" where
  "ps_should_end_session max_validators current_epoch_number n m =
     (let current_committee_epoch = epoch (current_committee_storage (committees m));
          next_committee_is_defined = next_committee max_validators (committees m) \<noteq> None
      in if current_epoch_number > current_committee_epoch
         then (if next_committee_is_defined then True else False) else False)"

section \<open>The configuration of the session pallet\<close>

text \<open>
  \<open>runtime_session_config\<close> is \<^verbatim>\<open>impl pallet_partner_chains_session::Config for Runtime\<close>; the epoch number is the
  one \<^verbatim>\<open>T::current_epoch_number\<close> returns in the block being initialised.
\<close>

definition runtime_session_config ::
  "bool \<Rightarrow> nat \<Rightarrow> ('a \<Rightarrow> 'acc) \<Rightarrow> ('acc \<Rightarrow> 's \<Rightarrow> 's) \<Rightarrow> ('acc \<Rightarrow> 's \<Rightarrow> ('s, unit) result) \<Rightarrow> nat list \<Rightarrow> u64
    \<Rightarrow> ('acc, 'k, ('a, 'k) manager_state, 's, 'acc) session_config" where
  "runtime_session_config js_compat max_validators into inc dec key_ids current_epoch_number =
     \<lparr> polkadot_js_compat = js_compat, into_account = (\<lambda>a. a), inc_providers = inc, dec_providers = dec,
       cfg_should_end_session = vm_should_end_session max_validators current_epoch_number,
       cfg_new_session = vm_new_session into, cfg_new_session_genesis = vm_new_session_genesis into,
       cfg_end_session = vm_end_session, cfg_start_session = vm_start_session,
       handler_key_type_ids = key_ids, keys_key_ids = key_ids \<rparr>"

section \<open>The invariant of the committee storage\<close>

text \<open>
  Both committees respect the bound of \<^verbatim>\<open>BoundedVec\<close>, and a planned committee is planned for the epoch that
  follows the current one.
\<close>

definition committee_inv :: "nat \<Rightarrow> ('a, 'k) committee_pallet \<Rightarrow> bool" where
  "committee_inv max_validators p =
     (length (committee (CurrentCommittee p)) \<le> max_validators
      \<and> (case NextCommittee p of
           None \<Rightarrow> True
         | Some n \<Rightarrow> length (committee n) \<le> max_validators \<and> epoch n = epoch (CurrentCommittee p) + 1))"

lemma committee_inv_genesis: "committee_inv m (committee_genesis_build m vs scripts)"
  by (simp add: committee_inv_def committee_genesis_build_def truncate_from_def)

lemma committee_inv_on_initialize:
  assumes "committee_inv m p" and "n = 1 \<Longrightarrow> NextCommittee p = None"
  shows "committee_inv m (committee_on_initialize e n p)"
  using assms by (auto simp: committee_inv_def committee_on_initialize_def)

lemma set_committee_Ok:
  "set_committee orig vs e p = Ok p' \<longleftrightarrow>
     orig = NoneOrigin \<and> e = epoch (CurrentCommittee p) + 1
     \<and> p' = p \<lparr> NextCommittee := Some \<lparr> epoch = e, committee = vs \<rparr> \<rparr>"
  by (auto simp: set_committee_def Let_def)

lemma committee_inv_set:
  assumes "committee_inv m p" "set_committee orig vs e p = Ok p'" "length vs \<le> m"
  shows "committee_inv m p'"
  using assms by (auto simp: committee_inv_def set_committee_Ok)

lemma committee_inv_scripts:
  assumes "committee_inv m p" "set_main_chain_scripts orig a d q p = Ok p'"
  shows "committee_inv m p'"
  using assms by (auto simp: committee_inv_def set_main_chain_scripts_def split: if_splits option.splits)

lemma committee_inv_rotate:
  assumes "committee_inv m p" "rotate_committee_to_next_epoch into p = (vs, p')"
  shows "committee_inv m p'"
  using assms by (auto simp: committee_inv_def rotate_committee_to_next_epoch_def split: option.splits)

lemma vm_should_end_session_iff:
  "vm_should_end_session mx e n m \<longleftrightarrow>
     e > epoch (CurrentCommittee (committees m)) \<and> NextCommittee (committees m) \<noteq> None"
  by (simp add: vm_should_end_session_def current_committee_storage_def next_committee_def)

lemma vm_new_session_Some:
  "NextCommittee (committees m) = Some n \<Longrightarrow> vm_new_session into i m =
     Some (Some (map (\<lambda>(v, keys). (into v, keys)) (committee n)),
       \<lparr> committees = (committees m) \<lparr> NextCommittee := None, CurrentCommittee := n \<rparr>, pallet_session_index = i \<rparr>)"
  by (simp add: vm_new_session_def rotate_committee_to_next_epoch_def)

lemma vm_new_session_None: "NextCommittee (committees m) = None \<Longrightarrow> vm_new_session into i m = None"
  by (simp add: vm_new_session_def rotate_committee_to_next_epoch_def)

interpretation vm: session_manager_contract
  "runtime_session_config js_compat mx into inc dec key_ids e" "\<lambda>m. committee_inv mx (committees m)"
  for js_compat mx into inc dec key_ids e
proof (unfold_locales, goal_cases)
  case (1 m n i j)
  then obtain c where "NextCommittee (committees m) = Some c"
    by (auto simp: runtime_session_config_def vm_should_end_session_iff)
  then show ?case
    using 1 by (simp add: runtime_session_config_def vm_end_session_def vm_new_session_Some committee_inv_def)
next
  case (2 m i)
  then show ?case
    by (simp add: runtime_session_config_def vm_start_session_def)
qed

section \<open>The two managers\<close>

text \<open>The two session managers are equivalent: they end sessions under the same condition, panic on the same
  states, leave the same state behind, and the validators \<^verbatim>\<open>PalletSessionSupport\<close> returns are those of
  \<^verbatim>\<open>ValidatorManagementSessionManager\<close> without their keys.\<close>

theorem session_managers_equivalent:
  "ps_should_end_session mx e n m = vm_should_end_session mx e n m
   \<and> ps_new_session into i m = map_option (\<lambda>(vs, m'). (map_option (map fst) vs, m')) (vm_new_session into i m)
   \<and> ps_new_session_genesis into i m
       = map_option (\<lambda>(vs, m'). (map_option (map fst) vs, m')) (vm_new_session_genesis into i m)"
  by (simp add: ps_should_end_session_def vm_should_end_session_def ps_new_session_def vm_new_session_def
      ps_new_session_genesis_def vm_new_session_genesis_def Let_def case_prod_beta option.map_comp o_def)

end
