(* ===== verification/Domain.thy ===== *)
theory Domain
  imports Prelude "HOL-Library.Char_ord" "HOL-Library.List_Lexorder"
begin

text \<open>
  The domain types of \<^verbatim>\<open>toolkit/primitives/domain/src/lib.rs\<close>.

  Newtypes over integers are words, newtypes over byte arrays and byte vectors are \<open>bytes\<close>; where the
  wrapper checks a length, the check is part of the conversion.  Hexadecimal conversion
  (\<^verbatim>\<open>sp_core::bytes::from_hex\<close>, \<^verbatim>\<open>HexDisplay\<close>) and the hash functions are third-party and are arguments.
\<close>

section \<open>Epochs, slots and stake\<close>

definition mc_epoch_next :: "u32 \<Rightarrow> u32" where
  "mc_epoch_next e = e + 1"

definition sc_epoch_next :: "u64 \<Rightarrow> u64" where
  "sc_epoch_next e = e + 1"

definition sc_epoch_prev :: "u64 \<Rightarrow> u64 option" where
  "sc_epoch_prev e = checked_sub e 1"

definition stake_is_zero :: "u64 \<Rightarrow> bool" where
  "stake_is_zero stake = (stake = 0)"

record mainchain_block =
  mc_number :: u32
  mc_hash :: bytes
  mc_epoch :: u32
  mc_slot :: u64
  mc_timestamp :: u64

section \<open>Fixed-size byte strings\<close>

text \<open>\<^verbatim>\<open><[u8; N]>::try_from(vec)\<close> succeeds exactly on vectors of length \<open>N\<close>.\<close>

definition try_array :: "nat \<Rightarrow> bytes \<Rightarrow> bytes option" where
  "try_array n bs = (if length bs = n then Some bs else None)"

definition decode_hex_array :: "(string \<Rightarrow> bytes option) \<Rightarrow> nat \<Rightarrow> string \<Rightarrow> (bytes, string) result" where
  "decode_hex_array from_hex n s =
     rbind (ok_or ''Cannot decode bytes from hex string'' (from_hex s)) (\<lambda>bs.
       ok_or ''Invalid length'' (try_array n bs))"

definition max_mainchain_address_bytes :: nat where
  "max_mainchain_address_bytes = 120"

text \<open>\<open>mainchain_address_from_str\<close> receives the UTF-8 bytes of the string.\<close>

definition mainchain_address_from_str :: "bytes \<Rightarrow> (bytes, string) result" where
  "mainchain_address_from_str bs =
     (if length bs \<le> max_mainchain_address_bytes then Ok bs else Err ''Invalid length'')"

definition mainchain_public_key_try_from :: "bytes \<Rightarrow> (bytes, string) result" where
  "mainchain_public_key_try_from v = ok_or ''Mainchain public key must be 32 bytes long'' (try_array 32 v)"

definition mainchain_public_key_from_str ::
  "(string \<Rightarrow> bytes option) \<Rightarrow> string \<Rightarrow> (bytes, string) result" where
  "mainchain_public_key_from_str from_hex s =
     rbind (ok_or ''Mainchain Public Key must be a valid hex string'' (from_hex s))
       mainchain_public_key_try_from"

definition mainchain_address_hash_from_vkey :: "(bytes \<Rightarrow> bytes) \<Rightarrow> bytes \<Rightarrow> bytes" where
  "mainchain_address_hash_from_vkey blake2b_224 vkey = blake2b_224 vkey"

definition mc_tx_hash_try_from :: "bytes \<Rightarrow> (bytes, string) result" where
  "mc_tx_hash_try_from v = ok_or ''McTxHash must be 32 bytes long'' (try_array 32 v)"

definition try_into_sr25519 :: "bytes \<Rightarrow> bytes option" where
  "try_into_sr25519 key = try_array 32 key"

definition try_into_ed25519 :: "bytes \<Rightarrow> bytes option" where
  "try_into_ed25519 key = try_array 32 key"

section \<open>Integers in decimal notation\<close>

text \<open>
  \<^verbatim>\<open>u16::from_str\<close>, \<^verbatim>\<open>u32::from_str\<close> and their signed counterparts: an optional sign (\<^verbatim>\<open>-\<close> only for signed
  types) followed by one or more decimal digits, rejected when the value is out of range.
\<close>

definition is_digit :: "char \<Rightarrow> bool" where
  "is_digit c = (48 \<le> (of_char c :: nat) \<and> (of_char c :: nat) \<le> 57)"

fun digits_value :: "nat \<Rightarrow> string \<Rightarrow> nat option" where
  "digits_value acc [] = Some acc"
| "digits_value acc (c # cs) = (if is_digit c then digits_value (10 * acc + (of_char c - 48)) cs else None)"

definition parse_digits :: "string \<Rightarrow> nat option" where
  "parse_digits s = (if s = [] then None else digits_value 0 s)"

definition parse_unsigned :: "nat \<Rightarrow> string \<Rightarrow> nat option" where
  "parse_unsigned max_value s =
     (let body = (case s of c # cs \<Rightarrow> if c = CHR ''+'' then cs else s | [] \<Rightarrow> [])
      in Option.bind (parse_digits body) (\<lambda>n. if n \<le> max_value then Some n else None))"

definition parse_signed :: "nat \<Rightarrow> string \<Rightarrow> int option" where
  "parse_signed max_value s =
     (case s of
        c # cs \<Rightarrow>
          if c = CHR ''-'' then
            Option.bind (parse_digits cs) (\<lambda>n. if n \<le> max_value + 1 then Some (- int n) else None)
          else map_option int (parse_unsigned max_value s)
      | [] \<Rightarrow> None)"

fun to_decimal :: "nat \<Rightarrow> string" where
  "to_decimal n = (if n < 10 then [char_of (48 + n)] else to_decimal (n div 10) @ [char_of (48 + n mod 10)])"

declare to_decimal.simps [simp del]

definition utxo_index_from_str :: "string \<Rightarrow> u16 option" where
  "utxo_index_from_str s =
     Option.bind (parse_unsigned (2 ^ 16 - 1) s) (\<lambda>parsed.
     Option.bind (parse_signed (2 ^ 15 - 1) s) (\<lambda>_. Some (of_nat parsed)))"

definition mc_tx_index_from_str :: "string \<Rightarrow> u32 option" where
  "mc_tx_index_from_str s =
     Option.bind (parse_unsigned (2 ^ 32 - 1) s) (\<lambda>parsed.
     Option.bind (parse_signed (2 ^ 31 - 1) s) (\<lambda>_. Some (of_nat parsed)))"

section \<open>UTXO identifiers\<close>

record utxo_id =
  tx_hash :: bytes
  utxo_index :: u16

definition utxo_id_new :: "bytes \<Rightarrow> u16 \<Rightarrow> utxo_id" where
  "utxo_id_new h i = \<lparr> tx_hash = h, utxo_index = i \<rparr>"

text \<open>\<^verbatim>\<open>str::split\<close> on a character yields the (possibly empty) pieces between its occurrences.\<close>

fun split_on :: "char \<Rightarrow> string \<Rightarrow> string list" where
  "split_on sep [] = [[]]"
| "split_on sep (c # cs) =
     (if c = sep then [] # split_on sep cs
      else case split_on sep cs of p # ps \<Rightarrow> (c # p) # ps | [] \<Rightarrow> [[c]])"

datatype utxo_id_error = UtxoIdFormat | UtxoIdTxHash | UtxoIdOutputIndex

definition utxo_id_from_str ::
  "(string \<Rightarrow> bytes option) \<Rightarrow> string \<Rightarrow> (utxo_id, utxo_id_error) result" where
  "utxo_id_from_str from_hex s =
     (case split_on (CHR ''#'') s of
        [hash_str, index_str] \<Rightarrow>
          rbind (map_err (\<lambda>_. UtxoIdTxHash) (decode_hex_array from_hex 32 hash_str)) (\<lambda>h.
          rbind (ok_or UtxoIdOutputIndex (utxo_index_from_str index_str)) (\<lambda>i.
            Ok \<lparr> tx_hash = h, utxo_index = i \<rparr>))
      | _ \<Rightarrow> Err UtxoIdFormat)"

definition utxo_id_display :: "(bytes \<Rightarrow> string) \<Rightarrow> utxo_id \<Rightarrow> string" where
  "utxo_id_display hex_display u =
     hex_display (tx_hash u) @ CHR ''#'' # to_decimal (unat (utxo_index u))"

section \<open>Order of registrations\<close>

record utxo_info =
  info_utxo_id :: utxo_id
  info_epoch_number :: u32
  info_block_number :: u32
  info_slot_number :: u64
  info_tx_index_within_block :: u32

datatype utxo_info_ordering_key =
  OrderingKey (key_block_number: u32) (key_tx_index_within_block: u32) (key_utxo_id_index: u16)

text \<open>The derived \<^verbatim>\<open>Ord\<close> compares the fields in their order of declaration.\<close>

instantiation utxo_info_ordering_key :: linorder
begin

definition less_eq_utxo_info_ordering_key :: "utxo_info_ordering_key \<Rightarrow> utxo_info_ordering_key \<Rightarrow> bool" where
  "less_eq_utxo_info_ordering_key a b =
     (key_block_number a < key_block_number b
      \<or> key_block_number a = key_block_number b
        \<and> (key_tx_index_within_block a < key_tx_index_within_block b
           \<or> key_tx_index_within_block a = key_tx_index_within_block b
             \<and> key_utxo_id_index a \<le> key_utxo_id_index b))"

definition less_utxo_info_ordering_key :: "utxo_info_ordering_key \<Rightarrow> utxo_info_ordering_key \<Rightarrow> bool" where
  "less_utxo_info_ordering_key a b = (a \<le> b \<and> \<not> b \<le> a)"

instance
proof
  fix x y z :: utxo_info_ordering_key
  show "x < y \<longleftrightarrow> x \<le> y \<and> \<not> y \<le> x"
    by (rule less_utxo_info_ordering_key_def)
  show "x \<le> x"
    by (simp add: less_eq_utxo_info_ordering_key_def)
  show "x \<le> y \<Longrightarrow> y \<le> z \<Longrightarrow> x \<le> z"
    by (auto simp: less_eq_utxo_info_ordering_key_def)
  show "x \<le> y \<Longrightarrow> y \<le> x \<Longrightarrow> x = y"
    by (cases x; cases y) (auto simp: less_eq_utxo_info_ordering_key_def)
  show "x \<le> y \<or> y \<le> x"
    by (auto simp: less_eq_utxo_info_ordering_key_def)
qed

end

definition ordering_key :: "utxo_info \<Rightarrow> utxo_info_ordering_key" where
  "ordering_key u =
     OrderingKey (info_block_number u) (info_tx_index_within_block u) (utxo_index (info_utxo_id u))"

section \<open>Candidates\<close>

record registration_data =
  consumed_input :: utxo_id
  sidechain_signature :: bytes
  mainchain_signature :: bytes
  cross_chain_signature :: bytes
  sidechain_pub_key :: bytes
  cross_chain_pub_key :: bytes
  reg_utxo_info :: utxo_info
  tx_inputs :: "utxo_id list"
  aura_pub_key :: bytes
  grandpa_pub_key :: bytes

record candidate_registrations =
  mainchain_pub_key :: bytes
  registrations :: "registration_data list"
  stake_delegation :: "u64 option"

definition candidate_registrations_new ::
  "bytes \<Rightarrow> u64 option \<Rightarrow> registration_data list \<Rightarrow> candidate_registrations" where
  "candidate_registrations_new key stake regs =
     \<lparr> mainchain_pub_key = key, registrations = regs, stake_delegation = stake \<rparr>"

record d_parameter =
  num_permissioned_candidates :: u16
  num_registered_candidates :: u16

record permissioned_candidate_data =
  perm_sidechain_public_key :: bytes
  perm_aura_public_key :: bytes
  perm_grandpa_public_key :: bytes

text \<open>Byte strings are compared lexicographically; sorting is stable.\<close>

definition sort_keys :: "bytes list \<Rightarrow> bytes list" where
  "sort_keys keys = sort keys"

definition sidechain_public_keys_sorted_new :: "bytes list \<Rightarrow> bytes list" where
  "sidechain_public_keys_sorted_new keys = sort_keys keys"

definition atms_plain_aggregate_pub_key_new :: "(bytes \<Rightarrow> bytes) \<Rightarrow> bytes list \<Rightarrow> bytes" where
  "atms_plain_aggregate_pub_key_new blake2_256 keys =
     (let concatenated = concat (sort_keys keys) in blake2_256 concatenated)"

datatype network_type = Mainnet | Testnet

definition network_type_display :: "network_type \<Rightarrow> string" where
  "network_type_display n = (case n of Mainnet \<Rightarrow> ''mainnet'' | Testnet \<Rightarrow> ''testnet'')"

section \<open>Decimal notation and UTXO identifiers\<close>

lemma digits_value_append:
  "digits_value acc (xs @ ys) = Option.bind (digits_value acc xs) (\<lambda>a. digits_value a ys)"
  by (induction xs arbitrary: acc) auto

lemma of_char_digit: "n < 10 \<Longrightarrow> (of_char (char_of (48 + n :: nat)) :: nat) = 48 + n"
  by simp

lemma is_digit_char: "n < 10 \<Longrightarrow> is_digit (char_of (48 + n :: nat))"
  by (simp add: is_digit_def)

lemma to_decimal_digits: "c \<in> set (to_decimal n) \<Longrightarrow> is_digit c"
proof (induction n rule: to_decimal.induct)
  case (1 n)
  then show ?case
    by (subst (asm) (2) to_decimal.simps) (auto simp: is_digit_char split: if_splits)
qed

lemma to_decimal_nonempty [simp]: "to_decimal n \<noteq> []"
  by (subst to_decimal.simps) simp

lemma digits_value_to_decimal [simp]: "digits_value 0 (to_decimal n) = Some n"
proof (induction n rule: to_decimal.induct)
  case (1 n)
  show ?case
  proof (cases "n < 10")
    case True
    then show ?thesis
      by (subst to_decimal.simps) (simp add: is_digit_char)
  next
    case False
    have "digits_value 0 (to_decimal (n div 10) @ [char_of (48 + n mod 10)])
        = Some (10 * (n div 10) + n mod 10)"
      using 1 False by (simp add: digits_value_append is_digit_char)
    then show ?thesis
      using False by (subst to_decimal.simps) simp
  qed
qed

lemma hd_to_decimal_sign: "to_decimal n = c # cs \<Longrightarrow> c \<noteq> CHR ''+'' \<and> c \<noteq> CHR ''-''"
  using to_decimal_digits [of c n] by (auto simp: is_digit_def)

lemma parse_unsigned_to_decimal:
  "parse_unsigned m (to_decimal n) = (if n \<le> m then Some n else None)"
proof -
  have "(case to_decimal n of c # cs \<Rightarrow> if c = CHR ''+'' then cs else to_decimal n | [] \<Rightarrow> [])
      = to_decimal n"
    using hd_to_decimal_sign [of n] by (cases "to_decimal n") auto
  then show ?thesis
    by (simp add: parse_unsigned_def parse_digits_def)
qed

lemma parse_signed_to_decimal:
  "parse_signed m (to_decimal n) = (if n \<le> m then Some (int n) else None)"
  using hd_to_decimal_sign [of n] parse_unsigned_to_decimal [of m n]
  by (auto simp: parse_signed_def split: list.splits)

lemma utxo_index_from_str_to_decimal:
  "utxo_index_from_str (to_decimal (unat i)) = (if unat i < 2 ^ 15 then Some i else None)"
  using unat_bound [of i]
  by (auto simp: utxo_index_from_str_def parse_unsigned_to_decimal parse_signed_to_decimal
      bind_eq_None_conv)

lemma split_on_none: "sep \<notin> set cs \<Longrightarrow> split_on sep cs = [cs]"
  by (induction cs) auto

lemma split_on_append: "sep \<notin> set xs \<Longrightarrow> split_on sep (xs @ sep # ys) = xs # split_on sep ys"
  by (induction xs) auto

text \<open>Printing a UTXO identifier and parsing the result gives the identifier back exactly when its
  output index is below \<open>2 ^ 15\<close>; a larger index is refused as an invalid output index.  The hexadecimal
  functions are only assumed to be inverse and to print no hash sign.\<close>

theorem utxo_id_display_from_str:
  assumes from_hex: "\<And>bs. from_hex (hex_display bs) = Some bs"
    and no_hash: "\<And>bs. CHR ''#'' \<notin> set (hex_display bs)"
    and "length (tx_hash u) = 32"
  shows "utxo_id_from_str from_hex (utxo_id_display hex_display u) =
     (if unat (utxo_index u) < 2 ^ 15 then Ok u else Err UtxoIdOutputIndex)"
proof -
  have "CHR ''#'' \<notin> set (to_decimal (unat (utxo_index u)))"
    using to_decimal_digits [of "CHR ''#''" "unat (utxo_index u)"] by (auto simp: is_digit_def)
  then have "split_on (CHR ''#'') (utxo_id_display hex_display u)
      = [hex_display (tx_hash u), to_decimal (unat (utxo_index u))]"
    by (simp add: utxo_id_display_def split_on_append [OF no_hash] split_on_none)
  then show ?thesis
    using assms(3)
    by (simp add: utxo_id_from_str_def decode_hex_array_def from_hex try_array_def
        utxo_index_from_str_to_decimal)
qed

text \<open>The aggregate committee key does not depend on the order in which the members' keys are
  listed.\<close>

theorem atms_plain_aggregate_pub_key_perm:
  assumes "mset keys = mset keys'"
  shows "atms_plain_aggregate_pub_key_new blake2_256 keys = atms_plain_aggregate_pub_key_new blake2_256 keys'"
  using assms by (simp add: atms_plain_aggregate_pub_key_new_def sort_keys_def Let_def
      properties_for_sort [of "sort keys'" keys])

theorem atms_plain_aggregate_pub_key_perm_witness:
  "atms_plain_aggregate_pub_key_new (\<lambda>bs. bs) [[2, 7], [1]] = atms_plain_aggregate_pub_key_new (\<lambda>bs. bs) [[1], [2, 7]]"
  by (rule atms_plain_aggregate_pub_key_perm) simp

section \<open>A hexadecimal codec\<close>

text \<open>The usual lower-case hexadecimal notation, an instance of the assumed conversion functions.\<close>

definition nibble_char :: "nat \<Rightarrow> char" where
  "nibble_char n = (if n < 10 then char_of (48 + n) else char_of (87 + n))"

definition char_nibble :: "char \<Rightarrow> nat option" where
  "char_nibble c =
     (let n = of_char c :: nat in
      if 48 \<le> n \<and> n \<le> 57 then Some (n - 48) else if 97 \<le> n \<and> n \<le> 102 then Some (n - 87) else None)"

definition hex_encode :: "bytes \<Rightarrow> string" where
  "hex_encode bs = concat (map (\<lambda>b. [nibble_char (unat b div 16), nibble_char (unat b mod 16)]) bs)"

fun hex_decode :: "string \<Rightarrow> bytes option" where
  "hex_decode [] = Some []"
| "hex_decode [_] = None"
| "hex_decode (a # b # cs) =
     Option.bind (char_nibble a) (\<lambda>x. Option.bind (char_nibble b) (\<lambda>y.
     map_option (\<lambda>bs. of_nat (16 * x + y) # bs) (hex_decode cs)))"

lemma char_nibble_nibble_char [simp]: "n < 16 \<Longrightarrow> char_nibble (nibble_char n) = Some n"
  by (auto simp: nibble_char_def char_nibble_def Let_def)

lemma hex_decode_encode [simp]: "hex_decode (hex_encode bs) = Some bs"
proof (induction bs)
  case (Cons b bs)
  have "unat b div 16 < 16"
    using unat_bound [of b] by (simp add: less_mult_imp_div_less)
  moreover have "(of_nat (16 * (unat b div 16) + unat b mod 16) :: u8) = b"
    by (simp only: mult_div_mod_eq) simp
  ultimately show ?case
    using Cons by (simp add: hex_encode_def del: of_nat_add of_nat_mult)
qed (simp add: hex_encode_def)

lemma hex_encode_no_hash: "CHR ''#'' \<notin> set (hex_encode bs)"
proof -
  have "nibble_char n \<noteq> CHR ''#''" if "n < 16" for n
  proof
    assume "nibble_char n = CHR ''#''"
    then have "char_nibble (CHR ''#'') = Some n"
      using that char_nibble_nibble_char by metis
    then show False
      by (simp add: char_nibble_def)
  qed
  moreover have "unat b div 16 < 16" for b :: u8
    using unat_bound [of b] by (simp add: less_mult_imp_div_less)
  ultimately have "CHR ''#'' \<notin> set [nibble_char (unat b div 16), nibble_char (unat b mod 16)]" for b :: u8
    by (metis list.set_cases mod_less_divisor set_ConsD zero_less_numeral empty_iff list.set(1))
  then show ?thesis
    by (auto simp: hex_encode_def)
qed

theorem utxo_id_display_from_str_witness:
  "utxo_id_from_str hex_decode (utxo_id_display hex_encode (utxo_id_new (replicate 32 171) 7))
     = Ok (utxo_id_new (replicate 32 171) 7)"
  using utxo_id_display_from_str [of hex_decode hex_encode "utxo_id_new (replicate 32 171) 7"]
    hex_encode_no_hash
  by (simp add: utxo_id_new_def)

end
