(* ===== verification/WeightedRandom.thy ===== *)
theory WeightedRandom
  imports Prelude
begin

text \<open>
  Weighted random selection with repetition: \<^verbatim>\<open>toolkit/primitives/selection/src/weighted_random.rs\<close>
  and the seed of \<^verbatim>\<open>toolkit/primitives/selection/src/impls.rs\<close>.

  The generator \<^verbatim>\<open>ChaCha20Rng\<close> is third-party code: \<open>from_seed\<close> and \<open>gen_range rng n\<close> (a draw from \<^verbatim>\<open>0..n\<close>
  with the advanced generator) are arguments; \<^verbatim>\<open>gen_range\<close> panics on an empty range.  All sums are the
  wrapping sums of \<^verbatim>\<open>u128\<close>.
\<close>

section \<open>Operations\<close>

type_synonym 'rng gen_range = "'rng \<Rightarrow> u128 \<Rightarrow> u128 \<times> 'rng"

fun scan_cumulative :: "nat \<Rightarrow> u128 \<Rightarrow> u128 \<Rightarrow> ('t \<times> u128) list \<Rightarrow> nat may_panic" where
  "scan_cumulative index cumulative_weight random_number [] = None"
| "scan_cumulative index cumulative_weight random_number ((_, weight) # candidates) =
     (let cumulative_weight = cumulative_weight + weight
      in if cumulative_weight > random_number then Some index
         else scan_cumulative (Suc index) cumulative_weight random_number candidates)"

definition select_with_weight ::
  "'rng gen_range \<Rightarrow> ('t \<times> u128) list \<Rightarrow> u128 \<Rightarrow> 'rng \<Rightarrow> (nat \<times> 'rng) may_panic" where
  "select_with_weight gen_range candidates total_weight rng =
     (if total_weight = 0 then None
      else let (random_number, rng') = gen_range rng total_weight
           in map_option (\<lambda>index. (index, rng')) (scan_cumulative 0 0 random_number candidates))"

function select_loop ::
  "'rng gen_range \<Rightarrow> ('t \<times> u128) list \<Rightarrow> u128 \<Rightarrow> nat \<Rightarrow> 't list \<Rightarrow> 'rng \<Rightarrow> 't list may_panic" where
  "select_loop gen_range candidates total_weight seats committee rng =
     (if length committee < seats \<and> candidates \<noteq> [] then
        case select_with_weight gen_range candidates total_weight rng of
          None \<Rightarrow> None
        | Some (selected_index, rng') \<Rightarrow>
            select_loop gen_range candidates total_weight seats
              (committee @ [fst (candidates ! selected_index)]) rng'
      else Some committee)"
  by pat_completeness auto
termination
  by (relation "measure (\<lambda>(_, _, _, seats, committee, _). seats - length committee)") auto

declare select_loop.simps [simp del]

definition weighted_select_authorities ::
  "(bytes \<Rightarrow> 'rng) \<Rightarrow> 'rng gen_range \<Rightarrow> ('t \<times> u128) list \<Rightarrow> bytes \<Rightarrow> u16 \<Rightarrow> 't list option may_panic" where
  "weighted_select_authorities from_seed gen_range weighted_candidates seed config_size =
     (let seats = unat config_size;
          total_weight = sum_list (map snd weighted_candidates)
      in map_option (\<lambda>committee. if seats \<le> length committee then Some committee else None)
           (select_loop gen_range weighted_candidates total_weight seats [] (from_seed seed)))"

text \<open>
  The seed.  \<^verbatim>\<open>U256::from([u8; 32])\<close> and back are third-party conversions between 32 bytes and a 256-bit
  integer; they are arguments.
\<close>

definition seed_from_nonce_and_sc_epoch ::
  "(bytes \<Rightarrow> 256 word) \<Rightarrow> (256 word \<Rightarrow> bytes) \<Rightarrow> bytes \<Rightarrow> u64 \<Rightarrow> bytes" where
  "seed_from_nonce_and_sc_epoch u256_from u256_to epoch_nonce sidechain_epoch_number =
     (let resized = take 32 epoch_nonce @ replicate (32 - length epoch_nonce) 0
      in u256_to (u256_from resized + ucast sidechain_epoch_number))"

section \<open>Sums without overflow\<close>

lemma unat_sum_list:
  fixes ws :: "'a::len word list"
  assumes "sum_list (map unat ws) < 2 ^ LENGTH('a)"
  shows "unat (sum_list ws) = sum_list (map unat ws)"
  using assms
proof (induction ws)
  case (Cons w ws)
  then show ?case
    by (simp add: unat_add_no_wrap)
qed simp

abbreviation total_nat :: "('t \<times> u128) list \<Rightarrow> nat" where
  "total_nat cs \<equiv> sum_list (map (\<lambda>c. unat (snd c)) cs)"

lemma unat_total: "total_nat cs < 2 ^ 128 \<Longrightarrow> unat (sum_list (map snd cs)) = total_nat cs"
  using unat_sum_list [of "map snd cs"] by (simp add: comp_def)

section \<open>One draw\<close>

lemma scan_cumulative_eq_Some:
  assumes "unat cum + total_nat cs < 2 ^ 128"
  shows "scan_cumulative i cum r cs = Some j \<and> unat cum \<le> unat r \<longleftrightarrow>
    (\<exists>k < length cs. j = i + k \<and> unat cum + total_nat (take k cs) \<le> unat r
       \<and> unat r < unat cum + total_nat (take (Suc k) cs))"
  using assms
proof (induction cs arbitrary: i cum)
  case (Cons c cs)
  obtain t w where c: "c = (t, w)"
    by (cases c)
  have cum: "unat (cum + w) = unat cum + unat w"
    using Cons.prems c by (subst unat_add_no_wrap) simp_all
  show ?case
  proof (cases "cum + w > r")
    case True
    then have r: "unat r < unat cum + unat w"
      using cum by (simp add: word_less_nat_alt)
    have "k = 0" if "unat cum + total_nat (take k (c # cs)) \<le> unat r" for k
      using that r c by (cases k) auto
    then show ?thesis
      using True r c by auto
  next
    case False
    then have r: "unat cum + unat w \<le> unat r"
      using cum by (simp add: word_less_nat_alt)
    have IH: "scan_cumulative (Suc i) (cum + w) r cs = Some j \<longleftrightarrow>
      (\<exists>k < length cs. j = Suc i + k \<and> unat (cum + w) + total_nat (take k cs) \<le> unat r
       \<and> unat r < unat (cum + w) + total_nat (take (Suc k) cs))"
      using Cons.IH [of "cum + w" "Suc i"] Cons.prems c r cum by auto
    have "(\<exists>k < length (c # cs). j = i + k \<and> unat cum + total_nat (take k (c # cs)) \<le> unat r
         \<and> unat r < unat cum + total_nat (take (Suc k) (c # cs))) \<longleftrightarrow>
      (\<exists>k < length cs. j = i + Suc k \<and> unat cum + total_nat (take (Suc k) (c # cs)) \<le> unat r
         \<and> unat r < unat cum + total_nat (take (Suc (Suc k)) (c # cs)))"
      using r c by (auto simp: less_Suc_eq_0_disj)
    then show ?thesis
      using False IH r c cum by (auto simp: add.assoc)
  qed
qed simp

lemma scan_cumulative_defined:
  assumes "unat cum + total_nat cs < 2 ^ 128" "unat r < unat cum + total_nat cs" "unat cum \<le> unat r"
  shows "\<exists>j. scan_cumulative i cum r cs = Some j"
  using assms
proof (induction cs arbitrary: i cum)
  case (Cons c cs)
  then have cum: "unat (cum + snd c) = unat cum + unat (snd c)"
    by (subst unat_add_no_wrap) simp_all
  show ?case
  proof (cases "cum + snd c > r")
    case False
    then show ?thesis
      using Cons.IH [of "cum + snd c" "Suc i"] Cons.prems cum
      by (cases c) (auto simp: word_less_nat_alt)
  qed (cases c; auto)
qed simp

lemma scan_from_zero:
  assumes "total_nat cs < 2 ^ 128"
  shows "scan_cumulative 0 0 r cs = Some j \<longleftrightarrow>
    j < length cs \<and> total_nat (take j cs) \<le> unat r \<and> unat r < total_nat (take (Suc j) cs)"
  using scan_cumulative_eq_Some [of 0 cs 0 r j] assms by auto

lemma total_nat_take_Suc:
  "j < length cs \<Longrightarrow> total_nat (take (Suc j) cs) = total_nat (take j cs) + unat (snd (cs ! j))"
  by (simp add: take_Suc_conv_app_nth)

lemma total_nat_take_le: "total_nat (take j cs) \<le> total_nat cs"
  by (induction cs arbitrary: j) (auto simp: take_Cons split: nat.splits)

lemma card_word_interval:
  fixes lo hi :: nat
  assumes "hi \<le> 2 ^ LENGTH('a)"
  shows "card {r :: 'a::len word. lo \<le> unat r \<and> unat r < hi} = hi - lo"
proof -
  have "n \<in> unat ` {r :: 'a word. lo \<le> unat r \<and> unat r < hi}" if "lo \<le> n" "n < hi" for n
    using that assms by (intro image_eqI [of _ _ "of_nat n"]) (simp_all add: unat_of_nat_small)
  then have "unat ` {r :: 'a word. lo \<le> unat r \<and> unat r < hi} = {lo..<hi}"
    by auto
  moreover have "inj_on unat {r :: 'a word. lo \<le> unat r \<and> unat r < hi}"
    by (simp add: inj_on_def word_unat_eq_iff)
  ultimately show ?thesis
    by (metis card_atLeastLessThan card_image)
qed

section \<open>The whole committee\<close>

lemma select_with_weight_defined:
  assumes range: "\<And>rng n. 0 < n \<Longrightarrow> fst (gen_range rng n) < n"
    and "0 < total_nat cs" "total_nat cs < 2 ^ 128"
  shows "\<exists>i rng'. select_with_weight gen_range cs (sum_list (map snd cs)) rng = Some (i, rng')
     \<and> i < length cs \<and> snd (cs ! i) \<noteq> 0"
proof -
  let ?total = "sum_list (map snd cs)"
  have total: "unat ?total = total_nat cs"
    using assms(3) by (rule unat_total)
  then have pos: "0 < ?total"
    using assms(2) by (simp add: word_less_nat_alt)
  obtain r rng' where g: "gen_range rng ?total = (r, rng')"
    by (cases "gen_range rng ?total")
  then have "unat r < total_nat cs"
    using range [OF pos, of rng] total by (simp add: word_less_nat_alt)
  then obtain i where i: "scan_cumulative 0 0 r cs = Some i"
    using scan_cumulative_defined [of 0 cs r 0] assms(3) by auto
  then have "i < length cs" "snd (cs ! i) \<noteq> 0"
    using scan_from_zero [OF assms(3), of r i] total_nat_take_Suc [of i cs] by auto
  then show ?thesis
    using i g pos by (simp add: select_with_weight_def)
qed

lemma select_loop_defined:
  assumes range: "\<And>rng n. 0 < n \<Longrightarrow> fst (gen_range rng n) < n"
    and "0 < total_nat cs" "total_nat cs < 2 ^ 128" and "length committee \<le> seats"
  shows "\<exists>more. select_loop gen_range cs (sum_list (map snd cs)) seats committee rng = Some (committee @ more)
     \<and> length committee + length more = seats \<and> set more \<subseteq> {t. \<exists>w. (t, w) \<in> set cs \<and> w \<noteq> 0}"
  using assms(4)
proof (induction "seats - length committee" arbitrary: committee rng)
  case 0
  then show ?case
    by (subst select_loop.simps) simp
next
  case (Suc n)
  obtain i rng' where i: "select_with_weight gen_range cs (sum_list (map snd cs)) rng = Some (i, rng')"
      "i < length cs" "snd (cs ! i) \<noteq> 0"
    using select_with_weight_defined [of gen_range cs rng, OF range assms(2,3)] by blast
  let ?t = "fst (cs ! i)"
  obtain more where more:
      "select_loop gen_range cs (sum_list (map snd cs)) seats (committee @ [?t]) rng' = Some ((committee @ [?t]) @ more)"
      "length (committee @ [?t]) + length more = seats" "set more \<subseteq> {t. \<exists>w. (t, w) \<in> set cs \<and> w \<noteq> 0}"
    using Suc.hyps(1) [of "committee @ [?t]" rng'] Suc.hyps(2) Suc.prems by fastforce
  have "cs \<noteq> []"
    using i(2) by auto
  then have "select_loop gen_range cs (sum_list (map snd cs)) seats committee rng = Some (committee @ ?t # more)"
    using i(1) more(1) Suc.hyps(2) by (subst select_loop.simps) simp
  moreover have "\<exists>w. (?t, w) \<in> set cs \<and> w \<noteq> 0"
    using i(2,3) nth_mem [of i cs] by (metis prod.collapse)
  ultimately show ?case
    using more(2,3) by (intro exI [of _ "?t # more"]) auto
qed

lemma select_authorities_core:
  assumes range: "\<And>rng n. 0 < n \<Longrightarrow> fst (gen_range rng n) < n"
    and "cs \<noteq> [] \<Longrightarrow> 0 < total_nat cs" and "total_nat cs < 2 ^ 128"
  shows "if cs = [] \<and> n \<noteq> 0
     then weighted_select_authorities from_seed gen_range cs seed n = Some None
     else \<exists>c. weighted_select_authorities from_seed gen_range cs seed n = Some (Some c)
            \<and> length c = unat n \<and> set c \<subseteq> {t. \<exists>w. (t, w) \<in> set cs \<and> w \<noteq> 0}"
proof (cases "cs = []")
  case True
  then show ?thesis
    by (simp add: weighted_select_authorities_def select_loop.simps unat_eq_zero)
next
  case False
  then show ?thesis
    using select_loop_defined [of gen_range cs "[]" "unat n" "from_seed seed", OF range _ assms(3)] assms(2)
    by (fastforce simp: weighted_select_authorities_def Let_def)
qed

section \<open>Correctness\<close>

text \<open>Selection is proportional to weight: among all random numbers below the total weight, exactly
  \<open>weight j\<close> of them select candidate \<open>j\<close>, and every random number below the total selects some candidate.\<close>

theorem selection_proportional_to_weight:
  assumes "total_nat cs < 2 ^ 128" and "j < length cs"
  shows "card {r. r < sum_list (map snd cs) \<and> scan_cumulative 0 0 r cs = Some j} = unat (snd (cs ! j))
     \<and> (\<forall>r. r < sum_list (map snd cs) \<longrightarrow> scan_cumulative 0 0 r cs \<noteq> None)"
proof -
  have total: "unat (sum_list (map snd cs)) = total_nat cs"
    using assms(1) by (rule unat_total)
  have "{r. r < sum_list (map snd cs) \<and> scan_cumulative 0 0 r cs = Some j}
      = {r. total_nat (take j cs) \<le> unat r \<and> unat r < total_nat (take (Suc j) cs)}"
    using scan_from_zero [OF assms(1)] assms(2) total total_nat_take_le [of "Suc j" cs]
    by (auto simp: word_less_nat_alt)
  moreover have "total_nat (take (Suc j) cs) \<le> 2 ^ LENGTH(128)"
    using total_nat_take_le [of "Suc j" cs] assms(1) by simp
  ultimately have "card {r. r < sum_list (map snd cs) \<and> scan_cumulative 0 0 r cs = Some j}
      = unat (snd (cs ! j))"
    by (simp add: card_word_interval total_nat_take_Suc [OF assms(2)])
  moreover have "scan_cumulative 0 0 r cs \<noteq> None" if "r < sum_list (map snd cs)" for r
    using scan_cumulative_defined [of 0 cs r 0] assms(1) that total by (auto simp: word_less_nat_alt)
  ultimately show ?thesis
    by blast
qed

theorem selection_proportional_to_weight_witness:
  "card {r. r < sum_list (map snd [(''a'', 3), (''b'', 5)])
       \<and> scan_cumulative 0 0 r [(''a'', 3), (''b'', 5)] = Some 1} = 5"
  using selection_proportional_to_weight [of "[(''a'', 3), (''b'', 5)]" 1] by simp

text \<open>C30. With a generator that draws below its bound and a positive total weight that fits 128 bits,
  selection never panics and fills exactly the requested number of seats with candidates of non-zero
  weight; without candidates it returns no committee unless no seat is requested.\<close>

theorem weighted_select_authorities_spec:
  assumes range: "\<And>rng n. 0 < n \<Longrightarrow> fst (gen_range rng n) < n"
    and "cs \<noteq> [] \<Longrightarrow> 0 < total_nat cs" and "total_nat cs < 2 ^ 128"
  shows "if cs = [] \<and> n \<noteq> 0
     then weighted_select_authorities from_seed gen_range cs seed n = Some None
     else \<exists>c. weighted_select_authorities from_seed gen_range cs seed n = Some (Some c)
            \<and> length c = unat n \<and> set c \<subseteq> {t. \<exists>w. (t, w) \<in> set cs \<and> w \<noteq> 0}"
  using assms by (rule select_authorities_core)

text \<open>A generator that counts: an instance of the assumption on draws.\<close>

definition counter_gen_range :: "nat gen_range" where
  "counter_gen_range rng n = (of_nat rng mod n, Suc rng)"

theorem weighted_select_authorities_spec_witness:
  "\<exists>c. weighted_select_authorities length counter_gen_range [(''a'', 3), (''b'', 0), (''c'', 1)] [1, 2] 4
        = Some (Some c)
     \<and> length c = 4 \<and> set c \<subseteq> {t. \<exists>w :: u128. (t, w) \<in> set [(''a'', 3), (''b'', 0), (''c'', 1)] \<and> w \<noteq> 0}"
proof -
  have "fst (counter_gen_range rng n) < n" if "0 < n" for rng n
    using that by (simp add: counter_gen_range_def word_less_nat_alt unat_mod_word)
  then show ?thesis
    using weighted_select_authorities_spec [of counter_gen_range
        "[(''a'', 3), (''b'', 0), (''c'', 1)]" 4 length "[1, 2]"]
    by simp
qed

end
