(* ===== verification/PlutusDatum.thy ===== *)
theory PlutusDatum
  imports Prelude Domain
begin

text \<open>
  Plutus data: \<^verbatim>\<open>toolkit/utils/plutus/src/lib.rs\<close>, its CBOR encoding \<^verbatim>\<open>toolkit/utils/plutus/src/cbor.rs\<close>
  and the conversions derived by \<^verbatim>\<open>toolkit/utils/plutus/plutus-datum-derive\<close>.

  The encoder writes through \<^verbatim>\<open>minicbor::Encoder\<close>, which is third-party code: the model records the sequence of
  encoder calls as a list of \<open>cbor_item\<close>s.  \<^verbatim>\<open>BigInt::to_bytes_be\<close> (the big-endian bytes of a magnitude) and the
  hexadecimal conversions are arguments.
\<close>

section \<open>Data\<close>

datatype datum =
  IntegerDatum int
| ByteStringDatum bytes
| ConstructorDatum u64 "datum list"
| ListDatum "datum list"
| MapDatum "(datum \<times> datum) list"

definition as_bytestring :: "datum \<Rightarrow> bytes option" where
  "as_bytestring d = (case d of ByteStringDatum bs \<Rightarrow> Some bs | _ \<Rightarrow> None)"

definition uint_to_datum :: "'a::len word \<Rightarrow> datum" where
  "uint_to_datum w = IntegerDatum (uint w)"

definition bytes_to_datum :: "bytes \<Rightarrow> datum" where
  "bytes_to_datum bs = ByteStringDatum bs"

definition option_to_datum :: "('a \<Rightarrow> datum) \<Rightarrow> 'a option \<Rightarrow> datum" where
  "option_to_datum to_datum v =
     (case v of Some value \<Rightarrow> ConstructorDatum 0 [to_datum value] | None \<Rightarrow> ConstructorDatum 1 [])"

definition vec_to_datum :: "('a \<Rightarrow> datum) \<Rightarrow> 'a list \<Rightarrow> datum" where
  "vec_to_datum to_datum xs = ListDatum (map to_datum xs)"

text \<open>Derived conversions: \<^verbatim>\<open>McTxHash\<close> carries the \<^verbatim>\<open>constructor_datum\<close> attribute, the other newtypes do not.\<close>

definition mc_tx_hash_to_datum :: "bytes \<Rightarrow> datum" where
  "mc_tx_hash_to_datum h = ConstructorDatum 0 [bytes_to_datum h]"

definition utxo_id_to_datum :: "utxo_id \<Rightarrow> datum" where
  "utxo_id_to_datum u = ConstructorDatum 0 [mc_tx_hash_to_datum (tx_hash u), uint_to_datum (utxo_index u)]"

section \<open>CBOR\<close>

text \<open>\<^verbatim>\<open>Encoder::i64\<close> and \<^verbatim>\<open>Encoder::u64\<close> both write one integer item, \<open>CborInt\<close>.\<close>

datatype cbor_item =
  CborInt int
| CborBytes bytes
| CborBeginBytes
| CborArray u64
| CborBeginArray
| CborMap nat
| CborTag u64
| CborEnd

definition pos_bignum_tag :: u64 where "pos_bignum_tag = 2"
definition neg_bignum_tag :: u64 where "neg_bignum_tag = 3"

definition constructor_small_tag :: "u64 \<Rightarrow> u64" where
  "constructor_small_tag value = value + 121"

definition constructor_big_tag :: "u64 \<Rightarrow> u64" where
  "constructor_big_tag value = 1280 + value - 7"

definition constructor_over_limit_tag :: u64 where
  "constructor_over_limit_tag = 102"

definition bytes_chunk_size_limit :: nat where
  "bytes_chunk_size_limit = 64"

function chunks :: "nat \<Rightarrow> 'a list \<Rightarrow> 'a list list" where
  "chunks n xs = (if xs = [] \<or> n = 0 then [] else take n xs # chunks n (drop n xs))"
  by pat_completeness auto
termination
  by (relation "measure (\<lambda>(_, xs). length xs)") auto

declare chunks.simps [simp del]

definition encode_bytestring :: "bytes \<Rightarrow> cbor_item list" where
  "encode_bytestring bs =
     (if length bs \<le> bytes_chunk_size_limit then [CborBytes bs]
      else CborBeginBytes # map CborBytes (chunks bytes_chunk_size_limit bs) @ [CborEnd])"

definition encode_integer :: "(nat \<Rightarrow> bytes) \<Rightarrow> int \<Rightarrow> cbor_item list" where
  "encode_integer to_bytes_be i =
     (if - (2 ^ 63) \<le> i \<and> i < 2 ^ 63 then [CborInt i]
      else CborTag (if i > 0 then pos_bignum_tag else neg_bignum_tag)
             # encode_bytestring (to_bytes_be (nat \<bar>i\<bar>)))"

definition encode_seq_frame :: "cbor_item list list \<Rightarrow> cbor_item list" where
  "encode_seq_frame encoded =
     (if encoded = [] then [CborArray 0] else CborBeginArray # concat encoded @ [CborEnd])"

definition encode_constructor_frame :: "u64 \<Rightarrow> cbor_item list list \<Rightarrow> cbor_item list" where
  "encode_constructor_frame constructor encoded =
     (if constructor < 7 then CborTag (constructor_small_tag constructor) # encode_seq_frame encoded
      else if constructor < 128 then CborTag (constructor_big_tag constructor) # encode_seq_frame encoded
      else CborTag constructor_over_limit_tag # CborArray 2 # CborInt (uint constructor) # encode_seq_frame encoded)"

lemma datum_entry_size [termination_simp]:
  assumes "e \<in> set es"
  shows "size (fst e) < Suc (size_list (size_prod size size) es)"
    and "size (snd e) < Suc (size_list (size_prod size size) es)"
proof -
  have "size_prod size size e \<le> size_list (size_prod size size) es"
    using assms by (simp add: size_list_estimation')
  then show "size (fst e) < Suc (size_list (size_prod size size) es)"
    and "size (snd e) < Suc (size_list (size_prod size size) es)"
    by (cases e; simp)+
qed

fun encode_datum :: "(nat \<Rightarrow> bytes) \<Rightarrow> datum \<Rightarrow> cbor_item list" where
  "encode_datum be (IntegerDatum i) = encode_integer be i"
| "encode_datum be (ByteStringDatum bs) = encode_bytestring bs"
| "encode_datum be (ConstructorDatum c ds) = encode_constructor_frame c (map (encode_datum be) ds)"
| "encode_datum be (ListDatum items) = encode_seq_frame (map (encode_datum be) items)"
| "encode_datum be (MapDatum entries) =
     CborMap (length entries)
       # concat (map (\<lambda>entry. encode_datum be (fst entry) @ encode_datum be (snd entry)) entries)"

text \<open>
  \<open>emit\<close> is the third-party encoder: the bytes written for a sequence of encoder calls.  It is defined on
  integers of at most 64 bits, \<open>encodable\<close>.
\<close>

definition encodable :: "cbor_item list \<Rightarrow> bool" where
  "encodable items =
     list_all (\<lambda>x. case x of CborInt i \<Rightarrow> - (2 ^ 63) \<le> i \<and> i < 2 ^ 64 | _ \<Rightarrow> True) items"

definition to_datum_cbor_bytes :: "(cbor_item list \<Rightarrow> bytes) \<Rightarrow> (nat \<Rightarrow> bytes) \<Rightarrow> datum \<Rightarrow> bytes" where
  "to_datum_cbor_bytes emit be d = emit (encode_datum be d)"

section \<open>JSON\<close>

datatype json =
  JNull
| JBool bool
| JNumber int
| JString string
| JArray "json list"
| JObject "(string \<times> json) list"

datatype from_json_error =
  ExpectedArrayOfDatums
| ExpectedHexEncodedBytes
| ExpectedConstructorKeyValue
| ExpectedDatum
| ExpectedFieldsKeyValue
| ExpectedIntegerDatumValue
| ExpectedDatumMapEntry

definition json_as_u64 :: "json \<Rightarrow> u64 option" where
  "json_as_u64 v = (case v of JNumber n \<Rightarrow> if 0 \<le> n \<and> n < 2 ^ 64 then Some (of_int n) else None | _ \<Rightarrow> None)"

text \<open>\<open>collect_results\<close> collects a sequence of results, stopping at the first error.\<close>

fun collect_results :: "('a \<Rightarrow> ('b, 'e) result) \<Rightarrow> 'a list \<Rightarrow> ('b list, 'e) result" where
  "collect_results f [] = Ok []"
| "collect_results f (x # xs) = rbind (f x) (\<lambda>y. rbind (collect_results f xs) (\<lambda>ys. Ok (y # ys)))"

lemma collect_results_cong [fundef_cong]:
  "xs = ys \<Longrightarrow> (\<And>x. x \<in> set ys \<Longrightarrow> f x = g x) \<Longrightarrow> collect_results f xs = collect_results g ys"
  by (induction ys arbitrary: xs) auto

definition expect_list :: "(json \<Rightarrow> (datum, from_json_error) result) \<Rightarrow> json \<Rightarrow> (datum list, from_json_error) result" where
  "expect_list try_from v =
     (case v of JArray vs \<Rightarrow> collect_results try_from vs | _ \<Rightarrow> Err ExpectedArrayOfDatums)"

definition expect_fields ::
  "(json \<Rightarrow> (datum, from_json_error) result) \<Rightarrow> (string \<times> json) option \<Rightarrow> (datum list, from_json_error) result" where
  "expect_fields try_from item =
     (case item of
        Some (key, v) \<Rightarrow>
          if key = ''fields'' then map_err (\<lambda>_. ExpectedFieldsKeyValue) (expect_list try_from v)
          else Err ExpectedFieldsKeyValue
      | None \<Rightarrow> Err ExpectedFieldsKeyValue)"

definition expect_constructor :: "(string \<times> json) option \<Rightarrow> (u64, from_json_error) result" where
  "expect_constructor item =
     (case item of
        Some (key, v) \<Rightarrow>
          if key = ''constructor'' then ok_or ExpectedConstructorKeyValue (json_as_u64 v)
          else Err ExpectedConstructorKeyValue
      | None \<Rightarrow> Err ExpectedConstructorKeyValue)"

definition expect_map_entry ::
  "(json \<Rightarrow> (datum, from_json_error) result) \<Rightarrow> json \<Rightarrow> (datum \<times> datum, from_json_error) result" where
  "expect_map_entry try_from v =
     (case v of
        JObject m \<Rightarrow>
          rbind (ok_or ExpectedDatumMapEntry (map_of m ''key'')) (\<lambda>key.
          rbind (try_from key) (\<lambda>k.
          rbind (ok_or ExpectedDatumMapEntry (map_of m ''value'')) (\<lambda>v.
          rbind (try_from v) (\<lambda>d. Ok (k, d)))))
      | _ \<Rightarrow> Err ExpectedDatumMapEntry)"

lemma expect_list_cong [fundef_cong]:
  "v = w \<Longrightarrow> (\<And>vs x. w = JArray vs \<Longrightarrow> x \<in> set vs \<Longrightarrow> f x = g x) \<Longrightarrow> expect_list f v = expect_list g w"
  by (auto simp: expect_list_def intro: collect_results_cong split: json.splits)

lemma expect_fields_cong [fundef_cong]:
  "item = item' \<Longrightarrow> (\<And>key vs x. item' = Some (key, JArray vs) \<Longrightarrow> x \<in> set vs \<Longrightarrow> f x = g x)
    \<Longrightarrow> expect_fields f item = expect_fields g item'"
  by (auto simp: expect_fields_def intro!: arg_cong [of _ _ "map_err _"] expect_list_cong
      split: option.splits)

lemma expect_map_entry_cong [fundef_cong]:
  assumes "v = w" and eq: "\<And>m key x. w = JObject m \<Longrightarrow> (key, x) \<in> set m \<Longrightarrow> f x = g x"
  shows "expect_map_entry f v = expect_map_entry g w"
proof (cases w)
  case (JObject m)
  have f: "f x = g x" if "map_of m key = Some x" for key x
    using eq [OF JObject] that map_of_SomeD by metis
  then show ?thesis
    using JObject assms(1)
    by (cases "map_of m ''key''"; cases "map_of m ''value''") (simp_all add: expect_map_entry_def)
qed (simp_all add: expect_map_entry_def assms(1))

lemma json_array_size: "x \<in> set vs \<Longrightarrow> size x < size (JArray vs)"
  by (simp add: less_Suc_eq_le size_list_estimation')

lemma json_object_size:
  assumes "(key, x) \<in> set m"
  shows "size x < size (JObject m)"
  using assms by (induction m) auto

function from_json :: "(string \<Rightarrow> bytes option) \<Rightarrow> json \<Rightarrow> (datum, from_json_error) result" where
  "from_json hx v =
     (case v of
        JObject ((key, x) # rest) \<Rightarrow>
          (let second = (case rest of [] \<Rightarrow> None | kv # _ \<Rightarrow> Some kv) in
           if key = ''int'' then
             rbind (ok_or ExpectedIntegerDatumValue (json_as_u64 x)) (\<lambda>i. Ok (uint_to_datum i))
           else if key = ''bytes'' then
             (case x of
                JString str \<Rightarrow>
                  rbind (ok_or ExpectedHexEncodedBytes (hx str)) (\<lambda>bs. Ok (bytes_to_datum bs))
              | _ \<Rightarrow> Err ExpectedHexEncodedBytes)
           else if key = ''list'' then
             rbind (expect_list (from_json hx) x) (\<lambda>ds. Ok (ListDatum ds))
           else if key = ''constructor'' then
             rbind (ok_or ExpectedConstructorKeyValue (json_as_u64 x)) (\<lambda>c.
             rbind (expect_fields (from_json hx) second) (\<lambda>ds. Ok (ConstructorDatum c ds)))
           else if key = ''fields'' then
             rbind (map_err (\<lambda>_. ExpectedFieldsKeyValue) (expect_list (from_json hx) x)) (\<lambda>ds.
             rbind (expect_constructor second) (\<lambda>c. Ok (ConstructorDatum c ds)))
           else if key = ''map'' then
             (case x of
                JArray vs \<Rightarrow>
                  rbind (collect_results (expect_map_entry (from_json hx)) vs) (\<lambda>es. Ok (MapDatum es))
              | _ \<Rightarrow> Err ExpectedArrayOfDatums)
           else Err ExpectedDatum)
      | _ \<Rightarrow> Err ExpectedDatum)"
  by pat_completeness auto
termination
  by (relation "measure (\<lambda>(_, v). size v)")
    (auto dest!: json_array_size json_object_size split: list.splits)

declare from_json.simps [simp del]

fun to_json :: "(bytes \<Rightarrow> string) \<Rightarrow> datum \<Rightarrow> json may_panic" where
  "to_json hx (IntegerDatum i) =
     (if - (2 ^ 63) \<le> i \<and> i < 2 ^ 63 then Some (JObject [(''int'', JNumber i)]) else None)"
| "to_json hx (ByteStringDatum bs) = Some (JObject [(''bytes'', JString (hx bs))])"
| "to_json hx (ListDatum ds) =
     map_option (\<lambda>js. JObject [(''list'', JArray js)]) (those (map (to_json hx) ds))"
| "to_json hx (ConstructorDatum c ds) =
     map_option (\<lambda>js. JObject [(''constructor'', JNumber (uint c)), (''fields'', JArray js)])
       (those (map (to_json hx) ds))"
| "to_json hx (MapDatum es) =
     map_option (\<lambda>js. JObject [(''map'', JArray js)])
       (those (map (\<lambda>e. Option.bind (to_json hx (fst e)) (\<lambda>k.
          map_option (\<lambda>v. JObject [(''key'', k), (''value'', v)]) (to_json hx (snd e)))) es))"

fun datum_ints :: "datum \<Rightarrow> int list" where
  "datum_ints (IntegerDatum i) = [i]"
| "datum_ints (ByteStringDatum bs) = []"
| "datum_ints (ListDatum ds) = concat (map datum_ints ds)"
| "datum_ints (ConstructorDatum c ds) = concat (map datum_ints ds)"
| "datum_ints (MapDatum es) = concat (map (\<lambda>e. datum_ints (fst e) @ datum_ints (snd e)) es)"

section \<open>The encoding is uniquely readable\<close>

lemma concat_chunks: "0 < n \<Longrightarrow> concat (chunks n xs) = xs"
  by (induction n xs rule: chunks.induct) (subst chunks.simps, simp)

lemma chunk_items_inj:
  "map CborBytes cs @ CborEnd # r = map CborBytes cs' @ CborEnd # r' \<Longrightarrow> cs = cs' \<and> r = r'"
proof (induction cs arbitrary: cs')
  case Nil
  then show ?case
    by (cases cs') auto
next
  case (Cons c cs)
  then show ?case
    by (cases cs') auto
qed

lemma chunks_inj: "0 < n \<Longrightarrow> chunks n xs = chunks n ys \<Longrightarrow> xs = ys"
  by (metis concat_chunks)

lemma encode_bytestring_inj:
  assumes "encode_bytestring bs @ r = encode_bytestring bs' @ r'"
  shows "bs = bs' \<and> r = r'"
proof (cases "length bs \<le> bytes_chunk_size_limit \<or> length bs' \<le> bytes_chunk_size_limit")
  case True
  then show ?thesis
    using assms by (auto simp: encode_bytestring_def split: if_splits)
next
  case False
  then have "map CborBytes (chunks bytes_chunk_size_limit bs) @ CborEnd # r
      = map CborBytes (chunks bytes_chunk_size_limit bs') @ CborEnd # r'"
    using assms by (simp add: encode_bytestring_def)
  then show ?thesis
    using chunk_items_inj chunks_inj [of bytes_chunk_size_limit bs bs']
    by (auto simp: bytes_chunk_size_limit_def)
qed

lemma encode_integer_inj:
  assumes "inj be" and "encode_integer be i @ r = encode_integer be i' @ r'"
  shows "i = i' \<and> r = r'"
proof (cases "(- (2 ^ 63) \<le> i \<and> i < 2 ^ 63) \<or> (- (2 ^ 63) \<le> i' \<and> i' < 2 ^ 63)")
  case True
  then show ?thesis
    using assms(2) by (auto simp: encode_integer_def split: if_splits)
next
  case False
  then have "(i > 0) = (i' > 0)" "be (nat \<bar>i\<bar>) = be (nat \<bar>i'\<bar>) \<and> r = r'"
    using assms(2) encode_bytestring_inj [of "be (nat \<bar>i\<bar>)" r "be (nat \<bar>i'\<bar>)" r']
    by (auto simp: encode_integer_def pos_bignum_tag_def neg_bignum_tag_def split: if_splits)
  moreover from this have "nat \<bar>i\<bar> = nat \<bar>i'\<bar>"
    using assms(1) by (simp add: inj_eq)
  ultimately show ?thesis
    by (auto simp: abs_if split: if_splits)
qed

lemma constructor_tags [simp]:
  "c < 7 \<Longrightarrow> unat (constructor_small_tag c) = unat c + 121"
  "\<not> c < 7 \<Longrightarrow> c < 128 \<Longrightarrow> unat (constructor_big_tag c) = unat c + 1273"
proof -
  show "unat (constructor_small_tag c) = unat c + 121" if "c < 7"
    using that by (simp add: constructor_small_tag_def word_less_nat_alt unat_add_no_wrap)
  have "constructor_big_tag c = c + 1273"
    by (simp add: constructor_big_tag_def)
  then show "unat (constructor_big_tag c) = unat c + 1273" if "\<not> c < 7" "c < 128"
    using that by (simp add: word_less_nat_alt unat_add_no_wrap)
qed

lemma encode_hd_neq_End [simp]: "encode_datum be d @ r \<noteq> CborEnd # r'"
  by (cases d) (auto simp: encode_integer_def encode_bytestring_def encode_constructor_frame_def
      encode_seq_frame_def)

definition readable :: "(nat \<Rightarrow> bytes) \<Rightarrow> datum \<Rightarrow> bool" where
  "readable be d = (\<forall>d' r r'. encode_datum be d @ r = encode_datum be d' @ r' \<longrightarrow> d = d' \<and> r = r')"

lemma readableD: "readable be d \<Longrightarrow> encode_datum be d @ r = encode_datum be d' @ r' \<Longrightarrow> d = d' \<and> r = r'"
  by (auto simp: readable_def)

lemma encode_items_inj:
  assumes "\<forall>d \<in> set ds. readable be d"
    and "concat (map (encode_datum be) ds) @ CborEnd # r = concat (map (encode_datum be) ds') @ CborEnd # r'"
  shows "ds = ds' \<and> r = r'"
  using assms
proof (induction ds arbitrary: ds')
  case Nil
  then show ?case
    by (cases ds') (auto dest: sym)
next
  case (Cons d ds)
  then obtain e es where ds': "ds' = e # es"
    by (cases ds') auto
  have "d = e \<and> concat (map (encode_datum be) ds) @ CborEnd # r = concat (map (encode_datum be) es) @ CborEnd # r'"
    using Cons.prems by (intro readableD) (auto simp: ds')
  then show ?case
    using Cons ds' by auto
qed

lemma encode_seq_inj:
  assumes "\<forall>d \<in> set ds. readable be d"
    and "encode_seq_frame (map (encode_datum be) ds) @ r = encode_seq_frame (map (encode_datum be) ds') @ r'"
  shows "ds = ds' \<and> r = r'"
  using assms encode_items_inj [OF assms(1), of r ds' r']
  by (auto simp: encode_seq_frame_def split: if_splits)

lemma encode_entries_inj:
  assumes "\<forall>e \<in> set es. readable be (fst e) \<and> readable be (snd e)" and "length es = length es'"
    and "concat (map (\<lambda>e. encode_datum be (fst e) @ encode_datum be (snd e)) es) @ r
       = concat (map (\<lambda>e. encode_datum be (fst e) @ encode_datum be (snd e)) es') @ r'"
  shows "es = es' \<and> r = r'"
  using assms(2,1,3)
proof (induction es es' rule: list_induct2)
  case (Cons e es e' es')
  let ?rest = "\<lambda>xs. concat (map (\<lambda>e. encode_datum be (fst e) @ encode_datum be (snd e)) xs)"
  have "fst e = fst e' \<and> encode_datum be (snd e) @ ?rest es @ r = encode_datum be (snd e') @ ?rest es' @ r'"
    using Cons.prems by (intro readableD) auto
  moreover from this have "snd e = snd e' \<and> ?rest es @ r = ?rest es' @ r'"
    using Cons.prems by (intro readableD) auto
  ultimately show ?case
    using Cons by (auto simp: prod_eq_iff)
qed simp

definition constructor_tag :: "u64 \<Rightarrow> u64" where
  "constructor_tag c = (if c < 7 then constructor_small_tag c
     else if c < 128 then constructor_big_tag c else constructor_over_limit_tag)"

lemma unat_constructor_tag:
  "unat (constructor_tag c) = (if unat c < 7 then unat c + 121 else if unat c < 128 then unat c + 1273 else 102)"
  by (simp add: constructor_tag_def constructor_over_limit_tag_def)
    (simp add: word_less_nat_alt)

lemma constructor_tag_neq_bignum [simp]:
  "constructor_tag c \<noteq> pos_bignum_tag" "constructor_tag c \<noteq> neg_bignum_tag"
  by (auto simp: word_unat_eq_iff unat_constructor_tag pos_bignum_tag_def neg_bignum_tag_def)

lemma constructor_tag_inj:
  "constructor_tag c = constructor_tag c' \<Longrightarrow> c < 128 \<Longrightarrow> c = c'"
  "constructor_tag c = constructor_tag c' \<Longrightarrow> (c < 128) = (c' < 128)"
  by (auto simp: word_unat_eq_iff unat_constructor_tag word_less_nat_alt split: if_splits)

lemma encode_constructor_frame_eq:
  "encode_constructor_frame c encoded = CborTag (constructor_tag c)
     # (if c < 128 then [] else [CborArray 2, CborInt (uint c)]) @ encode_seq_frame encoded"
  by (auto simp: encode_constructor_frame_def constructor_tag_def word_less_nat_alt)

lemma encode_constructor_inj:
  assumes "\<forall>d \<in> set ds. readable be d"
    and "encode_constructor_frame c (map (encode_datum be) ds) @ r
       = encode_constructor_frame c' (map (encode_datum be) ds') @ r'"
  shows "c = c' \<and> ds = ds' \<and> r = r'"
proof -
  have tag: "constructor_tag c = constructor_tag c'"
    using assms(2) by (simp add: encode_constructor_frame_eq)
  have c: "c = c'"
  proof (cases "c < 128")
    case True
    then show ?thesis
      by (rule constructor_tag_inj(1) [OF tag])
  next
    case False
    moreover have "\<not> c' < 128"
      using False constructor_tag_inj(2) [OF tag] by blast
    ultimately have "uint c = uint c'"
      using assms(2) by (simp add: encode_constructor_frame_eq)
    then show ?thesis
      by (rule word_uint_eq_iff [THEN iffD2])
  qed
  then have "encode_seq_frame (map (encode_datum be) ds) @ r = encode_seq_frame (map (encode_datum be) ds') @ r'"
    using assms(2) by (simp add: encode_constructor_frame_eq)
  then show ?thesis
    using c encode_seq_inj [OF assms(1)] by blast
qed

text \<open>The first item written for a datum tells its kind.\<close>

definition item_kind :: "cbor_item \<Rightarrow> nat" where
  "item_kind x = (case x of CborInt _ \<Rightarrow> 0
     | CborTag t \<Rightarrow> if t = pos_bignum_tag \<or> t = neg_bignum_tag then 0 else 2
     | CborBytes _ \<Rightarrow> 1 | CborBeginBytes \<Rightarrow> 1 | CborArray _ \<Rightarrow> 3 | CborBeginArray \<Rightarrow> 3 | CborMap _ \<Rightarrow> 4
     | _ \<Rightarrow> 5)"

definition datum_kind :: "datum \<Rightarrow> nat" where
  "datum_kind d = (case d of IntegerDatum _ \<Rightarrow> 0 | ByteStringDatum _ \<Rightarrow> 1 | ConstructorDatum _ _ \<Rightarrow> 2
     | ListDatum _ \<Rightarrow> 3 | MapDatum _ \<Rightarrow> 4)"

lemma encode_kind: "\<exists>x xs. encode_datum be d = x # xs \<and> item_kind x = datum_kind d"
  by (cases d) (simp_all add: encode_integer_def encode_bytestring_def encode_constructor_frame_eq
      encode_seq_frame_def item_kind_def datum_kind_def)

lemma encode_same_kind:
  assumes "encode_datum be d @ r = encode_datum be d' @ r'"
  shows "datum_kind d = datum_kind d'"
proof -
  obtain x xs where x: "encode_datum be d = x # xs" "item_kind x = datum_kind d"
    using encode_kind by blast
  obtain y ys where y: "encode_datum be d' = y # ys" "item_kind y = datum_kind d'"
    using encode_kind by blast
  show ?thesis
    using assms x y by simp
qed

lemma readableI:
  assumes "\<And>d' r r'. encode_datum be d @ r = encode_datum be d' @ r' \<Longrightarrow> datum_kind d = datum_kind d'
    \<Longrightarrow> d = d' \<and> r = r'"
  shows "readable be d"
  unfolding readable_def using assms encode_same_kind by blast

lemma all_readable:
  assumes "inj be"
  shows "readable be d"
  using assms
proof (induction be d rule: encode_datum.induct)
  case (1 be i)
  show ?case
  proof (rule readableI)
    fix d' r r'
    assume "encode_datum be (IntegerDatum i) @ r = encode_datum be d' @ r'"
      "datum_kind (IntegerDatum i) = datum_kind d'"
    then show "IntegerDatum i = d' \<and> r = r'"
      using encode_integer_inj [OF 1, of i r _ r'] by (cases d') (simp_all add: datum_kind_def)
  qed
next
  case (2 be bs)
  show ?case
  proof (rule readableI)
    fix d' r r'
    assume "encode_datum be (ByteStringDatum bs) @ r = encode_datum be d' @ r'"
      "datum_kind (ByteStringDatum bs) = datum_kind d'"
    then show "ByteStringDatum bs = d' \<and> r = r'"
      using encode_bytestring_inj [of bs r _ r'] by (cases d') (simp_all add: datum_kind_def)
  qed
next
  case (3 be c ds)
  show ?case
  proof (rule readableI)
    fix d' r r'
    assume "encode_datum be (ConstructorDatum c ds) @ r = encode_datum be d' @ r'"
      "datum_kind (ConstructorDatum c ds) = datum_kind d'"
    then show "ConstructorDatum c ds = d' \<and> r = r'"
      using encode_constructor_inj [of ds be c r _ _ r'] 3 by (cases d') (simp_all add: datum_kind_def)
  qed
next
  case (4 be ds)
  show ?case
  proof (rule readableI)
    fix d' r r'
    assume "encode_datum be (ListDatum ds) @ r = encode_datum be d' @ r'"
      "datum_kind (ListDatum ds) = datum_kind d'"
    then show "ListDatum ds = d' \<and> r = r'"
      using encode_seq_inj [of ds be r _ r'] 4 by (cases d') (simp_all add: datum_kind_def)
  qed
next
  case (5 be es)
  show ?case
  proof (rule readableI)
    fix d' r r'
    assume "encode_datum be (MapDatum es) @ r = encode_datum be d' @ r'"
      "datum_kind (MapDatum es) = datum_kind d'"
    then show "MapDatum es = d' \<and> r = r'"
      using encode_entries_inj [of es be _ r r'] 5 by (cases d') (simp_all add: datum_kind_def)
  qed
qed

section \<open>JSON round trip\<close>

abbreviation non_negative :: "datum \<Rightarrow> bool" where
  "non_negative d \<equiv> (\<forall>i \<in> set (datum_ints d). 0 \<le> i)"

definition json_round_trip :: "(string \<Rightarrow> bytes option) \<Rightarrow> (bytes \<Rightarrow> string) \<Rightarrow> datum \<Rightarrow> bool" where
  "json_round_trip dec enc d \<longleftrightarrow>
     (\<exists>j. to_json enc d = Some j
        \<and> (if non_negative d then from_json dec j = Ok d else \<exists>e. from_json dec j = Err e))"

lemma collect_round_trip:
  assumes "\<forall>x \<in> set xs. \<exists>j. f x = Some j \<and> (if P x then g j = Ok x else \<exists>e. g j = Err e)"
  shows "\<exists>js. those (map f xs) = Some js
     \<and> (if \<forall>x \<in> set xs. P x then collect_results g js = Ok xs else \<exists>e. collect_results g js = Err e)"
  using assms
proof (induction xs)
  case (Cons x xs)
  then obtain j js where
    j: "f x = Some j" "if P x then g j = Ok x else \<exists>e. g j = Err e" and
    js: "those (map f xs) = Some js"
      "if \<forall>x \<in> set xs. P x then collect_results g js = Ok xs else \<exists>e. collect_results g js = Err e"
    by auto
  then show ?case
    by (intro exI [of _ "j # js"]) (auto split: if_splits)
qed simp

lemma json_as_u64_uint [simp]: "json_as_u64 (JNumber (uint (c :: u64))) = Some c"
  using uint_lt2p [of c] by (simp add: json_as_u64_def)

lemma entries_round_trip:
  assumes "json_round_trip dec enc (fst e)" "json_round_trip dec enc (snd e)"
  shows "\<exists>j. Option.bind (to_json enc (fst e)) (\<lambda>k.
        map_option (\<lambda>v. JObject [(''key'', k), (''value'', v)]) (to_json enc (snd e))) = Some j
     \<and> (if non_negative (fst e) \<and> non_negative (snd e)
         then expect_map_entry (from_json dec) j = Ok e
         else \<exists>err. expect_map_entry (from_json dec) j = Err err)"
proof -
  obtain k v where k: "to_json enc (fst e) = Some k"
      "if non_negative (fst e) then from_json dec k = Ok (fst e) else \<exists>err. from_json dec k = Err err"
    and v: "to_json enc (snd e) = Some v"
      "if non_negative (snd e) then from_json dec v = Ok (snd e) else \<exists>err. from_json dec v = Err err"
    using assms by (auto simp: json_round_trip_def)
  have "expect_map_entry (from_json dec) (JObject [(''key'', k), (''value'', v)])
      = rbind (from_json dec k) (\<lambda>a. rbind (from_json dec v) (\<lambda>b. Ok (a, b)))"
    by (simp add: expect_map_entry_def)
  then show ?thesis
    using k v by (auto split: if_splits)
qed

lemma all_json_round_trip:
  assumes dec: "\<And>bs. dec (enc bs) = Some bs"
    and "\<forall>i \<in> set (datum_ints d). - (2 ^ 63) \<le> i \<and> i < 2 ^ 63"
  shows "json_round_trip dec enc d"
  using assms(2)
proof (induction d rule: datum_ints.induct)
  case (1 i)
  then show ?case
    by (auto simp: json_round_trip_def json_as_u64_def uint_to_datum_def uint_word_of_int_eq
        take_bit_int_eq_self from_json.simps [of dec "JObject [(''int'', JNumber i)]"])
next
  case (2 bs)
  then show ?case
    by (simp add: json_round_trip_def dec bytes_to_datum_def
        from_json.simps [of dec "JObject [(''bytes'', JString (enc bs))]"])
next
  case (3 ds)
  then obtain js where js: "those (map (to_json enc) ds) = Some js"
      "if \<forall>d \<in> set ds. non_negative d then collect_results (from_json dec) js = Ok ds
       else \<exists>e. collect_results (from_json dec) js = Err e"
    using collect_round_trip [of ds "to_json enc" non_negative "from_json dec"]
    by (auto simp: json_round_trip_def)
  then show ?case
    by (auto simp: json_round_trip_def expect_list_def
        from_json.simps [of dec "JObject [(''list'', JArray js)]"] split: if_splits)
next
  case (4 c ds)
  then obtain js where js: "those (map (to_json enc) ds) = Some js"
      "if \<forall>d \<in> set ds. non_negative d then collect_results (from_json dec) js = Ok ds
       else \<exists>e. collect_results (from_json dec) js = Err e"
    using collect_round_trip [of ds "to_json enc" non_negative "from_json dec"]
    by (auto simp: json_round_trip_def)
  then show ?case
    by (auto simp: json_round_trip_def expect_list_def expect_fields_def Let_def
        from_json.simps [of dec "JObject [(''constructor'', JNumber (uint c)), (''fields'', JArray js)]"]
        split: if_splits)
next
  case (5 es)
  let ?f = "\<lambda>e. Option.bind (to_json enc (fst e)) (\<lambda>k.
        map_option (\<lambda>v. JObject [(''key'', k), (''value'', v)]) (to_json enc (snd e)))"
  have "json_round_trip dec enc (fst e)" "json_round_trip dec enc (snd e)" if "e \<in> set es" for e
    using 5 that by auto
  then have "\<forall>e \<in> set es. \<exists>j. ?f e = Some j \<and> (if non_negative (fst e) \<and> non_negative (snd e)
      then expect_map_entry (from_json dec) j = Ok e else \<exists>err. expect_map_entry (from_json dec) j = Err err)"
    using entries_round_trip by blast
  then obtain js where js: "those (map ?f es) = Some js"
      "if \<forall>e \<in> set es. non_negative (fst e) \<and> non_negative (snd e)
       then collect_results (expect_map_entry (from_json dec)) js = Ok es
       else \<exists>e. collect_results (expect_map_entry (from_json dec)) js = Err e"
    using collect_round_trip [of es ?f "\<lambda>e. non_negative (fst e) \<and> non_negative (snd e)"] by blast
  then show ?case
    by (auto simp: json_round_trip_def from_json.simps [of dec "JObject [(''map'', JArray js)]"]
        split: if_splits)
qed

section \<open>Correctness\<close>

text \<open>C31. The CBOR encoding is uniquely readable: equal encodings, even followed by arbitrary further
  items, come from equal data.  Two different registration messages therefore never share an encoding.
  The magnitude bytes of big integers are only assumed to determine the magnitude.\<close>

theorem encode_datum_uniquely_readable:
  assumes "inj to_bytes_be" and "encode_datum to_bytes_be d @ r = encode_datum to_bytes_be d' @ r'"
  shows "d = d' \<and> r = r'"
  using all_readable [OF assms(1)] assms(2) by (rule readableD)

theorem encode_datum_uniquely_readable_witness:
  "encode_datum (\<lambda>n. replicate n 0) (MapDatum [(IntegerDatum 1, ListDatum [])]) @ [CborEnd]
     = [CborMap 1, CborInt 1, CborArray 0] @ [CborEnd]
   \<and> MapDatum [(IntegerDatum 1, ListDatum [])] = MapDatum [(IntegerDatum 1, ListDatum [])]"
proof -
  have "inj (\<lambda>n. replicate n (0 :: u8))"
    by (metis injI length_replicate)
  from encode_datum_uniquely_readable [OF this,
      of "MapDatum [(IntegerDatum 1, ListDatum [])]" "[CborEnd]" "MapDatum [(IntegerDatum 1, ListDatum [])]" "[CborEnd]"]
  show ?thesis
    by (simp add: encode_integer_def encode_seq_frame_def)
qed

text \<open>C34. Data whose integers are non-negative and fit a signed 64-bit integer survive the round trip
  through JSON; with a negative integer the rendered JSON is not accepted back, although it was rendered.\<close>

theorem json_round_trip_exact:
  assumes dec: "\<And>bs. dec (enc bs) = Some bs"
    and "\<forall>i \<in> set (datum_ints d). - (2 ^ 63) \<le> i \<and> i < 2 ^ 63"
  shows "\<exists>j. to_json enc d = Some j
     \<and> (if \<forall>i \<in> set (datum_ints d). 0 \<le> i then from_json dec j = Ok d else \<exists>e. from_json dec j = Err e)"
  using all_json_round_trip [OF assms] by (simp add: json_round_trip_def)

theorem json_round_trip_exact_witness:
  "\<exists>j. to_json hex_encode (ConstructorDatum 3 [IntegerDatum 7, ByteStringDatum [10, 255]]) = Some j
     \<and> from_json hex_decode j = Ok (ConstructorDatum 3 [IntegerDatum 7, ByteStringDatum [10, 255]])"
  using json_round_trip_exact [of hex_decode hex_encode "ConstructorDatum 3 [IntegerDatum 7, ByteStringDatum [10, 255]]"]
  by simp

text \<open>
  The value a CBOR reader gives to a tagged big number (RFC 8949, section 3.4.3): the magnitude \<open>n\<close> under
  tag 2, and \<open>-1 - n\<close> under tag 3.
\<close>

definition be_value :: "bytes \<Rightarrow> nat" where
  "be_value bs = foldl (\<lambda>n b. 256 * n + unat b) 0 bs"

definition bignum_value :: "cbor_item list \<Rightarrow> int option" where
  "bignum_value items =
     (case items of
        [CborTag t, CborBytes bs] \<Rightarrow>
          if t = 2 then Some (int (be_value bs)) else if t = 3 then Some (- 1 - int (be_value bs)) else None
      | _ \<Rightarrow> None)"

text \<open>C38. Integers beyond 64 bits are written as tagged big numbers; a positive one reads back as itself,
  a negative one reads back as its predecessor, because the magnitude is written without the offset of one
  that tag 3 prescribes.\<close>

theorem encode_integer_bignum_value:
  assumes "\<not> (- (2 ^ 63) \<le> i \<and> i < 2 ^ 63)"
    and "be_value (to_bytes_be (nat \<bar>i\<bar>)) = nat \<bar>i\<bar>" and "length (to_bytes_be (nat \<bar>i\<bar>)) \<le> 64"
  shows "bignum_value (encode_integer to_bytes_be i) = Some (if i > 0 then i else i - 1)"
  using assms
  by (auto simp: encode_integer_def encode_bytestring_def bytes_chunk_size_limit_def bignum_value_def
      pos_bignum_tag_def neg_bignum_tag_def)

theorem encode_integer_bignum_value_witness:
  "bignum_value (encode_integer (\<lambda>n. [128, 0, 0, 0, 0, 0, 0, 1]) (- 9223372036854775809))
     = Some (- 9223372036854775810)"
  using encode_integer_bignum_value [of "- 9223372036854775809" "\<lambda>n. [128, 0, 0, 0, 0, 0, 0, 1]"]
  by (simp add: be_value_def)

end
