(* ===== verification/FilterCandidates.thy ===== *)
theory FilterCandidates
  imports Prelude Domain PlutusDatum
begin

text \<open>
  Filtering of block-producer candidates:
  \<^verbatim>\<open>toolkit/primitives/authority-selection-inherents/src/filter_invalid_candidates.rs\<close>.

  Signature verification (\<^verbatim>\<open>ed25519\<close>, \<^verbatim>\<open>ecdsa\<close>), the CBOR byte writer and the big-integer bytes are
  third-party code and are gathered in the record \<open>primitives\<close>; the conversions into the runtime's account
  identifiers and session keys (\<^verbatim>\<open>TAccountId\<close>, \<^verbatim>\<open>TAccountKeys\<close>) in the record \<open>accounts\<close>.  The lemmas characterise
  valid registrations on every branch and show that the latest valid registration of a candidate wins.
\<close>

section \<open>Data\<close>

record primitives =
  ed25519_verify :: "bytes \<Rightarrow> bytes \<Rightarrow> bytes \<Rightarrow> bool"
  ecdsa_verify :: "bytes \<Rightarrow> bytes \<Rightarrow> bytes \<Rightarrow> bool"
  cbor_emit :: "cbor_item list \<Rightarrow> bytes"
  to_bytes_be :: "nat \<Rightarrow> bytes"

record ('a, 'k) accounts =
  from_ecdsa :: "bytes \<Rightarrow> 'a"
  try_from_sidechain_key :: "bytes \<Rightarrow> 'a option"
  from_keys :: "bytes \<times> bytes \<Rightarrow> 'k"

record register_validator_signed_message =
  msg_genesis_utxo :: utxo_id
  msg_sidechain_pub_key :: bytes
  msg_input_utxo :: utxo_id

record ('a, 'k) candidate =
  account_id :: 'a
  account_keys :: 'k

record ('a, 'k) candidate_with_stake =
  cws_candidate :: "('a, 'k) candidate"
  cws_stake_delegation :: u64

datatype stake_error = InvalidStake | UnknownStake

datatype registration_data_error =
  InvalidMainchainSignature
| InvalidSidechainSignature
| InvalidTxInput
| InvalidMainchainPubKey
| InvalidSidechainPubKey
| InvalidAuraKey
| InvalidGrandpaKey

datatype permissioned_candidate_data_error =
  PermInvalidSidechainPubKey
| PermInvalidAuraKey
| PermInvalidGrandpaKey

section \<open>Signatures and inputs\<close>

definition signed_message_to_datum :: "register_validator_signed_message \<Rightarrow> datum" where
  "signed_message_to_datum m =
     ConstructorDatum 0 [utxo_id_to_datum (msg_genesis_utxo m),
       bytes_to_datum (msg_sidechain_pub_key m), utxo_id_to_datum (msg_input_utxo m)]"

definition verify_mainchain_signature ::
  "primitives \<Rightarrow> bytes \<Rightarrow> registration_data \<Rightarrow> bytes \<Rightarrow> (unit, registration_data_error) result" where
  "verify_mainchain_signature pr mc_key reg signed_message_encoded =
     rbind (ok_or InvalidMainchainSignature (try_array 64 (mainchain_signature reg))) (\<lambda>signature.
       if ed25519_verify pr signature signed_message_encoded mc_key then Ok ()
       else Err InvalidMainchainSignature)"

definition negative_point_sign :: u8 where "negative_point_sign = 27"
definition positive_point_sign :: u8 where "positive_point_sign = 28"

definition verify_sidechain_signature ::
  "primitives \<Rightarrow> bytes \<Rightarrow> bytes \<Rightarrow> bytes \<Rightarrow> (unit, registration_data_error) result" where
  "verify_sidechain_signature pr pub_key signature signed_message_encoded =
     rbind (ok_or InvalidSidechainSignature (try_array 64 signature)) (\<lambda>sig.
       if list_ex (\<lambda>v. ecdsa_verify pr (sig @ [v]) signed_message_encoded pub_key)
            [negative_point_sign, positive_point_sign]
       then Ok () else Err InvalidSidechainSignature)"

definition verify_tx_inputs :: "registration_data \<Rightarrow> (unit, registration_data_error) result" where
  "verify_tx_inputs reg =
     (if List.member (tx_inputs reg) (consumed_input reg) then Ok () else Err InvalidTxInput)"

section \<open>Validation\<close>

definition validate_stake :: "u64 option \<Rightarrow> (u64, stake_error) result" where
  "validate_stake stake =
     (case stake of
        None \<Rightarrow> Err UnknownStake
      | Some s \<Rightarrow> if stake_is_zero s then Err InvalidStake else Ok s)"

definition signed_message_bytes :: "primitives \<Rightarrow> registration_data \<Rightarrow> utxo_id \<Rightarrow> bytes" where
  "signed_message_bytes pr reg genesis_utxo =
     to_datum_cbor_bytes (cbor_emit pr) (to_bytes_be pr)
       (signed_message_to_datum
          \<lparr> msg_genesis_utxo = genesis_utxo, msg_sidechain_pub_key = sidechain_pub_key reg,
            msg_input_utxo = consumed_input reg \<rparr>)"

definition validate_registration_data ::
  "primitives \<Rightarrow> bytes \<Rightarrow> registration_data \<Rightarrow> utxo_id
    \<Rightarrow> ((bytes, bytes \<times> bytes) candidate, registration_data_error) result" where
  "validate_registration_data pr mc_key reg genesis_utxo =
     rbind (ok_or InvalidAuraKey (try_into_sr25519 (aura_pub_key reg))) (\<lambda>aura.
     rbind (ok_or InvalidGrandpaKey (try_into_ed25519 (grandpa_pub_key reg))) (\<lambda>grandpa.
     rbind (ok_or InvalidSidechainPubKey (try_array 33 (sidechain_pub_key reg))) (\<lambda>sidechain_key.
     let signed_message_encoded = signed_message_bytes pr reg genesis_utxo in
     rbind (verify_mainchain_signature pr mc_key reg signed_message_encoded) (\<lambda>_.
     rbind (verify_sidechain_signature pr sidechain_key (sidechain_signature reg) signed_message_encoded) (\<lambda>_.
     rbind (verify_tx_inputs reg) (\<lambda>_.
       Ok \<lparr> account_id = sidechain_key, account_keys = (aura, grandpa) \<rparr>))))))"

definition validate_permissioned_candidate_data ::
  "('a, 'k) accounts \<Rightarrow> permissioned_candidate_data
    \<Rightarrow> ('a \<times> bytes \<times> bytes, permissioned_candidate_data_error) result" where
  "validate_permissioned_candidate_data acc c =
     rbind (ok_or PermInvalidSidechainPubKey (try_from_sidechain_key acc (perm_sidechain_public_key c))) (\<lambda>a.
     rbind (ok_or PermInvalidAuraKey (try_into_sr25519 (perm_aura_public_key c))) (\<lambda>aura.
     rbind (ok_or PermInvalidGrandpaKey (try_into_ed25519 (perm_grandpa_public_key c))) (\<lambda>grandpa.
       Ok (a, aura, grandpa))))"

section \<open>Selection of candidates\<close>

text \<open>\<^verbatim>\<open>Iterator::max_by_key\<close> returns the last of several maximal elements.\<close>

fun max_by_key :: "('x \<Rightarrow> 'o::linorder) \<Rightarrow> 'x list \<Rightarrow> 'x option" where
  "max_by_key key [] = None"
| "max_by_key key (x # xs) = Some (foldl (\<lambda>best y. if key best \<le> key y then y else best) x xs)"

definition select_latest_valid_candidate ::
  "primitives \<Rightarrow> ('a, 'k) accounts \<Rightarrow> candidate_registrations \<Rightarrow> utxo_id
    \<Rightarrow> ('a, 'k) candidate_with_stake option" where
  "select_latest_valid_candidate pr acc cr genesis_utxo =
     Option.bind (ok (validate_stake (stake_delegation cr))) (\<lambda>stake.
     Option.bind
       (max_by_key (\<lambda>(_, info). ordering_key info)
          (List.map_filter
             (\<lambda>reg. case validate_registration_data pr (mainchain_pub_key cr) reg genesis_utxo of
                       Ok c \<Rightarrow> Some (c, reg_utxo_info reg)
                     | _ \<Rightarrow> None)
             (registrations cr)))
       (\<lambda>(candidate_data, _).
          Some \<lparr> cws_candidate =
                   \<lparr> account_id = from_ecdsa acc (account_id candidate_data),
                     account_keys = from_keys acc (account_keys candidate_data) \<rparr>,
                 cws_stake_delegation = stake \<rparr>))"

definition filter_trustless_candidates_registrations ::
  "primitives \<Rightarrow> ('a, 'k) accounts \<Rightarrow> candidate_registrations list \<Rightarrow> utxo_id
    \<Rightarrow> ('a, 'k) candidate_with_stake list" where
  "filter_trustless_candidates_registrations pr acc crs genesis_utxo =
     List.map_filter (\<lambda>cr. select_latest_valid_candidate pr acc cr genesis_utxo) crs"

definition filter_invalid_permissioned_candidates ::
  "('a, 'k) accounts \<Rightarrow> permissioned_candidate_data list \<Rightarrow> ('a, 'k) candidate list" where
  "filter_invalid_permissioned_candidates acc cs =
     List.map_filter
       (\<lambda>c. map_option (\<lambda>(a, aura, grandpa). \<lparr> account_id = a, account_keys = from_keys acc (aura, grandpa) \<rparr>)
              (ok (validate_permissioned_candidate_data acc c))) cs"

section \<open>Valid registrations\<close>

definition registration_valid :: "primitives \<Rightarrow> bytes \<Rightarrow> registration_data \<Rightarrow> utxo_id \<Rightarrow> bool" where
  "registration_valid pr mc_key reg genesis_utxo \<longleftrightarrow>
     length (aura_pub_key reg) = 32 \<and> length (grandpa_pub_key reg) = 32 \<and> length (sidechain_pub_key reg) = 33
     \<and> length (mainchain_signature reg) = 64 \<and> length (sidechain_signature reg) = 64
     \<and> ed25519_verify pr (mainchain_signature reg) (signed_message_bytes pr reg genesis_utxo) mc_key
     \<and> (\<exists>v \<in> {27, 28}. ecdsa_verify pr (sidechain_signature reg @ [v])
            (signed_message_bytes pr reg genesis_utxo) (sidechain_pub_key reg))
     \<and> consumed_input reg \<in> set (tx_inputs reg)"

definition registration_candidate :: "registration_data \<Rightarrow> (bytes, bytes \<times> bytes) candidate" where
  "registration_candidate reg =
     \<lparr> account_id = sidechain_pub_key reg, account_keys = (aura_pub_key reg, grandpa_pub_key reg) \<rparr>"

lemma try_array_eq_Some [simp]: "try_array n bs = Some cs \<longleftrightarrow> length bs = n \<and> cs = bs"
  by (auto simp: try_array_def)

lemma verify_mainchain_signature_Ok [simp]:
  "verify_mainchain_signature pr k reg m = Ok u \<longleftrightarrow>
     length (mainchain_signature reg) = 64 \<and> ed25519_verify pr (mainchain_signature reg) m k"
  by (auto simp: verify_mainchain_signature_def)

lemma verify_sidechain_signature_Ok [simp]:
  "verify_sidechain_signature pr k sig m = Ok u \<longleftrightarrow>
     length sig = 64 \<and> (\<exists>v \<in> {27, 28}. ecdsa_verify pr (sig @ [v]) m k)"
  by (auto simp: verify_sidechain_signature_def negative_point_sign_def positive_point_sign_def)

lemma verify_tx_inputs_Ok [simp]:
  "verify_tx_inputs reg = Ok u \<longleftrightarrow> consumed_input reg \<in> set (tx_inputs reg)"
  by (simp add: verify_tx_inputs_def)

lemma validate_registration_data_Ok:
  "validate_registration_data pr k reg g = Ok c \<longleftrightarrow>
     registration_valid pr k reg g \<and> c = registration_candidate reg"
  by (auto simp: validate_registration_data_def registration_valid_def registration_candidate_def
      try_into_sr25519_def try_into_ed25519_def Let_def)

lemma validate_registration_data_no_panic: "validate_registration_data pr k reg g \<noteq> Panic"
  by (auto simp: validate_registration_data_def verify_mainchain_signature_def
      verify_sidechain_signature_def verify_tx_inputs_def Let_def)

lemma valid_registrations_map_filter:
  "List.map_filter (\<lambda>reg. case validate_registration_data pr k reg g of
       Ok c \<Rightarrow> Some (c, reg_utxo_info reg) | _ \<Rightarrow> None) regs
   = map (\<lambda>reg. (registration_candidate reg, reg_utxo_info reg))
       (filter (\<lambda>reg. registration_valid pr k reg g) regs)"
proof -
  have "(case validate_registration_data pr k reg g of Ok c \<Rightarrow> Some (c, reg_utxo_info reg) | _ \<Rightarrow> None)
      = (if registration_valid pr k reg g then Some (registration_candidate reg, reg_utxo_info reg) else None)"
    for reg
    using validate_registration_data_Ok [of pr k reg g]
    by (cases "validate_registration_data pr k reg g") auto
  then show ?thesis
    by (induction regs) (simp_all add: map_filter_simps)
qed

section \<open>The latest registration\<close>

lemma foldl_max_split:
  fixes key :: "'x \<Rightarrow> 'o::linorder"
  defines "step \<equiv> \<lambda>best y. if key best \<le> key y then y else best"
  shows "\<exists>ys zs. x # xs = ys @ foldl step x xs # zs
     \<and> (\<forall>y \<in> set ys. key y \<le> key (foldl step x xs)) \<and> (\<forall>z \<in> set zs. key z < key (foldl step x xs))"
proof (induction xs rule: rev_induct)
  case (snoc a xs)
  let ?m = "foldl step x xs"
  obtain ys zs where IH: "x # xs = ys @ ?m # zs" "\<forall>y \<in> set ys. key y \<le> key ?m" "\<forall>z \<in> set zs. key z < key ?m"
    using snoc by blast
  then have all: "\<forall>y \<in> set (x # xs). key y \<le> key ?m"
    by (metis Un_iff less_imp_le order_refl set_ConsD set_append)
  show ?case
  proof (cases "key ?m \<le> key a")
    case True
    then show ?thesis
      using all by (intro exI [of _ "x # xs"] exI [of _ "[]"]) (auto simp: step_def intro: order.trans)
  next
    case False
    then show ?thesis
      using IH by (intro exI [of _ ys] exI [of _ "zs @ [a]"]) (auto simp: step_def)
  qed
next
  case Nil
  show ?case
    by (intro exI [of _ "[]"]) simp
qed

lemma max_by_key_Some:
  assumes "max_by_key key xs = Some m"
  obtains ys zs where "xs = ys @ m # zs" "\<forall>y \<in> set ys. key y \<le> key m" "\<forall>z \<in> set zs. key z < key m"
proof (cases xs)
  case (Cons a as)
  then show ?thesis
    using that assms foldl_max_split [of a as key] by auto
qed (use assms in simp)

lemma max_by_key_None [simp]: "max_by_key key xs = None \<longleftrightarrow> xs = []"
  by (cases xs) simp_all

lemma max_by_key_max:
  assumes "max_by_key key xs = Some m"
  shows "m \<in> set xs \<and> (\<forall>x \<in> set xs. key x \<le> key m)"
proof -
  obtain ys zs where "xs = ys @ m # zs" "\<forall>y \<in> set ys. key y \<le> key m" "\<forall>z \<in> set zs. key z < key m"
    using assms by (rule max_by_key_Some)
  then show ?thesis
    by (auto intro: less_imp_le)
qed

lemma validate_stake_Ok [simp]: "validate_stake st = Ok s \<longleftrightarrow> st = Some s \<and> s \<noteq> 0"
  by (auto simp: validate_stake_def stake_is_zero_def split: option.splits)

lemma select_latest_valid_candidate_Some:
  assumes "select_latest_valid_candidate pr acc cr g = Some c"
  shows "\<exists>s reg. stake_delegation cr = Some s \<and> s \<noteq> 0 \<and> reg \<in> set (registrations cr)
     \<and> registration_valid pr (mainchain_pub_key cr) reg g
     \<and> (\<forall>reg' \<in> set (registrations cr). registration_valid pr (mainchain_pub_key cr) reg' g
           \<longrightarrow> ordering_key (reg_utxo_info reg') \<le> ordering_key (reg_utxo_info reg))
     \<and> c = \<lparr> cws_candidate = \<lparr> account_id = from_ecdsa acc (sidechain_pub_key reg),
               account_keys = from_keys acc (aura_pub_key reg, grandpa_pub_key reg) \<rparr>,
             cws_stake_delegation = s \<rparr>"
proof -
  let ?valid = "filter (\<lambda>reg. registration_valid pr (mainchain_pub_key cr) reg g) (registrations cr)"
  obtain s cd info where s: "stake_delegation cr = Some s" "s \<noteq> 0"
    and m: "max_by_key (\<lambda>(_, info). ordering_key info)
        (map (\<lambda>reg. (registration_candidate reg, reg_utxo_info reg)) ?valid) = Some (cd, info)"
    and c: "c = \<lparr> cws_candidate = \<lparr> account_id = from_ecdsa acc (account_id cd),
               account_keys = from_keys acc (account_keys cd) \<rparr>, cws_stake_delegation = s \<rparr>"
    using assms
    by (auto simp: select_latest_valid_candidate_def valid_registrations_map_filter bind_eq_Some_conv)
  then obtain reg where "reg \<in> set ?valid" "cd = registration_candidate reg" "info = reg_utxo_info reg"
      "\<forall>reg' \<in> set ?valid. ordering_key (reg_utxo_info reg') \<le> ordering_key info"
    using max_by_key_max [OF m] by auto
  then show ?thesis
    using s c by (intro exI [of _ s] exI [of _ reg]) (auto simp: registration_candidate_def)
qed

lemma select_latest_valid_candidate_None:
  "select_latest_valid_candidate pr acc cr g = None \<longleftrightarrow>
     stake_delegation cr = None \<or> stake_delegation cr = Some 0
     \<or> (\<forall>reg \<in> set (registrations cr). \<not> registration_valid pr (mainchain_pub_key cr) reg g)"
proof -
  have "(case validate_stake st of Ok s \<Rightarrow> Some s | _ \<Rightarrow> None) = (if st = Some 0 then None else st)" for st
    by (auto simp: validate_stake_def stake_is_zero_def split: option.splits)
  then have "ok (validate_stake st) = (if st = Some 0 then None else st)" for st
    by (cases "validate_stake st") (auto simp: validate_stake_def stake_is_zero_def split: option.splits if_splits)
  then show ?thesis
    by (auto simp: select_latest_valid_candidate_def valid_registrations_map_filter bind_eq_None_conv
        filter_empty_conv split: prod.splits)
qed

section \<open>Correctness\<close>

text \<open>C29. Validation of a registration never panics; it accepts exactly the registrations whose keys and
  signatures have the right lengths, whose two signatures verify over the encoded registration message
  (the sidechain one for either recovery sign), and whose consumed input is an input of the registering
  transaction; and the accepted candidate carries exactly the registered keys.\<close>

theorem validate_registration_data_exact:
  "validate_registration_data pr mc_key reg genesis_utxo \<noteq> Panic
   \<and> (\<forall>c. validate_registration_data pr mc_key reg genesis_utxo = Ok c \<longleftrightarrow>
        registration_valid pr mc_key reg genesis_utxo
        \<and> c = \<lparr> account_id = sidechain_pub_key reg, account_keys = (aura_pub_key reg, grandpa_pub_key reg) \<rparr>)"
  using validate_registration_data_no_panic [of pr mc_key reg genesis_utxo]
    validate_registration_data_Ok [of pr mc_key reg genesis_utxo]
  by (simp add: registration_candidate_def)

text \<open>A candidate is dropped exactly when it has no positive stake or no valid registration; otherwise
  the result carries its stake and the keys of a valid registration that no other valid registration of the
  candidate follows in the order of block, transaction and output index.\<close>

theorem latest_valid_registration_selected:
  "case select_latest_valid_candidate pr acc cr genesis_utxo of
     None \<Rightarrow> stake_delegation cr = None \<or> stake_delegation cr = Some 0
       \<or> (\<forall>reg \<in> set (registrations cr). \<not> registration_valid pr (mainchain_pub_key cr) reg genesis_utxo)
   | Some c \<Rightarrow> \<exists>s reg. stake_delegation cr = Some s \<and> s \<noteq> 0 \<and> reg \<in> set (registrations cr)
       \<and> registration_valid pr (mainchain_pub_key cr) reg genesis_utxo
       \<and> (\<forall>reg' \<in> set (registrations cr). registration_valid pr (mainchain_pub_key cr) reg' genesis_utxo
             \<longrightarrow> ordering_key (reg_utxo_info reg') \<le> ordering_key (reg_utxo_info reg))
       \<and> c = \<lparr> cws_candidate = \<lparr> account_id = from_ecdsa acc (sidechain_pub_key reg),
                 account_keys = from_keys acc (aura_pub_key reg, grandpa_pub_key reg) \<rparr>,
               cws_stake_delegation = s \<rparr>"
proof (cases "select_latest_valid_candidate pr acc cr genesis_utxo")
  case None
  then show ?thesis
    using select_latest_valid_candidate_None [of pr acc cr genesis_utxo] by simp
next
  case (Some c)
  then show ?thesis
    using select_latest_valid_candidate_Some [OF Some] by simp
qed

text \<open>A concrete candidate with two registrations, and primitives that accept every signature.\<close>

definition demo_nat_bytes :: "nat \<Rightarrow> bytes" where
  "demo_nat_bytes n = replicate n 1 @ [0]"

definition demo_item_nats :: "cbor_item \<Rightarrow> nat list" where
  "demo_item_nats x =
     (case x of
        CborInt i \<Rightarrow> [0, if i < 0 then 1 else 0, nat \<bar>i\<bar>]
      | CborBytes bs \<Rightarrow> [1, length bs] @ map unat bs
      | CborBeginBytes \<Rightarrow> [2] | CborArray n \<Rightarrow> [3, unat n] | CborBeginArray \<Rightarrow> [4]
      | CborMap n \<Rightarrow> [5, n] | CborTag t \<Rightarrow> [6, unat t] | CborEnd \<Rightarrow> [7])"

definition demo_emit :: "cbor_item list \<Rightarrow> bytes" where
  "demo_emit items = concat (map demo_nat_bytes (concat (map demo_item_nats items)))"

definition demo_primitives :: primitives where
  "demo_primitives = \<lparr> ed25519_verify = (\<lambda>_ _ _. True), ecdsa_verify = (\<lambda>_ _ _. True),
     cbor_emit = demo_emit, to_bytes_be = (\<lambda>n. replicate n 0) \<rparr>"

definition demo_accounts :: "(bytes, bytes \<times> bytes) accounts" where
  "demo_accounts = \<lparr> from_ecdsa = (\<lambda>b. b),
     try_from_sidechain_key = (\<lambda>b. if length b = 33 then Some b else None), from_keys = (\<lambda>k. k) \<rparr>"

definition demo_utxo :: "u16 \<Rightarrow> utxo_id" where
  "demo_utxo i = \<lparr> tx_hash = replicate 32 1, utxo_index = i \<rparr>"

definition demo_registration :: "u32 \<Rightarrow> u8 \<Rightarrow> registration_data" where
  "demo_registration block b =
     \<lparr> consumed_input = demo_utxo 0, sidechain_signature = replicate 64 0, mainchain_signature = replicate 64 0,
       cross_chain_signature = [], sidechain_pub_key = replicate 33 b, cross_chain_pub_key = [],
       reg_utxo_info = \<lparr> info_utxo_id = demo_utxo 1, info_epoch_number = 5, info_block_number = block,
         info_slot_number = 900, info_tx_index_within_block = 2 \<rparr>,
       tx_inputs = [demo_utxo 3, demo_utxo 0], aura_pub_key = replicate 32 b, grandpa_pub_key = replicate 32 b \<rparr>"

definition demo_candidate :: candidate_registrations where
  "demo_candidate = \<lparr> mainchain_pub_key = replicate 32 9,
     registrations = [demo_registration 8 2, demo_registration 7 1], stake_delegation = Some 1000 \<rparr>"

lemma demo_registration_valid: "registration_valid demo_primitives k (demo_registration n b) g"
  by (auto simp: registration_valid_def demo_primitives_def demo_registration_def)

theorem latest_valid_registration_selected_witness:
  "\<exists>s reg. stake_delegation demo_candidate = Some s \<and> s \<noteq> 0 \<and> reg \<in> set (registrations demo_candidate)
     \<and> (\<forall>reg' \<in> set (registrations demo_candidate). registration_valid demo_primitives (mainchain_pub_key demo_candidate) reg' (demo_utxo 4)
          \<longrightarrow> ordering_key (reg_utxo_info reg') \<le> ordering_key (reg_utxo_info reg))"
proof -
  have "select_latest_valid_candidate demo_primitives demo_accounts demo_candidate (demo_utxo 4) \<noteq> None"
    by (simp add: select_latest_valid_candidate_None demo_candidate_def demo_registration_valid)
  then show ?thesis
    using latest_valid_registration_selected [where pr = demo_primitives and acc = demo_accounts
        and cr = demo_candidate and genesis_utxo = "demo_utxo 4"]
    by (auto split: option.splits)
qed

lemma uint_u16_bounds: "- (2 ^ 63) \<le> uint (i :: u16)" "uint (i :: u16) < 65536"
proof -
  have "- (2 ^ 63) \<le> (0 :: int)"
    by simp
  also have "0 \<le> uint i"
    by simp
  finally show "- (2 ^ 63) \<le> uint i" .
  show "uint i < 65536"
    using uint_lt2p [of i] by simp
qed

lemma encode_u16: "encode_integer be (uint (i :: u16)) = [CborInt (uint i)]"
  using uint_u16_bounds [of i] by (simp add: encode_integer_def)

lemma encodable_simps [simp]:
  "encodable []" "encodable (xs @ ys) \<longleftrightarrow> encodable xs \<and> encodable ys"
  "encodable (CborTag t # xs) \<longleftrightarrow> encodable xs" "encodable (CborBeginArray # xs) \<longleftrightarrow> encodable xs"
  "encodable (CborEnd # xs) \<longleftrightarrow> encodable xs" "encodable (CborInt (uint (i :: u16)) # xs) \<longleftrightarrow> encodable xs"
  "encodable (encode_bytestring bs)"
  using uint_u16_bounds [of i] by (auto simp: encodable_def list_all_iff encode_bytestring_def)

lemma signed_message_encodable: "encodable (encode_datum be (signed_message_to_datum m))"
  by (simp add: signed_message_to_datum_def utxo_id_to_datum_def mc_tx_hash_to_datum_def
      bytes_to_datum_def uint_to_datum_def encode_u16 encode_constructor_frame_def encode_seq_frame_def)

lemma utxo_id_to_datum_inj: "utxo_id_to_datum u = utxo_id_to_datum u' \<longleftrightarrow> u = u'"
  by (auto simp: utxo_id_to_datum_def mc_tx_hash_to_datum_def bytes_to_datum_def uint_to_datum_def
      word_uint_eq_iff [symmetric])

text \<open>The bytes a candidate signs determine what is registered: the genesis UTXO of the partner chain,
  the sidechain key and the consumed UTXO.  A signature is thus never valid for the message of another chain,
  another key or another input.  The byte writer is assumed to be injective on the items it can write, the
  magnitude bytes to determine the magnitude.\<close>

theorem signed_message_binding:
  assumes "inj_on (cbor_emit pr) {items. encodable items}" and "inj (to_bytes_be pr)"
    and "signed_message_bytes pr reg g = signed_message_bytes pr reg' g'"
  shows "g = g' \<and> sidechain_pub_key reg = sidechain_pub_key reg' \<and> consumed_input reg = consumed_input reg'"
proof -
  let ?msg = "\<lambda>reg g. signed_message_to_datum \<lparr> msg_genesis_utxo = g,
    msg_sidechain_pub_key = sidechain_pub_key reg, msg_input_utxo = consumed_input reg \<rparr>"
  have "encode_datum (to_bytes_be pr) (?msg reg g) = encode_datum (to_bytes_be pr) (?msg reg' g')"
    using assms(3) inj_onD [OF assms(1)] signed_message_encodable
    by (simp add: signed_message_bytes_def to_datum_cbor_bytes_def)
  then have "?msg reg g = ?msg reg' g'"
    using readableD [OF all_readable [OF assms(2)], of _ "[]" _ "[]"] by simp
  then show ?thesis
    by (simp add: signed_message_to_datum_def utxo_id_to_datum_inj bytes_to_datum_def)
qed

lemma demo_nat_bytes_inj: "demo_nat_bytes n @ r = demo_nat_bytes m @ r' \<Longrightarrow> n = m \<and> r = r'"
proof (induction n arbitrary: m)
  case 0
  then show ?case
    by (cases m) (auto simp: demo_nat_bytes_def)
next
  case (Suc n)
  then show ?case
    by (cases m) (auto simp: demo_nat_bytes_def)
qed

lemma demo_nats_inj: "concat (map demo_nat_bytes ns) = concat (map demo_nat_bytes ms) \<Longrightarrow> ns = ms"
proof (induction ns arbitrary: ms)
  case Nil
  then show ?case
    by (cases ms) (auto simp: demo_nat_bytes_def)
next
  case (Cons n ns)
  then obtain m ms' where "ms = m # ms'"
    by (cases ms) (auto simp: demo_nat_bytes_def)
  then show ?case
    using Cons demo_nat_bytes_inj [of n "concat (map demo_nat_bytes ns)" m "concat (map demo_nat_bytes ms')"]
    by auto
qed

lemma map_unat_inj:
  "map unat (xs :: u8 list) @ r = map unat ys @ r' \<Longrightarrow> length xs = length ys \<Longrightarrow> xs = ys \<and> r = r'"
  by (auto simp: append_eq_append_conv inj_map_eq_map [OF injI] word_unat_eq_iff)

lemma demo_item_nats_inj: "demo_item_nats x @ r = demo_item_nats y @ r' \<Longrightarrow> x = y \<and> r = r'"
  by (cases x; cases y)
    (auto simp: demo_item_nats_def word_unat_eq_iff dest!: map_unat_inj split: if_splits)

lemma demo_items_inj: "concat (map demo_item_nats xs) = concat (map demo_item_nats ys) \<Longrightarrow> xs = ys"
proof (induction xs arbitrary: ys)
  case Nil
  then show ?case
    by (cases ys) (auto simp: demo_item_nats_def split: cbor_item.splits)
next
  case (Cons x xs)
  then obtain y ys' where "ys = y # ys'"
    by (cases ys) (auto simp: demo_item_nats_def split: cbor_item.splits)
  then show ?case
    using Cons demo_item_nats_inj [of x "concat (map demo_item_nats xs)" y "concat (map demo_item_nats ys')"]
    by auto
qed

theorem signed_message_binding_witness:
  "sidechain_pub_key (demo_registration 8 2) = sidechain_pub_key (demo_registration 7 2)
   \<and> inj_on (cbor_emit demo_primitives) {items. encodable items} \<and> inj (to_bytes_be demo_primitives)"
proof -
  have "inj (cbor_emit demo_primitives)"
    using demo_nats_inj demo_items_inj by (auto simp: demo_primitives_def demo_emit_def intro!: injI)
  then have emit: "inj_on (cbor_emit demo_primitives) {items. encodable items}"
    by (rule inj_on_subset) simp
  have be: "inj (to_bytes_be demo_primitives)"
    by (simp add: demo_primitives_def) (metis injI length_replicate)
  have "signed_message_bytes demo_primitives (demo_registration 8 2) (demo_utxo 4)
      = signed_message_bytes demo_primitives (demo_registration 7 2) (demo_utxo 4)"
    by (simp add: signed_message_bytes_def demo_registration_def)
  from signed_message_binding [OF emit be this] show ?thesis
    using emit be by blast
qed

end
