(* ===== verification/AuthoritySelection.thy ===== *)
theory AuthoritySelection
  imports Prelude Domain MainchainEpoch SidechainSlots CommitteePallet WeightedRandom FilterCandidates
begin

text \<open>
  The Ariadne selection of block producers:
  \<^verbatim>\<open>toolkit/primitives/authority-selection-inherents/src/\<close>\<^verbatim>\<open>select_authorities.rs\<close>,
  \<^verbatim>\<open>authority_selection_inputs.rs\<close> and \<^verbatim>\<open>ariadne_inherent_data_provider.rs\<close>.

  The data source trait \<^verbatim>\<open>AuthoritySelectionDataSource\<close> is the record \<open>selection_data_source\<close>; runtime API calls
  are represented by their results.  The lemmas compute the weights of the Ariadne specification, show
  that the total weight is positive and fits, and derive that selection never panics.
\<close>

section \<open>Inputs\<close>

record authority_selection_inputs =
  in_d_parameter :: d_parameter
  in_permissioned_candidates :: "permissioned_candidate_data list"
  in_registered_candidates :: "candidate_registrations list"
  in_epoch_nonce :: bytes

record raw_permissioned_candidate_data =
  raw_sidechain_public_key :: bytes
  raw_aura_public_key :: bytes
  raw_grandpa_public_key :: bytes

record ariadne_parameters =
  ap_d_parameter :: d_parameter
  ap_permissioned_candidates :: "raw_permissioned_candidate_data list"

record 'e selection_data_source =
  get_ariadne_parameters :: "u32 \<Rightarrow> bytes \<Rightarrow> bytes \<Rightarrow> (ariadne_parameters, 'e) result"
  get_candidates :: "u32 \<Rightarrow> bytes \<Rightarrow> (candidate_registrations list, 'e) result"
  get_epoch_nonce :: "u32 \<Rightarrow> (bytes option, 'e) result"
  data_epoch :: "u32 \<Rightarrow> (u32, 'e) result"

datatype 'e inputs_creation_error =
  AriadneParametersQuery u32 bytes bytes 'e
| GetCandidatesQuery u32 bytes 'e
| GetEpochNonceQuery u32 'e

definition inputs_from_mc_data ::
  "'e selection_data_source \<Rightarrow> u32 \<Rightarrow> main_chain_scripts
    \<Rightarrow> (authority_selection_inputs, 'e inputs_creation_error) result" where
  "inputs_from_mc_data ds for_epoch scripts =
     rbind (map_err (AriadneParametersQuery for_epoch (d_parameter_policy_id scripts)
                       (permissioned_candidates_policy_id scripts))
              (get_ariadne_parameters ds for_epoch (d_parameter_policy_id scripts)
                 (permissioned_candidates_policy_id scripts))) (\<lambda>response.
     let permissioned = map (\<lambda>c. \<lparr> perm_sidechain_public_key = raw_sidechain_public_key c,
                               perm_aura_public_key = raw_aura_public_key c,
                               perm_grandpa_public_key = raw_grandpa_public_key c \<rparr>)
                          (ap_permissioned_candidates response) in
     rbind (map_err (GetCandidatesQuery for_epoch (committee_candidate_address scripts))
              (get_candidates ds for_epoch (committee_candidate_address scripts))) (\<lambda>registered.
     rbind (map_err (GetEpochNonceQuery for_epoch) (get_epoch_nonce ds for_epoch)) (\<lambda>nonce_response.
       Ok \<lparr> in_d_parameter = ap_d_parameter response, in_permissioned_candidates = permissioned,
            in_registered_candidates = registered,
            in_epoch_nonce = (case nonce_response of Some nonce \<Rightarrow> nonce | None \<Rightarrow> []) \<rparr>)))"

section \<open>The inherent data provider\<close>

datatype ('e, 'api) ariadne_provider_error =
  SlotTooBig
| McEpochDerivationError epoch_derivation_error
| ApiError 'api
| InputsCreationError "'e inputs_creation_error"
| DataSourceError 'e

definition sc_epoch_to_mc_epoch ::
  "(u64 \<Rightarrow> u64 \<Rightarrow> u64 option) \<Rightarrow> u64 \<Rightarrow> sc_slot_config \<Rightarrow> mainchain_epoch_config
    \<Rightarrow> (u32, ('e, 'api) ariadne_provider_error) result" where
  "sc_epoch_to_mc_epoch slot_timestamp sc_epoch sc_slot_config epoch_config =
     rbind (ok_or SlotTooBig (epoch_start_time slot_timestamp sc_slot_config sc_epoch)) (\<lambda>timestamp.
       map_err McEpochDerivationError (timestamp_to_mainchain_epoch epoch_config timestamp))"

definition mc_epoch_for_next_ariadne_cidp ::
  "(u64 \<Rightarrow> u64 \<Rightarrow> u64 option) \<Rightarrow> (u64, 'api) result \<Rightarrow> sc_slot_config \<Rightarrow> mainchain_epoch_config \<Rightarrow> u64
    \<Rightarrow> (u32, ('e, 'api) ariadne_provider_error) result" where
  "mc_epoch_for_next_ariadne_cidp slot_timestamp next_unset_epoch_api sc_slot_config epoch_config slot =
     rbind (map_err ApiError next_unset_epoch_api) (\<lambda>next_unset_epoch.
     rbind (if next_unset_epoch = 1 then expect (config_epoch_number sc_slot_config slot)
            else Ok next_unset_epoch) (\<lambda>for_sc_epoch_number.
       sc_epoch_to_mc_epoch slot_timestamp for_sc_epoch_number sc_slot_config epoch_config))"

definition ariadne_from_mc_data ::
  "'e selection_data_source \<Rightarrow> u32 \<Rightarrow> main_chain_scripts
    \<Rightarrow> (authority_selection_inputs option, ('e, 'api) ariadne_provider_error) result" where
  "ariadne_from_mc_data ds for_epoch scripts =
     rbind (map_err InputsCreationError (inputs_from_mc_data ds for_epoch scripts)) (\<lambda>inputs. Ok (Some inputs))"

definition ariadne_new ::
  "(u64 \<Rightarrow> u64 \<Rightarrow> u64 option) \<Rightarrow> (u64, 'api) result \<Rightarrow> (main_chain_scripts, 'api) result \<Rightarrow> sc_slot_config
    \<Rightarrow> mainchain_epoch_config \<Rightarrow> u64 \<Rightarrow> 'e selection_data_source \<Rightarrow> u32
    \<Rightarrow> (authority_selection_inputs option, ('e, 'api) ariadne_provider_error) result" where
  "ariadne_new slot_timestamp next_unset_epoch_api scripts_api sc_slot_config mc_epoch_config slot ds mc_reference_epoch =
     rbind (mc_epoch_for_next_ariadne_cidp slot_timestamp next_unset_epoch_api sc_slot_config mc_epoch_config slot) (\<lambda>for_mc_epoch.
     rbind (map_err DataSourceError (data_epoch ds for_mc_epoch)) (\<lambda>de.
     rbind (map_err ApiError scripts_api) (\<lambda>scripts.
       if de < mc_reference_epoch then ariadne_from_mc_data ds for_mc_epoch scripts else Ok None)))"

text \<open>\<^verbatim>\<open>provide_inherent_data\<close>: the data, when present, is put under the pallet's inherent identifier.\<close>

definition ariadne_provide_inherent_data ::
  "authority_selection_inputs option \<Rightarrow> authority_selection_inputs inherent_data" where
  "ariadne_provide_inherent_data data = Ok data"

section \<open>Weights\<close>

definition trustless_candidates_with_weights ::
  "('a, 'k) candidate_with_stake list \<Rightarrow> d_parameter \<Rightarrow> nat \<Rightarrow> (('a, 'k) candidate \<times> u128) list" where
  "trustless_candidates_with_weights trustless d permissioned_candidates_count =
     (let weight_factor =
            (if permissioned_candidates_count > 0
             then ucast (num_registered_candidates d) * of_nat permissioned_candidates_count else 1)
      in map (\<lambda>c. (cws_candidate c, ucast (cws_stake_delegation c) * weight_factor)) trustless)"

definition permissioned_candidates_with_weights ::
  "('a, 'k) candidate list \<Rightarrow> d_parameter \<Rightarrow> ('a, 'k) candidate_with_stake list
    \<Rightarrow> (('a, 'k) candidate \<times> u128) list" where
  "permissioned_candidates_with_weights permissioned d valid_trustless =
     (let total_stake = sum_list (map cws_stake_delegation valid_trustless);
          weight = (if total_stake > 0 \<and> num_registered_candidates d > 0
                    then ucast (num_permissioned_candidates d) * ucast total_stake else 1)
      in map (\<lambda>c. (c, weight)) permissioned)"

section \<open>Selection\<close>

record 'rng randomness =
  rng_from_seed :: "bytes \<Rightarrow> 'rng"
  rng_gen_range :: "'rng gen_range"
  u256_from_bytes :: "bytes \<Rightarrow> 256 word"
  u256_to_bytes :: "256 word \<Rightarrow> bytes"

definition weighted_selection ::
  "'rng randomness \<Rightarrow> (('a, 'k) candidate \<times> u128) list \<Rightarrow> u16 \<Rightarrow> bytes \<Rightarrow> ('a \<times> 'k) list option may_panic" where
  "weighted_selection rnd candidates seats random_seed =
     map_option (map_option (map (\<lambda>c. (account_id c, account_keys c))))
       (weighted_select_authorities (rng_from_seed rnd) (rng_gen_range rnd) candidates random_seed seats)"

definition candidates_with_weight ::
  "primitives \<Rightarrow> ('a::linorder, 'k) accounts \<Rightarrow> utxo_id \<Rightarrow> authority_selection_inputs
    \<Rightarrow> (('a, 'k) candidate \<times> u128) list" where
  "candidates_with_weight pr acc genesis_utxo input =
     (let valid_trustless =
            filter_trustless_candidates_registrations pr acc (in_registered_candidates input) genesis_utxo;
          valid_permissioned = filter_invalid_permissioned_candidates acc (in_permissioned_candidates input)
      in sort_key (\<lambda>cw. account_id (fst cw))
           (trustless_candidates_with_weights valid_trustless (in_d_parameter input) (length valid_permissioned)
            @ permissioned_candidates_with_weights valid_permissioned (in_d_parameter input) valid_trustless))"

definition select_authorities ::
  "primitives \<Rightarrow> ('a::linorder, 'k) accounts \<Rightarrow> 'rng randomness \<Rightarrow> nat \<Rightarrow> utxo_id
    \<Rightarrow> authority_selection_inputs \<Rightarrow> u64 \<Rightarrow> ('a \<times> 'k) list option may_panic" where
  "select_authorities pr acc rnd max_validators genesis_utxo input sidechain_epoch =
     (let random_seed = seed_from_nonce_and_sc_epoch (u256_from_bytes rnd) (u256_to_bytes rnd)
                          (in_epoch_nonce input) sidechain_epoch;
          committee_size = num_registered_candidates (in_d_parameter input)
                             + num_permissioned_candidates (in_d_parameter input)
      in map_option (map_option (truncate_from max_validators))
           (weighted_selection rnd (candidates_with_weight pr acc genesis_utxo input) committee_size random_seed))"

section \<open>The weights as natural numbers\<close>

definition stake_sum :: "('a, 'k) candidate_with_stake list \<Rightarrow> nat" where
  "stake_sum cs = sum_list (map (\<lambda>c. unat (cws_stake_delegation c)) cs)"

lemma unat_total_stake:
  "stake_sum cs < 2 ^ 64 \<Longrightarrow> unat (sum_list (map cws_stake_delegation cs)) = stake_sum cs"
  using unat_sum_list [of "map cws_stake_delegation cs"] by (simp add: comp_def stake_sum_def)

lemma mult_bound: "(a :: nat) < 2 ^ x \<Longrightarrow> b < 2 ^ y \<Longrightarrow> a * b < 2 ^ (x + y)"
  by (simp add: mult_strict_mono power_add)

lemma unat_ucast_128 [simp]:
  "unat (ucast (a :: u16) :: u128) = unat a" "unat (ucast (b :: u64) :: u128) = unat b"
  by (simp_all add: unat_ucast_up)

definition weight_factor :: "d_parameter \<Rightarrow> nat \<Rightarrow> nat" where
  "weight_factor d n = (if n > 0 then unat (num_registered_candidates d) * n else 1)"

definition permissioned_weight :: "d_parameter \<Rightarrow> nat \<Rightarrow> nat" where
  "permissioned_weight d W =
     (if W > 0 \<and> unat (num_registered_candidates d) > 0 then unat (num_permissioned_candidates d) * W else 1)"

lemma weight_factor_bound: "n < 2 ^ 32 \<Longrightarrow> weight_factor d n < 2 ^ 48"
  using mult_bound [of "unat (num_registered_candidates d)" 16 n 32]
    unat_bound [of "num_registered_candidates d"]
  by (simp add: weight_factor_def)

lemma permissioned_weight_bound: "W < 2 ^ 64 \<Longrightarrow> permissioned_weight d W < 2 ^ 80"
  using mult_bound [of "unat (num_permissioned_candidates d)" 16 W 64]
    unat_bound [of "num_permissioned_candidates d"]
  by (simp add: permissioned_weight_def)

lemma total_nat_trustless:
  assumes "n < 2 ^ 32"
  shows "total_nat (trustless_candidates_with_weights cs d n) = weight_factor d n * stake_sum cs"
proof -
  let ?f = "if n > 0 then ucast (num_registered_candidates d) * of_nat n else 1 :: u128"
  have f: "unat ?f = weight_factor d n"
  proof (cases "n > 0")
    case True
    have "unat (num_registered_candidates d) * n < 2 ^ 48"
      using weight_factor_bound [OF assms, of d] True by (simp add: weight_factor_def)
    moreover have "unat (of_nat n :: u128) = n"
      using assms by (intro unat_of_nat_small) simp
    ultimately show ?thesis
      using True by (simp add: weight_factor_def unat_mult_no_wrap)
  qed (simp add: weight_factor_def)
  have "unat (ucast (s :: u64) * ?f) = unat s * weight_factor d n" for s
    using mult_bound [of "unat s" 64 "unat ?f" 48] f weight_factor_bound [OF assms, of d]
      unat_bound [of s]
    by (subst unat_mult_no_wrap) simp_all
  then have "total_nat (trustless_candidates_with_weights cs d n)
      = sum_list (map (\<lambda>c. unat (cws_stake_delegation c) * weight_factor d n) cs)"
    by (simp add: trustless_candidates_with_weights_def comp_def)
  then show ?thesis
    by (simp add: sum_list_const_mult stake_sum_def mult.commute)
qed

lemma total_nat_permissioned:
  assumes "stake_sum cs < 2 ^ 64"
  shows "total_nat (permissioned_candidates_with_weights ps d cs) = length ps * permissioned_weight d (stake_sum cs)"
proof -
  let ?W = "sum_list (map cws_stake_delegation cs)"
  let ?w = "if ?W > 0 \<and> num_registered_candidates d > 0
    then ucast (num_permissioned_candidates d) * ucast ?W else 1 :: u128"
  have W: "unat ?W = stake_sum cs"
    using assms by (rule unat_total_stake)
  then have "unat (ucast (num_permissioned_candidates d) * ucast ?W :: u128)
      = unat (num_permissioned_candidates d) * stake_sum cs"
    using mult_bound [of "unat (num_permissioned_candidates d)" 16 "stake_sum cs" 64] assms
      unat_bound [of "num_permissioned_candidates d"]
    by (subst unat_mult_no_wrap) simp_all
  moreover have "?W > 0 \<longleftrightarrow> stake_sum cs > 0"
    by (simp only: word_less_nat_alt W unsigned_0)
  moreover have "num_registered_candidates d > 0 \<longleftrightarrow> unat (num_registered_candidates d) > 0"
    by (simp add: word_less_nat_alt)
  ultimately have "unat ?w = permissioned_weight d (stake_sum cs)"
    by (simp only: permissioned_weight_def if_distrib [of unat] unsigned_1)
  then show ?thesis
    by (simp add: permissioned_candidates_with_weights_def Let_def comp_def sum_list_triv)
qed

lemma total_nat_sort_key [simp]: "total_nat (sort_key f xs) = total_nat xs"
proof -
  have "mset (map (\<lambda>c. unat (snd c)) (sort_key f xs)) = mset (map (\<lambda>c. unat (snd c)) xs)"
    by simp
  then show ?thesis
    by (metis sum_mset_sum_list)
qed

section \<open>The total weight\<close>

lemma set_map_filter_iff: "y \<in> set (List.map_filter f xs) \<longleftrightarrow> (\<exists>x \<in> set xs. f x = Some y)"
  by (induction xs) (auto simp: map_filter_simps split: option.splits)

lemma length_map_filter_le: "length (List.map_filter f xs) \<le> length xs"
  by (induction xs) (auto simp: map_filter_simps split: option.splits)

lemma trustless_stake_pos:
  "c \<in> set (filter_trustless_candidates_registrations pr acc crs g) \<Longrightarrow> cws_stake_delegation c \<noteq> 0"
  using select_latest_valid_candidate_Some
  by (fastforce simp: filter_trustless_candidates_registrations_def set_map_filter_iff)

lemma stake_sum_pos:
  assumes "cs \<noteq> []" "\<forall>c \<in> set cs. cws_stake_delegation c \<noteq> 0"
  shows "0 < stake_sum cs"
  using assms by (cases cs) (auto simp: stake_sum_def unat_gt_0)

lemma total_weight_pos:
  assumes "n > 0 \<or> W > 0"
  shows "0 < weight_factor d n * W + n * permissioned_weight d W"
  using assms by (auto simp: weight_factor_def permissioned_weight_def)

lemma total_weight_bound:
  assumes "n < 2 ^ 32" "W < 2 ^ 64"
  shows "weight_factor d n * W + n * permissioned_weight d W < 2 ^ 128"
proof -
  have "weight_factor d n * W < 2 ^ 112" "n * permissioned_weight d W < 2 ^ 112"
    using mult_bound [OF weight_factor_bound [OF assms(1), of d] assms(2)]
      mult_bound [OF assms(1) permissioned_weight_bound [OF assms(2), of d]] by simp_all
  then show ?thesis
    by simp
qed

lemma candidates_total:
  fixes acc :: "('a::linorder, 'k) accounts" and pr :: primitives and g :: utxo_id
  defines "V \<equiv> \<lambda>input. filter_trustless_candidates_registrations pr acc (in_registered_candidates input) g"
    and "Pm \<equiv> \<lambda>input. filter_invalid_permissioned_candidates acc (in_permissioned_candidates input)"
  assumes "length (in_permissioned_candidates input) < 2 ^ 32" "stake_sum (V input) < 2 ^ 64"
  shows "total_nat (candidates_with_weight pr acc g input) < 2 ^ 128"
    and "candidates_with_weight pr acc g input = [] \<longleftrightarrow> V input = [] \<and> Pm input = []"
    and "candidates_with_weight pr acc g input \<noteq> [] \<Longrightarrow> 0 < total_nat (candidates_with_weight pr acc g input)"
proof -
  let ?d = "in_d_parameter input" and ?n = "length (Pm input)" and ?W = "stake_sum (V input)"
  have n: "?n < 2 ^ 32"
    using assms(3) length_map_filter_le le_less_trans
    unfolding Pm_def filter_invalid_permissioned_candidates_def by blast
  have total: "total_nat (candidates_with_weight pr acc g input)
      = weight_factor ?d ?n * ?W + ?n * permissioned_weight ?d ?W"
    using total_nat_trustless [OF n, of "V input" ?d] total_nat_permissioned [OF assms(4), of "Pm input" ?d]
    by (simp add: candidates_with_weight_def V_def Pm_def Let_def)
  show "total_nat (candidates_with_weight pr acc g input) < 2 ^ 128"
    unfolding total using n assms(4) by (rule total_weight_bound)
  show nil: "candidates_with_weight pr acc g input = [] \<longleftrightarrow> V input = [] \<and> Pm input = []"
  proof -
    have "sort_key f xs = [] \<longleftrightarrow> xs = []" for f :: "('a, 'k) candidate \<times> u128 \<Rightarrow> 'a" and xs
      by (metis length_0_conv length_sort)
    then show ?thesis
      by (simp add: candidates_with_weight_def V_def Pm_def trustless_candidates_with_weights_def
          permissioned_candidates_with_weights_def Let_def)
  qed
  assume "candidates_with_weight pr acc g input \<noteq> []"
  moreover have "\<forall>c \<in> set (V input). cws_stake_delegation c \<noteq> 0"
    using trustless_stake_pos unfolding V_def by blast
  ultimately have "?n > 0 \<or> ?W > 0"
    using nil stake_sum_pos [of "V input"] by auto
  then show "0 < total_nat (candidates_with_weight pr acc g input)"
    unfolding total by (rule total_weight_pos)
qed

section \<open>Correctness\<close>

text \<open>C26. Selecting a committee never panics and yields exactly \<open>P + T\<close> seats, cut at the maximal number of
  validators, every seat held by a valid candidate of non-zero weight; no committee results exactly when no
  candidate is valid and at least one seat is asked for.  Draws are assumed to lie below their bound, the
  total stake of the valid candidates to fit 64 bits, and \<open>P + T\<close> to fit 16 bits.\<close>

theorem select_authorities_spec:
  assumes range: "\<And>rng n. 0 < n \<Longrightarrow> fst (rng_gen_range rnd rng n) < n"
    and "length (in_permissioned_candidates input) < 2 ^ 32"
    and "stake_sum (filter_trustless_candidates_registrations pr acc (in_registered_candidates input) g) < 2 ^ 64"
    and "unat (num_registered_candidates (in_d_parameter input))
           + unat (num_permissioned_candidates (in_d_parameter input)) < 2 ^ 16"
  defines "seats \<equiv> unat (num_registered_candidates (in_d_parameter input))
           + unat (num_permissioned_candidates (in_d_parameter input))"
  shows "if filter_trustless_candidates_registrations pr acc (in_registered_candidates input) g = []
       \<and> filter_invalid_permissioned_candidates acc (in_permissioned_candidates input) = [] \<and> seats \<noteq> 0
     then select_authorities pr acc rnd max_validators g input e = Some None
     else \<exists>c. select_authorities pr acc rnd max_validators g input e = Some (Some c)
       \<and> length c = min max_validators seats
       \<and> set c \<subseteq> {(account_id x, account_keys x) | x w. (x, w) \<in> set (candidates_with_weight pr acc g input) \<and> w \<noteq> 0}"
proof -
  let ?cs = "candidates_with_weight pr acc g input"
  let ?size = "num_registered_candidates (in_d_parameter input) + num_permissioned_candidates (in_d_parameter input)"
  let ?seed = "seed_from_nonce_and_sc_epoch (u256_from_bytes rnd) (u256_to_bytes rnd) (in_epoch_nonce input) e"
  note total = candidates_total [OF assms(2,3)]
  have size: "unat ?size = seats"
    using assms(4) by (simp add: seats_def unat_add_no_wrap)
  then have size0: "?size = 0 \<longleftrightarrow> seats = 0"
    by (metis unat_eq_zero)
  have sel: "if ?cs = [] \<and> ?size \<noteq> 0
     then weighted_select_authorities (rng_from_seed rnd) (rng_gen_range rnd) ?cs ?seed ?size = Some None
     else \<exists>c. weighted_select_authorities (rng_from_seed rnd) (rng_gen_range rnd) ?cs ?seed ?size = Some (Some c)
            \<and> length c = unat ?size \<and> set c \<subseteq> {t. \<exists>w. (t, w) \<in> set ?cs \<and> w \<noteq> 0}"
    by (rule select_authorities_core [where gen_range = "rng_gen_range rnd", OF range total(3,1)])
  show ?thesis
  proof (cases "?cs = [] \<and> seats \<noteq> 0")
    case True
    then show ?thesis
      using sel size0 total(2)
      by (auto simp: select_authorities_def weighted_selection_def)
  next
    case False
    then obtain c where c: "weighted_select_authorities (rng_from_seed rnd) (rng_gen_range rnd) ?cs ?seed ?size = Some (Some c)"
        "length c = seats" "set c \<subseteq> {t. \<exists>w. (t, w) \<in> set ?cs \<and> w \<noteq> 0}"
      using sel size size0 by (auto split: if_splits)
    let ?r = "take max_validators (map (\<lambda>c. (account_id c, account_keys c)) c)"
    have "select_authorities pr acc rnd max_validators g input e = Some (Some ?r)"
      using c(1) by (simp add: select_authorities_def weighted_selection_def truncate_from_def)
    moreover have "set ?r \<subseteq> {(account_id x, account_keys x) | x w. (x, w) \<in> set ?cs \<and> w \<noteq> 0}"
      using c(3) set_take_subset [of max_validators c] by (fastforce simp: take_map)
    ultimately show ?thesis
      using False total(2) c(2) by (auto simp: min_def)
  qed
qed

text \<open>C32. The weights realise the D-parameter: when both kinds of candidates are present and trustless
  candidates are asked for, the total weights of trustless and of permissioned candidates are in the ratio of
  their seats, each trustless candidate in proportion to its stake.\<close>

theorem ariadne_weight_ratio:
  assumes "0 < length ps" "length ps < 2 ^ 32" "0 < stake_sum cs" "stake_sum cs < 2 ^ 64"
    and "num_registered_candidates d \<noteq> 0"
  shows "unat (num_permissioned_candidates d) * total_nat (trustless_candidates_with_weights cs d (length ps))
       = unat (num_registered_candidates d) * total_nat (permissioned_candidates_with_weights ps d cs)
   \<and> (\<forall>i < length cs. unat (snd (trustless_candidates_with_weights cs d (length ps) ! i)) * stake_sum cs
       = unat (cws_stake_delegation (cs ! i)) * total_nat (trustless_candidates_with_weights cs d (length ps)))"
proof -
  let ?n = "length ps" and ?W = "stake_sum cs"
  have T: "0 < unat (num_registered_candidates d)"
    using assms(5) by (simp add: unat_gt_0)
  have "unat (snd (trustless_candidates_with_weights cs d ?n ! i)) = unat (cws_stake_delegation (cs ! i)) * weight_factor d ?n"
    if "i < length cs" for i
    using total_nat_trustless [OF assms(2), of "[cs ! i]" d] that
    by (simp add: trustless_candidates_with_weights_def Let_def stake_sum_def mult.commute)
  then show ?thesis
    using total_nat_trustless [OF assms(2), of cs d] total_nat_permissioned [OF assms(4), of ps d] T assms(1,3)
    by (simp add: weight_factor_def permissioned_weight_def mult_ac)
qed

definition demo_d_parameter :: d_parameter where
  "demo_d_parameter = \<lparr> num_permissioned_candidates = 3, num_registered_candidates = 2 \<rparr>"

definition demo_trustless :: "(nat, unit) candidate_with_stake list" where
  "demo_trustless = [\<lparr> cws_candidate = \<lparr> account_id = 1, account_keys = () \<rparr>, cws_stake_delegation = 1000 \<rparr>]"

definition demo_permissioned :: "(nat, unit) candidate list" where
  "demo_permissioned = [\<lparr> account_id = 2, account_keys = () \<rparr>]"

theorem ariadne_weight_ratio_witness:
  "unat (num_permissioned_candidates demo_d_parameter)
     * total_nat (trustless_candidates_with_weights demo_trustless demo_d_parameter (length demo_permissioned))
   = unat (num_registered_candidates demo_d_parameter)
     * total_nat (permissioned_candidates_with_weights demo_permissioned demo_d_parameter demo_trustless)"
proof -
  have "0 < length demo_permissioned" "length demo_permissioned < 2 ^ 32"
    "0 < stake_sum demo_trustless" "stake_sum demo_trustless < 2 ^ 64"
    "num_registered_candidates demo_d_parameter \<noteq> 0"
    by (simp_all add: demo_permissioned_def demo_trustless_def demo_d_parameter_def stake_sum_def)
  from ariadne_weight_ratio [OF this] show ?thesis
    by blast
qed

definition demo_randomness :: "nat randomness" where
  "demo_randomness = \<lparr> rng_from_seed = length, rng_gen_range = counter_gen_range,
     u256_from_bytes = (\<lambda>bs. of_nat (length bs)), u256_to_bytes = (\<lambda>w. [ucast w]) \<rparr>"

definition demo_inputs :: authority_selection_inputs where
  "demo_inputs = \<lparr> in_d_parameter = demo_d_parameter,
     in_permissioned_candidates = [\<lparr> perm_sidechain_public_key = replicate 33 7,
       perm_aura_public_key = replicate 32 7, perm_grandpa_public_key = replicate 32 7 \<rparr>],
     in_registered_candidates = [demo_candidate], in_epoch_nonce = [1, 2, 3] \<rparr>"

lemma counter_gen_range_below: "0 < n \<Longrightarrow> fst (counter_gen_range rng n) < n"
  by (simp add: counter_gen_range_def word_less_nat_alt unat_mod_word)

theorem select_authorities_spec_witness:
  "\<exists>c. select_authorities demo_primitives demo_accounts demo_randomness 32 (demo_utxo 4) demo_inputs 17 = Some (Some c)
     \<and> length c = 5"
proof -
  have perm: "filter_invalid_permissioned_candidates demo_accounts (in_permissioned_candidates demo_inputs) \<noteq> []"
    by (simp add: filter_invalid_permissioned_candidates_def demo_inputs_def demo_accounts_def map_filter_simps
        validate_permissioned_candidate_data_def try_into_sr25519_def try_into_ed25519_def try_array_def)
  let ?V = "filter_trustless_candidates_registrations demo_primitives demo_accounts
    (in_registered_candidates demo_inputs) (demo_utxo 4)"
  have "length ?V \<le> 1"
    using length_map_filter_le [of _ "in_registered_candidates demo_inputs"]
    by (simp add: filter_trustless_candidates_registrations_def demo_inputs_def)
  then have stake: "stake_sum ?V < 2 ^ 64"
    using unat_lt_2_64 by (cases ?V) (auto simp: stake_sum_def)
  have range: "fst (rng_gen_range demo_randomness rng n) < n" if "0 < n" for rng n
    using counter_gen_range_below [OF that] by (simp add: demo_randomness_def)
  have "length (in_permissioned_candidates demo_inputs) < 2 ^ 32"
    "unat (num_registered_candidates (in_d_parameter demo_inputs))
       + unat (num_permissioned_candidates (in_d_parameter demo_inputs)) < 2 ^ 16"
    by (simp_all add: demo_inputs_def demo_d_parameter_def)
  from select_authorities_spec [OF range this(1) stake this(2), of 32 17] perm
  obtain c where "select_authorities demo_primitives demo_accounts demo_randomness 32 (demo_utxo 4) demo_inputs 17 = Some (Some c)"
    "length c = min 32 (unat (num_registered_candidates (in_d_parameter demo_inputs))
       + unat (num_permissioned_candidates (in_d_parameter demo_inputs)))"
    by auto
  then show ?thesis
    by (simp add: demo_inputs_def demo_d_parameter_def)
qed

end
