(* ===== verification/SidechainPallet.thy ===== *)
theory SidechainPallet
  imports Prelude SidechainSlots Domain
begin

text \<open>
  The epoch pallet: \<^verbatim>\<open>toolkit/pallets/sidechain/src/lib.rs\<close> with the status record and the epoch hook of
  \<^verbatim>\<open>toolkit/primitives/sidechain/src/lib.rs\<close>.

  \<open>EpochNumber\<close> is read with \<^verbatim>\<open>try_get\<close>, so an absent value is told apart from epoch 0; it is an option.
  The slot that \<^verbatim>\<open>T::current_slot_number\<close> returns is an argument, and so is \<^verbatim>\<open>T::OnNewEpoch\<close>, a function of the
  old and the new epoch on the state \<open>'r\<close> of the pallets it calls.
\<close>

record sidechain_pallet =
  EpochNumber :: "u64 option"
  SlotsPerEpoch :: u32
  GenesisUtxo :: utxo_id

record sidechain_status =
  status_epoch :: u64
  status_slot :: u64
  status_slots_per_epoch :: u32

type_synonym 'r on_new_epoch = "u64 \<Rightarrow> u64 \<Rightarrow> 'r \<Rightarrow> 'r"

definition genesis_utxo :: "sidechain_pallet \<Rightarrow> utxo_id" where
  "genesis_utxo p = GenesisUtxo p"

definition pallet_slots_per_epoch :: "sidechain_pallet \<Rightarrow> u32" where
  "pallet_slots_per_epoch p = SlotsPerEpoch p"

definition current_epoch_number :: "u64 \<Rightarrow> sidechain_pallet \<Rightarrow> u64 may_panic" where
  "current_epoch_number current_slot p = epoch_number current_slot (pallet_slots_per_epoch p)"

definition sidechain_genesis_build :: "utxo_id \<Rightarrow> u32 \<Rightarrow> sidechain_pallet" where
  "sidechain_genesis_build utxo spe = \<lparr> EpochNumber = None, SlotsPerEpoch = spe, GenesisUtxo = utxo \<rparr>"

definition sidechain_on_initialize ::
  "'r on_new_epoch \<Rightarrow> u64 \<Rightarrow> sidechain_pallet \<Rightarrow> 'r \<Rightarrow> (sidechain_pallet \<times> 'r) may_panic" where
  "sidechain_on_initialize on_new_epoch current_slot p r =
     map_option (\<lambda>real_epoch.
       case EpochNumber p of
         Some saved_epoch \<Rightarrow>
           if saved_epoch \<noteq> real_epoch
           then (p \<lparr> EpochNumber := Some real_epoch \<rparr>, on_new_epoch saved_epoch real_epoch r)
           else (p, r)
       | None \<Rightarrow> (p \<lparr> EpochNumber := Some real_epoch \<rparr>, r))
     (current_epoch_number current_slot p)"

text \<open>The hook for tuples of handlers calls them from left to right.\<close>

definition on_new_epoch_unit :: "'r on_new_epoch" where
  "on_new_epoch_unit old_epoch new_epoch r = r"

definition on_new_epoch_tuple :: "'r on_new_epoch list \<Rightarrow> 'r on_new_epoch" where
  "on_new_epoch_tuple handlers old_epoch new_epoch r = fold (\<lambda>h. h old_epoch new_epoch) handlers r"

lemma current_epoch_number_eq:
  "SlotsPerEpoch p \<noteq> 0 \<Longrightarrow>
     \<exists>e. current_epoch_number slot p = Some e \<and> unat e = unat slot div unat (SlotsPerEpoch p)"
  by (simp add: current_epoch_number_def pallet_slots_per_epoch_def epoch_number_eq)

lemma current_epoch_number_mono:
  assumes "current_epoch_number s p = Some e" "current_epoch_number t q = Some f"
    and "s \<le> t" "SlotsPerEpoch q = SlotsPerEpoch p"
  shows "e \<le> f"
  using assms
  by (auto simp: current_epoch_number_def pallet_slots_per_epoch_def epoch_number_def word_le_nat_alt
      unat_div_word div_le_mono)

lemma sidechain_on_initialize_eq:
  assumes "current_epoch_number slot p = Some e"
  shows "sidechain_on_initialize h slot p r = Some (p \<lparr> EpochNumber := Some e \<rparr>,
     (case EpochNumber p of Some s \<Rightarrow> if s \<noteq> e then h s e r else r | None \<Rightarrow> r))"
  using assms by (auto simp: sidechain_on_initialize_def split: option.splits)

end
