(* ===== verification/BlockRewards.thy ===== *)
theory BlockRewards
  imports Prelude CommitteePallet "HOL-Library.Multiset"
begin

text \<open>
  The reward pallet: \<^verbatim>\<open>toolkit/pallets/block-rewards/src/lib.rs\<close> with the inherent data provider of
  \<^verbatim>\<open>toolkit/primitives/block-rewards/src/lib.rs\<close>.

  \<open>PendingRewards\<close> is a storage map; draining it yields its entries in the order of their hashes, so the
  drained list is represented by the map itself.  The reward type is the type variable \<open>'r\<close> with the
  addition and the unit the source asks of it; the runtime takes \<^verbatim>\<open>u32\<close>.
\<close>

section \<open>The pallet\<close>

record ('b, 'r) block_rewards =
  CurrentBlockBeneficiary :: "'b option"
  PendingRewards :: "'b \<rightharpoonup> 'r"

datatype rewards_inherent_error = InherentRequired

datatype 'b rewards_call = SetCurrentBlockBeneficiary 'b

definition empty_block_rewards :: "('b, 'r) block_rewards" where
  "empty_block_rewards = \<lparr> CurrentBlockBeneficiary = None, PendingRewards = Map.empty \<rparr>"

definition simple_block_count :: "'r::one" where
  "simple_block_count = 1"

definition get_beneficiary_from_inherent_data :: "'b inherent_data \<Rightarrow> ('b, rewards_inherent_error) result" where
  "get_beneficiary_from_inherent_data data = (case data of Ok (Some beneficiary) \<Rightarrow> Ok beneficiary | _ \<Rightarrow> Panic)"

definition rewards_create_inherent :: "'b inherent_data \<Rightarrow> 'b rewards_call option may_panic" where
  "rewards_create_inherent data =
     (case get_beneficiary_from_inherent_data data of
        Ok beneficiary \<Rightarrow> Some (Some (SetCurrentBlockBeneficiary beneficiary))
      | _ \<Rightarrow> None)"

definition rewards_check_inherent ::
  "'b rewards_call \<Rightarrow> 'b inherent_data \<Rightarrow> (unit, rewards_inherent_error) result" where
  "rewards_check_inherent call data = Ok ()"

definition rewards_is_inherent :: "'b rewards_call \<Rightarrow> bool" where
  "rewards_is_inherent call = (case call of SetCurrentBlockBeneficiary _ \<Rightarrow> True)"

definition rewards_is_inherent_required :: "'b inherent_data \<Rightarrow> rewards_inherent_error option" where
  "rewards_is_inherent_required data = Some InherentRequired"

definition set_current_block_beneficiary ::
  "'acc origin \<Rightarrow> 'b \<Rightarrow> ('b, 'r) block_rewards \<Rightarrow> (('b, 'r) block_rewards, 'e dispatch_error) result" where
  "set_current_block_beneficiary origin beneficiary p =
     (if origin \<noteq> NoneOrigin then Err BadOrigin
      else Ok (p \<lparr> CurrentBlockBeneficiary := Some beneficiary \<rparr>))"

definition rewards_on_finalize ::
  "'r::plus \<Rightarrow> ('b, 'r) block_rewards \<Rightarrow> ('b, 'r) block_rewards may_panic" where
  "rewards_on_finalize reward p =
     map_option (\<lambda>beneficiary.
       p \<lparr> CurrentBlockBeneficiary := None,
           PendingRewards := (PendingRewards p)(beneficiary \<mapsto>
             (case PendingRewards p beneficiary of None \<Rightarrow> reward | Some old_reward \<Rightarrow> old_reward + reward)) \<rparr>)
     (CurrentBlockBeneficiary p)"

definition get_rewards_and_clear :: "('b, 'r) block_rewards \<Rightarrow> ('b \<rightharpoonup> 'r) \<times> ('b, 'r) block_rewards" where
  "get_rewards_and_clear p = (PendingRewards p, p \<lparr> PendingRewards := Map.empty \<rparr>)"

section \<open>The inherent data provider\<close>

datatype beneficiary_error = InvalidHex | InvalidBeneficiary bytes | NotSet string

definition beneficiary_from_env ::
  "(string \<Rightarrow> string option) \<Rightarrow> (string \<Rightarrow> bytes option) \<Rightarrow> (bytes \<Rightarrow> 'b option) \<Rightarrow> string
    \<Rightarrow> ('b, beneficiary_error) result" where
  "beneficiary_from_env env from_hex try_from env_var =
     rbind (ok_or (NotSet env_var) (env env_var)) (\<lambda>beneficiary_string.
     rbind (ok_or InvalidHex (from_hex beneficiary_string)) (\<lambda>beneficiary_bytes.
       ok_or (InvalidBeneficiary beneficiary_bytes) (try_from beneficiary_bytes)))"

definition beneficiary_provide_inherent_data :: "'b \<Rightarrow> 'b inherent_data" where
  "beneficiary_provide_inherent_data beneficiary_id = Ok (Some beneficiary_id)"

section \<open>Accounting\<close>

text \<open>The points a list of finalised blocks earns: one per block, in the \<^verbatim>\<open>u32\<close> of the runtime.\<close>

definition points_of :: "'b list \<Rightarrow> ('b \<rightharpoonup> u32)" where
  "points_of bs b = (if b \<in> set bs then Some (of_nat (count (mset bs) b)) else None)"

lemma points_of_Nil [simp]: "points_of [] = Map.empty"
  by (simp add: points_of_def fun_eq_iff)

lemma points_of_snoc:
  "points_of (bs @ [b]) = (points_of bs)(b \<mapsto> (case points_of bs b of None \<Rightarrow> 1 | Some r \<Rightarrow> r + 1))"
  by (rule ext) (auto simp: points_of_def count_mset_0_iff [THEN iffD2])

lemma rewards_on_finalize_points:
  assumes "CurrentBlockBeneficiary p = Some b" "PendingRewards p = points_of bs"
  shows "rewards_on_finalize simple_block_count p
     = Some \<lparr> CurrentBlockBeneficiary = None, PendingRewards = points_of (bs @ [b]) \<rparr>"
  using assms by (simp add: rewards_on_finalize_def simple_block_count_def points_of_snoc)

end
