(* ===== verification/NativeTokenPallet.thy ===== *)
theory NativeTokenPallet
  imports Prelude CommitteePallet
begin

text \<open>
  The native token pallet: \<^verbatim>\<open>toolkit/pallets/native-token-management/src/lib.rs\<close> with the inherent data
  provider of \<^verbatim>\<open>toolkit/primitives/native-token-management/src/lib.rs\<close>.

  \<^verbatim>\<open>T::TokenTransferHandler\<close> is an argument that acts on a state \<open>'h\<close> of its own.  Calls are transactional: an
  error leaves no trace in the storage, so it carries no state.  The runtime's data source is an argument of
  the provider; its model is in \<^verbatim>\<open>NativeTokenSource\<close>.
\<close>

section \<open>The pallet\<close>

record native_scripts =
  native_token_policy_id :: bytes
  native_token_asset_name :: bytes
  illiquid_supply_validator_address :: bytes

record native_token_pallet =
  NativeScripts :: "native_scripts option"
  Initialized :: bool

datatype native_call = TransferTokens u128 | SetNativeScripts bytes bytes bytes

datatype native_inherent_error =
  TokenTransferNotHandled u128
| IncorrectTokenNumberTransfered u128 u128
| UnexpectedTokenTransferInherent u128

type_synonym 'h transfer_handler = "u128 \<Rightarrow> 'h \<Rightarrow> ('h, unit) result"

definition native_genesis_build :: "native_scripts \<Rightarrow> native_token_pallet" where
  "native_genesis_build scripts = \<lparr> NativeScripts = Some scripts, Initialized = False \<rparr>"

definition get_transfered_tokens_from_inherent_data :: "u128 inherent_data \<Rightarrow> u128 option may_panic" where
  "get_transfered_tokens_from_inherent_data data = (case data of Ok d \<Rightarrow> Some d | _ \<Rightarrow> None)"

definition filter_option :: "('a \<Rightarrow> bool) \<Rightarrow> 'a option \<Rightarrow> 'a option" where
  "filter_option P x = (case x of Some a \<Rightarrow> if P a then Some a else None | None \<Rightarrow> None)"

definition native_create_inherent :: "u128 inherent_data \<Rightarrow> native_call option may_panic" where
  "native_create_inherent data =
     map_option (\<lambda>d. map_option TransferTokens (filter_option (\<lambda>amount. amount > 0) d))
       (get_transfered_tokens_from_inherent_data data)"

definition native_check_inherent ::
  "native_call \<Rightarrow> u128 inherent_data \<Rightarrow> (unit, native_inherent_error) result" where
  "native_check_inherent call data =
     (case call of
        TransferTokens actual_transfer \<Rightarrow>
          rbind (expect (get_transfered_tokens_from_inherent_data data)) (\<lambda>d.
            case d of
              Some expected_transfer \<Rightarrow>
                if expected_transfer \<noteq> actual_transfer
                then Err (IncorrectTokenNumberTransfered expected_transfer actual_transfer)
                else Ok ()
            | None \<Rightarrow> Err (UnexpectedTokenTransferInherent actual_transfer))
      | _ \<Rightarrow> Ok ())"

definition native_is_inherent :: "native_call \<Rightarrow> bool" where
  "native_is_inherent call = (case call of TransferTokens _ \<Rightarrow> True | _ \<Rightarrow> False)"

definition native_is_inherent_required :: "u128 inherent_data \<Rightarrow> native_inherent_error option may_panic" where
  "native_is_inherent_required data =
     map_option (\<lambda>d. map_option TokenTransferNotHandled (filter_option (\<lambda>amount. amount > 0) d))
       (get_transfered_tokens_from_inherent_data data)"

definition transfer_tokens ::
  "'h transfer_handler \<Rightarrow> 'acc origin \<Rightarrow> u128 \<Rightarrow> native_token_pallet \<times> 'h
    \<Rightarrow> (native_token_pallet \<times> 'h, unit dispatch_error) result" where
  "transfer_tokens handler origin token_amount = (\<lambda>(p, h).
     if origin \<noteq> NoneOrigin then Err BadOrigin
     else if NativeScripts p = None then Panic
     else map_err (\<lambda>_. Module ()) (rbind (handler token_amount h) (\<lambda>h'. Ok (p \<lparr> Initialized := True \<rparr>, h'))))"

definition native_set_main_chain_scripts ::
  "'acc origin \<Rightarrow> bytes \<Rightarrow> bytes \<Rightarrow> bytes \<Rightarrow> native_token_pallet \<times> 'h
    \<Rightarrow> (native_token_pallet \<times> 'h, unit dispatch_error) result" where
  "native_set_main_chain_scripts origin policy_id asset_name address = (\<lambda>(p, h).
     if origin \<noteq> RootOrigin then Err BadOrigin
     else Ok (p \<lparr> NativeScripts := Some \<lparr> native_token_policy_id = policy_id,
       native_token_asset_name = asset_name, illiquid_supply_validator_address = address \<rparr> \<rparr>, h))"

definition native_dispatch ::
  "'h transfer_handler \<Rightarrow> 'acc origin \<Rightarrow> native_call \<Rightarrow> native_token_pallet \<times> 'h
    \<Rightarrow> (native_token_pallet \<times> 'h, unit dispatch_error) result" where
  "native_dispatch handler origin call s =
     (case call of
        TransferTokens token_amount \<Rightarrow> transfer_tokens handler origin token_amount s
      | SetNativeScripts policy_id asset_name address \<Rightarrow>
          native_set_main_chain_scripts origin policy_id asset_name address s)"

definition native_get_main_chain_scripts :: "native_token_pallet \<Rightarrow> native_scripts option" where
  "native_get_main_chain_scripts p = NativeScripts p"

definition native_initialized :: "native_token_pallet \<Rightarrow> bool" where
  "native_initialized p = Initialized p"

section \<open>The inherent data provider\<close>

datatype ('e, 'api, 'h) idp_creation_error = DataSourceError 'e | ApiError 'api | McHashError 'h

type_synonym ('hash, 'e) transfer_source = "'hash option \<Rightarrow> 'hash \<Rightarrow> native_scripts \<Rightarrow> (u128, 'e) result"

definition native_idp_new ::
  "(native_scripts option, 'api) result \<Rightarrow> (bool, 'api) result \<Rightarrow> ('hash option, 'h) result
    \<Rightarrow> ('hash, 'e) transfer_source \<Rightarrow> 'hash \<Rightarrow> (u128 option, ('e, 'api, 'h) idp_creation_error) result" where
  "native_idp_new api_scripts api_initialized mc_hash_for_parent source mc_hash =
     rbind (map_err ApiError api_scripts) (\<lambda>scripts_opt.
       case scripts_opt of
         None \<Rightarrow> Ok None
       | Some scripts \<Rightarrow>
           rbind (map_err ApiError api_initialized) (\<lambda>init.
           rbind (if init then map_err McHashError mc_hash_for_parent else Ok None) (\<lambda>parent_mc_hash.
           rbind (map_err DataSourceError (source parent_mc_hash mc_hash scripts)) (\<lambda>token_amount.
             Ok (if token_amount > 0 then Some token_amount else None)))))"

definition native_idp_new_if_pallet_present ::
  "(bool, 'api) result \<Rightarrow> (native_scripts option, 'api) result \<Rightarrow> (bool, 'api) result
    \<Rightarrow> ('hash option, 'h) result \<Rightarrow> ('hash, 'e) transfer_source \<Rightarrow> 'hash
    \<Rightarrow> (u128 option, ('e, 'api, 'h) idp_creation_error) result" where
  "native_idp_new_if_pallet_present api_present api_scripts api_initialized mc_hash_for_parent source mc_hash =
     rbind (map_err ApiError api_present) (\<lambda>present.
       if present then native_idp_new api_scripts api_initialized mc_hash_for_parent source mc_hash
       else Ok None)"

definition native_provide_inherent_data :: "u128 option \<Rightarrow> u128 inherent_data" where
  "native_provide_inherent_data token_amount = Ok token_amount"

section \<open>Creating and checking transfers\<close>

lemma filter_option_eq_Some [simp]: "filter_option P x = Some a \<longleftrightarrow> x = Some a \<and> P a"
  by (auto simp: filter_option_def split: option.splits)

lemma transfer_tokens_Ok:
  "transfer_tokens handler orig amount (p, h) = Ok (p', h') \<longleftrightarrow>
     orig = NoneOrigin \<and> NativeScripts p \<noteq> None \<and> p' = p \<lparr> Initialized := True \<rparr> \<and> handler amount h = Ok h'"
  by (auto simp: transfer_tokens_def)

lemma native_check_inherent_transfer:
  "native_check_inherent (TransferTokens a) data = Ok () \<longleftrightarrow> data = Ok (Some a)"
  by (auto simp: native_check_inherent_def get_transfered_tokens_from_inherent_data_def
      split: result.splits option.splits)

lemma native_create_inherent_transfer:
  "native_create_inherent data = Some (Some call) \<longleftrightarrow>
     (\<exists>a. data = Ok (Some a) \<and> a > 0 \<and> call = TransferTokens a)"
  by (auto simp: native_create_inherent_def get_transfered_tokens_from_inherent_data_def
      split: result.splits)

end
