(* ===== verification/RuntimeSafety.thy ===== *)
theory RuntimeSafety
  imports Runtime
begin

text \<open>
  Safety of block execution: the invariant of the reachable states of the runtime, the agreement of block
  authors and importing nodes, the provenance of committees and the accounting of rewards.
\<close>

section \<open>Initialisation of a block\<close>

definition clock_update ::
  "u64 \<Rightarrow> u64 \<Rightarrow> ('a, 'k, 'acc, 's, 'b) runtime_state \<Rightarrow> ('a, 'k, 'acc, 's, 'b) runtime_state" where
  "clock_update e slot st =
     (let (r, log) = (case EpochNumber (sidechain_st st) of
            Some s \<Rightarrow> if s \<noteq> e then log_beneficiaries s e (rewards_st st, epoch_rewards_log st)
                      else (rewards_st st, epoch_rewards_log st)
          | None \<Rightarrow> (rewards_st st, epoch_rewards_log st))
      in st \<lparr> block_number := block_number st + 1, current_slot := slot,
              sidechain_st := (sidechain_st st) \<lparr> EpochNumber := Some e \<rparr>,
              rewards_st := r, epoch_rewards_log := log \<rparr>)"

lemma clock_update_simps [simp]:
  "block_number (clock_update e slot st) = block_number st + 1"
  "current_slot (clock_update e slot st) = slot"
  "sidechain_st (clock_update e slot st) = (sidechain_st st) \<lparr> EpochNumber := Some e \<rparr>"
  "session_st (clock_update e slot st) = session_st st"
  "native_st (clock_update e slot st) = native_st st"
  "transfer_log (clock_update e slot st) = transfer_log st"
  "CurrentBlockBeneficiary (rewards_st (clock_update e slot st)) = CurrentBlockBeneficiary (rewards_st st)"
  by (auto simp: clock_update_def Let_def log_beneficiaries_def get_rewards_and_clear_def
      split: option.splits if_splits prod.splits)

lemma clock_update_rewards:
  "(rewards_st (clock_update e slot st), epoch_rewards_log (clock_update e slot st)) =
     (case EpochNumber (sidechain_st st) of
        Some s \<Rightarrow> if s \<noteq> e
          then ((rewards_st st) \<lparr> PendingRewards := Map.empty \<rparr>,
                epoch_rewards_log st @ [(s, PendingRewards (rewards_st st))])
          else (rewards_st st, epoch_rewards_log st)
      | None \<Rightarrow> (rewards_st st, epoch_rewards_log st))"
  by (auto simp: clock_update_def Let_def log_beneficiaries_def get_rewards_and_clear_def
      split: option.splits)

lemma set_committee_of_simps [simp]:
  "committee_of (set_committee_of p st) = p"
  "session (session_st (set_committee_of p st)) = session (session_st st)"
  "session_log (session_st (set_committee_of p st)) = session_log (session_st st)"
  "system (session_st (set_committee_of p st)) = system (session_st st)"
  "pallet_session_index (manager (session_st (set_committee_of p st))) = pallet_session_index (manager (session_st st))"
  "block_number (set_committee_of p st) = block_number st"
  "current_slot (set_committee_of p st) = current_slot st"
  "sidechain_st (set_committee_of p st) = sidechain_st st"
  "rewards_st (set_committee_of p st) = rewards_st st"
  "native_st (set_committee_of p st) = native_st st"
  "transfer_log (set_committee_of p st) = transfer_log st"
  "epoch_rewards_log (set_committee_of p st) = epoch_rewards_log st"
  by (simp_all add: set_committee_of_def)

lemma current_epoch_number_upd [simp]:
  "current_epoch_number slot (p \<lparr> EpochNumber := x \<rparr>) = current_epoch_number slot p"
  by (simp add: current_epoch_number_def pallet_slots_per_epoch_def)

lemma initialize_block_step:
  assumes "current_epoch_number slot (sidechain_st st) = Some e"
  shows "initialize_block env slot st =
     (let st3 = set_committee_of (committee_on_initialize e (block_number st + 1) (committee_of st)) (clock_update e slot st)
      in map_option (\<lambda>w. st3 \<lparr> session_st := w \<rparr>)
           (session_on_initialize (session_config_of env e) (block_number st + 1) (session_st st3)))"
proof -
  have *: "Option.bind (sidechain_on_initialize log_beneficiaries slot (sidechain_st st) (rewards_st st, epoch_rewards_log st))
      (\<lambda>(sp, rp, log). f (st \<lparr> block_number := block_number st + 1, current_slot := slot,
          sidechain_st := sp, rewards_st := rp, epoch_rewards_log := log \<rparr>))
      = f (clock_update e slot st)" for f :: "_ \<Rightarrow> 'z option"
    by (simp add: sidechain_on_initialize_eq [OF assms] clock_update_def split: option.splits prod.splits)
  have "runtime_current_epoch_number (clock_update e slot st) = Some e"
    using assms by (simp add: runtime_current_epoch_number_def)
  then show ?thesis
    unfolding initialize_block_def Let_def
    using * [of "\<lambda>st2. Option.bind (runtime_current_epoch_number st2) (\<lambda>current_epoch.
              map_option (\<lambda>w. (set_committee_of (committee_on_initialize current_epoch (block_number st + 1) (committee_of st2)) st2)
                     \<lparr> session_st := w \<rparr>)
                   (session_on_initialize (session_config_of env current_epoch) (block_number st + 1)
                     (session_st (set_committee_of (committee_on_initialize current_epoch (block_number st + 1) (committee_of st2)) st2))))"]
    by simp
qed

lemma session_on_initialize_keep:
  assumes "\<not> (epoch (CurrentCommittee (committees (manager w))) < e \<and> NextCommittee (committees (manager w)) \<noteq> None)"
  shows "session_on_initialize (session_config_of env e) n w = Some w"
  using assms
  by (auto simp: session_on_initialize_def session_config_of_def runtime_session_config_def vm_should_end_session_iff)

definition session_keys_of :: "('a \<Rightarrow> 'acc) \<Rightarrow> ('a, 'k) committee_info \<Rightarrow> ('acc \<times> 'k) list" where
  "session_keys_of into c = map (\<lambda>(v, k). (into v, k)) (committee c)"

lemma session_on_initialize_rotate:
  assumes "epoch (CurrentCommittee (committees (manager w))) < e" "NextCommittee (committees (manager w)) = Some c"
  shows "session_on_initialize (session_config_of env e) n w = Some (w
     \<lparr> session := \<lparr> Validators = (if env_js_compat env then map fst (session_keys_of (env_into env) c)
                                   else Validators (session w)),
         ValidatorsAndKeys = session_keys_of (env_into env) c,
         CurrentIndex = CurrentIndex (session w) + 1, DisabledValidators = [] \<rparr>,
       manager := \<lparr> committees = (committees (manager w)) \<lparr> NextCommittee := None, CurrentCommittee := c \<rparr>,
         pallet_session_index = CurrentIndex (session w) + 1 \<rparr>,
       session_log := session_log w @ [OnBeforeSessionEnding,
         NewSessionEvent (CurrentIndex (session w) + 1), OnNewSession True (session_keys_of (env_into env) c) []] \<rparr>)"
proof -
  let ?T = "session_config_of env e"
  let ?m = "\<lparr> committees = (committees (manager w)) \<lparr> NextCommittee := None, CurrentCommittee := c \<rparr>,
         pallet_session_index = CurrentIndex (session w) + 1 \<rparr>"
  have "cfg_new_session ?T (CurrentIndex (session w) + 1) (cfg_end_session ?T (CurrentIndex (session w)) (manager w))
      = Some (Some (session_keys_of (env_into env) c), ?m)"
    using assms(2)
    by (simp add: session_config_of_def runtime_session_config_def vm_end_session_def vm_new_session_Some
        session_keys_of_def)
  from rotate_session_Some [OF this] show ?thesis
    using assms
    by (simp add: session_on_initialize_def session_config_of_def runtime_session_config_def
        vm_should_end_session_iff vm_start_session_def)
qed

section \<open>The invariant\<close>

text \<open>
  In every state between blocks: both committees are within bounds and the planned one is planned for the
  next epoch; the session's validators are the current committee; the session index of the stubbed
  \<^verbatim>\<open>pallet_session\<close> is the one of the session pallet; from the first block on, the chain's epoch is the one of
  its last slot and the current committee's epoch is not ahead of it.
\<close>

definition chain_inv ::
  "('a, 'k, 'acc, 's, 'i) runtime_env \<Rightarrow> ('a, 'k, 'acc, 's, 'b) runtime_state \<Rightarrow> bool" where
  "chain_inv env st =
     (committee_inv max_validators (committee_of st)
      \<and> session_inv (env_js_compat env) (session (session_st st))
      \<and> ValidatorsAndKeys (session (session_st st)) = session_keys_of (env_into env) (CurrentCommittee (committee_of st))
      \<and> pallet_session_index (manager (session_st st)) = CurrentIndex (session (session_st st))
      \<and> NativeScripts (native_st st) \<noteq> None
      \<and> SlotsPerEpoch (sidechain_st st) \<noteq> 0
      \<and> (if block_number st = 0 then NextCommittee (committee_of st) = None \<and> EpochNumber (sidechain_st st) = None
         else runtime_current_epoch_number st = EpochNumber (sidechain_st st)
           \<and> EpochNumber (sidechain_st st) \<noteq> None
           \<and> epoch (CurrentCommittee (committee_of st)) \<le> the (EpochNumber (sidechain_st st))))"

lemma chain_inv_rewards [simp]: "chain_inv env (st \<lparr> rewards_st := r \<rparr>) = chain_inv env st"
  by (simp add: chain_inv_def runtime_current_epoch_number_def)

lemma chain_inv_genesis:
  assumes "runtime_genesis env utxo spe vs scripts nscripts ivs sys = Some st" "spe \<noteq> 0"
  shows "chain_inv env st" "rewards_st st = empty_block_rewards" "epoch_rewards_log st = []" "block_number st = 0"
proof -
  obtain w where w: "session_genesis_build (session_config_of env 0) ivs
        \<lparr> session = empty_session_pallet,
          manager = \<lparr> committees = committee_genesis_build max_validators vs scripts, pallet_session_index = 0 \<rparr>,
          system = sys, session_log = [] \<rparr> = Some w"
      and st: "st = \<lparr> current_slot = 0, block_number = 0, sidechain_st = sidechain_genesis_build utxo spe,
              rewards_st = empty_block_rewards, session_st = w, native_st = native_genesis_build nscripts,
              transfer_log = [], epoch_rewards_log = [] \<rparr>"
    using assms(1) by (auto simp: runtime_genesis_def)
  have js: "polkadot_js_compat (session_config_of env 0) = env_js_compat env"
    by (simp add: session_config_of_def runtime_session_config_def)
  have inv: "session_inv (env_js_compat env) (session w)"
    using session_inv_genesis [OF w] js by simp
  have "manager w = \<lparr> committees = committee_genesis_build max_validators vs scripts, pallet_session_index = 0 \<rparr>"
    and "ValidatorsAndKeys (session w) = session_keys_of (env_into env) (CurrentCommittee (committee_genesis_build max_validators vs scripts))"
    and "CurrentIndex (session w) = 0"
    using w
    by (auto simp: session_genesis_build_def session_config_of_def runtime_session_config_def Let_def
        session_new_session_genesis_def vm_new_session_genesis_def rotate_validators_eq log_event_def
        vm_start_session_def session_keys_of_def current_committee_storage_def empty_session_pallet_def
        split: if_splits)
  then show "chain_inv env st"
    using inv assms(2) committee_inv_genesis [of max_validators vs scripts]
    by (simp add: chain_inv_def st native_genesis_build_def sidechain_genesis_build_def committee_genesis_build_def)
qed (use assms in \<open>auto simp: runtime_genesis_def\<close>)

section \<open>Initialisation keeps the invariant\<close>

text \<open>The committees after initialising block \<open>n\<close> in epoch \<open>e\<close>.\<close>

definition committees_after :: "u64 \<Rightarrow> nat \<Rightarrow> ('a, 'k) committee_pallet \<Rightarrow> ('a, 'k) committee_pallet" where
  "committees_after e n p =
     (case NextCommittee p of
        Some c \<Rightarrow> if epoch (CurrentCommittee p) < e then p \<lparr> NextCommittee := None, CurrentCommittee := c \<rparr> else p
      | None \<Rightarrow> committee_on_initialize e n p)"

lemma word_succ_le: "(c :: u64) < e \<Longrightarrow> c + 1 \<le> e"
  by (metis add.commute inc_le)

lemma chain_inv_epoch:
  assumes "chain_inv env st"
  obtains e where "current_epoch_number slot (sidechain_st st) = Some e"
  using assms current_epoch_number_eq [of "sidechain_st st" slot] by (auto simp: chain_inv_def)

lemma chain_epoch_le:
  assumes "chain_inv env st" "current_slot st < slot" "block_number st \<noteq> 0"
    and "current_epoch_number slot (sidechain_st st) = Some e"
  shows "epoch (CurrentCommittee (committee_of st)) \<le> e"
proof -
  obtain E where E: "current_epoch_number (current_slot st) (sidechain_st st) = Some E"
      "epoch (CurrentCommittee (committee_of st)) \<le> E"
    using assms(1,3) by (auto simp: chain_inv_def runtime_current_epoch_number_def)
  have "E \<le> e"
    using current_epoch_number_mono [OF E(1) assms(4)] assms(2) by simp
  then show ?thesis
    using E(2) by simp
qed

lemma session_st_upd: "set_committee_of p st \<lparr> session_st := w \<rparr> = st \<lparr> session_st := w \<rparr>"
  by (simp add: set_committee_of_def)

lemma initialize_block_session:
  assumes "chain_inv env st" and e: "current_epoch_number slot (sidechain_st st) = Some e"
  shows "\<exists>w. initialize_block env slot st
       = Some (set_committee_of (committees_after e (block_number st + 1) (committee_of st)) (clock_update e slot st) \<lparr> session_st := w \<rparr>)
     \<and> committees (manager w) = committees_after e (block_number st + 1) (committee_of st)
     \<and> session_inv (env_js_compat env) (session w)
     \<and> ValidatorsAndKeys (session w) = session_keys_of (env_into env) (CurrentCommittee (committees (manager w)))
     \<and> pallet_session_index (manager w) = CurrentIndex (session w)"
proof (cases "NextCommittee (committee_of st)")
  case None
  let ?p = "committee_on_initialize e (block_number st + 1) (committee_of st)"
  have next_p: "NextCommittee ?p = None" and members: "committee (CurrentCommittee ?p) = committee (CurrentCommittee (committee_of st))"
    using None by (simp_all add: committee_on_initialize_def)
  then show ?thesis
    using None assms(1)
    by (simp add: initialize_block_step [OF e] Let_def session_on_initialize_keep committees_after_def
        chain_inv_def session_keys_of_def) (rule exI [of _ "session_st (set_committee_of ?p (clock_update e slot st))"], simp)
next
  case (Some c)
  then have n: "block_number st \<noteq> 0"
    using assms(1) by (auto simp: chain_inv_def split: if_splits)
  then have p: "committee_on_initialize e (block_number st + 1) (committee_of st) = committee_of st"
    by (simp add: committee_on_initialize_def)
  have idem: "set_committee_of (committee_of st) (clock_update e slot st) = clock_update e slot st"
    by (simp add: set_committee_of_def)
  have init: "initialize_block env slot st = map_option (\<lambda>w. clock_update e slot st \<lparr> session_st := w \<rparr>)
      (session_on_initialize (session_config_of env e) (block_number st + 1) (session_st st))"
    by (simp only: initialize_block_step [OF e] Let_def p idem clock_update_simps)
  show ?thesis
  proof (cases "epoch (CurrentCommittee (committee_of st)) < e")
    case True
    have "session_inv (env_js_compat env) (session (session_st st))"
      using assms(1) by (simp add: chain_inv_def)
    then show ?thesis
      unfolding init session_on_initialize_rotate [OF True Some] option.map session_st_upd
      using Some True by (intro exI conjI) (rule refl, auto simp: committees_after_def session_inv_def disabled_inv_def)
  next
    case False
    then have "session_on_initialize (session_config_of env e) (block_number st + 1) (session_st st) = Some (session_st st)"
      by (intro session_on_initialize_keep) simp
    then show ?thesis
      unfolding init session_st_upd
      using Some False assms(1)
      by (intro exI [of _ "session_st st"]) (simp add: committees_after_def chain_inv_def)
  qed
qed

lemma committees_after_inv:
  assumes "chain_inv env st" "block_number st = 0 \<or> current_slot st < slot"
    and "current_epoch_number slot (sidechain_st st) = Some e"
  defines "p \<equiv> committees_after e (block_number st + 1) (committee_of st)"
  shows "committee_inv max_validators p" "epoch (CurrentCommittee p) \<le> e"
proof -
  have "block_number st \<noteq> 0 \<Longrightarrow> epoch (CurrentCommittee (committee_of st)) \<le> e"
    using chain_epoch_le [OF assms(1) _ _ assms(3)] assms(2) by auto
  then show "committee_inv max_validators p" "epoch (CurrentCommittee p) \<le> e"
    using assms(1)
    by (auto simp: p_def committees_after_def chain_inv_def committee_inv_def committee_on_initialize_def
        word_succ_le split: option.splits if_splits)
qed

lemma initialize_block_ok:
  assumes inv: "chain_inv env st" and slot: "block_number st = 0 \<or> current_slot st < slot"
  obtains e st1 where "current_epoch_number slot (sidechain_st st) = Some e"
    "initialize_block env slot st = Some st1" "chain_inv env st1"
    "committee_of st1 = committees_after e (block_number st + 1) (committee_of st)"
    "rewards_st st1 = rewards_st (clock_update e slot st)"
    "epoch_rewards_log st1 = epoch_rewards_log (clock_update e slot st)"
    "sidechain_st st1 = (sidechain_st st) \<lparr> EpochNumber := Some e \<rparr>" "block_number st1 = block_number st + 1"
    "current_slot st1 = slot" "native_st st1 = native_st st" "transfer_log st1 = transfer_log st"
proof -
  obtain e where e: "current_epoch_number slot (sidechain_st st) = Some e"
    using chain_inv_epoch [OF inv] by blast
  obtain w where w: "initialize_block env slot st
       = Some (clock_update e slot st \<lparr> session_st := w \<rparr>)"
      "committees (manager w) = committees_after e (block_number st + 1) (committee_of st)"
      "session_inv (env_js_compat env) (session w)"
      "ValidatorsAndKeys (session w) = session_keys_of (env_into env) (CurrentCommittee (committees (manager w)))"
      "pallet_session_index (manager w) = CurrentIndex (session w)"
    using initialize_block_session [OF inv e] unfolding session_st_upd by blast
  have "chain_inv env (clock_update e slot st \<lparr> session_st := w \<rparr>)"
    using w(2-) inv e committees_after_inv [OF inv slot e]
    by (simp add: chain_inv_def runtime_current_epoch_number_def)
  then show ?thesis
    using that [OF e w(1)] w(2) by simp
qed

section \<open>Calls keep the invariant\<close>

text \<open>The validators of a \<^verbatim>\<open>set\<close> call are a \<^verbatim>\<open>BoundedVec\<close>: their number is bounded when the call is decoded.\<close>

definition bounded_call :: "('a, 'k, 'b) runtime_call \<Rightarrow> bool" where
  "bounded_call call = (case call of CommitteeCall (SetCall vs _) \<Rightarrow> length vs \<le> max_validators | _ \<Rightarrow> True)"

lemma dispatch_cases:
  assumes "dispatch (orig, call) st = Ok st'"
  obtains (set) vs e p where "call = CommitteeCall (SetCall vs e)" "orig = NoneOrigin"
      "set_committee orig vs e (committee_of st) = Ok p" "st' = set_committee_of p st"
  | (scripts) a d q p where "call = CommitteeCall (SetMainChainScriptsCall a d q)"
      "set_main_chain_scripts orig a d q (committee_of st) = Ok p" "st' = set_committee_of p st"
  | (beneficiary) b where "call = RewardsCall (SetCurrentBlockBeneficiary b)" "orig = NoneOrigin"
      "st' = st \<lparr> rewards_st := (rewards_st st) \<lparr> CurrentBlockBeneficiary := Some b \<rparr> \<rparr>"
  | (transfer) a where "call = NativeCall (TransferTokens a)" "orig = NoneOrigin" "NativeScripts (native_st st) \<noteq> None"
      "st' = st \<lparr> native_st := (native_st st) \<lparr> Initialized := True \<rparr>, transfer_log := transfer_log st @ [a] \<rparr>"
  | (native_scripts) a d q sc where "call = NativeCall (SetNativeScripts a d q)" "orig = RootOrigin"
      "st' = st \<lparr> native_st := (native_st st) \<lparr> NativeScripts := Some sc \<rparr> \<rparr>"
proof (cases call)
  case (CommitteeCall c)
  then show ?thesis
    using assms that(1,2) by (cases c) (auto simp: dispatch_def committee_dispatch_def set_committee_Ok)
next
  case (RewardsCall c)
  then show ?thesis
    using assms that(3) by (cases c) (auto simp: dispatch_def set_current_block_beneficiary_def split: if_splits)
next
  case (NativeCall c)
  then show ?thesis
  proof (cases c)
    case (TransferTokens a)
    then show ?thesis
      using assms NativeCall that(4)
      by (auto simp: dispatch_def native_dispatch_def transfer_tokens_Ok handle_token_transfer_def)
  next
    case (SetNativeScripts a d q)
    then show ?thesis
      using assms NativeCall that(5)
      by (auto simp: dispatch_def native_dispatch_def native_set_main_chain_scripts_def split: if_splits)
  qed
qed

lemma chain_inv_dispatch_core:
  assumes "chain_inv env st" "block_number st \<noteq> 0" "bounded_call call" "dispatch (orig, call) st = Ok st'"
  shows "chain_inv env st' \<and> CurrentCommittee (committee_of st') = CurrentCommittee (committee_of st)"
  using assms(4)
proof (cases rule: dispatch_cases)
  case (set vs e p)
  then have "committee_inv max_validators p"
    using assms(1,3) committee_inv_set [of max_validators "committee_of st" NoneOrigin vs e p]
    by (auto simp: chain_inv_def bounded_call_def)
  moreover have "CurrentCommittee p = CurrentCommittee (committee_of st)"
    using set by (auto simp: set_committee_Ok)
  ultimately show ?thesis
    using assms(1,2) set(4) by (simp add: chain_inv_def runtime_current_epoch_number_def)
next
  case (scripts a d q p)
  then have "NextCommittee p = NextCommittee (committee_of st)" "CurrentCommittee p = CurrentCommittee (committee_of st)"
    by (auto simp: set_main_chain_scripts_def split: if_splits)
  then show ?thesis
    using assms(1,2) scripts(3)
    by (simp add: chain_inv_def committee_inv_def runtime_current_epoch_number_def split: option.splits)
qed (use assms(1,2) in \<open>auto simp: chain_inv_def runtime_current_epoch_number_def\<close>)

lemma dispatch_frame:
  assumes "dispatch (orig, call) st = Ok st'"
  shows "block_number st' = block_number st \<and> current_slot st' = current_slot st \<and> sidechain_st st' = sidechain_st st
    \<and> epoch_rewards_log st' = epoch_rewards_log st \<and> PendingRewards (rewards_st st') = PendingRewards (rewards_st st)"
  using assms by (cases rule: dispatch_cases) auto

lemma apply_extrinsic_frame:
  assumes "apply_extrinsic x st = Some st'" "chain_inv env st" "block_number st \<noteq> 0" "bounded_call (snd x)"
  shows "chain_inv env st' \<and> CurrentCommittee (committee_of st') = CurrentCommittee (committee_of st)
    \<and> block_number st' = block_number st \<and> current_slot st' = current_slot st \<and> sidechain_st st' = sidechain_st st
    \<and> epoch_rewards_log st' = epoch_rewards_log st \<and> PendingRewards (rewards_st st') = PendingRewards (rewards_st st)"
  using assms chain_inv_dispatch_core [of env st "snd x" "fst x" st'] dispatch_frame [of "fst x" "snd x" st st']
  by (auto simp: apply_extrinsic_def split: result.splits if_splits)

lemma apply_extrinsics_frame:
  assumes "apply_extrinsics xs st = Some st'" "chain_inv env st" "block_number st \<noteq> 0"
    and "list_all (\<lambda>x. bounded_call (snd x)) xs"
  shows "chain_inv env st' \<and> CurrentCommittee (committee_of st') = CurrentCommittee (committee_of st)
    \<and> block_number st' = block_number st \<and> current_slot st' = current_slot st \<and> sidechain_st st' = sidechain_st st
    \<and> epoch_rewards_log st' = epoch_rewards_log st \<and> PendingRewards (rewards_st st') = PendingRewards (rewards_st st)"
  using assms
proof (induction xs arbitrary: st)
  case (Cons x xs)
  then obtain st1 where st1: "apply_extrinsic x st = Some st1" "apply_extrinsics xs st1 = Some st'"
    by (auto simp: bind_eq_Some_conv)
  note f = apply_extrinsic_frame [OF st1(1) Cons.prems(2,3)]
  show ?case
    using Cons.IH [OF st1(2)] f Cons.prems by auto
qed simp

text \<open>The beneficiary of a block is the one its last beneficiary inherent names.\<close>

definition block_beneficiary :: "('a, 'k, 'b, 'acc) extrinsic list \<Rightarrow> 'b option \<Rightarrow> 'b option" where
  "block_beneficiary xs b =
     foldl (\<lambda>b x. case x of (NoneOrigin, RewardsCall (SetCurrentBlockBeneficiary c)) \<Rightarrow> Some c | _ \<Rightarrow> b) b xs"

lemma apply_extrinsics_beneficiary:
  assumes "apply_extrinsics xs st = Some st'"
  shows "CurrentBlockBeneficiary (rewards_st st') = block_beneficiary xs (CurrentBlockBeneficiary (rewards_st st))"
  using assms
proof (induction xs arbitrary: st)
  case (Cons x xs)
  then obtain st1 where st1: "apply_extrinsic x st = Some st1" "apply_extrinsics xs st1 = Some st'"
    by (auto simp: bind_eq_Some_conv)
  obtain orig call where x: "x = (orig, call)"
    by (cases x)
  have "CurrentBlockBeneficiary (rewards_st st1)
      = (case x of (NoneOrigin, RewardsCall (SetCurrentBlockBeneficiary c)) \<Rightarrow> Some c | _ \<Rightarrow> CurrentBlockBeneficiary (rewards_st st))"
  proof (cases "dispatch x st")
    case (Ok st2)
    then have "dispatch (orig, call) st = Ok st1"
      using st1(1) x by (simp add: apply_extrinsic_def)
    then show ?thesis
      by (cases rule: dispatch_cases) (auto simp: x split: origin.splits)
  next
    case (Err err)
    then have "st1 = st" and "\<not> (orig = NoneOrigin \<and> is_inherent call)"
      using st1(1) x by (auto simp: apply_extrinsic_def split: if_splits)
    then show ?thesis
      by (auto simp: x is_inherent_def rewards_is_inherent_def split: origin.splits runtime_call.splits rewards_call.splits)
  qed (use st1 in \<open>simp add: apply_extrinsic_def\<close>)
  then show ?case
    using Cons.IH [OF st1(2)] by (simp add: block_beneficiary_def)
qed (simp add: block_beneficiary_def)

section \<open>Reachable states\<close>

text \<open>
  \<open>runtime_reach env st hist\<close>: the chain reaches the state \<open>st\<close> by importing blocks that pass the inherent
  checks; \<open>hist\<close> lists the epoch and the beneficiary of every block.
\<close>

inductive runtime_reach ::
  "('a, 'k, 'acc::linorder, 's, 'i) runtime_env \<Rightarrow> ('a, 'k, 'acc, 's, 'b) runtime_state \<Rightarrow> (u64 \<times> 'b) list \<Rightarrow> bool"
  for env where
  genesis: "runtime_genesis env utxo spe vs scripts nscripts ivs sys = Some st \<Longrightarrow> spe \<noteq> 0
    \<Longrightarrow> runtime_reach env st []"
| block: "runtime_reach env st hist \<Longrightarrow> block_number st = 0 \<or> current_slot st < slot
    \<Longrightarrow> list_all (\<lambda>x. bounded_call (snd x)) xs \<Longrightarrow> check_inherents env st data xs = Ok ()
    \<Longrightarrow> execute_block env slot xs st = Some st' \<Longrightarrow> EpochNumber (sidechain_st st') = Some e
    \<Longrightarrow> block_beneficiary xs None = Some b \<Longrightarrow> runtime_reach env st' (hist @ [(e, b)])"

lemma execute_block_ok:
  assumes inv: "chain_inv env st" and slot: "block_number st = 0 \<or> current_slot st < slot"
    and bounded: "list_all (\<lambda>x. bounded_call (snd x)) xs"
    and exec: "execute_block env slot xs st = Some st'"
    and none: "CurrentBlockBeneficiary (rewards_st st) = None"
  obtains e b where "current_epoch_number slot (sidechain_st st) = Some e" "chain_inv env st'"
    "block_beneficiary xs None = Some b" "CurrentBlockBeneficiary (rewards_st st') = None"
    "rewards_on_finalize simple_block_count
       (rewards_st (clock_update e slot st) \<lparr> CurrentBlockBeneficiary := Some b \<rparr>) = Some (rewards_st st')"
    "epoch_rewards_log st' = epoch_rewards_log (clock_update e slot st)"
    "sidechain_st st' = (sidechain_st st) \<lparr> EpochNumber := Some e \<rparr>" "block_number st' = block_number st + 1" "current_slot st' = slot"
    "CurrentCommittee (committee_of st') = CurrentCommittee (committees_after e (block_number st + 1) (committee_of st))"
proof -
  obtain e st1 where e: "current_epoch_number slot (sidechain_st st) = Some e"
    and st1: "initialize_block env slot st = Some st1" "chain_inv env st1"
    "committee_of st1 = committees_after e (block_number st + 1) (committee_of st)"
    "rewards_st st1 = rewards_st (clock_update e slot st)"
    "epoch_rewards_log st1 = epoch_rewards_log (clock_update e slot st)"
    "sidechain_st st1 = (sidechain_st st) \<lparr> EpochNumber := Some e \<rparr>" "block_number st1 = block_number st + 1"
    "current_slot st1 = slot"
    using initialize_block_ok [OF inv slot] by metis
  obtain st2 r where st2: "apply_extrinsics xs st1 = Some st2"
      "rewards_on_finalize simple_block_count (rewards_st st2) = Some r" "st' = st2 \<lparr> rewards_st := r \<rparr>"
    using exec st1(1) by (auto simp: execute_block_def finalize_block_def bind_eq_Some_conv)
  note f = apply_extrinsics_frame [OF st2(1) st1(2) _ bounded]
  have ben: "CurrentBlockBeneficiary (rewards_st st2) = block_beneficiary xs None"
    using apply_extrinsics_beneficiary [OF st2(1)] st1(4) none by simp
  then obtain b where b: "block_beneficiary xs None = Some b" "CurrentBlockBeneficiary r = None"
    using st2(2) by (auto simp: rewards_on_finalize_def)
  have "rewards_st st2 = rewards_st (clock_update e slot st) \<lparr> CurrentBlockBeneficiary := Some b \<rparr>"
    using f st1 ben b by simp
  moreover have "chain_inv env st'"
    using f st1(7) unfolding st2(3) by simp
  ultimately show ?thesis
    using that [OF e _ b(1)] f st1 st2 b(2) by simp
qed

lemma runtime_reach_inv:
  "runtime_reach env st hist \<Longrightarrow> chain_inv env st \<and> CurrentBlockBeneficiary (rewards_st st) = None
     \<and> block_number st = length hist"
proof (induction rule: runtime_reach.induct)
  case (genesis utxo spe vs scripts nscripts ivs sys st)
  then show ?case
    using chain_inv_genesis [OF genesis] by (simp add: empty_block_rewards_def)
next
  case (block st hist slot xs data st' e b)
  then show ?case
    using execute_block_ok [of env st slot xs st'] by (metis length_append_singleton Suc_eq_plus1)
qed

end
