(* ===== verification/RuntimeAgreement.thy ===== *)
theory RuntimeAgreement
  imports RuntimeSafety
begin

text \<open>
  Block authors and importing nodes: the inherents an author creates are accepted, a committee that lags behind
  catches up, and no author can plan a committee other than the one every node computes.
\<close>

section \<open>Authors and importing nodes agree\<close>

text \<open>
  Complete inherent data: every provider of the node put its data, and the selection, run on the committee
  inputs, does not panic and respects the bound of its result type.
\<close>

definition complete_data ::
  "('a, 'k, 'acc, 's, 'i) runtime_env \<Rightarrow> ('i, 'b) block_inherent_data \<Rightarrow> bool" where
  "complete_data env data =
     ((\<exists>i. committee_data data = Ok (Some i)
        \<and> (\<forall>g e. \<exists>r. env_select env g i e = Some r \<and> (\<forall>vs. r = Some vs \<longrightarrow> length vs \<le> max_validators)))
      \<and> (\<exists>b. beneficiary_data data = Ok (Some b)) \<and> (\<exists>d. token_data data = Ok d))"

lemma committees_after_next: "NextCommittee p = None \<Longrightarrow> NextCommittee (committees_after e n p) = None"
  by (simp add: committees_after_def committee_on_initialize_def)

text \<open>The members an author falls back to are those an importing node falls back to on the parent state.\<close>

lemma committees_after_fallback:
  "NextCommittee (committees_after e n p) = None \<Longrightarrow> committee (CurrentCommittee (committees_after e n p))
     = committee (case NextCommittee p of Some c \<Rightarrow> c | None \<Rightarrow> CurrentCommittee p)"
  by (auto simp: committees_after_def committee_on_initialize_def split: option.splits if_splits)

lemma committee_create_total:
  assumes "data = Ok (Some i)" "\<And>e. \<exists>r. select i e = Some r \<and> (\<forall>vs. r = Some vs \<longrightarrow> length vs \<le> m)"
    and "committee_inv m p"
  shows "(NextCommittee p \<noteq> None \<and> committee_create_inherent select p data = Some None) \<or>
     (NextCommittee p = None \<and> (\<exists>vs. length vs \<le> m
       \<and> committee_create_inherent select p data = Some (Some (SetCall vs (epoch (CurrentCommittee p) + 1)))))"
proof (cases "NextCommittee p")
  case None
  obtain r where "select i (epoch (CurrentCommittee p) + 1) = Some r" "\<forall>vs. r = Some vs \<longrightarrow> length vs \<le> m"
    using assms(2) by blast
  then show ?thesis
    using None assms(1,3)
    by (cases r) (auto simp: committee_create_inherent_def calculate_committee_from_inherent_data_def
        inherent_data_to_authority_selection_inputs_def committee_inv_def)
qed (simp add: committee_create_inherent_def)

lemma committee_create_check:
  assumes "committee_create_inherent select (committees_after e n p) data = Some (Some call)"
  shows "committee_check_inherent select p call data = Ok ()"
proof -
  let ?q = "committees_after e n p"
  have next_q: "NextCommittee ?q = None"
    using assms by (auto simp: committee_create_inherent_def split: if_splits)
  then obtain r where "calculate_committee_from_inherent_data select data (epoch (CurrentCommittee ?q) + 1) = Some r"
      "call = SetCall (case r of Some vs \<Rightarrow> vs | None \<Rightarrow> committee (CurrentCommittee ?q)) (epoch (CurrentCommittee ?q) + 1)"
    using assms by (auto simp: committee_create_inherent_def Let_def split: option.splits)
  then show ?thesis
    using committees_after_fallback [OF next_q] by (cases r) (auto simp: committee_check_inherent_def)
qed

lemma apply_set_call:
  "apply_extrinsic (NoneOrigin, CommitteeCall (SetCall vs (epoch (CurrentCommittee (committee_of st)) + 1))) st
     = Some (set_committee_of (committee_of st \<lparr> NextCommittee :=
         Some \<lparr> epoch = epoch (CurrentCommittee (committee_of st)) + 1, committee = vs \<rparr> \<rparr>) st)"
  by (simp add: apply_extrinsic_def dispatch_def committee_dispatch_def set_committee_def Let_def)

lemma apply_beneficiary:
  "apply_extrinsic (NoneOrigin, RewardsCall (SetCurrentBlockBeneficiary b)) st
     = Some (st \<lparr> rewards_st := (rewards_st st) \<lparr> CurrentBlockBeneficiary := Some b \<rparr> \<rparr>)"
  by (simp add: apply_extrinsic_def dispatch_def set_current_block_beneficiary_def)

lemma apply_transfer:
  "NativeScripts (native_st st) \<noteq> None \<Longrightarrow> apply_extrinsic (NoneOrigin, NativeCall (TransferTokens a)) st
     = Some (st \<lparr> native_st := (native_st st) \<lparr> Initialized := True \<rparr>, transfer_log := transfer_log st @ [a] \<rparr>)"
  by (auto simp: apply_extrinsic_def dispatch_def native_dispatch_def transfer_tokens_def handle_token_transfer_def)

definition inherent_calls ::
  "('a, 'k) committee_call option \<Rightarrow> 'b \<Rightarrow> u128 option \<Rightarrow> ('a, 'k, 'b) runtime_call list" where
  "inherent_calls c b d =
     (case c of Some call \<Rightarrow> [CommitteeCall call] | None \<Rightarrow> []) @ [RewardsCall (SetCurrentBlockBeneficiary b)]
     @ (case d of Some a \<Rightarrow> if a > 0 then [NativeCall (TransferTokens a)] else [] | None \<Rightarrow> [])"

text \<open>What an author creates from complete data.\<close>

lemma inherent_extrinsics_complete:
  assumes "complete_data env data" "chain_inv env st"
  obtains b c d where "beneficiary_data data = Ok (Some b)" "token_data data = Ok d"
    "inherent_extrinsics env st data = Some (map (\<lambda>call. (NoneOrigin, call)) (inherent_calls c b d))"
    "committee_create_inherent (runtime_select env st) (committee_of st) (committee_data data) = Some c"
    "NextCommittee (committee_of st) \<noteq> None \<and> c = None \<or> NextCommittee (committee_of st) = None
       \<and> (\<exists>vs. length vs \<le> max_validators \<and> c = Some (SetCall vs (epoch (CurrentCommittee (committee_of st)) + 1)))"
proof -
  obtain i b d where d: "committee_data data = Ok (Some i)" "beneficiary_data data = Ok (Some b)" "token_data data = Ok d"
    and sel: "\<And>e. \<exists>r. runtime_select env st i e = Some r \<and> (\<forall>vs. r = Some vs \<longrightarrow> length vs \<le> max_validators)"
    using assms(1) by (auto simp: complete_data_def runtime_select_def)
  have "committee_inv max_validators (committee_of st)"
    using assms(2) by (simp add: chain_inv_def)
  then obtain c where c: "committee_create_inherent (runtime_select env st) (committee_of st) (committee_data data) = Some c"
      "NextCommittee (committee_of st) \<noteq> None \<and> c = None \<or> NextCommittee (committee_of st) = None
       \<and> (\<exists>vs. length vs \<le> max_validators \<and> c = Some (SetCall vs (epoch (CurrentCommittee (committee_of st)) + 1)))"
    using committee_create_total [of "committee_data data" i "runtime_select env st" max_validators "committee_of st"]
      d(1) sel by blast
  have "inherent_extrinsics env st data = Some (map (\<lambda>call. (NoneOrigin, call)) (inherent_calls c b d))"
    using c(1) d by (auto simp: inherent_extrinsics_def rewards_create_inherent_def get_beneficiary_from_inherent_data_def
        native_create_inherent_def get_transfered_tokens_from_inherent_data_def filter_option_def
        map_filter_simps inherent_calls_def split: option.splits if_splits)
  then show ?thesis
    using that d c by blast
qed

lemma check_calls_Ok: "check_calls env st data cs = Ok () \<longleftrightarrow> (\<forall>c \<in> set cs. check_inherent_call env st data c = Ok ())"
  by (induction cs) auto

lemma require_inherent_Ok:
  "require_inherent P calls e = Ok () \<longleftrightarrow> e = None \<or> (\<exists>c \<in> set calls. P c)"
  by (auto simp: require_inherent_def list_ex_iff split: option.splits)

lemma filter_unsigned: "filter (\<lambda>x. fst x = NoneOrigin) (map (\<lambda>call. (NoneOrigin, call)) cs) = map (\<lambda>call. (NoneOrigin, call)) cs"
  by (induction cs) auto

lemma check_inherents_created:
  assumes "beneficiary_data data = Ok (Some b)" "token_data data = Ok d"
    and c: "committee_create_inherent (runtime_select env st) (committees_after e n (committee_of st)) (committee_data data) = Some c"
    and "NextCommittee (committees_after e n (committee_of st)) \<noteq> None \<or> (\<exists>vs ep. c = Some (SetCall vs ep))"
  shows "check_inherents env st data (map (\<lambda>call. (NoneOrigin, call)) (inherent_calls c b d)) = Ok ()"
proof -
  have committee: "check_inherent_call env st data (CommitteeCall call) = Ok ()" if "c = Some call" for call
    using committee_create_check [of "runtime_select env st" e n "committee_of st" "committee_data data" call] c that
    by (simp add: check_inherent_call_def)
  have rewards: "check_inherent_call env st data (RewardsCall (SetCurrentBlockBeneficiary b)) = Ok ()"
    by (simp add: check_inherent_call_def rewards_check_inherent_def)
  have native: "check_inherent_call env st data (NativeCall (TransferTokens a)) = Ok ()" if "d = Some a" for a
    using assms(2) that
    by (simp add: check_inherent_call_def native_check_inherent_def get_transfered_tokens_from_inherent_data_def)
  have "check_calls env st data (inherent_calls c b d) = Ok ()"
    using committee rewards native by (auto simp: check_calls_Ok inherent_calls_def split: option.splits)
  moreover have "\<exists>vs ep. c = Some (SetCall vs ep)" if "NextCommittee (committee_of st) = None"
    using committees_after_next [OF that, of e n] assms(4) by blast
  ultimately show ?thesis
    using assms(2)
    unfolding check_inherents_def filter_unsigned Let_def map_map
    by (auto simp: o_def require_inherent_Ok committee_is_inherent_required_def committee_is_inherent_def
        rewards_is_inherent_def native_is_inherent_def native_is_inherent_required_def
        get_transfered_tokens_from_inherent_data_def filter_option_def inherent_calls_def split: option.splits)
qed

lemma apply_inherent_calls:
  assumes "NativeScripts (native_st st) \<noteq> None"
    and "NextCommittee (committee_of st) \<noteq> None \<and> c = None
       \<or> (\<exists>vs. c = Some (SetCall vs (epoch (CurrentCommittee (committee_of st)) + 1)))"
  shows "\<exists>st2. apply_extrinsics (map (\<lambda>call. (NoneOrigin, call)) (inherent_calls c b d)) st = Some st2
     \<and> CurrentBlockBeneficiary (rewards_st st2) = Some b \<and> NextCommittee (committee_of st2) \<noteq> None
     \<and> CurrentCommittee (committee_of st2) = CurrentCommittee (committee_of st)"
proof -
  define st1 where "st1 = (case c of
      Some (SetCall vs e) \<Rightarrow> set_committee_of (committee_of st \<lparr> NextCommittee := Some \<lparr> epoch = e, committee = vs \<rparr> \<rparr>) st
    | _ \<Rightarrow> st)"
  have st1: "apply_extrinsics (map (\<lambda>call. (NoneOrigin, call)) (inherent_calls c b d)) st
      = apply_extrinsics (map (\<lambda>call. (NoneOrigin, call)) (inherent_calls None b d)) st1"
    "NextCommittee (committee_of st1) \<noteq> None" "CurrentCommittee (committee_of st1) = CurrentCommittee (committee_of st)"
    "native_st st1 = native_st st"
    using assms(2) by (auto simp: st1_def inherent_calls_def apply_set_call)
  then show ?thesis
    using assms(1) by (auto simp: inherent_calls_def apply_beneficiary apply_transfer split: option.splits)
qed

lemma bounded_inherent_calls:
  assumes "c = None \<or> (\<exists>vs e. length vs \<le> max_validators \<and> c = Some (SetCall vs e))"
  shows "list_all (\<lambda>x. bounded_call (snd x)) (map (\<lambda>call. (NoneOrigin, call)) (inherent_calls c b d))"
  using assms by (auto simp: inherent_calls_def bounded_call_def list_all_iff split: option.splits)

definition author_block ::
  "('a, 'k, 'acc::linorder, 's, 'i) runtime_env \<Rightarrow> u64 \<Rightarrow> ('i, 'b) block_inherent_data
    \<Rightarrow> ('a, 'k, 'acc, 's, 'b) runtime_state \<Rightarrow> ('a, 'k, 'b, 'acc) extrinsic list may_panic" where
  "author_block env slot data st =
     Option.bind (initialize_block env slot st) (\<lambda>st1. inherent_extrinsics env st1 data)"

lemma author_block_ok:
  fixes env :: "('a, 'k, 'acc::linorder, 's, 'i) runtime_env"
  assumes inv: "chain_inv env st" and slot: "block_number st = 0 \<or> current_slot st < slot"
    and data: "complete_data env data"
    and none: "CurrentBlockBeneficiary (rewards_st st) = None"
  obtains e b xs st' where "current_epoch_number slot (sidechain_st st) = Some e"
    "beneficiary_data data = Ok (Some b)" "author_block env slot data st = Some xs"
    "check_inherents env st data xs = Ok ()" "list_all (\<lambda>x. bounded_call (snd x)) xs"
    "block_beneficiary xs None = Some b" "execute_block env slot xs st = Some st'"
    "NextCommittee (committee_of st') \<noteq> None" "sidechain_st st' = (sidechain_st st) \<lparr> EpochNumber := Some e \<rparr>"
    "current_slot st' = slot" "CurrentCommittee (committee_of st') = CurrentCommittee (committees_after e (block_number st + 1) (committee_of st))"
proof -
  obtain e st1 where e: "current_epoch_number slot (sidechain_st st) = Some e"
    and st1: "initialize_block env slot st = Some st1" "chain_inv env st1"
    "committee_of st1 = committees_after e (block_number st + 1) (committee_of st)"
    "sidechain_st st1 = (sidechain_st st) \<lparr> EpochNumber := Some e \<rparr>"
    "rewards_st st1 = rewards_st (clock_update e slot st)"
    using initialize_block_ok [OF inv slot] by metis
  have sel1: "runtime_select env st1 = runtime_select env st"
    using st1(4) by (simp add: runtime_select_def genesis_utxo_def)
  obtain b c d where b: "beneficiary_data data = Ok (Some b)" "token_data data = Ok d"
    and xs: "inherent_extrinsics env st1 data = Some (map (\<lambda>call. (NoneOrigin, call)) (inherent_calls c b d))"
    and c: "committee_create_inherent (runtime_select env st1) (committee_of st1) (committee_data data) = Some c"
    "NextCommittee (committee_of st1) \<noteq> None \<and> c = None \<or> NextCommittee (committee_of st1) = None
       \<and> (\<exists>vs. length vs \<le> max_validators \<and> c = Some (SetCall vs (epoch (CurrentCommittee (committee_of st1)) + 1)))"
    using inherent_extrinsics_complete [OF data st1(2)] by metis
  let ?xs = "map (\<lambda>call. (NoneOrigin :: 'acc origin, call)) (inherent_calls c b d)"
  have check: "check_inherents env st data ?xs = Ok ()"
    by (rule check_inherents_created [OF b]) (use c st1(3) sel1 in auto)
  obtain st2 where st2: "apply_extrinsics ?xs st1 = Some st2" "CurrentBlockBeneficiary (rewards_st st2) = Some b"
      "NextCommittee (committee_of st2) \<noteq> None"
    using apply_inherent_calls [of st1 c b d] st1(2) c(2) by (auto simp: chain_inv_def)
  then obtain st' where exec: "execute_block env slot ?xs st = Some st'" "NextCommittee (committee_of st') \<noteq> None"
    using st1(1) by (auto simp: execute_block_def finalize_block_def rewards_on_finalize_def)
  have bounded: "list_all (\<lambda>x. bounded_call (snd x)) ?xs"
    by (rule bounded_inherent_calls) (use c(2) in blast)
  have "block_beneficiary ?xs None = Some b"
    using apply_extrinsics_beneficiary [OF st2(1)] st2(2) none st1(5) by simp
  moreover obtain f where "current_epoch_number slot (sidechain_st st) = Some f"
      "sidechain_st st' = (sidechain_st st) \<lparr> EpochNumber := Some f \<rparr>" "current_slot st' = slot"
      "CurrentCommittee (committee_of st') = CurrentCommittee (committees_after f (block_number st + 1) (committee_of st))"
    using execute_block_ok [OF inv slot bounded exec(1) none] by metis
  ultimately show ?thesis
    using that [of e b ?xs st'] e b(1) st1(1) xs check bounded exec by (simp add: author_block_def)
qed

section \<open>A small chain\<close>

text \<open>
  Validators, keys, accounts and beneficiaries are numbers; the selection takes the members from its input and
  yields no committee on the empty one.  An epoch has 60 slots.
\<close>

definition demo_env :: "(nat, nat, nat, nat \<Rightarrow> nat, nat list) runtime_env" where
  "demo_env = \<lparr> env_js_compat = True, env_into = (\<lambda>a. a), env_inc = (\<lambda>a s. s(a := Suc (s a))),
     env_dec = (\<lambda>a s. if s a = 0 then Err () else Ok (s(a := s a - 1))), env_key_ids = [0, 1],
     env_select = (\<lambda>_ i _. Some (if i = [] then None else Some (take max_validators (map (\<lambda>v. (v, v)) i)))) \<rparr>"

definition demo_chain :: "(nat, nat, nat, nat \<Rightarrow> nat, nat) runtime_state" where
  "demo_chain = the (runtime_genesis demo_env (demo_utxo 0) 60 [(1, 1), (2, 2)]
     \<lparr> committee_candidate_address = [], d_parameter_policy_id = [], permissioned_candidates_policy_id = [] \<rparr>
     \<lparr> native_token_policy_id = [], native_token_asset_name = [], illiquid_supply_validator_address = [] \<rparr> [] (\<lambda>_. 0))"

definition demo_data :: "(nat list, nat) block_inherent_data" where
  "demo_data = \<lparr> committee_data = Ok (Some [3, 4]), beneficiary_data = Ok (Some 7), token_data = Ok (Some 5) \<rparr>"

lemma demo_chain_reach: "runtime_reach demo_env demo_chain []"
proof (rule runtime_reach.genesis)
  show "runtime_genesis demo_env (demo_utxo 0) 60 [(1, 1), (2, 2)]
     \<lparr> committee_candidate_address = [], d_parameter_policy_id = [], permissioned_candidates_policy_id = [] \<rparr>
     \<lparr> native_token_policy_id = [], native_token_asset_name = [], illiquid_supply_validator_address = [] \<rparr> [] (\<lambda>_. 0)
     = Some demo_chain"
    by (simp add: demo_chain_def runtime_genesis_def session_genesis_build_def session_config_of_def demo_env_def
        runtime_session_config_def session_new_session_genesis_def vm_new_session_genesis_def rotate_validators_eq Let_def)
qed simp

lemma demo_data_complete: "complete_data demo_env demo_data"
  by (simp add: complete_data_def demo_env_def demo_data_def max_validators_def)

lemma demo_chain_slots: "SlotsPerEpoch (sidechain_st demo_chain) = 60"
  by (simp add: demo_chain_def runtime_genesis_def session_genesis_build_def session_config_of_def demo_env_def
      runtime_session_config_def session_new_session_genesis_def vm_new_session_genesis_def rotate_validators_eq
      Let_def sidechain_genesis_build_def)

lemma demo_epochs:
  assumes "SlotsPerEpoch p = 60"
  shows "current_epoch_number 120 p = Some 2" "current_epoch_number 240 p = Some 4" "current_epoch_number 241 p = Some 4"
  using assms by (simp_all add: current_epoch_number_def pallet_slots_per_epoch_def epoch_number_def div_or_panic_def)

text \<open>The first block of the small chain, in slot 120.\<close>

lemma demo_first_block:
  obtains xs st' where "author_block demo_env 120 demo_data demo_chain = Some xs"
    "check_inherents demo_env demo_chain demo_data xs = Ok ()" "list_all (\<lambda>x. bounded_call (snd x)) xs"
    "execute_block demo_env 120 xs demo_chain = Some st'" "runtime_reach demo_env st' [(2, 7 :: nat)]"
    "NextCommittee (committee_of st') \<noteq> None" "current_slot st' = 120" "SlotsPerEpoch (sidechain_st st') = 60"
proof -
  have inv: "chain_inv demo_env demo_chain" "CurrentBlockBeneficiary (rewards_st demo_chain) = None"
      "block_number demo_chain = 0 \<or> current_slot demo_chain < 120"
    using runtime_reach_inv [OF demo_chain_reach] by auto
  obtain e b xs st' where blk: "current_epoch_number 120 (sidechain_st demo_chain) = Some e"
    "beneficiary_data demo_data = Ok (Some b)" "author_block demo_env 120 demo_data demo_chain = Some xs"
    "check_inherents demo_env demo_chain demo_data xs = Ok ()" "list_all (\<lambda>x. bounded_call (snd x)) xs"
    "block_beneficiary xs None = Some b" "execute_block demo_env 120 xs demo_chain = Some st'"
    "NextCommittee (committee_of st') \<noteq> None" "sidechain_st st' = (sidechain_st demo_chain) \<lparr> EpochNumber := Some e \<rparr>"
    "current_slot st' = 120"
    using author_block_ok [OF inv(1,3) demo_data_complete inv(2)] by metis
  have "e = 2" "b = 7"
    using blk(1,2) demo_epochs(1) [OF demo_chain_slots] by (simp_all add: demo_data_def)
  then have "runtime_reach demo_env st' [(2, 7 :: nat)]"
    using runtime_reach.block [OF demo_chain_reach inv(3) blk(5,4,7) _ blk(6)] blk(9) by simp
  then show ?thesis
    using that blk demo_chain_slots by simp
qed

text \<open>C2. Authors and importing nodes agree.  In every reachable state, at every later slot and with complete
  inherent data, block initialisation does not panic, the inherents an author creates from the initialised
  state pass the checks an importing node makes on the parent state, the block executes without panicking, and
  afterwards a next committee is planned; the state is again a reachable one.\<close>

theorem authored_block_accepted:
  assumes "runtime_reach env st hist" and "hist = [] \<or> current_slot st < slot"
    and "complete_data env data"
  shows "\<exists>xs st' e b. author_block env slot data st = Some xs
     \<and> check_inherents env st data xs = Ok ()
     \<and> execute_block env slot xs st = Some st'
     \<and> NextCommittee (committee_of st') \<noteq> None
     \<and> runtime_reach env st' (hist @ [(e, b)])"
proof -
  have inv: "chain_inv env st" "CurrentBlockBeneficiary (rewards_st st) = None" "block_number st = length hist"
    using runtime_reach_inv [OF assms(1)] by auto
  then have slot: "block_number st = 0 \<or> current_slot st < slot"
    using assms(2) by auto
  obtain e b xs st' where "author_block env slot data st = Some xs" "check_inherents env st data xs = Ok ()"
      "list_all (\<lambda>x. bounded_call (snd x)) xs" "block_beneficiary xs None = Some b"
      "execute_block env slot xs st = Some st'" "NextCommittee (committee_of st') \<noteq> None"
      "sidechain_st st' = (sidechain_st st) \<lparr> EpochNumber := Some e \<rparr>"
    using author_block_ok [OF inv(1) slot assms(3) inv(2)] by metis
  then show ?thesis
    using runtime_reach.block [OF assms(1) slot, of xs data st' e b] by auto
qed

theorem authored_block_accepted_witness:
  "\<exists>xs st' e b. author_block demo_env 120 demo_data demo_chain = Some xs
     \<and> check_inherents demo_env demo_chain demo_data xs = Ok ()
     \<and> execute_block demo_env 120 xs demo_chain = Some st'
     \<and> NextCommittee (committee_of st') \<noteq> None \<and> runtime_reach demo_env st' [(e, b)]"
  using authored_block_accepted [OF demo_chain_reach _ demo_data_complete, of 120] by simp

section \<open>Catching up with the epoch\<close>

fun author_chain ::
  "('a, 'k, 'acc::linorder, 's, 'i) runtime_env \<Rightarrow> (u64 \<times> ('i, 'b) block_inherent_data) list
    \<Rightarrow> ('a, 'k, 'acc, 's, 'b) runtime_state \<Rightarrow> ('a, 'k, 'acc, 's, 'b) runtime_state may_panic" where
  "author_chain env [] st = Some st"
| "author_chain env ((slot, data) # bs) st =
     Option.bind (author_block env slot data st)
       (\<lambda>xs. Option.bind (execute_block env slot xs st) (author_chain env bs))"

lemma author_block_reach:
  assumes "runtime_reach env st hist" "hist \<noteq> []" "current_slot st < slot" "complete_data env data"
    and e: "current_epoch_number slot (sidechain_st st) = Some e" and "NextCommittee (committee_of st) \<noteq> None"
  shows "\<exists>xs st' b. author_block env slot data st = Some xs \<and> execute_block env slot xs st = Some st'
     \<and> runtime_reach env st' (hist @ [(e, b)]) \<and> current_slot st' = slot \<and> NextCommittee (committee_of st') \<noteq> None
     \<and> sidechain_st st' = (sidechain_st st) \<lparr> EpochNumber := Some e \<rparr>
     \<and> unat (epoch (CurrentCommittee (committee_of st')))
         = (if epoch (CurrentCommittee (committee_of st)) < e then unat (epoch (CurrentCommittee (committee_of st))) + 1
            else unat (epoch (CurrentCommittee (committee_of st))))"
proof -
  have inv: "chain_inv env st" "CurrentBlockBeneficiary (rewards_st st) = None" "block_number st = length hist"
    using runtime_reach_inv [OF assms(1)] by auto
  then have slot: "block_number st = 0 \<or> current_slot st < slot"
    using assms(3) by auto
  obtain b xs st' where blk: "author_block env slot data st = Some xs" "check_inherents env st data xs = Ok ()"
      "list_all (\<lambda>x. bounded_call (snd x)) xs" "block_beneficiary xs None = Some b"
      "execute_block env slot xs st = Some st'" "NextCommittee (committee_of st') \<noteq> None"
      "sidechain_st st' = (sidechain_st st) \<lparr> EpochNumber := Some e \<rparr>" "current_slot st' = slot"
      "CurrentCommittee (committee_of st') = CurrentCommittee (committees_after e (block_number st + 1) (committee_of st))"
    using author_block_ok [OF inv(1) slot assms(4) inv(2)] e by (metis option.sel)
  obtain n where n: "NextCommittee (committee_of st) = Some n" "epoch n = epoch (CurrentCommittee (committee_of st)) + 1"
    using inv(1) assms(6) by (auto simp: chain_inv_def committee_inv_def)
  have "unat (c + 1) = unat c + 1" if "c < e" for c :: u64
  proof -
    have "unat c + 1 < 2 ^ 64"
      using that unat_bound [of e] by (simp add: word_less_nat_alt)
    then show ?thesis
      by (simp add: unat_add_no_wrap)
  qed
  then show ?thesis
    using blk n runtime_reach.block [OF assms(1) slot blk(3,2,5) _ blk(4), of e]
    by (auto simp: committees_after_def)
qed

lemma author_chain_catches_up:
  assumes "runtime_reach env st hist" "hist \<noteq> []" "NextCommittee (committee_of st) \<noteq> None"
    and "sorted_wrt (<) (current_slot st # map fst bs)"
    and "\<forall>(slot, data) \<in> set bs. complete_data env data \<and> current_epoch_number slot (sidechain_st st) = Some e"
    and "epoch (CurrentCommittee (committee_of st)) \<le> e"
  shows "\<exists>st'. author_chain env bs st = Some st' \<and> unat (epoch (CurrentCommittee (committee_of st')))
     = min (unat e) (unat (epoch (CurrentCommittee (committee_of st))) + length bs)"
  using assms
proof (induction bs arbitrary: st hist)
  case (Cons b bs)
  obtain slot data where b: "b = (slot, data)"
    by (cases b)
  obtain xs st1 ben where st1: "author_block env slot data st = Some xs" "execute_block env slot xs st = Some st1"
      "runtime_reach env st1 (hist @ [(e, ben)])" "current_slot st1 = slot" "NextCommittee (committee_of st1) \<noteq> None"
      "sidechain_st st1 = (sidechain_st st) \<lparr> EpochNumber := Some e \<rparr>"
      "unat (epoch (CurrentCommittee (committee_of st1)))
         = (if epoch (CurrentCommittee (committee_of st)) < e then unat (epoch (CurrentCommittee (committee_of st))) + 1
            else unat (epoch (CurrentCommittee (committee_of st))))"
    using author_block_reach [OF Cons.prems(1,2), of slot data e] Cons.prems(3-5) b by auto
  have "epoch (CurrentCommittee (committee_of st1)) \<le> e"
    using st1(7) Cons.prems(6) by (auto simp: word_le_nat_alt word_less_nat_alt split: if_splits)
  then obtain st' where "author_chain env bs st1 = Some st'"
      "unat (epoch (CurrentCommittee (committee_of st'))) = min (unat e) (unat (epoch (CurrentCommittee (committee_of st1))) + length bs)"
    using Cons.IH [OF st1(3) _ st1(5)] Cons.prems(4,5) st1(4,6) b by auto
  then show ?case
    using st1(1,2,7) Cons.prems(6) b by (auto simp: word_le_nat_alt word_less_nat_alt min_def)
qed (auto simp: word_le_nat_alt)

text \<open>C6. A committee that lags behind catches up by one epoch per block: after any positive number of blocks of
  honest authors in one epoch \<open>e\<close>, starting from a reachable state with a planned committee, the current
  committee's epoch is \<open>e\<close> or the old epoch plus the number of blocks, whichever is smaller.\<close>

theorem committee_catches_up:
  assumes "runtime_reach env st hist" and "hist \<noteq> []" and "NextCommittee (committee_of st) \<noteq> None"
    and "bs \<noteq> []" and "sorted_wrt (<) (current_slot st # map fst bs)"
    and "\<forall>(slot, data) \<in> set bs. complete_data env data \<and> current_epoch_number slot (sidechain_st st) = Some e"
  shows "\<exists>st'. author_chain env bs st = Some st' \<and> unat (epoch (CurrentCommittee (committee_of st')))
     = min (unat e) (unat (epoch (CurrentCommittee (committee_of st))) + length bs)"
proof -
  have "chain_inv env st" "block_number st \<noteq> 0"
    using runtime_reach_inv [OF assms(1)] assms(2) by auto
  moreover obtain slot data bs' where "bs = (slot, data) # bs'"
    using assms(4) by (cases bs) auto
  ultimately have "epoch (CurrentCommittee (committee_of st)) \<le> e"
    using chain_epoch_le [of env st slot e] assms(5,6) by auto
  then show ?thesis
    by (rule author_chain_catches_up [OF assms(1-3,5,6)])
qed

theorem committee_catches_up_witness:
  "\<exists>st st'. runtime_reach demo_env st [(2, 7 :: nat)]
     \<and> author_chain demo_env [(240, demo_data), (241, demo_data)] st = Some st'
     \<and> unat (epoch (CurrentCommittee (committee_of st'))) = min 4 (unat (epoch (CurrentCommittee (committee_of st))) + 2)"
proof -
  obtain st where st: "runtime_reach demo_env st [(2, 7 :: nat)]" "NextCommittee (committee_of st) \<noteq> None"
      "current_slot st = 120" "SlotsPerEpoch (sidechain_st st) = 60"
    by (rule demo_first_block)
  have "\<forall>(slot, data) \<in> set [(240, demo_data), (241, demo_data)].
      complete_data demo_env data \<and> current_epoch_number slot (sidechain_st st) = Some 4"
    using demo_data_complete demo_epochs [OF st(4)] by simp
  then show ?thesis
    using committee_catches_up [OF st(1) _ st(2), of "[(240, demo_data), (241, demo_data)]" 4] st(1,3) by auto
qed

section \<open>Where committees come from\<close>

lemma apply_extrinsic_next:
  assumes "apply_extrinsic x st = Some st'"
  shows "CurrentCommittee (committee_of st') = CurrentCommittee (committee_of st)
     \<and> (NextCommittee (committee_of st') = NextCommittee (committee_of st)
        \<or> (\<exists>vs. x = (NoneOrigin, CommitteeCall (SetCall vs (epoch (CurrentCommittee (committee_of st)) + 1)))
           \<and> NextCommittee (committee_of st')
               = Some \<lparr> epoch = epoch (CurrentCommittee (committee_of st)) + 1, committee = vs \<rparr>))"
proof (cases "dispatch (fst x, snd x) st")
  case (Ok st2)
  then have "dispatch (fst x, snd x) st = Ok st'"
    using assms by (simp add: apply_extrinsic_def)
  then show ?thesis
    by (cases rule: dispatch_cases)
      (auto simp: set_committee_Ok set_main_chain_scripts_def prod_eq_iff split: if_splits)
qed (use assms in \<open>auto simp: apply_extrinsic_def split: if_splits\<close>)

lemma apply_extrinsics_next:
  assumes "apply_extrinsics xs st = Some st'"
  shows "NextCommittee (committee_of st') = NextCommittee (committee_of st)
     \<or> (\<exists>vs. (NoneOrigin, CommitteeCall (SetCall vs (epoch (CurrentCommittee (committee_of st)) + 1))) \<in> set xs
        \<and> NextCommittee (committee_of st')
            = Some \<lparr> epoch = epoch (CurrentCommittee (committee_of st)) + 1, committee = vs \<rparr>)"
  using assms
proof (induction xs arbitrary: st)
  case (Cons x xs)
  then obtain st1 where "apply_extrinsic x st = Some st1" "apply_extrinsics xs st1 = Some st'"
    by (auto simp: bind_eq_Some_conv)
  then show ?case
    using apply_extrinsic_next [of x st st1] Cons.IH [of st1] by fastforce
qed simp

lemma checked_set_call:
  assumes "check_inherents env st data xs = Ok ()" "(NoneOrigin, CommitteeCall (SetCall vs e)) \<in> set xs"
  shows "\<exists>i r. committee_data data = Ok (Some i) \<and> runtime_select env st i e = Some r
     \<and> vs = (case r of Some ws \<Rightarrow> ws
             | None \<Rightarrow> committee (case NextCommittee (committee_of st) of Some n \<Rightarrow> n | None \<Rightarrow> CurrentCommittee (committee_of st)))"
proof -
  have "check_inherent_call env st data (CommitteeCall (SetCall vs e)) = Ok ()"
    using assms by (force simp: check_inherents_def Let_def check_calls_Ok)
  then have "committee_check_inherent (runtime_select env st) (committee_of st) (SetCall vs e) (committee_data data) = Ok ()"
    by (simp add: check_inherent_call_def is_inherent_def committee_is_inherent_def)
  then show ?thesis
    by (auto simp: committee_check_inherent_def calculate_committee_from_inherent_data_def Let_def
        inherent_data_to_authority_selection_inputs_def bind_eq_Some_conv
        split: result.splits option.splits if_splits)
qed

text \<open>C3. Whatever an author puts into a block, a block that passes the checks of an importing node only plans the
  committee this node computes: the planned committee is the one that was planned already, or the result of the
  selection on the node's own inherent data for the epoch after the current committee's, or, where the selection
  yields none, the members in office.\<close>

theorem accepted_block_committee:
  assumes "runtime_reach env st hist" and "hist = [] \<or> current_slot st < slot"
    and "list_all (\<lambda>x. bounded_call (snd x)) xs" and "check_inherents env st data xs = Ok ()"
    and "execute_block env slot xs st = Some st'" and "NextCommittee (committee_of st') = Some c"
  shows "NextCommittee (committee_of st) = Some c
     \<or> (\<exists>i r. committee_data data = Ok (Some i) \<and> epoch c = epoch (CurrentCommittee (committee_of st')) + 1
          \<and> runtime_select env st i (epoch c) = Some r
          \<and> committee c = (case r of Some vs \<Rightarrow> vs
               | None \<Rightarrow> committee (case NextCommittee (committee_of st) of Some n \<Rightarrow> n | None \<Rightarrow> CurrentCommittee (committee_of st))))"
proof -
  have inv: "chain_inv env st" "block_number st = 0 \<or> current_slot st < slot"
    using runtime_reach_inv [OF assms(1)] assms(2) by auto
  obtain e st1 where st1: "initialize_block env slot st = Some st1" "chain_inv env st1"
      "committee_of st1 = committees_after e (block_number st + 1) (committee_of st)" "block_number st1 \<noteq> 0"
    using initialize_block_ok [OF inv] by (metis add_is_0 zero_neq_one)
  then obtain st2 where st2: "apply_extrinsics xs st1 = Some st2" "committee_of st' = committee_of st2"
    using assms(5) by (auto simp: execute_block_def finalize_block_def bind_eq_Some_conv)
  have cur: "CurrentCommittee (committee_of st2) = CurrentCommittee (committee_of st1)"
    using apply_extrinsics_frame [OF st2(1) st1(2,4) assms(3)] by blast
  from apply_extrinsics_next [OF st2(1)] show ?thesis
  proof
    assume "NextCommittee (committee_of st2) = NextCommittee (committee_of st1)"
    then show ?thesis
      using assms(6) st1(3) st2(2)
      by (auto simp: committees_after_def committee_on_initialize_def split: option.splits if_splits)
  next
    assume "\<exists>vs. (NoneOrigin, CommitteeCall (SetCall vs (epoch (CurrentCommittee (committee_of st1)) + 1))) \<in> set xs
        \<and> NextCommittee (committee_of st2)
            = Some \<lparr> epoch = epoch (CurrentCommittee (committee_of st1)) + 1, committee = vs \<rparr>"
    then obtain vs where "(NoneOrigin, CommitteeCall (SetCall vs (epoch c))) \<in> set xs" "committee c = vs"
        "epoch c = epoch (CurrentCommittee (committee_of st1)) + 1"
      using assms(6) st2(2) by auto
    then show ?thesis
      using checked_set_call [OF assms(4)] cur st2(2) by metis
  qed
qed

theorem accepted_block_committee_witness:
  "\<exists>xs st' c i r. check_inherents demo_env demo_chain demo_data xs = Ok ()
     \<and> execute_block demo_env 120 xs demo_chain = Some st' \<and> NextCommittee (committee_of st') = Some c
     \<and> (NextCommittee (committee_of demo_chain) = Some c
        \<or> committee_data demo_data = Ok (Some i) \<and> runtime_select demo_env demo_chain i (epoch c) = Some r)"
proof -
  obtain xs st' where blk: "check_inherents demo_env demo_chain demo_data xs = Ok ()" "list_all (\<lambda>x. bounded_call (snd x)) xs"
      "execute_block demo_env 120 xs demo_chain = Some st'" "NextCommittee (committee_of st') \<noteq> None"
    by (rule demo_first_block)
  then obtain c where c: "NextCommittee (committee_of st') = Some c"
    by auto
  show ?thesis
    using accepted_block_committee [OF demo_chain_reach _ blk(2,1,3) c] blk c by auto
qed

section \<open>Repeated inherents\<close>

lemma apply_extrinsics_append:
  "apply_extrinsics (xs @ ys) st = Option.bind (apply_extrinsics xs st) (apply_extrinsics ys)"
  by (induction xs arbitrary: st) (auto split: Option.bind_splits)

lemma check_inherents_repeat:
  assumes "check_inherents env st data xs = Ok ()" "x \<in> set xs"
  shows "check_inherents env st data (xs @ [x]) = Ok ()"
  using assms by (auto simp: check_inherents_def Let_def check_calls_Ok require_inherent_Ok)


lemma demo_first_block_transfer:
  obtains xs st' where "check_inherents demo_env demo_chain demo_data xs = Ok ()" "list_all (\<lambda>x. bounded_call (snd x)) xs"
    "execute_block demo_env 120 xs demo_chain = Some st'" "(NoneOrigin, NativeCall (TransferTokens 5)) \<in> set xs"
proof -
  obtain xs st' where blk: "author_block demo_env 120 demo_data demo_chain = Some xs"
    "check_inherents demo_env demo_chain demo_data xs = Ok ()" "list_all (\<lambda>x. bounded_call (snd x)) xs"
    "execute_block demo_env 120 xs demo_chain = Some st'"
    by (rule demo_first_block)
  then obtain st1 where "initialize_block demo_env 120 demo_chain = Some st1"
      "inherent_extrinsics demo_env st1 demo_data = Some xs"
    by (auto simp: author_block_def bind_eq_Some_conv)
  then have "(NoneOrigin, NativeCall (TransferTokens 5)) \<in> set xs"
    by (auto simp: inherent_extrinsics_def bind_eq_Some_conv demo_data_def native_create_inherent_def
        get_transfered_tokens_from_inherent_data_def filter_option_def map_filter_simps split: option.splits)
  then show ?thesis
    using that blk by blast
qed


end
