(* ===== verification/RuntimeRewards.thy ===== *)
theory RuntimeRewards
  imports RuntimeAgreement
begin

text \<open>
  What the reachable states of the chain keep: the invariant of the committees and the accounting of the rewards
  of \<^verbatim>\<open>pallet_block_rewards\<close> across epochs.
\<close>

section \<open>Accounting of rewards\<close>

definition blocks_of :: "u64 \<Rightarrow> (u64 \<times> 'b) list \<Rightarrow> 'b list" where
  "blocks_of e hist = map snd (filter (\<lambda>x. fst x = e) hist)"

lemma blocks_of_snoc [simp]: "blocks_of e (hist @ [(f, b)]) = blocks_of e hist @ (if f = e then [b] else [])"
  by (simp add: blocks_of_def)

lemma blocks_of_Nil: "e \<notin> set (map fst hist) \<Longrightarrow> blocks_of e hist = []"
  by (auto simp: blocks_of_def filter_empty_conv)

lemma remdups_adj_snoc:
  "remdups_adj (xs @ [x]) = (if xs \<noteq> [] \<and> last xs = x then remdups_adj xs else remdups_adj xs @ [x])"
  by (induction xs rule: remdups_adj.induct) auto

lemma remdups_adj_last: "xs \<noteq> [] \<Longrightarrow> butlast (remdups_adj xs) @ [last xs] = remdups_adj xs"
  by (metis append_butlast_last_id last_remdups_adj remdups_adj_Nil_iff)

lemma distinct_remdups_adj: "sorted xs \<Longrightarrow> distinct (remdups_adj (xs :: u64 list))"
  by (induction xs rule: remdups_adj.induct) (auto simp: order.order_iff_strict)

lemma sorted_le_last: "sorted xs \<Longrightarrow> x \<in> set xs \<Longrightarrow> x \<le> last (xs :: u64 list)"
  by (induction xs) auto

definition rewards_inv :: "('a, 'k, 'acc, 's, 'b) runtime_state \<Rightarrow> (u64 \<times> 'b) list \<Rightarrow> bool" where
  "rewards_inv st hist =
     (sorted (map fst hist)
      \<and> epoch_rewards_log st = map (\<lambda>e. (e, points_of (blocks_of e hist))) (butlast (remdups_adj (map fst hist)))
      \<and> (if hist = [] then PendingRewards (rewards_st st) = Map.empty
         else EpochNumber (sidechain_st st) = Some (fst (last hist))
           \<and> PendingRewards (rewards_st st) = points_of (blocks_of (fst (last hist)) hist)))"

lemma finalized_points:
  assumes "rewards_on_finalize simple_block_count (r \<lparr> CurrentBlockBeneficiary := Some b \<rparr>) = Some r'"
    and "PendingRewards r = points_of bs"
  shows "PendingRewards r' = points_of (bs @ [b])"
  using rewards_on_finalize_points [of "r \<lparr> CurrentBlockBeneficiary := Some b \<rparr>" b bs] assms by auto

lemma rewards_inv_block:
  assumes inv: "rewards_inv st hist" and epoch0: "hist = [] \<longrightarrow> EpochNumber (sidechain_st st) = None"
    and mono: "hist \<noteq> [] \<longrightarrow> fst (last hist) \<le> e"
    and fin: "rewards_on_finalize simple_block_count
       (rewards_st (clock_update e slot st) \<lparr> CurrentBlockBeneficiary := Some b \<rparr>) = Some (rewards_st st')"
    and log: "epoch_rewards_log st' = epoch_rewards_log (clock_update e slot st)"
    and sc: "EpochNumber (sidechain_st st') = Some e"
  shows "rewards_inv st' (hist @ [(e, b)])"
proof (cases "hist = []")
  case True
  then have "PendingRewards (rewards_st (clock_update e slot st)) = points_of []"
      "epoch_rewards_log (clock_update e slot st) = []"
    using clock_update_rewards [of e slot st] inv epoch0 by (auto simp: rewards_inv_def)
  then show ?thesis
    using finalized_points [OF fin, of "[]"] True log sc by (simp add: rewards_inv_def blocks_of_def)
next
  case False
  let ?E = "fst (last hist)" and ?es = "map fst hist"
  have es: "?es \<noteq> []" "last ?es = ?E" and srt: "sorted ?es"
    using False inv by (auto simp: last_map rewards_inv_def)
  have le: "x \<le> ?E" if "x \<in> set ?es" for x
    using sorted_le_last [OF srt that] es by simp
  have last: "butlast (remdups_adj ?es) @ [?E] = remdups_adj ?es"
    using remdups_adj_last [OF es(1)] es(2) by simp
  then have notin: "?E \<notin> set (butlast (remdups_adj ?es))"
    using distinct_remdups_adj [OF srt] by (metis distinct_append disjoint_insert(1) list.set(2))
  have E: "EpochNumber (sidechain_st st) = Some ?E" "PendingRewards (rewards_st st) = points_of (blocks_of ?E hist)"
    and l: "epoch_rewards_log st = map (\<lambda>e. (e, points_of (blocks_of e hist))) (butlast (remdups_adj ?es))"
    using inv False by (simp_all add: rewards_inv_def)
  show ?thesis
  proof (cases "e = ?E")
    case True
    then have "rewards_st (clock_update e slot st) = rewards_st st" "epoch_rewards_log st' = epoch_rewards_log st"
      using clock_update_rewards [of e slot st] E(1) log by auto
    then show ?thesis
      using finalized_points [OF fin] E l True False srt es le notin sc
      by (simp add: rewards_inv_def remdups_adj_snoc sorted_append)
  next
    case neq: False
    then have lt: "?E < e"
      using mono False by simp
    have "PendingRewards (rewards_st (clock_update e slot st)) = points_of []"
      "epoch_rewards_log st' = epoch_rewards_log st @ [(?E, points_of (blocks_of ?E hist))]"
      using clock_update_rewards [of e slot st] E log neq by auto
    moreover have "e \<notin> set ?es"
      using le lt by (meson leD)
    moreover have "\<forall>x \<in> set ?es. x \<le> e"
      using le lt by (meson less_imp_le order_trans)
    moreover have "map (\<lambda>f. (f, points_of (blocks_of f (hist @ [(e, b)])))) (remdups_adj ?es)
        = map (\<lambda>f. (f, points_of (blocks_of f hist))) (butlast (remdups_adj ?es) @ [?E])"
      unfolding last using \<open>e \<notin> set ?es\<close> by (intro map_cong) auto
    ultimately show ?thesis
      using finalized_points [OF fin, of "[]"] l neq False srt es sc blocks_of_Nil [of e hist]
      by (auto simp: rewards_inv_def remdups_adj_snoc sorted_append)
  qed
qed

lemma runtime_reach_rewards:
  "runtime_reach env st hist \<Longrightarrow> rewards_inv st hist"
proof (induction rule: runtime_reach.induct)
  case (genesis utxo spe vs scripts nscripts ivs sys st)
  then show ?case
    using chain_inv_genesis [OF genesis] by (simp add: rewards_inv_def empty_block_rewards_def)
next
  case (block st hist slot xs data st' e b)
  have inv: "chain_inv env st" "CurrentBlockBeneficiary (rewards_st st) = None" "block_number st = length hist"
    using runtime_reach_inv [OF block.hyps(1)] by auto
  obtain f c where f: "current_epoch_number slot (sidechain_st st) = Some f" "block_beneficiary xs None = Some c"
      "rewards_on_finalize simple_block_count
         (rewards_st (clock_update f slot st) \<lparr> CurrentBlockBeneficiary := Some c \<rparr>) = Some (rewards_st st')"
      "epoch_rewards_log st' = epoch_rewards_log (clock_update f slot st)"
      "sidechain_st st' = (sidechain_st st) \<lparr> EpochNumber := Some f \<rparr>"
    by (rule execute_block_ok [OF inv(1) block.hyps(2,3,5) inv(2)])
  have "c = b"
    using f(2) block.hyps(7) by simp
  have "f = e"
    using f(5) block.hyps(6) by simp
  have "fst (last hist) \<le> e" if ne: "hist \<noteq> []"
  proof -
    have "current_epoch_number (current_slot st) (sidechain_st st) = Some (fst (last hist))"
      using inv(1,3) block.IH ne by (simp add: chain_inv_def rewards_inv_def runtime_current_epoch_number_def)
    moreover have "current_slot st \<le> slot"
      using block.hyps(2) inv(3) ne by auto
    ultimately show ?thesis
      using current_epoch_number_mono [OF _ f(1)] \<open>f = e\<close> by auto
  qed
  moreover have "hist = [] \<longrightarrow> EpochNumber (sidechain_st st) = None"
    using inv(1,3) by (auto simp: chain_inv_def)
  ultimately show ?case
    using rewards_inv_block [OF block.IH _ _ f(3,4)] \<open>f = e\<close> \<open>c = b\<close> block.hyps(6) by simp
qed

text \<open>C5. Every block is rewarded exactly once.  In every reachable state the rewards paid out so far are, for each
  epoch before the current one in which a block was produced, one point (counted in 32 bits) per block and
  beneficiary of this epoch, in the order of the epochs; what is pending are the points of the blocks of the
  current epoch.\<close>

theorem rewards_accounting:
  assumes "runtime_reach env st hist" and "hist \<noteq> []"
  shows "sorted (map fst hist)
     \<and> epoch_rewards_log st = map (\<lambda>e. (e, points_of (blocks_of e hist))) (butlast (remdups_adj (map fst hist)))
     \<and> PendingRewards (rewards_st st) = points_of (blocks_of (fst (last hist)) hist)"
  using runtime_reach_rewards [OF assms(1)] assms(2) by (simp add: rewards_inv_def)

theorem rewards_accounting_witness:
  "\<exists>st. runtime_reach demo_env st [(2, 7 :: nat)] \<and> epoch_rewards_log st = []
     \<and> PendingRewards (rewards_st st) = [7 \<mapsto> 1]"
proof -
  obtain st where "runtime_reach demo_env st [(2, 7 :: nat)]"
    by (rule demo_first_block)
  then show ?thesis
    using rewards_accounting [of demo_env st "[(2, 7 :: nat)]"]
    by (auto simp: blocks_of_def points_of_def fun_eq_iff)
qed

text \<open>C4. The committee the chain works with.  In every reachable state the validators of the session are the
  current committee, the session index of \<^verbatim>\<open>pallet_session\<close> is the one of the session pallet, both committees
  are within their bound, a planned committee is planned for the epoch after the current committee's, and, once
  there is a block, the current committee is not ahead of the epoch of the last slot.\<close>

theorem runtime_invariant:
  assumes "runtime_reach env st hist"
  shows "ValidatorsAndKeys (session (session_st st))
       = map (\<lambda>(v, k). (env_into env v, k)) (committee (CurrentCommittee (committee_of st)))
     \<and> pallet_session_index (manager (session_st st)) = CurrentIndex (session (session_st st))
     \<and> length (committee (CurrentCommittee (committee_of st))) \<le> max_validators
     \<and> (\<forall>n. NextCommittee (committee_of st) = Some n \<longrightarrow>
          epoch n = epoch (CurrentCommittee (committee_of st)) + 1 \<and> length (committee n) \<le> max_validators)
     \<and> (hist \<noteq> [] \<longrightarrow> (\<exists>e. current_epoch_number (current_slot st) (sidechain_st st) = Some e
          \<and> epoch (CurrentCommittee (committee_of st)) \<le> e))"
  using runtime_reach_inv [OF assms]
  by (auto simp: chain_inv_def committee_inv_def session_keys_of_def runtime_current_epoch_number_def)

theorem runtime_invariant_witness:
  "ValidatorsAndKeys (session (session_st demo_chain))
       = map (\<lambda>(v, k). (env_into demo_env v, k)) (committee (CurrentCommittee (committee_of demo_chain)))
     \<and> length (committee (CurrentCommittee (committee_of demo_chain))) \<le> max_validators"
  using runtime_invariant [OF demo_chain_reach] by blast

end
