(* ===== verification/DbModel.thy ===== *)
theory DbModel
  imports Prelude Domain
begin

text \<open>
  The database of the main-chain follower: \<^verbatim>\<open>toolkit/mainchain-follower/db-sync-follower/src/db_model.rs\<close>.

  A snapshot of the db-sync tables is the record \<open>db\<close>, one list of rows per table; nullable columns are
  options, integer columns are integers.  The queries follow their SQL text: \<open>inner_join\<close> and \<open>left_join\<close> are the
  two joins, a comparison with \<^verbatim>\<open>NULL\<close> does not hold, \<^verbatim>\<open>ORDER BY ... LIMIT 1\<close> takes the head of the sorted rows.
  Columns are decoded the way \<^verbatim>\<open>sqlx_implementations_for_wrapper\<close> does: an unsigned wrapper is read from a signed
  column and fails on negative values, and is bound to a query by reinterpreting its bits as signed.  Failures of
  the connection itself are not modelled.  The conversion of a JSON datum (\<^verbatim>\<open>encode_json_value_to_plutus_datum\<close>)
  is an argument.
\<close>

section \<open>Tables\<close>

record block_row =
  row_block_id :: nat
  row_block_no :: "int option"
  row_hash :: bytes
  row_epoch_no :: "int option"
  row_slot_no :: "int option"
  row_time :: int

record tx_row =
  row_tx_id :: nat
  row_tx_hash :: bytes
  row_tx_block_id :: nat
  row_tx_block_index :: int

record tx_out_row =
  row_out_id :: nat
  row_out_tx_id :: nat
  row_out_index :: int
  row_out_address :: string
  row_out_data_hash :: "bytes option"

record tx_in_row =
  row_in_id :: nat
  row_in_tx_in_id :: nat
  row_in_tx_out_id :: nat
  row_in_tx_out_index :: int

record ma_tx_out_row =
  row_ma_quantity :: int
  row_ma_tx_out_id :: nat
  row_ma_ident :: nat

record multi_asset_row =
  row_asset_id :: nat
  row_asset_policy :: bytes
  row_asset_name :: bytes

record 'j datum_row =
  row_datum_hash :: bytes
  row_datum_value :: 'j

record epoch_stake_row =
  row_stake_pool_id :: nat
  row_stake_epoch_no :: int
  row_stake_amount :: int

record 'j db =
  block_table :: "block_row list"
  tx_table :: "tx_row list"
  tx_out_table :: "tx_out_row list"
  tx_in_table :: "tx_in_row list"
  ma_tx_out_table :: "ma_tx_out_row list"
  multi_asset_table :: "multi_asset_row list"
  datum_table :: "'j datum_row list"
  epoch_stake_table :: "epoch_stake_row list"
  pool_hash_table :: "(nat \<times> bytes) list"
  epoch_param_table :: "(int \<times> bytes option) list"

section \<open>Relational operators and decoding\<close>

definition inner_join :: "('x \<Rightarrow> 'y \<Rightarrow> bool) \<Rightarrow> 'x list \<Rightarrow> 'y list \<Rightarrow> ('x \<times> 'y) list" where
  "inner_join P xs ys = concat (map (\<lambda>x. map (Pair x) (filter (P x) ys)) xs)"

definition left_join :: "('x \<Rightarrow> 'y \<Rightarrow> bool) \<Rightarrow> 'x list \<Rightarrow> 'y list \<Rightarrow> ('x \<times> 'y option) list" where
  "left_join P xs ys =
     concat (map (\<lambda>x. case filter (P x) ys of [] \<Rightarrow> [(x, None)] | zs \<Rightarrow> map (\<lambda>y. (x, Some y)) zs) xs)"

text \<open>A condition on a nullable column does not hold on \<^verbatim>\<open>NULL\<close>.\<close>

definition col :: "('c \<Rightarrow> bool) \<Rightarrow> 'c option \<Rightarrow> bool" where
  "col P c = (case c of Some v \<Rightarrow> P v | None \<Rightarrow> False)"

definition order_by_desc :: "('r \<Rightarrow> int) \<Rightarrow> 'r list \<Rightarrow> 'r list" where
  "order_by_desc key rows = sort_key (\<lambda>r. - key r) rows"

text \<open>The database sorts \<^verbatim>\<open>NULL\<close> before every value in descending order.\<close>

definition order_by_desc_nullable :: "('r \<Rightarrow> int option) \<Rightarrow> 'r list \<Rightarrow> 'r list" where
  "order_by_desc_nullable key rows =
     filter (\<lambda>r. key r = None) rows @ order_by_desc (\<lambda>r. the (key r)) (filter (\<lambda>r. key r \<noteq> None) rows)"

datatype sqlx_error = SqlxDecode | SqlxNull

definition decode_unsigned :: "int \<Rightarrow> ('a::len word, sqlx_error) result" where
  "decode_unsigned i = (if 0 \<le> i then Ok (word_of_int i) else Err SqlxDecode)"

definition not_null :: "'c option \<Rightarrow> ('c, sqlx_error) result" where
  "not_null c = ok_or SqlxNull c"

text \<open>\<open>bind_signed\<close> is \<^verbatim>\<open>Encode::encode_by_ref\<close>: the bytes of the unsigned value, read by the database as signed.\<close>

definition bind_signed :: "'a::len word \<Rightarrow> int" where
  "bind_signed w = sint w"

fun collect :: "('a, 'e) result list \<Rightarrow> ('a list, 'e) result" where
  "collect [] = Ok []"
| "collect (r # rs) = rbind r (\<lambda>a. rbind (collect rs) (\<lambda>as. Ok (a # as)))"

definition fetch_all :: "('r \<Rightarrow> ('a, sqlx_error) result) \<Rightarrow> 'r list \<Rightarrow> ('a list, sqlx_error) result" where
  "fetch_all decode rows = collect (map decode rows)"

definition fetch_optional :: "('r \<Rightarrow> ('a, sqlx_error) result) \<Rightarrow> 'r list \<Rightarrow> ('a option, sqlx_error) result" where
  "fetch_optional decode rows =
     (case rows of [] \<Rightarrow> Ok None | r # _ \<Rightarrow> rbind (decode r) (\<lambda>a. Ok (Some a)))"

section \<open>Blocks\<close>

record db_block =
  blk_no :: u32
  blk_hash :: bytes
  blk_epoch_no :: u32
  blk_slot_no :: u64
  blk_time :: int

definition decode_block :: "block_row \<Rightarrow> (db_block, sqlx_error) result" where
  "decode_block r =
     rbind (not_null (row_block_no r)) (\<lambda>n. rbind (decode_unsigned n) (\<lambda>block_no.
     rbind (not_null (row_epoch_no r)) (\<lambda>e. rbind (decode_unsigned e) (\<lambda>epoch_no.
     rbind (not_null (row_slot_no r)) (\<lambda>s. rbind (decode_unsigned s) (\<lambda>slot_no.
       Ok \<lparr> blk_no = block_no, blk_hash = row_hash r, blk_epoch_no = epoch_no, blk_slot_no = slot_no,
            blk_time = row_time r \<rparr>))))))"

text \<open>\<^verbatim>\<open>From<Block> for MainchainBlock\<close>: the timestamp is the time in seconds and must not be negative.\<close>

definition mainchain_block_from :: "db_block \<Rightarrow> mainchain_block may_panic" where
  "mainchain_block_from b =
     (if blk_time b div 1000 < 0 then None
      else Some \<lparr> mc_number = blk_no b, mc_hash = blk_hash b, mc_epoch = blk_epoch_no b,
                  mc_slot = blk_slot_no b, mc_timestamp = word_of_int (blk_time b div 1000) \<rparr>)"

definition get_latest_block_info :: "'j db \<Rightarrow> (db_block option, sqlx_error) result" where
  "get_latest_block_info d =
     fetch_optional decode_block
       (order_by_desc (\<lambda>r. the (row_block_no r)) (filter (\<lambda>r. row_block_no r \<noteq> None) (block_table d)))"

definition get_blocks_by_numbers :: "'j db \<Rightarrow> u32 \<Rightarrow> u32 \<Rightarrow> (db_block list, sqlx_error) result" where
  "get_blocks_by_numbers d from_no to_no =
     fetch_all decode_block
       (sort_key (\<lambda>r. the (row_block_no r))
         (filter (\<lambda>r. col (\<lambda>n. bind_signed from_no \<le> n \<and> n \<le> bind_signed to_no) (row_block_no r)) (block_table d)))"

definition get_highest_block ::
  "'j db \<Rightarrow> u32 \<Rightarrow> int \<Rightarrow> u64 \<Rightarrow> int \<Rightarrow> u64 \<Rightarrow> (db_block option, sqlx_error) result" where
  "get_highest_block d max_block_number min_time min_slot max_time max_slot =
     fetch_optional decode_block
       (order_by_desc (\<lambda>r. the (row_block_no r))
         (filter (\<lambda>r. col (\<lambda>n. n \<le> bind_signed max_block_number) (row_block_no r)
             \<and> col (\<lambda>s. bind_signed min_slot \<le> s \<and> s \<le> bind_signed max_slot) (row_slot_no r)
             \<and> min_time \<le> row_time r \<and> row_time r \<le> max_time) (block_table d)))"

definition get_block_by_hash :: "'j db \<Rightarrow> bytes \<Rightarrow> (db_block option, sqlx_error) result" where
  "get_block_by_hash d h = fetch_optional decode_block (filter (\<lambda>r. row_hash r = h) (block_table d))"

definition get_latest_block_for_epoch :: "'j db \<Rightarrow> u32 \<Rightarrow> (db_block option, sqlx_error) result" where
  "get_latest_block_for_epoch d e =
     fetch_optional decode_block
       (order_by_desc (\<lambda>r. the (row_slot_no r))
         (filter (\<lambda>r. col (\<lambda>n. n \<le> bind_signed e) (row_epoch_no r) \<and> row_slot_no r \<noteq> None \<and> row_block_no r \<noteq> None)
           (block_table d)))"

definition get_latest_stable_epoch :: "'j db \<Rightarrow> u32 \<Rightarrow> (u32 option, sqlx_error) result" where
  "get_latest_stable_epoch d security_parameter =
     fetch_optional (\<lambda>(b, stable). rbind (not_null (row_epoch_no stable)) (\<lambda>e. decode_unsigned (e - 1)))
       (order_by_desc (\<lambda>(b, stable). the (row_block_no b))
         (filter (\<lambda>(b, stable). row_block_no b \<noteq> None)
           (inner_join (\<lambda>b stable. col (\<lambda>n. row_block_no stable = Some (n - bind_signed security_parameter)) (row_block_no b))
             (block_table d) (block_table d))))"

section \<open>Stake, nonces and tokens\<close>

definition get_stake_distribution :: "'j db \<Rightarrow> u32 \<Rightarrow> ((bytes \<times> u64) list, sqlx_error) result" where
  "get_stake_distribution d e =
     (let rows = inner_join (\<lambda>es ph. row_stake_pool_id es = fst ph)
            (filter (\<lambda>es. row_stake_epoch_no es = bind_signed e) (epoch_stake_table d)) (pool_hash_table d);
          pools = remdups (map (\<lambda>(es, ph). snd ph) rows)
      in fetch_all (\<lambda>(pool, stake). rbind (if 0 \<le> stake \<and> stake < 2 ^ 64 then Ok (word_of_int stake) else Err SqlxDecode)
             (\<lambda>s. Ok (pool, s)))
           (map (\<lambda>pool. (pool, sum_list (map (\<lambda>(es, ph). row_stake_amount es) (filter (\<lambda>(es, ph). snd ph = pool) rows)))) pools))"

definition get_epoch_nonce :: "'j db \<Rightarrow> u32 \<Rightarrow> (bytes option, sqlx_error) result" where
  "get_epoch_nonce d e =
     fetch_optional (\<lambda>(_, nonce). not_null nonce) (filter (\<lambda>(epoch_no, _). epoch_no = bind_signed e) (epoch_param_table d))"

record 'p token_tx_output =
  origin_tx_hash :: bytes
  token_utxo_index :: u16
  token_tx_epoch_no :: u32
  token_tx_block_no :: u32
  token_tx_slot_no :: u64
  token_tx_block_index :: u32
  token_datum :: "'p option"

definition decode_datum :: "('j \<Rightarrow> 'p option) \<Rightarrow> 'j datum_row option \<Rightarrow> ('p option, sqlx_error) result" where
  "decode_datum to_plutus row =
     (case row of
        None \<Rightarrow> Ok None
      | Some r \<Rightarrow> rbind (ok_or SqlxDecode (to_plutus (row_datum_value r))) (\<lambda>p. Ok (Some p)))"

text \<open>Outputs with their transaction and block: the joins on the keys \<^verbatim>\<open>tx_out.tx_id\<close> and \<^verbatim>\<open>tx.block_id\<close>.\<close>

definition outputs_with_origin :: "'j db \<Rightarrow> (tx_out_row \<times> tx_row \<times> block_row) list" where
  "outputs_with_origin d =
     map (\<lambda>((out, tx), b). (out, tx, b))
       (inner_join (\<lambda>(out, tx) b. row_tx_block_id tx = row_block_id b)
         (inner_join (\<lambda>out tx. row_out_tx_id out = row_tx_id tx) (tx_out_table d) (tx_table d)) (block_table d))"

definition get_token_utxo_for_epoch ::
  "('j \<Rightarrow> 'p option) \<Rightarrow> 'j db \<Rightarrow> bytes \<times> bytes \<Rightarrow> u32 \<Rightarrow> ('p token_tx_output option, sqlx_error) result" where
  "get_token_utxo_for_epoch to_plutus d asset e =
     fetch_optional
       (\<lambda>(((ma, asset_row), (out, tx, b)), value_row).
          rbind (decode_unsigned (row_out_index out)) (\<lambda>utxo_index.
          rbind (not_null (row_epoch_no b)) (\<lambda>en. rbind (decode_unsigned en) (\<lambda>epoch_no.
          rbind (not_null (row_block_no b)) (\<lambda>bn. rbind (decode_unsigned bn) (\<lambda>block_no.
          rbind (not_null (row_slot_no b)) (\<lambda>sn. rbind (decode_unsigned sn) (\<lambda>slot_no.
          rbind (decode_unsigned (row_tx_block_index tx)) (\<lambda>block_index.
          rbind (decode_datum to_plutus value_row) (\<lambda>value.
            Ok \<lparr> origin_tx_hash = row_tx_hash tx, token_utxo_index = utxo_index, token_tx_epoch_no = epoch_no,
                 token_tx_block_no = block_no, token_tx_slot_no = slot_no, token_tx_block_index = block_index,
                 token_datum = value \<rparr>))))))))))
       (order_by_desc_nullable (\<lambda>((_, (out, tx, b)), value_row). row_block_no b)
           (order_by_desc (\<lambda>((_, (out, tx, b)), value_row). row_tx_block_index tx)
             (left_join (\<lambda>(_, (out, tx, b)) value_row. row_out_data_hash out = Some (row_datum_hash value_row))
               (filter (\<lambda>((ma, asset_row), (out, tx, b)).
                    row_asset_policy asset_row = fst asset \<and> row_asset_name asset_row = snd asset
                    \<and> col (\<lambda>n. n \<le> bind_signed e) (row_epoch_no b))
                 (inner_join (\<lambda>(ma, asset_row) (out, tx, b). row_ma_tx_out_id ma = row_out_id out)
                   (inner_join (\<lambda>ma asset_row. row_ma_ident ma = row_asset_id asset_row)
                     (ma_tx_out_table d) (multi_asset_table d))
                   (outputs_with_origin d)))
               (datum_table d))))"

section \<open>Native tokens\<close>

definition get_total_native_tokens_transfered ::
  "'j db \<Rightarrow> u32 \<Rightarrow> bytes \<times> bytes \<Rightarrow> string \<Rightarrow> (u128, sqlx_error) result" where
  "get_total_native_tokens_transfered d to_block asset address =
     (let rows = inner_join (\<lambda>(out, tx, b) (ma, asset_row). row_ma_tx_out_id ma = row_out_id out)
            (outputs_with_origin d)
            (inner_join (\<lambda>ma asset_row. row_asset_id asset_row = row_ma_ident ma) (ma_tx_out_table d) (multi_asset_table d));
          total = sum_list (map (\<lambda>((out, tx, b), (ma, asset_row)). row_ma_quantity ma)
            (filter (\<lambda>((out, tx, b), (ma, asset_row)). row_out_address out = address
                \<and> row_asset_policy asset_row = fst asset \<and> row_asset_name asset_row = snd asset
                \<and> col (\<lambda>n. n \<le> bind_signed to_block) (row_block_no b)) rows))
      in if 0 \<le> total \<and> total < 2 ^ 128 then Ok (word_of_int total) else Err SqlxDecode)"

text \<open>
  The amounts per block.  The conditions on the asset stand in the \<^verbatim>\<open>ON\<close> clause of a \<^verbatim>\<open>LEFT JOIN\<close>, so a row of another
  asset is kept, with \<^verbatim>\<open>NULL\<close> for the columns of \<^verbatim>\<open>multi_asset\<close>, and its quantity enters the sum.
\<close>

definition block_amount :: "'j db \<Rightarrow> bytes \<times> bytes \<Rightarrow> string \<Rightarrow> block_row \<Rightarrow> int" where
  "block_amount d asset address b =
     (let with_tx = left_join (\<lambda>b tx. row_block_id b = row_tx_block_id tx) [b] (tx_table d);
          with_out = left_join (\<lambda>(b, tx) out. col (\<lambda>t. row_tx_id t = row_out_tx_id out) tx \<and> row_out_address out = address)
            with_tx (tx_out_table d);
          with_ma = left_join (\<lambda>(_, out) ma. col (\<lambda>t. row_ma_tx_out_id ma = row_out_id t) out) with_out (ma_tx_out_table d);
          rows = left_join (\<lambda>(_, ma) asset_row. col (\<lambda>m. row_asset_id asset_row = row_ma_ident m) ma
              \<and> row_asset_policy asset_row = fst asset \<and> row_asset_name asset_row = snd asset)
            with_ma (multi_asset_table d)
      in sum_list (map (\<lambda>((_, ma), _). case ma of Some m \<Rightarrow> row_ma_quantity m | None \<Rightarrow> 0) rows))"

definition get_native_token_transfers ::
  "'j db \<Rightarrow> u32 \<Rightarrow> u32 \<Rightarrow> bytes \<times> bytes \<Rightarrow> string \<Rightarrow> ((bytes \<times> u128) list, sqlx_error) result" where
  "get_native_token_transfers d from_block to_block asset address =
     fetch_all
       (\<lambda>b. let amount = block_amount d asset address b
            in if 0 \<le> amount \<and> amount < 2 ^ 128 then Ok (row_hash b, word_of_int amount) else Err SqlxDecode)
       (sort_key (\<lambda>b. the (row_block_no b))
         (filter (\<lambda>b. col (\<lambda>n. bind_signed from_block \<le> n \<and> n \<le> bind_signed to_block) (row_block_no b)) (block_table d)))"

section \<open>Registrations\<close>

record 'p mainchain_tx_output =
  txo_utxo_id :: utxo_id
  txo_block_no :: u32
  txo_slot_no :: u64
  txo_epoch_no :: u32
  txo_index_in_block :: u32
  txo_address :: string
  txo_datum :: "'p option"
  txo_tx_inputs :: "utxo_id list"

text \<open>
  The unspent outputs of an address.  \<open>spent_after\<close> is the condition on the inputs that spend an output and their
  block, \<open>consumed_inputs\<close> the printed inputs of the transaction that created it; \<^verbatim>\<open>concat_ws\<close> skips \<^verbatim>\<open>NULL\<close>, so a
  transaction without inputs yields one empty string.  The columns of the \<^verbatim>\<open>GROUP BY\<close> identify the output, and the
  schema lets an output be spent once and a datum hash occur once, so a group is an output with the inputs of its
  transaction.
\<close>

definition spent_after :: "'j db \<Rightarrow> u32 \<Rightarrow> tx_out_row \<Rightarrow> bool" where
  "spent_after d block out =
     (let consuming = left_join (\<lambda>(i, tx) b. col (\<lambda>t. row_tx_block_id t = row_block_id b) tx)
            (left_join (\<lambda>i tx. col (\<lambda>j. row_in_tx_in_id j = row_tx_id tx) i)
              (map snd (left_join (\<lambda>out i. row_out_tx_id out = row_in_tx_out_id i \<and> row_out_index out = row_in_tx_out_index i)
                [out] (tx_in_table d)))
              (tx_table d))
            (block_table d)
      in list_ex (\<lambda>((i, tx), b). i = None \<or> col (\<lambda>r. col (\<lambda>n. bind_signed block < n) (row_block_no r)) b) consuming)"

definition consumed_inputs :: "(bytes \<Rightarrow> string) \<Rightarrow> 'j db \<Rightarrow> tx_row \<Rightarrow> string list" where
  "consumed_inputs to_hex d tx =
     map (\<lambda>((i, out), consumed_tx).
         case (consumed_tx, i) of
           (Some t, Some j) \<Rightarrow> to_hex (row_tx_hash t) @ ''#'' @ to_decimal (nat (row_in_tx_out_index j))
         | (None, Some j) \<Rightarrow> to_decimal (nat (row_in_tx_out_index j))
         | _ \<Rightarrow> [])
       (left_join (\<lambda>(i, out) t. col (\<lambda>r. row_tx_id t = row_out_tx_id r) out)
         (left_join (\<lambda>i out. col (\<lambda>j. row_out_tx_id out = row_in_tx_out_id j \<and> row_in_tx_out_index j = row_out_index out) i)
           (map snd (left_join (\<lambda>tx i. row_in_tx_in_id i = row_tx_id tx) [tx] (tx_in_table d)))
           (tx_out_table d))
         (tx_table d))"

definition decode_tx_output ::
  "(bytes \<Rightarrow> string) \<Rightarrow> (string \<Rightarrow> bytes option) \<Rightarrow> ('j \<Rightarrow> 'p option) \<Rightarrow> 'j db
    \<Rightarrow> (tx_out_row \<times> tx_row \<times> block_row) \<times> 'j datum_row option \<Rightarrow> ('p mainchain_tx_output, sqlx_error) result" where
  "decode_tx_output to_hex from_hex to_plutus d = (\<lambda>((out, tx, b), value_row).
     rbind (decode_unsigned (row_out_index out)) (\<lambda>index.
     rbind (not_null (row_block_no b)) (\<lambda>bn. rbind (decode_unsigned bn) (\<lambda>block_no.
     rbind (not_null (row_slot_no b)) (\<lambda>sn. rbind (decode_unsigned sn) (\<lambda>slot_no.
     rbind (not_null (row_epoch_no b)) (\<lambda>en. rbind (decode_unsigned en) (\<lambda>epoch_no.
     rbind (decode_unsigned (row_tx_block_index tx)) (\<lambda>block_index.
     rbind (decode_datum to_plutus value_row) (\<lambda>value.
     rbind (map_err (\<lambda>_. SqlxDecode) (collect (map (utxo_id_from_str from_hex) (consumed_inputs to_hex d tx)))) (\<lambda>inputs.
       Ok \<lparr> txo_utxo_id = utxo_id_new (row_tx_hash tx) index, txo_block_no = block_no, txo_slot_no = slot_no,
            txo_epoch_no = epoch_no, txo_index_in_block = block_index, txo_address = row_out_address out,
            txo_datum = value, txo_tx_inputs = inputs \<rparr>)))))))))))"

definition get_utxos_for_address ::
  "(bytes \<Rightarrow> string) \<Rightarrow> (string \<Rightarrow> bytes option) \<Rightarrow> ('j \<Rightarrow> 'p option) \<Rightarrow> 'j db \<Rightarrow> string \<Rightarrow> u32
    \<Rightarrow> ('p mainchain_tx_output list, sqlx_error) result" where
  "get_utxos_for_address to_hex from_hex to_plutus d address block =
     fetch_all (decode_tx_output to_hex from_hex to_plutus d)
       (left_join (\<lambda>(out, tx, b) value_row. row_out_data_hash out = Some (row_datum_hash value_row))
         (filter (\<lambda>(out, tx, b). row_out_address out = address
             \<and> col (\<lambda>n. n \<le> bind_signed block) (row_block_no b) \<and> spent_after d block out)
           (outputs_with_origin d))
         (datum_table d))"

section \<open>Errors of the data sources\<close>

datatype data_source_error =
  BadRequest
| InternalDataSourceError
| DatumDecodeError
| ExpectedDataNotFound string
| InvalidData
| SqlxError sqlx_error

section \<open>Joins and orders\<close>

lemma set_inner_join: "(x, y) \<in> set (inner_join P xs ys) \<longleftrightarrow> x \<in> set xs \<and> y \<in> set ys \<and> P x y"
  by (auto simp: inner_join_def)

text \<open>A left join that matches at most one row per left row keeps the left rows as they are.\<close>

lemma left_join_unique:
  assumes "\<And>x. x \<in> set xs \<Longrightarrow> length (filter (P x) ys) \<le> 1"
  shows "map fst (left_join P xs ys) = xs"
  using assms
proof (induction xs)
  case (Cons x xs)
  then have "map fst (left_join P xs ys) = xs" "length (filter (P x) ys) \<le> 1"
    by simp_all
  then show ?case
    by (cases "filter (P x) ys") (auto simp: left_join_def)
qed (simp add: left_join_def)

lemma fetch_all_Ok: "fetch_all decode rows = Ok xs \<longleftrightarrow> list_all2 (\<lambda>r x. decode r = Ok x) rows xs"
proof (induction rows arbitrary: xs)
  case (Cons r rows)
  then show ?case
    by (cases xs) (auto simp: fetch_all_def)
qed (auto simp: fetch_all_def)

lemma fetch_optional_Ok:
  "fetch_optional decode rows = Ok x \<longleftrightarrow>
     (case rows of [] \<Rightarrow> x = None | r # _ \<Rightarrow> \<exists>a. decode r = Ok a \<and> x = Some a)"
  by (auto simp: fetch_optional_def split: list.splits)

lemma hd_order_by_desc:
  assumes "order_by_desc key rows = r # rs"
  shows "r \<in> set rows" and "r' \<in> set rows \<Longrightarrow> key r' \<le> key r"
proof -
  have eq: "set (order_by_desc key rows) = set rows" and srt: "sorted (map (\<lambda>r. - key r) (order_by_desc key rows))"
    by (simp_all add: order_by_desc_def)
  show "r \<in> set rows"
    using eq assms by auto
  show "key r' \<le> key r" if "r' \<in> set rows"
    using that eq srt unfolding assms by auto
qed

lemma order_by_desc_Nil [simp]: "order_by_desc key rows = [] \<longleftrightarrow> rows = []"
  by (metis length_0_conv length_sort order_by_desc_def)

section \<open>Amounts per block\<close>

lemma distinct_filter_key:
  "distinct (map f xs) \<Longrightarrow> length (filter (\<lambda>x. f x = k \<and> Q x) xs) \<le> 1"
  by (induction xs) (auto simp: filter_empty_conv image_iff)

lemma block_amount_eq:
  assumes "distinct (map row_asset_id (multi_asset_table d))"
  shows "block_amount d asset address b =
     sum_list (map (\<lambda>(_, ma). case ma of Some m \<Rightarrow> row_ma_quantity m | None \<Rightarrow> 0)
       (left_join (\<lambda>(_, out) ma. col (\<lambda>t. row_ma_tx_out_id ma = row_out_id t) out)
         (left_join (\<lambda>(b, tx) out. col (\<lambda>t. row_tx_id t = row_out_tx_id out) tx \<and> row_out_address out = address)
            (left_join (\<lambda>b tx. row_block_id b = row_tx_block_id tx) [b] (tx_table d)) (tx_out_table d))
         (ma_tx_out_table d)))"
proof -
  let ?P = "\<lambda>(_, ma) asset_row. col (\<lambda>m. row_asset_id asset_row = row_ma_ident m) ma
              \<and> row_asset_policy asset_row = fst asset \<and> row_asset_name asset_row = snd asset"
  have "length (filter (?P x) (multi_asset_table d)) \<le> 1" for x :: "'x \<times> ma_tx_out_row option"
  proof (cases "snd x")
    case (Some m)
    then show ?thesis
      using distinct_filter_key [OF assms, of "row_ma_ident m"
          "\<lambda>a. row_asset_policy a = fst asset \<and> row_asset_name a = snd asset"]
      by (cases x) (simp add: col_def)
  qed (cases x; simp add: col_def)
  then have rows: "map fst (left_join ?P xs (multi_asset_table d)) = xs" for xs :: "('x \<times> ma_tx_out_row option) list"
    by (rule left_join_unique)
  have sums: "map (\<lambda>((_, ma), _). case ma of Some m \<Rightarrow> row_ma_quantity m | None \<Rightarrow> 0) zs
      = map (\<lambda>(_, ma). case ma of Some m \<Rightarrow> row_ma_quantity m | None \<Rightarrow> 0) (map fst zs)"
    for zs :: "(('x \<times> ma_tx_out_row option) \<times> multi_asset_row option) list"
    by (simp add: case_prod_beta)
  show ?thesis
    unfolding block_amount_def Let_def sums rows ..
qed

text \<open>C25. The amounts per block do not depend on the asset asked for: whatever the policy and the name, the query
  sums the quantities of all tokens in the outputs to the address, because the asset is only restricted in the
  condition of an outer join.\<close>

theorem native_token_transfers_any_asset:
  assumes "distinct (map row_asset_id (multi_asset_table d))"
  shows "get_native_token_transfers d from_block to_block asset address
     = get_native_token_transfers d from_block to_block asset' address"
  unfolding get_native_token_transfers_def block_amount_eq [OF assms] ..

text \<open>One block with an output that holds seven tokens of one asset and five of another.\<close>

definition demo_block_row :: "nat \<Rightarrow> int \<Rightarrow> bytes \<Rightarrow> int \<Rightarrow> block_row" where
  "demo_block_row i n h t = \<lparr> row_block_id = i, row_block_no = Some n, row_hash = h, row_epoch_no = Some 1,
     row_slot_no = Some (n * 20), row_time = t \<rparr>"

definition demo_db :: "unit db" where
  "demo_db = \<lparr> block_table = [demo_block_row 1 5 [9] 1000],
     tx_table = [\<lparr> row_tx_id = 1, row_tx_hash = [3], row_tx_block_id = 1, row_tx_block_index = 0 \<rparr>],
     tx_out_table = [\<lparr> row_out_id = 1, row_out_tx_id = 1, row_out_index = 0, row_out_address = ''addr'',
       row_out_data_hash = None \<rparr>],
     tx_in_table = [],
     ma_tx_out_table = [\<lparr> row_ma_quantity = 7, row_ma_tx_out_id = 1, row_ma_ident = 1 \<rparr>,
       \<lparr> row_ma_quantity = 5, row_ma_tx_out_id = 1, row_ma_ident = 2 \<rparr>],
     multi_asset_table = [\<lparr> row_asset_id = 1, row_asset_policy = [1], row_asset_name = [] \<rparr>,
       \<lparr> row_asset_id = 2, row_asset_policy = [2], row_asset_name = [] \<rparr>],
     datum_table = [], epoch_stake_table = [], pool_hash_table = [], epoch_param_table = [] \<rparr>"

theorem native_token_transfers_any_asset_witness:
  "get_native_token_transfers demo_db 0 9 ([1], []) ''addr'' = Ok [([9], 12)]
   \<and> get_native_token_transfers demo_db 0 9 ([2], []) ''addr'' = Ok [([9], 12)]
   \<and> get_total_native_tokens_transfered demo_db 9 ([1], []) ''addr'' = Ok 7"
proof -
  have "distinct (map row_asset_id (multi_asset_table demo_db))"
    by (simp add: demo_db_def)
  then have "get_native_token_transfers demo_db 0 9 ([2], []) ''addr'' = get_native_token_transfers demo_db 0 9 ([1], []) ''addr''"
    by (rule native_token_transfers_any_asset)
  moreover have "get_native_token_transfers demo_db 0 9 ([1], []) ''addr'' = Ok [([9], 12)]"
    by code_simp
  moreover have "get_total_native_tokens_transfered demo_db 9 ([1], []) ''addr'' = Ok 7"
    by code_simp
  ultimately show ?thesis
    by simp
qed

end
