(* ===== verification/DbChain.thy ===== *)
theory DbChain
  imports Prelude DbModel
begin

text \<open>
  The chain a database snapshot holds: its numbered blocks in order, what the schema guarantees about them, and how
  the snapshot grows while the main chain does.  The data sources are verified against this view.
\<close>

section \<open>The chain the database holds\<close>

text \<open>The numbered blocks in order.\<close>

definition chain_rows :: "'j db \<Rightarrow> block_row list" where
  "chain_rows d = sort_key (\<lambda>r. the (row_block_no r)) (filter (\<lambda>r. row_block_no r \<noteq> None) (block_table d))"

abbreviation block_num :: "block_row \<Rightarrow> int" where
  "block_num r \<equiv> the (row_block_no r)"

text \<open>
  What the schema of db-sync guarantees: block numbers and hashes are unique, and a numbered block has a number, an
  epoch and a slot in the range of their columns.
\<close>

definition wf_blocks :: "'j db \<Rightarrow> bool" where
  "wf_blocks d \<longleftrightarrow> distinct (map row_hash (block_table d)) \<and> distinct (map block_num (chain_rows d))
     \<and> (\<forall>r \<in> set (chain_rows d). 0 \<le> block_num r \<and> block_num r < 2 ^ 31
          \<and> (\<exists>e. row_epoch_no r = Some e \<and> 0 \<le> e \<and> e < 2 ^ 31) \<and> (\<exists>s. row_slot_no r = Some s \<and> 0 \<le> s \<and> s < 2 ^ 63))"

definition latest_num :: "'j db \<Rightarrow> int" where
  "latest_num d = (if chain_rows d = [] then 0 else block_num (last (chain_rows d)))"

lemma set_chain_rows: "r \<in> set (chain_rows d) \<longleftrightarrow> r \<in> set (block_table d) \<and> row_block_no r \<noteq> None"
  by (auto simp: chain_rows_def)

lemma chain_rows_sorted: "wf_blocks d \<Longrightarrow> sorted_wrt (\<lambda>r r'. block_num r < block_num r') (chain_rows d)"
proof -
  assume "wf_blocks d"
  moreover have "sorted (map block_num (chain_rows d))"
    by (simp add: chain_rows_def)
  ultimately have "sorted_wrt (<) (map block_num (chain_rows d))"
    by (simp add: wf_blocks_def strict_sorted_iff)
  then show ?thesis
    by (simp add: sorted_wrt_map)
qed

lemma filter_chain_rows:
  "filter P (chain_rows d) = sort_key (\<lambda>r. the (row_block_no r)) (filter (\<lambda>r. row_block_no r \<noteq> None \<and> P r) (block_table d))"
  by (simp add: chain_rows_def filter_sort conj_commute)

text \<open>Two elements of a strictly ordered list and what lies between them.\<close>

lemma ordered_segment:
  fixes n :: "'r \<Rightarrow> int"
  assumes "sorted_wrt (\<lambda>r r'. n r < n r') L" "a \<in> set L" "t \<in> set L" "n a < n t"
  obtains P M S where "L = P @ a # M @ t # S" "filter (\<lambda>r. n a < n r \<and> n r \<le> n t) L = M @ [t]"
    "filter (\<lambda>r. n a \<le> n r) L = a # M @ t # S"
proof -
  obtain P R where L: "L = P @ a # R"
    using assms(2) split_list by metis
  have "t \<in> set R"
    using assms L by (auto simp: sorted_wrt_append)
  then obtain M S where R: "R = M @ t # S"
    using split_list by metis
  have P: "\<forall>r \<in> set P. n r < n a" and M: "\<forall>r \<in> set M. n a < n r \<and> n r < n t" and S: "\<forall>r \<in> set S. n t < n r"
    using assms(1) L R by (auto simp: sorted_wrt_append)
  have "filter (\<lambda>r. n a < n r \<and> n r \<le> n t) P = []" "filter (\<lambda>r. n a < n r \<and> n r \<le> n t) M = M"
      "filter (\<lambda>r. n a < n r \<and> n r \<le> n t) S = []" "filter (\<lambda>r. n a \<le> n r) P = []"
      "filter (\<lambda>r. n a \<le> n r) M = M" "filter (\<lambda>r. n a \<le> n r) S = S"
    using P M S assms(4) by (force simp: filter_empty_conv filter_id_conv)+
  then have "filter (\<lambda>r. n a < n r \<and> n r \<le> n t) L = M @ [t]" "filter (\<lambda>r. n a \<le> n r) L = a # M @ t # S"
    using assms(4) unfolding L R by simp_all
  then show ?thesis
    using that L R by simp
qed

section \<open>Reading the chain\<close>

lemma filter_eq_singleton:
  "distinct (map f xs) \<Longrightarrow> x \<in> set xs \<Longrightarrow> filter (\<lambda>y. f y = f x) xs = [x]"
  by (induction xs) (auto simp: filter_empty_conv image_iff)

lemma sorted_wrt_max_last:
  fixes n :: "'r \<Rightarrow> int"
  assumes "sorted_wrt (\<lambda>r r'. n r < n r') L" "r \<in> set L" "\<And>r'. r' \<in> set L \<Longrightarrow> n r' \<le> n r"
  shows "r = last L"
proof -
  obtain P S where L: "L = P @ r # S"
    using split_list [OF assms(2)] by blast
  have "S = []"
  proof (rule ccontr)
    assume "S \<noteq> []"
    then have "n r < n (last S)" "last S \<in> set L"
      using assms(1) L by (auto simp: sorted_wrt_append)
    then show False
      using assms(3) by fastforce
  qed
  then show ?thesis
    using L by simp
qed

definition row_block :: "block_row \<Rightarrow> db_block" where
  "row_block r = \<lparr> blk_no = word_of_int (block_num r), blk_hash = row_hash r,
     blk_epoch_no = word_of_int (the (row_epoch_no r)), blk_slot_no = word_of_int (the (row_slot_no r)),
     blk_time = row_time r \<rparr>"

lemma uint_word_of_int_small: "0 \<le> i \<Longrightarrow> i < 2 ^ LENGTH('a) \<Longrightarrow> uint (word_of_int i :: 'a::len word) = i"
  by (simp add: unsigned_of_int take_bit_int_eq_self)

lemma bind_signed_small:
  fixes w :: "'a::len word"
  assumes "uint w < 2 ^ (LENGTH('a) - 1)"
  shows "bind_signed w = uint w"
proof -
  have "0 < LENGTH('a)"
    by simp
  then have "signed_take_bit (LENGTH('a) - 1) (uint w) = uint w"
    using assms by (intro signed_take_bit_int_eq_self) (auto intro: order.trans [of _ 0])
  then show ?thesis
    by (simp add: bind_signed_def sint_uint)
qed

lemma uint_saturating_sub: "uint (saturating_sub a b) = max 0 (uint a - uint b)"
  unfolding uint_nat unat_saturating_sub by arith

lemma uint_min_max:
  "uint (min a b) = min (uint a) (uint b)" "uint (max a b) = max (uint a) (uint b)"
  by (auto simp: min_def max_def word_le_def)

lemma decode_unsigned_Ok [simp]: "decode_unsigned i = Ok w \<longleftrightarrow> 0 \<le> i \<and> w = word_of_int i"
  by (auto simp: decode_unsigned_def)

lemma chain_row_facts:
  assumes "wf_blocks d" "r \<in> set (chain_rows d)"
  shows "row_block_no r = Some (block_num r)" "0 \<le> block_num r" "block_num r < 2 ^ 31"
    "decode_block r = Ok (row_block r)" "uint (blk_no (row_block r)) = block_num r"
    "bind_signed (blk_no (row_block r)) = block_num r" "blk_hash (row_block r) = row_hash r"
    "bind_signed (blk_slot_no (row_block r)) = the (row_slot_no r)"
proof -
  obtain e s where es: "row_epoch_no r = Some e" "0 \<le> e" "row_slot_no r = Some s" "0 \<le> s" "s < 2 ^ 63"
    and n: "0 \<le> block_num r" "block_num r < 2 ^ 31"
    using assms by (auto simp: wf_blocks_def)
  show no: "row_block_no r = Some (block_num r)"
    using assms(2) by (simp add: set_chain_rows)
  show "0 \<le> block_num r" "block_num r < 2 ^ 31" "blk_hash (row_block r) = row_hash r"
    using n by (simp_all add: row_block_def)
  show "decode_block r = Ok (row_block r)"
    using es n no by (auto simp: decode_block_def not_null_def row_block_def)
  show u: "uint (blk_no (row_block r)) = block_num r"
    using n by (simp add: row_block_def uint_word_of_int_small)
  show "bind_signed (blk_no (row_block r)) = block_num r"
    using u n by (simp add: bind_signed_small)
  have "uint (blk_slot_no (row_block r)) = s"
    using es by (simp add: row_block_def uint_word_of_int_small)
  then show "bind_signed (blk_slot_no (row_block r)) = the (row_slot_no r)"
    using es by (simp add: bind_signed_small)
qed

lemma get_block_by_hash_chain:
  assumes "wf_blocks d" "r \<in> set (chain_rows d)"
  shows "get_block_by_hash d (row_hash r) = Ok (Some (row_block r))"
proof -
  have "filter (\<lambda>r'. row_hash r' = row_hash r) (block_table d) = [r]"
    using assms(1) assms(2)
    by (intro filter_eq_singleton) (auto simp: wf_blocks_def set_chain_rows)
  then show ?thesis
    using chain_row_facts(4) [OF assms] by (simp add: get_block_by_hash_def fetch_optional_def)
qed

lemma get_latest_block_info_chain:
  assumes "wf_blocks d" "chain_rows d \<noteq> []"
  shows "get_latest_block_info d = Ok (Some (row_block (last (chain_rows d))))"
proof -
  let ?rows = "filter (\<lambda>r. row_block_no r \<noteq> None) (block_table d)"
  obtain r rs where o: "order_by_desc block_num ?rows = r # rs"
    using assms(2) by (cases "order_by_desc block_num ?rows") (auto simp: chain_rows_def)
  have r: "r \<in> set (chain_rows d)" and mx: "\<And>r'. r' \<in> set (chain_rows d) \<Longrightarrow> block_num r' \<le> block_num r"
    using hd_order_by_desc [OF o] by (auto simp: set_chain_rows)
  have "r = last (chain_rows d)"
    using sorted_wrt_max_last [OF chain_rows_sorted [OF assms(1)] r] mx by blast
  then show ?thesis
    using o chain_row_facts(4) [OF assms(1) r] by (simp add: get_latest_block_info_def fetch_optional_def)
qed

section \<open>Growth of the chain\<close>

text \<open>
  While the main chain grows, blocks above the highest stable one may be replaced; those at least \<open>k\<close> blocks deep are
  kept, which is what the security parameter of the main chain promises.
\<close>

definition stable_row :: "int \<Rightarrow> 'j db \<Rightarrow> block_row \<Rightarrow> bool" where
  "stable_row k d r \<longleftrightarrow> block_num r + k \<le> latest_num d"

definition grows :: "int \<Rightarrow> 'j db \<Rightarrow> 'j db \<Rightarrow> bool" where
  "grows k d d' \<longleftrightarrow> wf_blocks d' \<and> latest_num d \<le> latest_num d'
     \<and> filter (stable_row k d) (chain_rows d') = filter (stable_row k d) (chain_rows d)"

lemma grows_stable:
  assumes "grows k d d'" "r \<in> set (chain_rows d)" "stable_row k d r"
  shows "r \<in> set (chain_rows d')" "stable_row k d' r"
proof -
  have "r \<in> set (filter (stable_row k d) (chain_rows d'))"
    using assms by (simp add: grows_def)
  then show "r \<in> set (chain_rows d')"
    by simp
  show "stable_row k d' r"
    using assms by (simp add: grows_def stable_row_def)
qed

lemma fetch_all_map: "(\<And>r. r \<in> set rows \<Longrightarrow> decode r = Ok (f r)) \<Longrightarrow> fetch_all decode rows = Ok (map f rows)"
  by (simp add: fetch_all_Ok list_all2_conv_all_nth)

section \<open>An example\<close>

definition demo_chain_db :: "unit db" where
  "demo_chain_db = demo_db \<lparr> block_table :=
     [demo_block_row 2 5 [9] 1000, demo_block_row 1 6 [8] 21000, demo_block_row 3 7 [7] 41000] \<rparr>"

lemma demo_chain_rows:
  "chain_rows demo_chain_db = [demo_block_row 2 5 [9] 1000, demo_block_row 1 6 [8] 21000, demo_block_row 3 7 [7] 41000]"
  by code_simp

lemma demo_wf_blocks: "wf_blocks demo_chain_db"
  unfolding wf_blocks_def demo_chain_rows by (simp add: demo_chain_db_def demo_block_row_def)

end
