(* ===== verification/BlockSource.thy ===== *)
theory BlockSource
  imports Prelude MainchainEpoch DbChain
begin

text \<open>
  The source of main chain blocks: \<^verbatim>\<open>toolkit/mainchain-follower/db-sync-follower/src/block/mod.rs\<close>, with its two
  fronts \<^verbatim>\<open>mc_hash/mod.rs\<close> and \<^verbatim>\<open>sidechain_rpc/mod.rs\<close>.

  A \<^verbatim>\<open>NaiveDateTime\<close> is its number of milliseconds since the Unix epoch.  The range of dates \<^verbatim>\<open>chrono\<close> represents is an
  argument: converting a timestamp outside of it fails, and subtracting a duration that leaves it panics.  The
  boundaries of the source are computed from a floating point coefficient when it is set up; the rounded quotient is
  an argument of the setup.  The cache behind the mutex is passed along.
\<close>

section \<open>Configuration\<close>

record chrono =
  chrono_min :: int
  chrono_max :: int

record block_source =
  bs_security_parameter :: u32
  bs_min_slot_boundary :: int
  bs_max_slot_boundary :: int
  bs_epoch_config :: mainchain_epoch_config
  bs_stability_margin :: u32
  bs_cache_size :: u16

record 'f block_source_config =
  cardano_security_parameter :: u32
  cardano_active_slots_coeff :: 'f
  block_stability_margin :: u32

text \<open>
  \<open>rounded_quotient k f\<close> is \<^verbatim>\<open>(k / f).round() as i64\<close>.  \<open>time_delta_seconds\<close> is \<^verbatim>\<open>TimeDelta::seconds\<close>, which panics beyond
  the milliseconds of an \<^verbatim>\<open>i64\<close>; durations are kept in milliseconds.
\<close>

definition time_delta_seconds :: "64 word \<Rightarrow> int may_panic" where
  "time_delta_seconds s = (if \<bar>sint s\<bar> \<le> (2 ^ 63 - 1) div 1000 then Some (1000 * sint s) else None)"

definition block_source_from_config ::
  "(u32 \<Rightarrow> 'f \<Rightarrow> 64 word) \<Rightarrow> 'f block_source_config \<Rightarrow> mainchain_epoch_config \<Rightarrow> block_source may_panic" where
  "block_source_from_config rounded_quotient cfg mc_epoch_config =
     (let min_slot_boundary = rounded_quotient (cardano_security_parameter cfg) (cardano_active_slots_coeff cfg);
          max_slot_boundary = 3 * min_slot_boundary
      in Option.bind (time_delta_seconds min_slot_boundary) (\<lambda>min_delta.
         map_option (\<lambda>max_delta.
             \<lparr> bs_security_parameter = cardano_security_parameter cfg,
               bs_min_slot_boundary = min_delta, bs_max_slot_boundary = max_delta,
               bs_epoch_config = mc_epoch_config, bs_stability_margin = block_stability_margin cfg,
               bs_cache_size = 100 \<rparr>) (time_delta_seconds max_slot_boundary)))"

section \<open>Times\<close>

definition chrono_sub :: "chrono \<Rightarrow> int \<Rightarrow> int \<Rightarrow> int may_panic" where
  "chrono_sub ch t delta = (if chrono_min ch \<le> t - delta \<and> t - delta \<le> chrono_max ch then Some (t - delta) else None)"

definition timestamp_to_db_type :: "chrono \<Rightarrow> u64 \<Rightarrow> (int, data_source_error) result" where
  "timestamp_to_db_type ch timestamp =
     (if uint timestamp < 2 ^ 63 \<and> chrono_min ch \<le> uint timestamp \<and> uint timestamp \<le> chrono_max ch
      then Ok (uint timestamp) else Err BadRequest)"

definition min_block_allowed_time :: "chrono \<Rightarrow> block_source \<Rightarrow> int \<Rightarrow> int may_panic" where
  "min_block_allowed_time ch bs reference_timestamp = chrono_sub ch reference_timestamp (bs_max_slot_boundary bs)"

definition max_allowed_block_time :: "chrono \<Rightarrow> block_source \<Rightarrow> int \<Rightarrow> int may_panic" where
  "max_allowed_block_time ch bs reference_timestamp = chrono_sub ch reference_timestamp (bs_min_slot_boundary bs)"

definition is_block_time_valid :: "chrono \<Rightarrow> block_source \<Rightarrow> db_block \<Rightarrow> int \<Rightarrow> bool may_panic" where
  "is_block_time_valid ch bs b timestamp =
     Option.bind (min_block_allowed_time ch bs timestamp) (\<lambda>lo.
       if lo \<le> blk_time b then map_option (\<lambda>hi. blk_time b \<le> hi) (max_allowed_block_time ch bs timestamp)
       else Some False)"

definition date_time_to_slot :: "block_source \<Rightarrow> int \<Rightarrow> (u64, data_source_error) result" where
  "date_time_to_slot bs dt =
     (if dt < 0 then Err BadRequest
      else case timestamp_to_mainchain_slot_number (bs_epoch_config bs) (word_of_int dt) of
             Ok slot \<Rightarrow> Ok slot
           | _ \<Rightarrow> Ok (first_slot_number (bs_epoch_config bs)))"

section \<open>Queries\<close>

definition bs_get_latest_block_info :: "'j db \<Rightarrow> (mainchain_block, data_source_error) result" where
  "bs_get_latest_block_info d =
     rbind (map_err SqlxError (get_latest_block_info d)) (\<lambda>b_opt.
       case b_opt of
         Some b \<Rightarrow> expect (mainchain_block_from b)
       | None \<Rightarrow> Err (ExpectedDataNotFound ''No latest block on chain.''))"

definition bs_get_latest_block ::
  "chrono \<Rightarrow> block_source \<Rightarrow> 'j db \<Rightarrow> u32 \<Rightarrow> int \<Rightarrow> (db_block option, data_source_error) result" where
  "bs_get_latest_block ch bs d max_block reference_timestamp =
     rbind (expect (min_block_allowed_time ch bs reference_timestamp)) (\<lambda>min_time.
     rbind (date_time_to_slot bs min_time) (\<lambda>min_slot.
     rbind (expect (max_allowed_block_time ch bs reference_timestamp)) (\<lambda>max_time.
     rbind (date_time_to_slot bs max_time) (\<lambda>max_slot.
       map_err SqlxError (get_highest_block d max_block min_time min_slot max_time max_slot)))))"

definition get_latest_stable_block_for ::
  "chrono \<Rightarrow> block_source \<Rightarrow> 'j db \<Rightarrow> u64 \<Rightarrow> (mainchain_block option, data_source_error) result" where
  "get_latest_stable_block_for ch bs d reference_timestamp =
     rbind (timestamp_to_db_type ch reference_timestamp) (\<lambda>t.
     rbind (bs_get_latest_block_info d) (\<lambda>latest.
       let offset = bs_security_parameter bs + bs_stability_margin bs;
           stable = saturating_sub (mc_number latest) offset
       in rbind (bs_get_latest_block ch bs d stable t) (\<lambda>b_opt.
            case b_opt of
              None \<Rightarrow> Ok None
            | Some b \<Rightarrow> rbind (expect (mainchain_block_from b)) (\<lambda>mb. Ok (Some mb)))))"

section \<open>Lookup by hash\<close>

type_synonym blocks_cache = "db_block list"

definition find_by_hash :: "blocks_cache \<Rightarrow> bytes \<Rightarrow> db_block option" where
  "find_by_hash cache h = find (\<lambda>b. blk_hash b = h) cache"

definition blocks_cache_update :: "blocks_cache \<Rightarrow> db_block list \<Rightarrow> blocks_cache" where
  "blocks_cache_update cache from_last_by_hash = from_last_by_hash"

definition get_stable_block_by_hash_from_cache ::
  "chrono \<Rightarrow> block_source \<Rightarrow> blocks_cache \<Rightarrow> bytes \<Rightarrow> int \<Rightarrow> db_block option may_panic" where
  "get_stable_block_by_hash_from_cache ch bs cache h reference_timestamp =
     (case find_by_hash cache h of
        None \<Rightarrow> Some None
      | Some b \<Rightarrow> map_option (\<lambda>valid. if valid then Some b else None) (is_block_time_valid ch bs b reference_timestamp))"

definition get_stable_block_by_hash_from_db ::
  "chrono \<Rightarrow> block_source \<Rightarrow> 'j db \<Rightarrow> bytes \<Rightarrow> int \<Rightarrow> (db_block option, data_source_error) result" where
  "get_stable_block_by_hash_from_db ch bs d h reference_timestamp =
     rbind (map_err SqlxError (get_block_by_hash d h)) (\<lambda>b_opt.
     rbind (map_err SqlxError (get_latest_block_info d)) (\<lambda>latest_opt.
       case (b_opt, latest_opt) of
         (Some b, Some latest_block) \<Rightarrow>
           if blk_no b + bs_security_parameter bs \<le> blk_no latest_block
           then rbind (expect (is_block_time_valid ch bs b reference_timestamp)) (\<lambda>valid.
                  Ok (if valid then Some b else None))
           else Ok None
       | _ \<Rightarrow> Ok None))"

definition fill_cache ::
  "block_source \<Rightarrow> 'j db \<Rightarrow> db_block \<Rightarrow> blocks_cache \<Rightarrow> (blocks_cache, data_source_error) result" where
  "fill_cache bs d from_block cache =
     (let from_block_no = blk_no from_block; size = ucast (bs_cache_size bs) in
      rbind (map_err SqlxError (get_latest_block_info d)) (\<lambda>latest_opt.
      rbind (ok_or InternalDataSourceError latest_opt) (\<lambda>latest_block.
        let stable_block_num = saturating_sub (blk_no latest_block) (bs_security_parameter bs);
            to_block_no = min (saturating_add from_block_no size) stable_block_num
        in rbind (if to_block_no > from_block_no
                  then map_err SqlxError (get_blocks_by_numbers d from_block_no to_block_no)
                  else Ok [from_block])
             (\<lambda>blocks. Ok (blocks_cache_update cache blocks)))))"

definition get_stable_block_by_hash ::
  "chrono \<Rightarrow> block_source \<Rightarrow> 'j db \<Rightarrow> bytes \<Rightarrow> int \<Rightarrow> blocks_cache
    \<Rightarrow> (mainchain_block option, data_source_error) result \<times> blocks_cache" where
  "get_stable_block_by_hash ch bs d h reference_timestamp cache =
     (case get_stable_block_by_hash_from_cache ch bs cache h reference_timestamp of
        None \<Rightarrow> (Panic, cache)
      | Some (Some b) \<Rightarrow> (rbind (expect (mainchain_block_from b)) (\<lambda>mb. Ok (Some mb)), cache)
      | Some None \<Rightarrow>
          (case get_stable_block_by_hash_from_db ch bs d h reference_timestamp of
             Ok (Some b) \<Rightarrow>
               (case fill_cache bs d b cache of
                  Ok cache' \<Rightarrow> (rbind (expect (mainchain_block_from b)) (\<lambda>mb. Ok (Some mb)), cache')
                | Err e \<Rightarrow> (Err e, cache)
                | Panic \<Rightarrow> (Panic, cache))
           | Ok None \<Rightarrow> (Ok None, cache)
           | Err e \<Rightarrow> (Err e, cache)
           | Panic \<Rightarrow> (Panic, cache)))"

definition get_stable_block_for ::
  "chrono \<Rightarrow> block_source \<Rightarrow> 'j db \<Rightarrow> bytes \<Rightarrow> u64 \<Rightarrow> blocks_cache
    \<Rightarrow> (mainchain_block option, data_source_error) result \<times> blocks_cache" where
  "get_stable_block_for ch bs d h reference_timestamp cache =
     (case timestamp_to_db_type ch reference_timestamp of
        Ok t \<Rightarrow> get_stable_block_by_hash ch bs d h t cache
      | Err e \<Rightarrow> (Err e, cache)
      | Panic \<Rightarrow> (Panic, cache))"

section \<open>Fronts\<close>

definition mc_hash_get_latest_stable_block_for ::
  "chrono \<Rightarrow> block_source \<Rightarrow> 'j db \<Rightarrow> u64 \<Rightarrow> (mainchain_block option, data_source_error) result" where
  "mc_hash_get_latest_stable_block_for ch bs d reference_timestamp = get_latest_stable_block_for ch bs d reference_timestamp"

definition mc_hash_get_stable_block_for ::
  "chrono \<Rightarrow> block_source \<Rightarrow> 'j db \<Rightarrow> bytes \<Rightarrow> u64 \<Rightarrow> blocks_cache
    \<Rightarrow> (mainchain_block option, data_source_error) result \<times> blocks_cache" where
  "mc_hash_get_stable_block_for ch bs d h reference_timestamp cache = get_stable_block_for ch bs d h reference_timestamp cache"

definition rpc_get_latest_block_info :: "'j db \<Rightarrow> (mainchain_block, data_source_error) result" where
  "rpc_get_latest_block_info d = bs_get_latest_block_info d"

section \<open>Blocks of the chain\<close>

text \<open>\<open>latest_where P d\<close> is the highest block of the chain with the property \<open>P\<close>.\<close>

definition latest_where :: "(block_row \<Rightarrow> bool) \<Rightarrow> 'j db \<Rightarrow> block_row option" where
  "latest_where P d = (let rs = filter P (chain_rows d) in if rs = [] then None else Some (last rs))"

lemma latest_where_None: "latest_where P d = None \<longleftrightarrow> (\<forall>r \<in> set (chain_rows d). \<not> P r)"
  by (simp add: latest_where_def Let_def filter_empty_conv)

lemma latest_where_Some:
  assumes "wf_blocks d" "latest_where P d = Some r"
  shows "r \<in> set (chain_rows d)" "P r" "r' \<in> set (chain_rows d) \<Longrightarrow> P r' \<Longrightarrow> block_num r' \<le> block_num r"
proof -
  let ?rs = "filter P (chain_rows d)"
  have ne: "?rs \<noteq> []" and r: "r = last ?rs"
    using assms(2) by (auto simp: latest_where_def Let_def split: if_splits)
  then show "r \<in> set (chain_rows d)" "P r"
    using last_in_set [OF ne] by auto
  have "sorted_wrt (\<lambda>r r'. block_num r < block_num r') (butlast ?rs @ [r])"
    using sorted_wrt_filter [OF chain_rows_sorted [OF assms(1)]] ne r by simp
  moreover assume "r' \<in> set (chain_rows d)" "P r'"
  then have "r' \<in> set (butlast ?rs @ [r])"
    using ne r by simp
  ultimately show "block_num r' \<le> block_num r"
    by (auto simp: sorted_wrt_append)
qed

lemma get_highest_block_chain:
  assumes "wf_blocks d"
  shows "get_highest_block d m lo slot_lo hi slot_hi = Ok (map_option row_block (latest_where (\<lambda>r.
     block_num r \<le> bind_signed m \<and> bind_signed slot_lo \<le> the (row_slot_no r) \<and> the (row_slot_no r) \<le> bind_signed slot_hi
     \<and> lo \<le> row_time r \<and> row_time r \<le> hi) d))" (is "_ = Ok (map_option _ (latest_where ?Q d))")
proof -
  let ?rows = "filter (\<lambda>r. col (\<lambda>n. n \<le> bind_signed m) (row_block_no r)
             \<and> col (\<lambda>s. bind_signed slot_lo \<le> s \<and> s \<le> bind_signed slot_hi) (row_slot_no r)
             \<and> lo \<le> row_time r \<and> row_time r \<le> hi) (block_table d)"
  have slot: "row_slot_no r \<noteq> None" if "r \<in> set (chain_rows d)" for r
    using assms that by (auto simp: wf_blocks_def)
  have rows: "set ?rows = set (filter ?Q (chain_rows d))"
  proof (rule set_eqI)
    fix r
    show "r \<in> set ?rows \<longleftrightarrow> r \<in> set (filter ?Q (chain_rows d))"
      using slot [of r]
      by (cases "row_block_no r"; cases "row_slot_no r") (auto simp: set_chain_rows col_def)
  qed
  show ?thesis
  proof (cases "order_by_desc block_num ?rows")
    case Nil
    then have "set ?rows = {}"
      unfolding order_by_desc_Nil by (simp only: list.set)
    then have "filter ?Q (chain_rows d) = []"
      unfolding rows by (simp only: set_empty)
    then show ?thesis
      using Nil by (simp add: get_highest_block_def fetch_optional_def latest_where_def order_by_desc_def)
  next
    case (Cons r rs)
    have r: "r \<in> set (filter ?Q (chain_rows d))" and mx: "\<And>r'. r' \<in> set (filter ?Q (chain_rows d)) \<Longrightarrow> block_num r' \<le> block_num r"
      using hd_order_by_desc [OF Cons] rows by blast+
    have "r = last (filter ?Q (chain_rows d))"
      using sorted_wrt_max_last [OF sorted_wrt_filter [OF chain_rows_sorted [OF assms]] r] mx by blast
    moreover have "filter ?Q (chain_rows d) \<noteq> []"
      using r by (metis length_pos_if_in_set list.size(3) less_numeral_extra(3))
    ultimately have "latest_where ?Q d = Some r"
      unfolding latest_where_def Let_def by (simp only: if_False)
    then show ?thesis
      using Cons r chain_row_facts(4) [OF assms, of r] by (simp add: get_highest_block_def fetch_optional_def)
  qed
qed

section \<open>The window of a reference timestamp\<close>

text \<open>
  \<open>timed_blocks\<close>: blocks have the slot of their time, from the first slot of the configuration on.  \<open>reference_ok\<close>: the
  window of the reference timestamp lies after the start of the configuration and within the range of dates.
\<close>

definition timed_blocks :: "block_source \<Rightarrow> 'j db \<Rightarrow> bool" where
  "timed_blocks bs d \<longleftrightarrow> (\<forall>r \<in> set (chain_rows d). 0 \<le> row_time r
     \<and> (uint (first_epoch_timestamp_millis (bs_epoch_config bs)) \<le> row_time r \<longrightarrow>
          the (row_slot_no r) = uint (first_slot_number (bs_epoch_config bs))
            + (row_time r - uint (first_epoch_timestamp_millis (bs_epoch_config bs))) div 1000))"

definition reference_ok :: "chrono \<Rightarrow> block_source \<Rightarrow> u64 \<Rightarrow> bool" where
  "reference_ok ch bs ts \<longleftrightarrow> uint ts < 2 ^ 63 \<and> uint ts \<le> chrono_max ch
     \<and> chrono_min ch \<le> uint (first_epoch_timestamp_millis (bs_epoch_config bs))
     \<and> uint (first_epoch_timestamp_millis (bs_epoch_config bs)) + bs_max_slot_boundary bs \<le> uint ts
     \<and> 0 \<le> bs_min_slot_boundary bs \<and> bs_min_slot_boundary bs \<le> bs_max_slot_boundary bs
     \<and> uint (first_slot_number (bs_epoch_config bs)) < 2 ^ 62"

definition in_window :: "block_source \<Rightarrow> u64 \<Rightarrow> block_row \<Rightarrow> bool" where
  "in_window bs ts r \<longleftrightarrow> uint ts - bs_max_slot_boundary bs \<le> row_time r \<and> row_time r \<le> uint ts - bs_min_slot_boundary bs"

lemma reference_times:
  assumes "reference_ok ch bs ts"
  shows "timestamp_to_db_type ch ts = Ok (uint ts)"
    "min_block_allowed_time ch bs (uint ts) = Some (uint ts - bs_max_slot_boundary bs)"
    "max_allowed_block_time ch bs (uint ts) = Some (uint ts - bs_min_slot_boundary bs)"
    "is_block_time_valid ch bs (row_block r) (uint ts) = Some (in_window bs ts r)"
  using assms
  by (auto simp: reference_ok_def timestamp_to_db_type_def min_block_allowed_time_def max_allowed_block_time_def
      chrono_sub_def is_block_time_valid_def in_window_def row_block_def)

lemma date_time_to_slot_eq:
  assumes "uint (first_epoch_timestamp_millis (bs_epoch_config bs)) \<le> t" "t < 2 ^ 63"
    and "uint (first_slot_number (bs_epoch_config bs)) < 2 ^ 62"
  obtains s where "date_time_to_slot bs t = Ok s" "bind_signed s = uint (first_slot_number (bs_epoch_config bs))
     + (t - uint (first_epoch_timestamp_millis (bs_epoch_config bs))) div 1000"
proof -
  let ?c = "bs_epoch_config bs" and ?w = "word_of_int t :: u64"
  have t0: "0 \<le> t"
    using assms(1) uint_ge_0 order.trans by blast
  then have t: "uint ?w = t"
    using assms(2) by (simp add: uint_word_of_int_small)
  have "(t - uint (first_epoch_timestamp_millis ?c)) div 1000 \<le> (2 ^ 63 - 1) div 1000"
    using assms(2) uint_ge_0 [of "first_epoch_timestamp_millis ?c"] by (intro zdiv_mono1) (linarith, simp)
  then have small: "(t - uint (first_epoch_timestamp_millis ?c)) div 1000 < 2 ^ 62"
    by simp
  have le: "unat (first_epoch_timestamp_millis ?c) \<le> unat ?w"
    unfolding word_le_nat_alt [symmetric] word_le_def t by (rule assms(1))
  have sum: "int (unat (first_slot_number ?c) + (unat ?w - unat (first_epoch_timestamp_millis ?c)) div 1000)
      = uint (first_slot_number ?c) + (t - uint (first_epoch_timestamp_millis ?c)) div 1000"
    using le t by (simp add: zdiv_int)
  moreover have "\<dots> < int (2 ^ 64)"
    using small assms(3) by simp
  ultimately have "unat (first_slot_number ?c) + (unat ?w - unat (first_epoch_timestamp_millis ?c)) div 1000 < 2 ^ 64"
    by (simp only: of_nat_less_iff [where 'a = int, symmetric])
  then obtain s where s: "timestamp_to_mainchain_slot_number ?c ?w = Ok s"
      "unat s = unat (first_slot_number ?c) + (unat ?w - unat (first_epoch_timestamp_millis ?c)) div 1000"
    using timestamp_to_mainchain_slot_number_eq [OF le] by blast
  then have u: "uint s = uint (first_slot_number ?c) + (t - uint (first_epoch_timestamp_millis ?c)) div 1000"
    using sum by (metis uint_nat)
  then have "bind_signed s = uint s"
    using small assms(3) by (intro bind_signed_small) simp
  then show ?thesis
    using that [of s] s(1) u t0 by (simp add: date_time_to_slot_def)
qed

text \<open>The slots of the query are implied by its times.\<close>

lemma bs_get_latest_block_chain:
  assumes "wf_blocks d" "timed_blocks bs d" "reference_ok ch bs ts"
  shows "bs_get_latest_block ch bs d m (uint ts)
     = Ok (map_option row_block (latest_where (\<lambda>r. block_num r \<le> bind_signed m \<and> in_window bs ts r) d))"
proof -
  let ?f = "uint (first_epoch_timestamp_millis (bs_epoch_config bs))"
    and ?lo = "uint ts - bs_max_slot_boundary bs" and ?hi = "uint ts - bs_min_slot_boundary bs"
  have b: "?f \<le> ?lo" "?lo \<le> ?hi" "?hi < 2 ^ 63" "uint (first_slot_number (bs_epoch_config bs)) < 2 ^ 62"
    using assms(3) by (auto simp: reference_ok_def)
  obtain s_lo where lo: "date_time_to_slot bs ?lo = Ok s_lo"
      "bind_signed s_lo = uint (first_slot_number (bs_epoch_config bs)) + (?lo - ?f) div 1000"
    using b by (auto intro: date_time_to_slot_eq [of bs ?lo])
  obtain s_hi where hi: "date_time_to_slot bs ?hi = Ok s_hi"
      "bind_signed s_hi = uint (first_slot_number (bs_epoch_config bs)) + (?hi - ?f) div 1000"
    using b by (auto intro: date_time_to_slot_eq [of bs ?hi])
  have slots: "bind_signed s_lo \<le> the (row_slot_no r) \<and> the (row_slot_no r) \<le> bind_signed s_hi"
    if "r \<in> set (chain_rows d)" "?lo \<le> row_time r" "row_time r \<le> ?hi" for r
  proof -
    have "the (row_slot_no r) = uint (first_slot_number (bs_epoch_config bs)) + (row_time r - ?f) div 1000"
      using assms(2) that b(1) by (auto simp: timed_blocks_def)
    then show ?thesis
      using that lo(2) hi(2) by (simp add: zdiv_mono1)
  qed
  have "filter (\<lambda>r. block_num r \<le> bind_signed m \<and> bind_signed s_lo \<le> the (row_slot_no r)
        \<and> the (row_slot_no r) \<le> bind_signed s_hi \<and> ?lo \<le> row_time r \<and> row_time r \<le> ?hi) (chain_rows d)
      = filter (\<lambda>r. block_num r \<le> bind_signed m \<and> in_window bs ts r) (chain_rows d)"
    by (rule filter_cong [OF refl]) (use slots in \<open>auto simp: in_window_def\<close>)
  then have "latest_where (\<lambda>r. block_num r \<le> bind_signed m \<and> bind_signed s_lo \<le> the (row_slot_no r)
        \<and> the (row_slot_no r) \<le> bind_signed s_hi \<and> ?lo \<le> row_time r \<and> row_time r \<le> ?hi) d
      = latest_where (\<lambda>r. block_num r \<le> bind_signed m \<and> in_window bs ts r) d"
    by (simp only: latest_where_def)
  then show ?thesis
    using lo(1) hi(1) reference_times [OF assms(3)]
    by (simp add: bs_get_latest_block_def get_highest_block_chain [OF assms(1)])
qed

section \<open>Selection\<close>

definition mc_block :: "block_row \<Rightarrow> mainchain_block" where
  "mc_block r = \<lparr> mc_number = word_of_int (block_num r), mc_hash = row_hash r, mc_epoch = word_of_int (the (row_epoch_no r)),
     mc_slot = word_of_int (the (row_slot_no r)), mc_timestamp = word_of_int (row_time r div 1000) \<rparr>"

lemma mainchain_block_from_row: "0 \<le> row_time r \<Longrightarrow> mainchain_block_from (row_block r) = Some (mc_block r)"
  by (simp add: mainchain_block_from_def mc_block_def row_block_def)

lemma mc_block_simps [simp]: "mc_hash (mc_block r) = row_hash r"
  by (simp add: mc_block_def)

lemma latest_row:
  assumes "chain_rows d \<noteq> []"
  shows "last (chain_rows d) \<in> set (chain_rows d)" "block_num (last (chain_rows d)) = latest_num d"
  using assms by (simp_all add: latest_num_def)

lemma bs_get_latest_block_info_chain:
  assumes "wf_blocks d" "timed_blocks bs d" "chain_rows d \<noteq> []"
  shows "bs_get_latest_block_info d = Ok (mc_block (last (chain_rows d)))"
proof -
  have "0 \<le> row_time (last (chain_rows d))"
    using assms(2,3) by (simp add: timed_blocks_def)
  then show ?thesis
    using get_latest_block_info_chain [OF assms(1,3)]
    by (simp add: bs_get_latest_block_info_def mainchain_block_from_row)
qed

text \<open>The depth a proposer asks for.\<close>

abbreviation proposal_depth :: "block_source \<Rightarrow> int" where
  "proposal_depth bs \<equiv> uint (bs_security_parameter bs) + uint (bs_stability_margin bs)"

lemma stable_number:
  assumes "wf_blocks d" "chain_rows d \<noteq> []" "proposal_depth bs \<le> latest_num d"
  shows "bind_signed (saturating_sub (mc_number (mc_block (last (chain_rows d))))
      (bs_security_parameter bs + bs_stability_margin bs)) = latest_num d - proposal_depth bs"
proof -
  note l = latest_row [OF assms(2)]
  note f = chain_row_facts [OF assms(1) l(1), unfolded l(2)]
  have "proposal_depth bs < 2 ^ 32"
    using f(3) assms(3) by simp
  then have "uint (bs_security_parameter bs + bs_stability_margin bs) = proposal_depth bs"
    by (simp add: uint_plus_if')
  then have u: "uint (saturating_sub (mc_number (mc_block (last (chain_rows d))))
      (bs_security_parameter bs + bs_stability_margin bs)) = latest_num d - proposal_depth bs"
    using f(2,5) assms(3) by (simp add: uint_saturating_sub mc_block_def row_block_def)
  moreover have "latest_num d - proposal_depth bs < 2 ^ 31"
    using f(3) uint_ge_0 [of "bs_security_parameter bs"] uint_ge_0 [of "bs_stability_margin bs"] by linarith
  ultimately show ?thesis
    by (simp add: bind_signed_small)
qed

lemma latest_stable_block_eq:
  assumes "wf_blocks d" "timed_blocks bs d" "chain_rows d \<noteq> []" "reference_ok ch bs ts"
    and "proposal_depth bs \<le> latest_num d"
  shows "get_latest_stable_block_for ch bs d ts
     = Ok (map_option mc_block (latest_where (\<lambda>r. stable_row (proposal_depth bs) d r \<and> in_window bs ts r) d))"
proof -
  have P: "(\<lambda>r. block_num r \<le> latest_num d - proposal_depth bs \<and> in_window bs ts r)
      = (\<lambda>r. stable_row (proposal_depth bs) d r \<and> in_window bs ts r)"
    by (auto simp: stable_row_def)
  have "0 \<le> row_time r" if "latest_where (\<lambda>r. stable_row (proposal_depth bs) d r \<and> in_window bs ts r) d = Some r" for r
    using latest_where_Some(1) [OF assms(1) that] assms(2) by (simp add: timed_blocks_def)
  then show ?thesis
    using bs_get_latest_block_info_chain [OF assms(1-3)] reference_times(1) [OF assms(4)]
    by (auto simp: get_latest_stable_block_for_def Let_def bs_get_latest_block_chain [OF assms(1,2,4)]
        stable_number [OF assms(1,3,5)] P mainchain_block_from_row split: option.splits)
qed

section \<open>Caching\<close>

definition cached_blocks_ok :: "block_source \<Rightarrow> 'j db \<Rightarrow> blocks_cache \<Rightarrow> bool" where
  "cached_blocks_ok bs d cache \<longleftrightarrow> (\<forall>b \<in> set cache. \<exists>r \<in> set (chain_rows d).
     b = row_block r \<and> stable_row (uint (bs_security_parameter bs)) d r)"

lemma get_blocks_by_numbers_chain:
  assumes "wf_blocks d"
  shows "get_blocks_by_numbers d lo hi
     = Ok (map row_block (filter (\<lambda>r. bind_signed lo \<le> block_num r \<and> block_num r \<le> bind_signed hi) (chain_rows d)))"
proof -
  have rows: "filter (\<lambda>r. col (\<lambda>n. bind_signed lo \<le> n \<and> n \<le> bind_signed hi) (row_block_no r)) (block_table d)
      = filter (\<lambda>r. row_block_no r \<noteq> None \<and> (bind_signed lo \<le> block_num r \<and> block_num r \<le> bind_signed hi)) (block_table d)"
    by (rule filter_cong) (auto simp: col_def split: option.splits)
  show ?thesis
    unfolding get_blocks_by_numbers_def rows filter_chain_rows
    by (rule fetch_all_map) (use chain_row_facts(4) [OF assms] in \<open>auto simp: set_chain_rows\<close>)
qed

lemma fill_cache_ok:
  assumes "wf_blocks d" "r \<in> set (chain_rows d)" "stable_row (uint (bs_security_parameter bs)) d r"
  shows "\<exists>cache'. fill_cache bs d (row_block r) cache = Ok cache' \<and> cached_blocks_ok bs d cache'"
proof -
  let ?k = "bs_security_parameter bs" and ?l = "last (chain_rows d)"
  have ne: "chain_rows d \<noteq> []"
    using assms(2) by auto
  note l = latest_row [OF ne]
  note fl = chain_row_facts [OF assms(1) l(1), unfolded l(2)] and fr = chain_row_facts [OF assms(1,2)]
  define hi where "hi = min (saturating_add (blk_no (row_block r)) (ucast (bs_cache_size bs)))
      (saturating_sub (blk_no (row_block ?l)) ?k)"
  have "uint hi \<le> max 0 (latest_num d - uint ?k)"
    using fl(5) by (simp add: hi_def uint_min_max uint_saturating_sub)
  then have le: "uint hi \<le> latest_num d - uint ?k"
    using assms(3) fr(2) by (simp add: stable_row_def)
  then have "uint hi < 2 ^ 31"
    using fl(3) uint_ge_0 [of ?k] by linarith
  then have bind: "bind_signed hi = uint hi"
    by (simp add: bind_signed_small)
  have "fill_cache bs d (row_block r) cache = Ok (if hi > blk_no (row_block r)
      then map row_block (filter (\<lambda>r'. block_num r \<le> block_num r' \<and> block_num r' \<le> uint hi) (chain_rows d)) else [row_block r])"
    using get_latest_block_info_chain [OF assms(1) ne] get_blocks_by_numbers_chain [OF assms(1)] fr(6) bind
    by (simp add: fill_cache_def Let_def hi_def blocks_cache_update_def)
  then show ?thesis
    using le assms(2,3) by (auto simp: cached_blocks_ok_def stable_row_def)
qed

lemma get_block_by_hash_row:
  assumes "wf_blocks d" "get_block_by_hash d h = Ok (Some b)"
  obtains r where "r \<in> set (chain_rows d)" "b = row_block r" "row_hash r = h"
proof -
  obtain r rs where r: "filter (\<lambda>r. row_hash r = h) (block_table d) = r # rs" "decode_block r = Ok b"
    using assms(2) by (auto simp: get_block_by_hash_def fetch_optional_def split: list.splits)
  have "r \<in> set (filter (\<lambda>r. row_hash r = h) (block_table d))"
    unfolding r(1) by simp
  then have "r \<in> set (block_table d)" "row_hash r = h"
    by simp_all
  moreover have "row_block_no r \<noteq> None"
    using r(2) by (auto simp: decode_block_def not_null_def)
  ultimately have "r \<in> set (chain_rows d)" "row_hash r = h"
    by (simp_all add: set_chain_rows)
  then show ?thesis
    using that [of r] r(2) chain_row_facts(4) [OF assms(1)] by simp
qed

lemma stable_check:
  assumes "wf_blocks d" "r \<in> set (chain_rows d)" "uint (bs_security_parameter bs) < 2 ^ 31"
  shows "blk_no (row_block r) + bs_security_parameter bs \<le> blk_no (row_block (last (chain_rows d)))
     \<longleftrightarrow> stable_row (uint (bs_security_parameter bs)) d r"
proof -
  have ne: "chain_rows d \<noteq> []"
    using assms(2) by auto
  note fl = chain_row_facts(5) [OF assms(1) latest_row(1) [OF ne], unfolded latest_row(2) [OF ne]]
    and fr = chain_row_facts [OF assms(1,2)]
  have "uint (blk_no (row_block r) + bs_security_parameter bs) = block_num r + uint (bs_security_parameter bs)"
    using fr(3,5) assms(3) by (simp add: uint_plus_if')
  then show ?thesis
    using fl by (simp add: word_le_def stable_row_def)
qed

lemma from_db_stable:
  assumes "wf_blocks d" "uint (bs_security_parameter bs) < 2 ^ 31" "r \<in> set (chain_rows d)"
    and "stable_row (uint (bs_security_parameter bs)) d r"
  shows "get_stable_block_by_hash_from_db ch bs d (row_hash r) t
     = rbind (expect (is_block_time_valid ch bs (row_block r) t)) (\<lambda>valid. Ok (if valid then Some (row_block r) else None))"
proof -
  have ne: "chain_rows d \<noteq> []"
    using assms(3) by auto
  show ?thesis
    using stable_check [OF assms(1,3,2)] assms(4)
    by (simp add: get_stable_block_by_hash_from_db_def get_block_by_hash_chain [OF assms(1,3)]
        get_latest_block_info_chain [OF assms(1) ne])
qed

lemma from_db_row:
  assumes "wf_blocks d" "uint (bs_security_parameter bs) < 2 ^ 31"
    and "get_stable_block_by_hash_from_db ch bs d h t = Ok (Some b)"
  obtains r where "r \<in> set (chain_rows d)" "b = row_block r" "row_hash r = h"
    "stable_row (uint (bs_security_parameter bs)) d r"
proof -
  obtain l where b: "get_block_by_hash d h = Ok (Some b)" "get_latest_block_info d = Ok (Some l)"
      "blk_no b + bs_security_parameter bs \<le> blk_no l"
    using assms(3) by (auto simp: get_stable_block_by_hash_from_db_def split: option.splits if_splits)
  obtain r where r: "r \<in> set (chain_rows d)" "b = row_block r" "row_hash r = h"
    by (rule get_block_by_hash_row [OF assms(1) b(1)])
  then have "l = row_block (last (chain_rows d))"
    using b(2) get_latest_block_info_chain [OF assms(1)] by force
  then show ?thesis
    using that r b(3) stable_check [OF assms(1) r(1) assms(2)] by simp
qed

lemma find_by_hash_row:
  assumes "cached_blocks_ok bs d cache" "find_by_hash cache h = Some b"
  obtains r where "r \<in> set (chain_rows d)" "b = row_block r" "row_hash r = h"
    "stable_row (uint (bs_security_parameter bs)) d r"
proof -
  have "b \<in> set cache" "blk_hash b = h"
    using assms(2) by (auto simp: find_by_hash_def find_Some_iff)
  then show ?thesis
    using assms(1) that by (auto simp: cached_blocks_ok_def row_block_def)
qed

lemma fill_cache_any: "fill_cache bs d b cache = fill_cache bs d b []"
  by (simp add: fill_cache_def blocks_cache_update_def)

lemma by_hash_uncached:
  assumes "wf_blocks d" "uint (bs_security_parameter bs) < 2 ^ 31"
  shows "fst (get_stable_block_by_hash ch bs d h t []) = rbind (get_stable_block_by_hash_from_db ch bs d h t) (\<lambda>b_opt.
     case b_opt of None \<Rightarrow> Ok None | Some b \<Rightarrow> rbind (expect (mainchain_block_from b)) (\<lambda>mb. Ok (Some mb)))"
proof (cases "get_stable_block_by_hash_from_db ch bs d h t")
  case (Ok b_opt)
  show ?thesis
  proof (cases b_opt)
    case (Some b)
    obtain r where "r \<in> set (chain_rows d)" "b = row_block r" "stable_row (uint (bs_security_parameter bs)) d r"
      by (rule from_db_row [OF assms Ok [unfolded Some]])
    then obtain cache' where "fill_cache bs d b [] = Ok cache'"
      using fill_cache_ok [OF assms(1)] by blast
    then show ?thesis
      using Ok Some
      by (simp add: get_stable_block_by_hash_def get_stable_block_by_hash_from_cache_def find_by_hash_def)
  qed (simp add: Ok get_stable_block_by_hash_def get_stable_block_by_hash_from_cache_def find_by_hash_def)
qed (simp_all add: get_stable_block_by_hash_def get_stable_block_by_hash_from_cache_def find_by_hash_def)

lemma by_hash_cached:
  assumes "wf_blocks d" "uint (bs_security_parameter bs) < 2 ^ 31" "cached_blocks_ok bs d cache"
  shows "fst (get_stable_block_by_hash ch bs d h t cache) = fst (get_stable_block_by_hash ch bs d h t [])"
proof (cases "get_stable_block_by_hash_from_cache ch bs cache h t = Some None")
  case True
  then show ?thesis
    by (simp add: get_stable_block_by_hash_def get_stable_block_by_hash_from_cache_def [of _ _ "[]"] find_by_hash_def
        fill_cache_any [of bs d _ cache] split: result.splits option.splits)
next
  case False
  then obtain b where b: "find_by_hash cache h = Some b"
    by (auto simp: get_stable_block_by_hash_from_cache_def split: option.splits)
  obtain r where r: "r \<in> set (chain_rows d)" "b = row_block r" "row_hash r = h"
      "stable_row (uint (bs_security_parameter bs)) d r"
    by (rule find_by_hash_row [OF assms(3) b])
  show ?thesis
    unfolding by_hash_uncached [OF assms(1,2)]
    using False b r(2) from_db_stable [OF assms(1,2) r(1,4), of ch t] r(3)
    by (auto simp: get_stable_block_by_hash_def get_stable_block_by_hash_from_cache_def split: option.splits)
qed

lemma by_hash_keeps_cache:
  assumes "wf_blocks d" "uint (bs_security_parameter bs) < 2 ^ 31" "cached_blocks_ok bs d cache"
  shows "cached_blocks_ok bs d (snd (get_stable_block_by_hash ch bs d h t cache))"
proof -
  have "cached_blocks_ok bs d cache'"
    if filled: "get_stable_block_by_hash_from_db ch bs d h t = Ok (Some b)" "fill_cache bs d b cache = Ok cache'" for b cache'
  proof -
    obtain r where r: "r \<in> set (chain_rows d)" "b = row_block r" "stable_row (uint (bs_security_parameter bs)) d r"
      by (rule from_db_row [OF assms(1,2) filled(1)])
    show ?thesis
      using fill_cache_ok [OF assms(1) r(1,3), of cache] filled(2) r(2) by simp
  qed
  then show ?thesis
    using assms(3) by (auto simp: get_stable_block_by_hash_def split: result.splits option.splits)
qed

section \<open>A running source\<close>

text \<open>The source starts with an empty cache; the main chain grows and lookups by hash are answered in any order.\<close>

inductive block_source_reach :: "chrono \<Rightarrow> block_source \<Rightarrow> 'j db \<Rightarrow> blocks_cache \<Rightarrow> bool" for ch bs where
  start: "wf_blocks d \<Longrightarrow> uint (bs_security_parameter bs) < 2 ^ 31 \<Longrightarrow> block_source_reach ch bs d []"
| grow: "block_source_reach ch bs d cache \<Longrightarrow> grows (uint (bs_security_parameter bs)) d d' \<Longrightarrow> block_source_reach ch bs d' cache"
| lookup: "block_source_reach ch bs d cache \<Longrightarrow> get_stable_block_for ch bs d h ts cache = (r, cache')
    \<Longrightarrow> block_source_reach ch bs d cache'"

lemma block_source_reach_ok:
  "block_source_reach ch bs d cache \<Longrightarrow>
     wf_blocks d \<and> uint (bs_security_parameter bs) < 2 ^ 31 \<and> cached_blocks_ok bs d cache"
proof (induction rule: block_source_reach.induct)
  case (grow d cache d')
  have "cached_blocks_ok bs d' cache"
    unfolding cached_blocks_ok_def
  proof
    fix b
    assume "b \<in> set cache"
    then obtain r where "r \<in> set (chain_rows d)" "b = row_block r" "stable_row (uint (bs_security_parameter bs)) d r"
      using grow.IH by (auto simp: cached_blocks_ok_def)
    then show "\<exists>r \<in> set (chain_rows d'). b = row_block r \<and> stable_row (uint (bs_security_parameter bs)) d' r"
      using grows_stable [OF grow.hyps(2)] by blast
  qed
  then show ?case
    using grow by (simp add: grows_def)
next
  case (lookup d cache h ts r cache')
  then show ?case
    using by_hash_keeps_cache [of d bs cache ch h "uint ts"]
    by (auto simp: get_stable_block_for_def timestamp_to_db_type_def split: if_splits)
qed (simp add: cached_blocks_ok_def)

lemma selected_block_found:
  assumes "wf_blocks d" and "timed_blocks bs d" and "chain_rows d \<noteq> []" and "reference_ok ch bs ts"
    and "proposal_depth bs \<le> latest_num d"
    and "get_latest_stable_block_for ch bs d ts = Ok (Some b)"
    and "block_source_reach ch bs d' cache"
    and "latest_num d \<le> latest_num d' + uint (bs_stability_margin bs)"
    and "filter (stable_row (proposal_depth bs) d) (chain_rows d')
       = filter (stable_row (proposal_depth bs) d) (chain_rows d)"
  shows "fst (get_stable_block_for ch bs d' (mc_hash b) ts cache) = Ok (Some b)"
proof -
  let ?P = "\<lambda>r. stable_row (proposal_depth bs) d r \<and> in_window bs ts r"
  obtain r where r: "latest_where ?P d = Some r" "b = mc_block r"
    using assms(6) unfolding latest_stable_block_eq [OF assms(1-5)] by auto
  note sel = latest_where_Some(1,2) [OF assms(1) r(1)]
  have "r \<in> set (filter (stable_row (proposal_depth bs) d) (chain_rows d'))"
    unfolding assms(9) using sel by simp
  then have r': "r \<in> set (chain_rows d')"
    by simp
  have stable: "stable_row (uint (bs_security_parameter bs)) d' r"
    using sel(2) assms(8) by (simp add: stable_row_def)
  have time: "0 \<le> row_time r"
    using assms(2) sel(1) by (simp add: timed_blocks_def)
  note ok = block_source_reach_ok [OF assms(7)]
  have "fst (get_stable_block_by_hash ch bs d' (row_hash r) (uint ts) cache) = Ok (Some (mc_block r))"
    using ok from_db_stable [OF _ _ r' stable, of ch "uint ts"] sel(2) reference_times(4) [OF assms(4)]
    by (simp add: by_hash_cached by_hash_uncached mainchain_block_from_row [OF time])
  then show ?thesis
    by (simp add: get_stable_block_for_def reference_times(1) [OF assms(4)] r(2))
qed

section \<open>Correctness\<close>

text \<open>C9. Selection refines its specification: the block a proposer refers to at a reference timestamp is the highest
  block of the main chain that is at least the security parameter and the stability margin deep and whose time
  lies in the window of the timestamp; none is selected exactly when there is no such block.  The bounds on slots
  in the query do not change the outcome, and no arithmetic overflows.\<close>

theorem latest_stable_block_spec:
  assumes "wf_blocks d" and "timed_blocks bs d" and "chain_rows d \<noteq> []" and "reference_ok ch bs ts"
    and "uint (bs_security_parameter bs) + uint (bs_stability_margin bs) \<le> latest_num d"
  defines "eligible r \<equiv> r \<in> set (chain_rows d) \<and> in_window bs ts r
     \<and> block_num r + uint (bs_security_parameter bs) + uint (bs_stability_margin bs) \<le> latest_num d"
  shows "case get_latest_stable_block_for ch bs d ts of
     Ok (Some b) \<Rightarrow> (\<exists>r. eligible r \<and> b = mc_block r \<and> (\<forall>r'. eligible r' \<longrightarrow> block_num r' \<le> block_num r))
   | Ok None \<Rightarrow> (\<nexists>r. eligible r)
   | _ \<Rightarrow> False"
proof -
  let ?P = "\<lambda>r. stable_row (proposal_depth bs) d r \<and> in_window bs ts r"
  have P: "eligible r \<longleftrightarrow> r \<in> set (chain_rows d) \<and> ?P r" for r
    by (auto simp: eligible_def stable_row_def)
  show ?thesis
  proof (cases "latest_where ?P d")
    case None
    then show ?thesis
      unfolding latest_stable_block_eq [OF assms(1-5)] using latest_where_None [of ?P d] P by auto
  next
    case (Some r)
    have "eligible r" "\<forall>r'. eligible r' \<longrightarrow> block_num r' \<le> block_num r"
      using latest_where_Some [OF assms(1) Some] P by blast+
    then show ?thesis
      unfolding latest_stable_block_eq [OF assms(1-5)] Some by auto
  qed
qed

definition demo_chrono :: chrono where
  "demo_chrono = \<lparr> chrono_min = - 8334601228800000, chrono_max = 8210266876799999 \<rparr>"

definition demo_block_source :: block_source where
  "demo_block_source = \<lparr> bs_security_parameter = 1, bs_min_slot_boundary = 20000, bs_max_slot_boundary = 60000,
     bs_epoch_config = \<lparr> first_epoch_timestamp_millis = 1000, epoch_duration_millis = 100000, first_epoch_number = 1,
       first_slot_number = 100 \<rparr>,
     bs_stability_margin = 1, bs_cache_size = 100 \<rparr>"

lemma demo_source_ok:
  "timed_blocks demo_block_source demo_chain_db" "chain_rows demo_chain_db \<noteq> []"
  "reference_ok demo_chrono demo_block_source 61000" "latest_num demo_chain_db = 7"
  by (simp_all add: timed_blocks_def demo_chain_rows demo_block_row_def demo_block_source_def reference_ok_def
      demo_chrono_def latest_num_def)

theorem latest_stable_block_spec_witness:
  "get_latest_stable_block_for demo_chrono demo_block_source demo_chain_db 61000 = Ok (Some (mc_block (demo_block_row 2 5 [9] 1000)))"
proof -
  have eligible: "r \<in> set (chain_rows demo_chain_db) \<and> in_window demo_block_source 61000 r
      \<and> block_num r + uint (bs_security_parameter demo_block_source) + uint (bs_stability_margin demo_block_source)
          \<le> latest_num demo_chain_db \<longleftrightarrow> r = demo_block_row 2 5 [9] 1000" for r
    unfolding demo_source_ok(4)
    by (auto simp: demo_chain_rows in_window_def demo_block_source_def demo_block_row_def)
  have "uint (bs_security_parameter demo_block_source) + uint (bs_stability_margin demo_block_source) \<le> latest_num demo_chain_db"
    by (simp add: demo_source_ok demo_block_source_def)
  then show ?thesis
    using latest_stable_block_spec [OF demo_wf_blocks demo_source_ok(1-3), unfolded eligible]
    by (auto split: result.splits option.splits)
qed

text \<open>C10. The cache of stable blocks is invisible: after any sequence of lookups, with the main chain growing in
  between, a lookup by hash returns what it returns on an empty cache, errors and panics included.\<close>

theorem block_cache_transparent:
  assumes "block_source_reach ch bs d cache"
  shows "fst (get_stable_block_for ch bs d h ts cache) = fst (get_stable_block_for ch bs d h ts [])"
  using by_hash_cached block_source_reach_ok [OF assms]
  by (auto simp: get_stable_block_for_def split: result.splits)

theorem block_cache_transparent_witness:
  "fst (get_stable_block_for demo_chrono demo_block_source demo_chain_db [8] 61000
     (snd (get_stable_block_for demo_chrono demo_block_source demo_chain_db [9] 61000 [])))
   = Ok (Some (mc_block (demo_block_row 1 6 [8] 21000)))"
proof -
  have "block_source_reach demo_chrono demo_block_source demo_chain_db []"
    by (intro block_source_reach.start demo_wf_blocks) (simp add: demo_block_source_def)
  then have "block_source_reach demo_chrono demo_block_source demo_chain_db
      (snd (get_stable_block_for demo_chrono demo_block_source demo_chain_db [9] 61000 []))"
    by (rule block_source_reach.lookup) (rule prod.collapse [symmetric])
  then have "fst (get_stable_block_for demo_chrono demo_block_source demo_chain_db [8] 61000
      (snd (get_stable_block_for demo_chrono demo_block_source demo_chain_db [9] 61000 [])))
    = fst (get_stable_block_for demo_chrono demo_block_source demo_chain_db [8] 61000 [])"
    by (rule block_cache_transparent)
  also have "\<dots> = Ok (Some (mc_block (demo_block_row 1 6 [8] 21000)))"
    by code_simp
  finally show ?thesis .
qed

text \<open>C12. What a proposer selects, a verifier finds: the block selected on one node's database is returned by the
  lookup of its hash, for the same reference timestamp, on every node whose database is at most the stability
  margin behind and holds the same blocks up to the selected depth, whatever that node has cached.\<close>

theorem proposed_block_found:
  assumes "wf_blocks d" and "timed_blocks bs d" and "chain_rows d \<noteq> []" and "reference_ok ch bs ts"
    and "uint (bs_security_parameter bs) + uint (bs_stability_margin bs) \<le> latest_num d"
    and "get_latest_stable_block_for ch bs d ts = Ok (Some b)"
    and "block_source_reach ch bs d' cache"
    and "latest_num d \<le> latest_num d' + uint (bs_stability_margin bs)"
    and "filter (stable_row (uint (bs_security_parameter bs) + uint (bs_stability_margin bs)) d) (chain_rows d')
       = filter (stable_row (uint (bs_security_parameter bs) + uint (bs_stability_margin bs)) d) (chain_rows d)"
  shows "fst (get_stable_block_for ch bs d' (mc_hash b) ts cache) = Ok (Some b)"
  by (rule selected_block_found [OF assms])

text \<open>The verifier has not seen the last block of the proposer.\<close>

definition demo_behind_db :: "unit db" where
  "demo_behind_db = demo_db \<lparr> block_table := [demo_block_row 2 5 [9] 1000, demo_block_row 1 6 [8] 21000] \<rparr>"

lemma demo_behind_rows: "chain_rows demo_behind_db = [demo_block_row 2 5 [9] 1000, demo_block_row 1 6 [8] 21000]"
  by code_simp

theorem proposed_block_found_witness:
  "\<exists>b. get_latest_stable_block_for demo_chrono demo_block_source demo_chain_db 61000 = Ok (Some b)
     \<and> mc_hash b = [9] \<and> fst (get_stable_block_for demo_chrono demo_block_source demo_behind_db (mc_hash b) 61000 []) = Ok (Some b)"
proof -
  let ?b = "mc_block (demo_block_row 2 5 [9] 1000)"
  have sel: "get_latest_stable_block_for demo_chrono demo_block_source demo_chain_db 61000 = Ok (Some ?b)"
    by code_simp
  have k: "uint (bs_security_parameter demo_block_source) = 1" "uint (bs_stability_margin demo_block_source) = 1"
    by (simp_all add: demo_block_source_def)
  have "wf_blocks demo_behind_db"
    unfolding wf_blocks_def demo_behind_rows by (simp add: demo_behind_db_def demo_block_row_def)
  then have "block_source_reach demo_chrono demo_block_source demo_behind_db []"
    by (intro block_source_reach.start) (simp_all add: k)
  moreover have "latest_num demo_chain_db \<le> latest_num demo_behind_db + uint (bs_stability_margin demo_block_source)"
    unfolding demo_source_ok(4) k by (simp add: latest_num_def demo_behind_rows demo_block_row_def)
  moreover have "filter (stable_row (1 + 1) demo_chain_db) (chain_rows demo_behind_db)
      = filter (stable_row (1 + 1) demo_chain_db) (chain_rows demo_chain_db)"
    by (simp add: stable_row_def demo_source_ok(4) demo_behind_rows demo_chain_rows demo_block_row_def)
  ultimately have "fst (get_stable_block_for demo_chrono demo_block_source demo_behind_db (mc_hash ?b) 61000 []) = Ok (Some ?b)"
    using proposed_block_found [OF demo_wf_blocks demo_source_ok(1-3) _ sel, unfolded k, of demo_behind_db "[]"]
    by (simp add: demo_source_ok(4) k)
  then show ?thesis
    using sel by (intro exI [of _ ?b]) (simp add: mc_block_def demo_block_row_def)
qed

end
