(* ===== verification/McHash.thy ===== *)
theory McHash
  imports Prelude Domain CommitteePallet BlockSource
begin

text \<open>
  The reference of a partner chain block to the main chain: \<^verbatim>\<open>toolkit/primitives/sidechain-mc-hash/src/lib.rs\<close>, and the
  digest that carries it: \<^verbatim>\<open>toolkit/primitives/consensus/aura/src/inherent_digest.rs\<close> and \<^verbatim>\<open>block_proposal.rs\<close>.

  The trait \<^verbatim>\<open>McHashDataSource\<close> is the record \<open>mc_hash_data_source\<close>.  \<open>slot_timestamp\<close> stands for \<^verbatim>\<open>Slot::timestamp\<close>
  of \<^verbatim>\<open>sp_consensus_slots\<close>; the header store and the wrapped proposer are arguments.  Messages of errors are
  constructors.
\<close>

section \<open>Digests\<close>

datatype digest_item =
  PreRuntime bytes bytes
| Consensus bytes bytes
| Seal bytes bytes
| OtherItem bytes
| RuntimeEnvironmentUpdated

definition MC_HASH_DIGEST_ID :: bytes where
  "MC_HASH_DIGEST_ID = [109, 99, 115, 104]"

definition MC_HASH_INHERENT_IDENTIFIER :: bytes where
  "MC_HASH_INHERENT_IDENTIFIER = [115, 99, 109, 99, 104, 97, 115, 104]"

datatype digest_error = InherentDataUnreadable | McHashMissingFromInherentData | InvalidMcHash bytes | McHashMissingFromDigest

definition from_mc_block_hash :: "bytes \<Rightarrow> digest_item list" where
  "from_mc_block_hash mc_block_hash = [PreRuntime MC_HASH_DIGEST_ID mc_block_hash]"

definition mc_hash_from_inherent_data :: "bytes inherent_data \<Rightarrow> (digest_item list, digest_error) result" where
  "mc_hash_from_inherent_data inherent_data =
     rbind (map_err (\<lambda>_. InherentDataUnreadable) inherent_data) (\<lambda>mc_hash_opt.
     rbind (ok_or McHashMissingFromInherentData mc_hash_opt) (\<lambda>h. Ok (from_mc_block_hash h)))"

fun mc_hash_value_from_digest :: "digest_item list \<Rightarrow> (bytes, digest_error) result" where
  "mc_hash_value_from_digest [] = Err McHashMissingFromDigest"
| "mc_hash_value_from_digest (PreRuntime i data # items) =
     (if i = MC_HASH_DIGEST_ID then (if length data = 32 then Ok data else Err (InvalidMcHash data))
      else mc_hash_value_from_digest items)"
| "mc_hash_value_from_digest (_ # items) = mc_hash_value_from_digest items"

text \<open>\<^verbatim>\<open>InherentDigest for ()\<close>.\<close>

definition unit_from_inherent_data :: "unit inherent_data \<Rightarrow> (digest_item list, unit) result" where
  "unit_from_inherent_data inherent_data = Ok []"

definition unit_value_from_digest :: "digest_item list \<Rightarrow> (unit, unit) result" where
  "unit_value_from_digest digests = Ok ()"

text \<open>\<^verbatim>\<open>PartnerChainsProposer::propose\<close>: the wrapped proposer gets the logs extended by the items of the inherent data.\<close>

definition partner_chains_propose ::
  "('d \<Rightarrow> (digest_item list, 'e) result) \<Rightarrow> ('d \<Rightarrow> digest_item list \<Rightarrow> 'p) \<Rightarrow> 'd \<Rightarrow> digest_item list \<Rightarrow> 'p may_panic" where
  "partner_chains_propose from_inherent_data proposer inherent_data logs =
     map_option (\<lambda>inherent_logs. proposer inherent_data (logs @ inherent_logs)) (ok (from_inherent_data inherent_data))"

section \<open>Headers\<close>

record header =
  header_number :: u32
  header_digest :: "digest_item list"

datatype ('c, 'd) header_error = HeaderBackendError 'c | HeaderMissing | HeaderDigestError 'd

definition get_inherent_digest_value_for_block ::
  "(digest_item list \<Rightarrow> ('v, 'd) result) \<Rightarrow> ('hash \<Rightarrow> (header option, 'c) result) \<Rightarrow> 'hash
    \<Rightarrow> ('v option, ('c, 'd) header_error) result" where
  "get_inherent_digest_value_for_block value_from_digest client_header block_hash =
     rbind (map_err HeaderBackendError (client_header block_hash)) (\<lambda>h_opt.
     rbind (ok_or HeaderMissing h_opt) (\<lambda>h.
       if header_number h = 0 then Ok None
       else rbind (map_err HeaderDigestError (value_from_digest (header_digest h))) (\<lambda>v. Ok (Some v))))"

definition get_mc_hash_for_block ::
  "('hash \<Rightarrow> (header option, 'c) result) \<Rightarrow> 'hash \<Rightarrow> (bytes option, ('c, digest_error) header_error) result" where
  "get_mc_hash_for_block client_header block_hash =
     get_inherent_digest_value_for_block mc_hash_value_from_digest client_header block_hash"

section \<open>The inherent data provider\<close>

record 'e mc_hash_data_source =
  latest_stable_block_for :: "u64 \<Rightarrow> (mainchain_block option, 'e) result"
  stable_block_for :: "bytes \<Rightarrow> u64 \<Rightarrow> (mainchain_block option, 'e) result"

datatype 'e mc_hash_inherent_error =
  DataSourceError 'e
| StableBlockNotFound u64
| SlotTooBig
| McStateReferenceInvalid bytes u64 u64
| McStateReferenceRegressed bytes u64 u32 u32
| DigestError digest_error

definition new_proposal ::
  "(u64 \<Rightarrow> u64 \<Rightarrow> u64 option) \<Rightarrow> 'e mc_hash_data_source \<Rightarrow> u64 \<Rightarrow> u64
    \<Rightarrow> (mainchain_block, 'e mc_hash_inherent_error) result" where
  "new_proposal slot_timestamp data_source slot slot_duration =
     rbind (ok_or SlotTooBig (slot_timestamp slot slot_duration)) (\<lambda>slot_start_timestamp.
     rbind (map_err DataSourceError (latest_stable_block_for data_source slot_start_timestamp)) (\<lambda>b_opt.
       ok_or (StableBlockNotFound slot_start_timestamp) b_opt))"

definition get_mc_state_reference ::
  "(u64 \<Rightarrow> u64 \<Rightarrow> u64 option) \<Rightarrow> u64 \<Rightarrow> bytes \<Rightarrow> u64 \<Rightarrow> 'e mc_hash_data_source
    \<Rightarrow> (mainchain_block, 'e mc_hash_inherent_error) result" where
  "get_mc_state_reference slot_timestamp verified_block_slot verified_block_mc_hash slot_duration data_source =
     rbind (ok_or SlotTooBig (slot_timestamp verified_block_slot slot_duration)) (\<lambda>timestamp.
     rbind (map_err DataSourceError (stable_block_for data_source verified_block_mc_hash timestamp)) (\<lambda>b_opt.
       ok_or (McStateReferenceInvalid verified_block_mc_hash verified_block_slot timestamp) b_opt))"

definition new_verification ::
  "(u64 \<Rightarrow> u64 \<Rightarrow> u64 option) \<Rightarrow> header \<Rightarrow> u64 option \<Rightarrow> u64 \<Rightarrow> bytes \<Rightarrow> u64 \<Rightarrow> 'e mc_hash_data_source
    \<Rightarrow> (mainchain_block, 'e mc_hash_inherent_error) result" where
  "new_verification slot_timestamp parent_header parent_slot_opt verified_block_slot mc_state_reference_hash slot_duration block_source =
     rbind (get_mc_state_reference slot_timestamp verified_block_slot mc_state_reference_hash slot_duration block_source)
       (\<lambda>mc_state_reference_block.
       case parent_slot_opt of
         None \<Rightarrow> Ok mc_state_reference_block
       | Some parent_slot \<Rightarrow>
           rbind (map_err DigestError (mc_hash_value_from_digest (header_digest parent_header))) (\<lambda>parent_mc_hash.
           rbind (get_mc_state_reference slot_timestamp parent_slot parent_mc_hash slot_duration block_source)
             (\<lambda>parent_mc_state_reference_block.
             if mc_number mc_state_reference_block < mc_number parent_mc_state_reference_block
             then Err (McStateReferenceRegressed mc_state_reference_hash verified_block_slot
                    (mc_number mc_state_reference_block) (mc_number parent_mc_state_reference_block))
             else Ok mc_state_reference_block)))"

definition mc_hash_provide_inherent_data :: "mainchain_block \<Rightarrow> bytes inherent_data" where
  "mc_hash_provide_inherent_data provider = Ok (Some (mc_hash provider))"

text \<open>\<^verbatim>\<open>try_handle_error\<close> panics on an error of its own inherent and leaves the others.\<close>

definition mc_hash_try_handle_error :: "bytes \<Rightarrow> (unit, unit) result option may_panic" where
  "mc_hash_try_handle_error identifier = (if identifier = MC_HASH_INHERENT_IDENTIFIER then None else Some None)"

section \<open>What a digest promises\<close>

text \<open>
  The trait \<^verbatim>\<open>InherentDigest\<close>: items made from inherent data that carries a value read back to it, and reading skips
  the items of others.
\<close>

locale inherent_digest =
  fixes from_data :: "'d \<Rightarrow> (digest_item list, 'e) result"
    and value_from :: "digest_item list \<Rightarrow> ('v, 'e) result"
    and carries :: "'d \<Rightarrow> 'v \<Rightarrow> bool"
    and foreign :: "digest_item \<Rightarrow> bool"
  assumes items_of_data: "carries data v \<Longrightarrow> \<exists>items. from_data data = Ok items \<and> value_from items = Ok v"
    and skips: "foreign item \<Longrightarrow> value_from (item # items) = value_from items"
begin

lemma value_after_foreign: "list_all foreign logs \<Longrightarrow> value_from (logs @ items) = value_from items"
  by (induction logs) (simp_all add: skips)

lemma proposal_carries_value:
  assumes "carries data v" "list_all foreign logs"
  shows "\<exists>logs'. partner_chains_propose from_data proposer data logs = Some (proposer data logs') \<and> value_from logs' = Ok v"
  using items_of_data [OF assms(1)] value_after_foreign [OF assms(2)]
  by (auto simp: partner_chains_propose_def)

end

definition carries_mc_hash :: "bytes inherent_data \<Rightarrow> bytes \<Rightarrow> bool" where
  "carries_mc_hash data h \<longleftrightarrow> data = Ok (Some h) \<and> length h = 32"

fun foreign_item :: "digest_item \<Rightarrow> bool" where
  "foreign_item (PreRuntime i _) = (i \<noteq> MC_HASH_DIGEST_ID)"
| "foreign_item _ = True"

interpretation mc_digest: inherent_digest mc_hash_from_inherent_data mc_hash_value_from_digest carries_mc_hash foreign_item
proof
  fix data v
  show "carries_mc_hash data v \<Longrightarrow> \<exists>items. mc_hash_from_inherent_data data = Ok items \<and> mc_hash_value_from_digest items = Ok v"
    by (simp add: carries_mc_hash_def mc_hash_from_inherent_data_def from_mc_block_hash_def)
next
  fix item items
  show "foreign_item item \<Longrightarrow> mc_hash_value_from_digest (item # items) = mc_hash_value_from_digest items"
    by (cases item) auto
qed

interpretation unit_digest: inherent_digest unit_from_inherent_data unit_value_from_digest "\<lambda>_ _. True" "\<lambda>_. True"
  by unfold_locales (simp_all add: unit_from_inherent_data_def unit_value_from_digest_def)

text \<open>The reference travels in the header: when a block is proposed with the inherent data of a main chain block
  and logs of other consensus engines, the header carries the hash of that main chain block, and looking it up for
  the block returns it; only for the genesis block nothing is returned.\<close>

theorem proposed_reference_readable:
  assumes "length (mc_hash b) = 32" and "list_all foreign_item logs"
  shows "\<exists>h. partner_chains_propose mc_hash_from_inherent_data (\<lambda>_ ds. \<lparr> header_number = n, header_digest = ds \<rparr>)
       (mc_hash_provide_inherent_data b) logs = Some h
     \<and> get_mc_hash_for_block (\<lambda>_. Ok (Some h)) block_hash = Ok (if n = 0 then None else Some (mc_hash b))"
proof -
  have "carries_mc_hash (mc_hash_provide_inherent_data b) (mc_hash b)"
    using assms(1) by (simp add: carries_mc_hash_def mc_hash_provide_inherent_data_def)
  then obtain logs' where "partner_chains_propose mc_hash_from_inherent_data (\<lambda>_ ds. \<lparr> header_number = n, header_digest = ds \<rparr>)
        (mc_hash_provide_inherent_data b) logs = Some \<lparr> header_number = n, header_digest = logs' \<rparr>"
      "mc_hash_value_from_digest logs' = Ok (mc_hash b)"
    using mc_digest.proposal_carries_value [OF _ assms(2), of _ _ "\<lambda>_ ds. \<lparr> header_number = n, header_digest = ds \<rparr>"] by metis
  then show ?thesis
    by (intro exI [of _ "\<lparr> header_number = n, header_digest = logs' \<rparr>"])
      (simp add: get_mc_hash_for_block_def get_inherent_digest_value_for_block_def)
qed

theorem proposed_reference_readable_witness:
  "\<exists>h. partner_chains_propose mc_hash_from_inherent_data (\<lambda>_ ds. \<lparr> header_number = 4, header_digest = ds \<rparr>)
       (mc_hash_provide_inherent_data \<lparr> mc_number = 1, mc_hash = replicate 32 7, mc_epoch = 0, mc_slot = 0, mc_timestamp = 0 \<rparr>)
       [PreRuntime [97, 117, 114, 97] [1], Seal [1] [2]] = Some h
     \<and> get_mc_hash_for_block (\<lambda>_. Ok (Some h)) () = Ok (Some (replicate 32 7))"
  using proposed_reference_readable [of "\<lparr> mc_number = 1, mc_hash = replicate 32 7, mc_epoch = 0, mc_slot = 0, mc_timestamp = 0 \<rparr>"
      "[PreRuntime [97, 117, 114, 97] [1], Seal [1] [2]]" 4 "()"]
  by (simp add: MC_HASH_DIGEST_ID_def)

section \<open>What a source of stable blocks promises\<close>

text \<open>
  Views are what nodes see of the main chain: proposers look for the latest stable block in a view, verifiers for
  a block by hash in theirs.  \<open>good\<close> says that a view can serve a reference timestamp, \<open>later\<close> that the main chain
  grew from one view to the other, \<open>agree\<close> that a verifier is close enough to a proposer.
\<close>

locale stable_blocks =
  fixes latest :: "'v \<Rightarrow> u64 \<Rightarrow> (mainchain_block option, 'e) result"
    and by_hash :: "'w \<Rightarrow> bytes \<Rightarrow> u64 \<Rightarrow> (mainchain_block option, 'e) result"
    and good :: "'v \<Rightarrow> u64 \<Rightarrow> bool"
    and later :: "'v \<Rightarrow> 'v \<Rightarrow> bool"
    and agree :: "'v \<Rightarrow> 'w \<Rightarrow> bool"
  assumes found: "good v ts \<Longrightarrow> agree v w \<Longrightarrow> latest v ts = Ok (Some b) \<Longrightarrow> by_hash w (mc_hash b) ts = Ok (Some b)"
    and agree_earlier: "later v v' \<Longrightarrow> agree v' w \<Longrightarrow> agree v w"
    and progress: "good v ts \<Longrightarrow> good v' ts' \<Longrightarrow> later v v' \<Longrightarrow> ts \<le> ts' \<Longrightarrow> latest v ts = Ok (Some b)
      \<Longrightarrow> latest v' ts' = Ok (Some b') \<Longrightarrow> mc_number b \<le> mc_number b'"
begin

lemma state_reference_found:
  assumes "good v ts" "agree v w" "latest v ts = Ok (Some b)" "slot_timestamp slot dur = Some ts"
  shows "get_mc_state_reference slot_timestamp slot (mc_hash b) dur \<lparr> latest_stable_block_for = f, stable_block_for = by_hash w \<rparr> = Ok b"
  using found [OF assms(1-3)] assms(4) by (simp add: get_mc_state_reference_def)

lemma proposal_verified:
  assumes "good v ts" "good v' ts'" "later v v'" "ts \<le> ts'" "agree v' w"
    and "slot_timestamp slot dur = Some ts" "slot_timestamp slot' dur = Some ts'"
    and "new_proposal slot_timestamp \<lparr> latest_stable_block_for = latest v, stable_block_for = g \<rparr> slot dur = Ok b"
    and "new_proposal slot_timestamp \<lparr> latest_stable_block_for = latest v', stable_block_for = g' \<rparr> slot' dur = Ok b'"
    and "mc_hash_value_from_digest (header_digest parent) = Ok (mc_hash b)"
  shows "new_verification slot_timestamp parent (Some slot) slot' (mc_hash b') dur
     \<lparr> latest_stable_block_for = f, stable_block_for = by_hash w \<rparr> = Ok b'"
proof -
  have b: "latest v ts = Ok (Some b)" "latest v' ts' = Ok (Some b')"
    using assms(6-9) by (auto simp: new_proposal_def)
  have "\<not> mc_number b' < mc_number b"
    using progress [OF assms(1-4) b] by simp
  then show ?thesis
    using state_reference_found [where slot_timestamp = slot_timestamp and f = f, OF assms(1) agree_earlier [OF assms(3,5)] b(1)]
      state_reference_found [where slot_timestamp = slot_timestamp and f = f, OF assms(2,5) b(2)] assms(6,7,10)
    by (simp add: new_verification_def)
qed

end

section \<open>The database provides it\<close>

definition times_ordered :: "'j db \<Rightarrow> bool" where
  "times_ordered d \<longleftrightarrow> (\<forall>r \<in> set (chain_rows d). \<forall>r' \<in> set (chain_rows d). block_num r < block_num r' \<longrightarrow> row_time r \<le> row_time r')"

definition serves :: "chrono \<Rightarrow> block_source \<Rightarrow> 'j db \<Rightarrow> u64 \<Rightarrow> bool" where
  "serves ch bs d ts \<longleftrightarrow> wf_blocks d \<and> timed_blocks bs d \<and> times_ordered d \<and> chain_rows d \<noteq> [] \<and> reference_ok ch bs ts
     \<and> proposal_depth bs \<le> latest_num d"

definition within_margin :: "chrono \<Rightarrow> block_source \<Rightarrow> 'j db \<Rightarrow> 'j db \<times> blocks_cache \<Rightarrow> bool" where
  "within_margin ch bs d = (\<lambda>(d', cache). block_source_reach ch bs d' cache
     \<and> latest_num d \<le> latest_num d' + uint (bs_stability_margin bs)
     \<and> filter (stable_row (proposal_depth bs) d) (chain_rows d') = filter (stable_row (proposal_depth bs) d) (chain_rows d))"

lemma proposal_depth_stable:
  "stable_row (proposal_depth bs) d r \<Longrightarrow> stable_row (uint (bs_security_parameter bs)) d r"
  unfolding stable_row_def using uint_ge_0 [of "bs_stability_margin bs"] by linarith

lemma within_margin_earlier:
  assumes "grows (uint (bs_security_parameter bs)) d d'" "within_margin ch bs d' w"
  shows "within_margin ch bs d w"
proof -
  obtain d'' cache where w: "w = (d'', cache)"
    by fastforce
  let ?k = "uint (bs_security_parameter bs)" and ?S = "stable_row (proposal_depth bs) d"
  have g: "filter (stable_row ?k d) (chain_rows d') = filter (stable_row ?k d) (chain_rows d)" "latest_num d \<le> latest_num d'"
    using assms(1) by (simp_all add: grows_def)
  have m: "filter (stable_row (proposal_depth bs) d') (chain_rows d'') = filter (stable_row (proposal_depth bs) d') (chain_rows d')"
    using assms(2) w by (simp add: within_margin_def)
  have S: "filter ?S L = filter ?S (filter (stable_row (proposal_depth bs) d') L)" "filter ?S L = filter ?S (filter (stable_row ?k d) L)" for L
    using g(2) proposal_depth_stable [of bs d] by (auto simp: stable_row_def intro!: filter_cong)
  have "filter ?S (chain_rows d'') = filter ?S (chain_rows d')"
    unfolding S(1) [of "chain_rows d''"] S(1) [of "chain_rows d'"] m ..
  also have "\<dots> = filter ?S (chain_rows d)"
    unfolding S(2) [of "chain_rows d'"] S(2) [of "chain_rows d"] g(1) ..
  finally show ?thesis
    using assms(2) g(2) w by (auto simp: within_margin_def)
qed

lemma eligible_later:
  assumes "grows (uint (bs_security_parameter bs)) d d'" "r \<in> set (chain_rows d)" "stable_row (proposal_depth bs) d r"
  shows "r \<in> set (chain_rows d')" "stable_row (proposal_depth bs) d' r"
proof -
  have "stable_row (uint (bs_security_parameter bs)) d r"
    by (rule proposal_depth_stable [OF assms(3)])
  then show "r \<in> set (chain_rows d')"
    using grows_stable(1) [OF assms(1,2)] by simp
  show "stable_row (proposal_depth bs) d' r"
    using assms(1,3) by (simp add: grows_def stable_row_def)
qed

lemma selected_row:
  assumes "serves ch bs d ts" "get_latest_stable_block_for ch bs d ts = Ok (Some b)"
  obtains r where "b = mc_block r" "r \<in> set (chain_rows d)" "stable_row (proposal_depth bs) d r" "in_window bs ts r"
    "\<forall>q \<in> set (chain_rows d). stable_row (proposal_depth bs) d q \<and> in_window bs ts q \<longrightarrow> block_num q \<le> block_num r"
proof -
  let ?P = "\<lambda>r. stable_row (proposal_depth bs) d r \<and> in_window bs ts r"
  have wf: "wf_blocks d"
    using assms(1) by (simp add: serves_def)
  obtain r where r: "b = mc_block r" "latest_where ?P d = Some r"
    using assms latest_stable_block_eq [of d bs ch ts] by (auto simp: serves_def)
  show ?thesis
    by (rule that [OF r(1)]) (use latest_where_Some [OF wf r(2)] in auto)
qed

lemma references_progress:
  assumes "serves ch bs d ts" "serves ch bs d' ts'" "grows (uint (bs_security_parameter bs)) d d'" "ts \<le> ts'"
    and "get_latest_stable_block_for ch bs d ts = Ok (Some b)" "get_latest_stable_block_for ch bs d' ts' = Ok (Some b')"
  shows "mc_number b \<le> mc_number b'"
proof -
  obtain r where r: "b = mc_block r" "r \<in> set (chain_rows d)" "stable_row (proposal_depth bs) d r" "in_window bs ts r"
    by (rule selected_row [OF assms(1,5)])
  obtain r' where r': "b' = mc_block r'" "r' \<in> set (chain_rows d')" "stable_row (proposal_depth bs) d' r'" "in_window bs ts' r'"
      "\<forall>q \<in> set (chain_rows d'). stable_row (proposal_depth bs) d' q \<and> in_window bs ts' q \<longrightarrow> block_num q \<le> block_num r'"
    by (rule selected_row [OF assms(2,6)])
  note in_d' = eligible_later [OF assms(3) r(2,3)]
  have ord: "times_ordered d'" "wf_blocks d'"
    using assms(2) by (simp_all add: serves_def)
  have "block_num r \<le> block_num r'"
  proof (cases "in_window bs ts' r")
    case False
    have "uint ts \<le> uint ts'"
      using assms(4) by (simp add: word_le_def)
    then have "row_time r < row_time r'"
      using False r(4) r'(4) by (simp add: in_window_def)
    then show ?thesis
      using ord(1) in_d'(1) r'(2) by (force simp: times_ordered_def)
  qed (use r'(5) in_d' in blast)
  then show ?thesis
    using chain_row_facts(5) [OF ord(2) in_d'(1)] chain_row_facts(5) [OF ord(2) r'(2)] r(1) r'(1)
    by (simp add: mc_block_def row_block_def word_le_def)
qed

interpretation db_blocks: stable_blocks "mc_hash_get_latest_stable_block_for ch bs"
    "\<lambda>(d, cache) h ts. fst (mc_hash_get_stable_block_for ch bs d h ts cache)"
    "serves ch bs" "grows (uint (bs_security_parameter bs))" "within_margin ch bs" for ch bs
proof
  fix d :: "'b db" and ts w b
  assume "serves ch bs d ts" "within_margin ch bs d w" "mc_hash_get_latest_stable_block_for ch bs d ts = Ok (Some b)"
  then show "(case w of (d, cache) \<Rightarrow> \<lambda>h ts. fst (mc_hash_get_stable_block_for ch bs d h ts cache)) (mc_hash b) ts = Ok (Some b)"
    using selected_block_found [of d bs ch ts b "fst w" "snd w"]
    by (auto simp: serves_def within_margin_def mc_hash_get_latest_stable_block_for_def mc_hash_get_stable_block_for_def
        split: prod.splits)
qed (simp_all add: within_margin_earlier references_progress mc_hash_get_latest_stable_block_for_def)

definition block_data_source ::
  "chrono \<Rightarrow> block_source \<Rightarrow> 'j db \<Rightarrow> blocks_cache \<Rightarrow> data_source_error mc_hash_data_source" where
  "block_data_source ch bs d cache = \<lparr> latest_stable_block_for = mc_hash_get_latest_stable_block_for ch bs d,
     stable_block_for = (\<lambda>h ts. fst (mc_hash_get_stable_block_for ch bs d h ts cache)) \<rparr>"

text \<open>C8. An honest reference is accepted: when a block and its child are proposed at successive slots, each with the
  main chain block its author sees as the latest stable one, and the main chain as seen by the authors grew in
  between, then a verifier at most the stability margin behind the second author accepts the child's reference; in
  particular the reference never regresses.\<close>

theorem proposal_passes_verification:
  assumes "serves ch bs d ts" and "serves ch bs d' ts'" and "grows (uint (bs_security_parameter bs)) d d'"
    and "within_margin ch bs d' (d'', cache'')" and "ts \<le> ts'"
    and "slot_timestamp slot dur = Some ts" and "slot_timestamp slot' dur = Some ts'"
    and "new_proposal slot_timestamp (block_data_source ch bs d cache) slot dur = Ok b"
    and "new_proposal slot_timestamp (block_data_source ch bs d' cache') slot' dur = Ok b'"
    and "mc_hash_value_from_digest (header_digest parent) = Ok (mc_hash b)"
  shows "new_verification slot_timestamp parent (Some slot) slot' (mc_hash b') dur (block_data_source ch bs d'' cache'') = Ok b'"
  using db_blocks.proposal_verified [OF assms(1,2,3,5,4,6,7) assms(8,9) [unfolded block_data_source_def] assms(10)]
  by (simp add: block_data_source_def)

text \<open>The second author has seen a block more than the first author and the verifier.\<close>

definition demo_ref_db :: "block_row list \<Rightarrow> unit db" where
  "demo_ref_db new = demo_db \<lparr> block_table := [demo_block_row 2 5 (replicate 32 9) 1000,
     demo_block_row 1 6 (replicate 32 8) 21000, demo_block_row 3 7 (replicate 32 7) 41000] @ new \<rparr>"

definition demo_new_row :: block_row where
  "demo_new_row = demo_block_row 4 8 (replicate 32 6) 61000"

lemma demo_ref_rows:
  "chain_rows (demo_ref_db []) = [demo_block_row 2 5 (replicate 32 9) 1000, demo_block_row 1 6 (replicate 32 8) 21000,
     demo_block_row 3 7 (replicate 32 7) 41000]"
  "chain_rows (demo_ref_db [demo_new_row]) = [demo_block_row 2 5 (replicate 32 9) 1000, demo_block_row 1 6 (replicate 32 8) 21000,
     demo_block_row 3 7 (replicate 32 7) 41000, demo_new_row]"
  by code_simp+

lemma demo_ref_serves:
  "serves demo_chrono demo_block_source (demo_ref_db []) 61000"
  "serves demo_chrono demo_block_source (demo_ref_db [demo_new_row]) 81000"
  unfolding serves_def wf_blocks_def timed_blocks_def times_ordered_def latest_num_def demo_ref_rows
  by (simp_all add: reference_ok_def demo_ref_db_def demo_new_row_def demo_block_row_def demo_block_source_def
      demo_chrono_def)

lemma demo_ref_grows: "grows (uint (bs_security_parameter demo_block_source)) (demo_ref_db []) (demo_ref_db [demo_new_row])"
  unfolding grows_def stable_row_def latest_num_def demo_ref_rows
  using demo_ref_serves(2) by (simp add: serves_def demo_block_source_def) (simp add: demo_new_row_def demo_block_row_def)

lemma demo_ref_margin: "within_margin demo_chrono demo_block_source (demo_ref_db [demo_new_row]) (demo_ref_db [], [])"
proof -
  have "block_source_reach demo_chrono demo_block_source (demo_ref_db []) []"
    using demo_ref_serves(1) by (intro block_source_reach.start) (simp_all add: serves_def demo_block_source_def)
  then show ?thesis
    unfolding within_margin_def latest_num_def stable_row_def demo_ref_rows
    by (simp add: demo_ref_rows demo_block_source_def) (simp add: demo_new_row_def demo_block_row_def)
qed

theorem proposal_passes_verification_witness:
  "\<exists>b. mc_hash b = replicate 32 8
     \<and> new_proposal (\<lambda>s d. Some (s * d)) (block_data_source demo_chrono demo_block_source (demo_ref_db [demo_new_row]) []) 81 1000 = Ok b
     \<and> new_verification (\<lambda>s d. Some (s * d)) \<lparr> header_number = 1, header_digest = from_mc_block_hash (replicate 32 9) \<rparr> (Some 61) 81
         (mc_hash b) 1000 (block_data_source demo_chrono demo_block_source (demo_ref_db []) []) = Ok b"
proof -
  let ?parent = "\<lparr> header_number = 1, header_digest = from_mc_block_hash (replicate 32 9) \<rparr>"
  let ?b = "mc_block (demo_block_row 2 5 (replicate 32 9) 1000)" and ?b' = "mc_block (demo_block_row 1 6 (replicate 32 8) 21000)"
  have b: "new_proposal (\<lambda>s d. Some (s * d)) (block_data_source demo_chrono demo_block_source (demo_ref_db []) []) 61 1000 = Ok ?b"
    by code_simp
  have b': "new_proposal (\<lambda>s d. Some (s * d)) (block_data_source demo_chrono demo_block_source (demo_ref_db [demo_new_row]) []) 81 1000 = Ok ?b'"
    by code_simp
  have "mc_hash_value_from_digest (header_digest ?parent) = Ok (mc_hash ?b)"
    by (simp add: from_mc_block_hash_def demo_block_row_def)
  then have "new_verification (\<lambda>s d. Some (s * d)) ?parent (Some 61) 81 (mc_hash ?b') 1000
      (block_data_source demo_chrono demo_block_source (demo_ref_db []) []) = Ok ?b'"
    by (intro proposal_passes_verification [OF demo_ref_serves demo_ref_grows demo_ref_margin _ _ _ b b']) simp_all
  moreover have "mc_hash ?b' = replicate 32 8"
    by (simp add: demo_block_row_def)
  ultimately show ?thesis
    using b' by blast
qed

end
