(* ===== verification/NativeTokenSource.thy ===== *)
theory NativeTokenSource
  imports Prelude NativeTokenPallet DbChain
begin

text \<open>
  The data source of native token transfers:
  \<^verbatim>\<open>toolkit/mainchain-follower/db-sync-follower/src/native_token/mod.rs\<close>.

  The cache is the list of block hashes and amounts behind the source's mutex; a request returns its result and
  the cache it leaves.  \<open>show_address\<close> prints a main chain address, which the database stores as text.
\<close>

section \<open>The cache\<close>

type_synonym transfer_cache = "(bytes \<times> u128) list"

text \<open>\<^verbatim>\<open>slice::get(i..=j)\<close>.\<close>

definition slice_inclusive :: "'x list \<Rightarrow> nat \<Rightarrow> nat \<Rightarrow> 'x list option" where
  "slice_inclusive xs i j = (if i \<le> j + 1 \<and> j + 1 \<le> length xs then Some (drop i (take (j + 1) xs)) else None)"

definition get_sum_in_range :: "transfer_cache \<Rightarrow> bytes \<Rightarrow> bytes \<Rightarrow> u128 option" where
  "get_sum_in_range cache after_block to_block =
     Option.bind (position (\<lambda>(block, _). block = after_block) cache) (\<lambda>after_idx.
     Option.bind (position (\<lambda>(block, _). block = to_block) cache) (\<lambda>to_idx.
       map_option (\<lambda>after_to. sum_list (map snd after_to)) (slice_inclusive cache (after_idx + 1) to_idx)))"

definition cache_update :: "transfer_cache \<Rightarrow> transfer_cache \<Rightarrow> transfer_cache" where
  "cache_update cache block_hash_to_amount = block_hash_to_amount"

section \<open>The data source\<close>

record native_source_config =
  ns_security_parameter :: u32
  ns_cache_size :: u16
  show_address :: "bytes \<Rightarrow> string"

definition to_db_asset :: "native_scripts \<Rightarrow> bytes \<times> bytes" where
  "to_db_asset scripts = (native_token_policy_id scripts, native_token_asset_name scripts)"

definition get_from_block_no :: "'j db \<Rightarrow> bytes \<Rightarrow> (u32, data_source_error) result" where
  "get_from_block_no d from_block =
     rbind (map_err SqlxError (get_block_by_hash d from_block)) (\<lambda>b.
     rbind (ok_or (ExpectedDataNotFound ''Lower bound block'') b) (\<lambda>blk. Ok (blk_no blk)))"

definition get_to_block_no :: "'j db \<Rightarrow> bytes \<Rightarrow> (u32, data_source_error) result" where
  "get_to_block_no d to_block =
     rbind (map_err SqlxError (get_block_by_hash d to_block)) (\<lambda>b.
     rbind (ok_or (ExpectedDataNotFound ''Upper bound block'') b) (\<lambda>blk. Ok (blk_no blk)))"

definition get_latest_block :: "'j db \<Rightarrow> (db_block, data_source_error) result" where
  "get_latest_block d =
     rbind (map_err SqlxError (get_latest_block_info d)) (ok_or (ExpectedDataNotFound ''The latest block''))"

definition query_db ::
  "native_source_config \<Rightarrow> 'j db \<Rightarrow> u32 \<Rightarrow> u32 \<Rightarrow> native_scripts \<Rightarrow> (transfer_cache, data_source_error) result" where
  "query_db cfg d from_block to_block scripts =
     map_err SqlxError (get_native_token_transfers d from_block to_block (to_db_asset scripts)
       (show_address cfg (illiquid_supply_validator_address scripts)))"

definition query_transfers_from_genesis ::
  "native_source_config \<Rightarrow> 'j db \<Rightarrow> bytes \<Rightarrow> native_scripts \<Rightarrow> (u128, data_source_error) result" where
  "query_transfers_from_genesis cfg d to_block scripts =
     rbind (get_to_block_no d to_block) (\<lambda>to_block_no.
       map_err SqlxError (get_total_native_tokens_transfered d to_block_no (to_db_asset scripts)
         (show_address cfg (illiquid_supply_validator_address scripts))))"

definition get_data_to_cache ::
  "native_source_config \<Rightarrow> 'j db \<Rightarrow> bytes \<Rightarrow> bytes \<Rightarrow> native_scripts \<Rightarrow> (transfer_cache, data_source_error) result" where
  "get_data_to_cache cfg d from_block to_block scripts =
     rbind (get_from_block_no d from_block) (\<lambda>from_block_no.
     rbind (get_to_block_no d to_block) (\<lambda>to_block_no.
     rbind (get_latest_block d) (\<lambda>latest_block.
       let latest_stable_block = saturating_sub (blk_no latest_block) (ns_security_parameter cfg);
           cache_to_block_no = min latest_stable_block
             (max to_block_no (saturating_add from_block_no (ucast (ns_cache_size cfg))))
       in query_db cfg d from_block_no cache_to_block_no scripts)))"

fun take_while_inclusive :: "('x \<Rightarrow> bool) \<Rightarrow> 'x list \<Rightarrow> 'x list" where
  "take_while_inclusive P [] = []"
| "take_while_inclusive P (x # xs) = (if P x then x # take_while_inclusive P xs else [x])"

definition get_total_native_token_transfer ::
  "native_source_config \<Rightarrow> 'j db \<Rightarrow> bytes option \<Rightarrow> bytes \<Rightarrow> native_scripts \<Rightarrow> transfer_cache
    \<Rightarrow> (u128, data_source_error) result \<times> transfer_cache" where
  "get_total_native_token_transfer cfg d after_block_opt to_block scripts cache =
     (case after_block_opt of
        Some after_block \<Rightarrow>
          if after_block = to_block then (Ok 0, cache)
          else (case get_sum_in_range cache after_block to_block of
                  Some amount \<Rightarrow> (Ok amount, cache)
                | None \<Rightarrow>
                    (case get_data_to_cache cfg d after_block to_block scripts of
                       Ok block_to_amount \<Rightarrow>
                         (Ok (sum_list (map snd (take_while_inclusive (\<lambda>(block_hash, _). block_hash \<noteq> to_block)
                                (drop 1 block_to_amount)))),
                          cache_update cache block_to_amount)
                     | Err e \<Rightarrow> (Err e, cache)
                     | Panic \<Rightarrow> (Panic, cache)))
      | None \<Rightarrow> (query_transfers_from_genesis cfg d to_block scripts, cache))"

section \<open>What the cache holds\<close>

definition row_amount :: "native_source_config \<Rightarrow> 'j db \<Rightarrow> native_scripts \<Rightarrow> block_row \<Rightarrow> bytes \<times> u128" where
  "row_amount cfg d scripts r = (row_hash r, word_of_int (block_amount d (to_db_asset scripts)
     (show_address cfg (illiquid_supply_validator_address scripts)) r))"

definition wf_amounts :: "native_source_config \<Rightarrow> 'j db \<Rightarrow> native_scripts \<Rightarrow> bool" where
  "wf_amounts cfg d scripts \<longleftrightarrow> (\<forall>r \<in> set (chain_rows d).
     0 \<le> block_amount d (to_db_asset scripts) (show_address cfg (illiquid_supply_validator_address scripts)) r
     \<and> block_amount d (to_db_asset scripts) (show_address cfg (illiquid_supply_validator_address scripts)) r < 2 ^ 128)"

text \<open>The transfers after block number \<open>lo\<close> up to block number \<open>hi\<close>.\<close>

definition transfers_between :: "native_source_config \<Rightarrow> 'j db \<Rightarrow> native_scripts \<Rightarrow> int \<Rightarrow> int \<Rightarrow> u128" where
  "transfers_between cfg d scripts lo hi =
     sum_list (map (\<lambda>r. snd (row_amount cfg d scripts r)) (filter (\<lambda>r. lo < block_num r \<and> block_num r \<le> hi) (chain_rows d)))"

definition cache_ok :: "native_source_config \<Rightarrow> 'j db \<Rightarrow> native_scripts \<Rightarrow> transfer_cache \<Rightarrow> bool" where
  "cache_ok cfg d scripts cache \<longleftrightarrow> cache = [] \<or>
     (\<exists>lo hi. hi + uint (ns_security_parameter cfg) \<le> latest_num d
        \<and> cache = map (row_amount cfg d scripts) (filter (\<lambda>r. lo \<le> block_num r \<and> block_num r \<le> hi) (chain_rows d)))"

lemma fst_row_amount [simp]: "fst (row_amount cfg d scripts r) = row_hash r"
  by (simp add: row_amount_def)

lemma query_db_Ok:
  assumes "wf_amounts cfg d scripts"
  shows "query_db cfg d from_no to_no scripts
     = Ok (map (row_amount cfg d scripts)
         (filter (\<lambda>r. bind_signed from_no \<le> block_num r \<and> block_num r \<le> bind_signed to_no) (chain_rows d)))"
proof -
  let ?P = "\<lambda>r. bind_signed from_no \<le> block_num r \<and> block_num r \<le> bind_signed to_no"
  have rows: "filter (\<lambda>b. col (\<lambda>n. bind_signed from_no \<le> n \<and> n \<le> bind_signed to_no) (row_block_no b)) (block_table d)
      = filter (\<lambda>r. row_block_no r \<noteq> None \<and> ?P r) (block_table d)"
    by (rule filter_cong) (auto simp: col_def split: option.splits)
  show ?thesis
    unfolding query_db_def get_native_token_transfers_def rows filter_chain_rows
    using assms by (subst fetch_all_map [where f = "row_amount cfg d scripts"])
      (auto simp: wf_amounts_def row_amount_def set_chain_rows Let_def)
qed

lemma hash_inj:
  assumes "wf_blocks d" "r \<in> set (chain_rows d)" "r' \<in> set (chain_rows d)" "row_hash r = row_hash r'"
  shows "r = r'"
  using assms by (auto simp: wf_blocks_def set_chain_rows distinct_map inj_on_def)

lemma chain_hashes_distinct:
  assumes "wf_blocks d" "filter Q (chain_rows d) = P @ a # R"
  shows "\<forall>r \<in> set P \<union> set R. row_hash r \<noteq> row_hash a"
proof -
  have "sorted_wrt (\<lambda>r r'. block_num r < block_num r') (P @ a # R)"
    using sorted_wrt_filter [OF chain_rows_sorted [OF assms(1)], of Q] assms(2) by simp
  moreover have "set (P @ a # R) \<subseteq> set (chain_rows d)"
    using assms(2) by (metis filter_is_subset)
  ultimately show ?thesis
    using hash_inj [OF assms(1), of a] by (fastforce simp: sorted_wrt_append)
qed

lemma take_while_inclusive_append:
  "(\<forall>x \<in> set M. P x) \<Longrightarrow> \<not> P t \<Longrightarrow> take_while_inclusive P (M @ t # S) = M @ [t]"
  by (induction M) auto

section \<open>Requests\<close>

lemma segment_of_range:
  assumes "wf_blocks d" "a \<in> set (chain_rows d)" "t \<in> set (chain_rows d)" "block_num a < block_num t"
    and "lo \<le> block_num a" "block_num t \<le> hi"
  obtains P M S where "filter (\<lambda>r. lo \<le> block_num r \<and> block_num r \<le> hi) (chain_rows d) = P @ a # M @ t # S"
    "transfers_between cfg d scripts (block_num a) (block_num t)
       = sum_list (map (\<lambda>r. snd (row_amount cfg d scripts r)) (M @ [t]))"
    "block_num a = lo \<Longrightarrow> P = []"
proof -
  let ?F = "filter (\<lambda>r. lo \<le> block_num r \<and> block_num r \<le> hi) (chain_rows d)"
  have F0: "sorted_wrt (\<lambda>r r'. block_num r < block_num r') ?F" "a \<in> set ?F" "t \<in> set ?F"
    using sorted_wrt_filter [OF chain_rows_sorted [OF assms(1)]] assms by auto
  obtain P M S where F: "?F = P @ a # M @ t # S"
      "filter (\<lambda>r. block_num a < block_num r \<and> block_num r \<le> block_num t) ?F = M @ [t]"
      "filter (\<lambda>r. block_num a \<le> block_num r) ?F = a # M @ t # S"
    by (rule ordered_segment [OF F0 assms(4)])
  have "filter (\<lambda>r. block_num a < block_num r \<and> block_num r \<le> block_num t) ?F
      = filter (\<lambda>r. block_num a < block_num r \<and> block_num r \<le> block_num t) (chain_rows d)"
    using assms(5,6) by (auto intro: filter_cong)
  moreover have "P = []" if "block_num a = lo"
  proof -
    have "filter (\<lambda>r. block_num a \<le> block_num r) ?F = ?F"
      using that by (intro filter_True) auto
    then show ?thesis
      using F(1,3) by simp
  qed
  ultimately show ?thesis
    using that F by (simp add: transfers_between_def)
qed

lemma get_sum_in_range_hit:
  assumes "wf_blocks d" "filter Q (chain_rows d) = P @ a # M @ t # S"
  shows "get_sum_in_range (map (row_amount cfg d scripts) (P @ a # M @ t # S)) (row_hash a) (row_hash t)
     = Some (sum_list (map (\<lambda>r. snd (row_amount cfg d scripts r)) (M @ [t])))"
proof -
  let ?f = "row_amount cfg d scripts"
  have "\<forall>x \<in> set (map ?f P). \<not> (\<lambda>(b, _). b = row_hash a) x"
    using chain_hashes_distinct [OF assms(1), of Q P a "M @ t # S"] assms(2) by (auto simp: row_amount_def)
  then have pos_a: "position (\<lambda>(b, _). b = row_hash a) (map ?f (P @ a # M @ t # S)) = Some (length P)"
    using position_append_first [of "map ?f P" "\<lambda>(b, _). b = row_hash a" "?f a" "map ?f (M @ t # S)"]
    by (simp add: row_amount_def)
  have "\<forall>x \<in> set (map ?f (P @ a # M)). \<not> (\<lambda>(b, _). b = row_hash t) x"
    using chain_hashes_distinct [OF assms(1), of Q "P @ a # M" t S] assms(2) by (auto simp: row_amount_def)
  then have pos_t: "position (\<lambda>(b, _). b = row_hash t) (map ?f (P @ a # M @ t # S)) = Some (length P + length M + 1)"
    using position_append_first [of "map ?f (P @ a # M)" "\<lambda>(b, _). b = row_hash t" "?f t" "map ?f S"]
    by (simp add: row_amount_def)
  show ?thesis
    unfolding get_sum_in_range_def pos_a pos_t by (simp add: slice_inclusive_def comp_def)
qed

lemma get_sum_in_range_ok:
  assumes "wf_blocks d" "a \<in> set (chain_rows d)" "t \<in> set (chain_rows d)" "block_num a < block_num t"
    and "cache_ok cfg d scripts cache" "get_sum_in_range cache (row_hash a) (row_hash t) = Some s"
  shows "s = transfers_between cfg d scripts (block_num a) (block_num t)"
proof -
  obtain lo hi where c: "cache = map (row_amount cfg d scripts) (filter (\<lambda>r. lo \<le> block_num r \<and> block_num r \<le> hi) (chain_rows d))"
    using assms(5,6) by (auto simp: cache_ok_def get_sum_in_range_def)
  have "position (\<lambda>(b, _). b = row_hash a) cache \<noteq> None" "position (\<lambda>(b, _). b = row_hash t) cache \<noteq> None"
    using assms(6) by (auto simp: get_sum_in_range_def bind_eq_Some_conv)
  then have "lo \<le> block_num a" "block_num t \<le> hi"
    using hash_inj [OF assms(1) assms(2)] hash_inj [OF assms(1) assms(3)]
    by (auto simp: position_eq_None c row_amount_def) (metis, metis)
  note range = this
  obtain P M S where F: "filter (\<lambda>r. lo \<le> block_num r \<and> block_num r \<le> hi) (chain_rows d) = P @ a # M @ t # S"
    "transfers_between cfg d scripts (block_num a) (block_num t)
       = sum_list (map (\<lambda>r. snd (row_amount cfg d scripts r)) (M @ [t]))"
    by (rule segment_of_range [OF assms(1-4) range])
  show ?thesis
    using assms(6) get_sum_in_range_hit [OF assms(1) F(1)] F(2) unfolding c F(1) by simp
qed

lemma get_data_to_cache_Ok:
  assumes wf: "wf_blocks d" "wf_amounts cfg d scripts"
    and rows: "a \<in> set (chain_rows d)" "t \<in> set (chain_rows d)" "block_num a < block_num t"
    and stable: "stable_row (uint (ns_security_parameter cfg)) d t"
  obtains hi where "get_data_to_cache cfg d (row_hash a) (row_hash t) scripts
      = Ok (map (row_amount cfg d scripts) (filter (\<lambda>r. block_num a \<le> block_num r \<and> block_num r \<le> hi) (chain_rows d)))"
    "block_num t \<le> hi" "hi + uint (ns_security_parameter cfg) \<le> latest_num d"
proof -
  let ?k = "ns_security_parameter cfg" and ?l = "last (chain_rows d)"
  have ne: "chain_rows d \<noteq> []"
    using rows(1) by auto
  then have l: "?l \<in> set (chain_rows d)"
    by simp
  note fa = chain_row_facts [OF wf(1) rows(1)] and ft = chain_row_facts [OF wf(1) rows(2)]
    and fl = chain_row_facts [OF wf(1) l]
  have latest: "latest_num d = block_num ?l"
    using ne by (simp add: latest_num_def)
  define c where "c = min (saturating_sub (blk_no (row_block ?l)) ?k)
      (max (blk_no (row_block t)) (saturating_add (blk_no (row_block a)) (ucast (ns_cache_size cfg))))"
  have "uint c = min (max 0 (block_num ?l - uint ?k))
      (max (block_num t) (uint (saturating_add (blk_no (row_block a)) (ucast (ns_cache_size cfg)))))"
    using fl(5) ft(5) by (simp add: c_def uint_min_max uint_saturating_sub)
  moreover have "block_num t \<le> block_num ?l - uint ?k"
    using stable latest by (simp add: stable_row_def)
  ultimately have c_le: "uint c \<le> block_num ?l - uint ?k" and c_ge: "block_num t \<le> uint c"
    using ft(2) by simp_all
  have "uint c < 2 ^ 31"
    using c_le fl(3) uint_ge_0 [of ?k] by linarith
  then have bind: "bind_signed c = uint c"
    by (intro bind_signed_small) simp
  have "get_data_to_cache cfg d (row_hash a) (row_hash t) scripts
      = query_db cfg d (blk_no (row_block a)) c scripts"
    using get_block_by_hash_chain [OF wf(1) rows(1)] get_block_by_hash_chain [OF wf(1) rows(2)]
      get_latest_block_info_chain [OF wf(1) ne]
    by (simp add: get_data_to_cache_def get_from_block_no_def get_to_block_no_def get_latest_block_def c_def Let_def)
  then show ?thesis
    using that [of "uint c"] query_db_Ok [OF wf(2)] c_le c_ge fa(6) bind latest by simp
qed

lemma request_ok:
  assumes wf: "wf_blocks d" "wf_amounts cfg d scripts"
    and rows: "a \<in> set (chain_rows d)" "t \<in> set (chain_rows d)" "block_num a \<le> block_num t"
    and stable: "stable_row (uint (ns_security_parameter cfg)) d t" and cache: "cache_ok cfg d scripts cache"
  shows "\<exists>cache'. get_total_native_token_transfer cfg d (Some (row_hash a)) (row_hash t) scripts cache
      = (Ok (transfers_between cfg d scripts (block_num a) (block_num t)), cache') \<and> cache_ok cfg d scripts cache'"
proof (cases "block_num a = block_num t")
  case True
  then have "a = t"
    using wf(1) rows by (auto simp: wf_blocks_def distinct_map inj_on_def)
  moreover have "filter (\<lambda>r. block_num t < block_num r \<and> block_num r \<le> block_num t) (chain_rows d) = []"
    by (simp add: filter_empty_conv)
  ultimately show ?thesis
    using cache by (simp add: get_total_native_token_transfer_def transfers_between_def)
next
  case False
  then have lt: "block_num a < block_num t" and neq: "row_hash a \<noteq> row_hash t"
    using rows hash_inj [OF wf(1) rows(1,2)] by auto
  show ?thesis
  proof (cases "get_sum_in_range cache (row_hash a) (row_hash t)")
    case None
    obtain hi where hi: "get_data_to_cache cfg d (row_hash a) (row_hash t) scripts
        = Ok (map (row_amount cfg d scripts) (filter (\<lambda>r. block_num a \<le> block_num r \<and> block_num r \<le> hi) (chain_rows d)))"
      "block_num t \<le> hi" "hi + uint (ns_security_parameter cfg) \<le> latest_num d"
      by (rule get_data_to_cache_Ok [OF wf rows(1,2) lt stable])
    obtain P M S where seg: "filter (\<lambda>r. block_num a \<le> block_num r \<and> block_num r \<le> hi) (chain_rows d) = P @ a # M @ t # S"
      "transfers_between cfg d scripts (block_num a) (block_num t)
         = sum_list (map (\<lambda>r. snd (row_amount cfg d scripts r)) (M @ [t]))"
      "block_num a = block_num a \<Longrightarrow> P = []"
      by (rule segment_of_range [OF wf(1) rows(1,2) lt order.refl hi(2), where cfg = cfg and scripts = scripts]) blast
    have "\<forall>r \<in> set M. row_hash r \<noteq> row_hash t"
      using chain_hashes_distinct [OF wf(1), of _ "P @ a # M" t S] seg(1) by auto
    then have "take_while_inclusive (\<lambda>(h, _). h \<noteq> row_hash t) (map (row_amount cfg d scripts) (M @ t # S))
        = map (row_amount cfg d scripts) (M @ [t])"
      using take_while_inclusive_append [of "map (row_amount cfg d scripts) M" "\<lambda>(h, _). h \<noteq> row_hash t"
          "row_amount cfg d scripts t" "map (row_amount cfg d scripts) S"]
      by (auto simp: row_amount_def)
    moreover have "cache_ok cfg d scripts
        (map (row_amount cfg d scripts) (filter (\<lambda>r. block_num a \<le> block_num r \<and> block_num r \<le> hi) (chain_rows d)))"
      using hi(3) unfolding cache_ok_def by blast
    ultimately show ?thesis
      using None neq hi(1) seg
      by (simp add: get_total_native_token_transfer_def cache_update_def comp_def)
  next
    case (Some s)
    then show ?thesis
      using get_sum_in_range_ok [OF wf(1) rows(1,2) lt cache Some] neq cache
      by (simp add: get_total_native_token_transfer_def)
  qed
qed

section \<open>Reachable caches\<close>

text \<open>The chain grows and keeps the transfers of its stable blocks.\<close>

definition transfers_grow :: "native_source_config \<Rightarrow> native_scripts \<Rightarrow> 'j db \<Rightarrow> 'j db \<Rightarrow> bool" where
  "transfers_grow cfg scripts d d' \<longleftrightarrow> grows (uint (ns_security_parameter cfg)) d d' \<and> wf_amounts cfg d' scripts
     \<and> (\<forall>r \<in> set (chain_rows d). stable_row (uint (ns_security_parameter cfg)) d r \<longrightarrow>
          row_amount cfg d' scripts r = row_amount cfg d scripts r)"

inductive source_reach :: "native_source_config \<Rightarrow> native_scripts \<Rightarrow> 'j db \<Rightarrow> transfer_cache \<Rightarrow> bool"
  for cfg scripts where
  start: "wf_blocks d \<Longrightarrow> wf_amounts cfg d scripts \<Longrightarrow> source_reach cfg scripts d []"
| grow: "source_reach cfg scripts d cache \<Longrightarrow> transfers_grow cfg scripts d d' \<Longrightarrow> source_reach cfg scripts d' cache"
| request: "source_reach cfg scripts d cache \<Longrightarrow> a \<in> set (chain_rows d) \<Longrightarrow> t \<in> set (chain_rows d)
    \<Longrightarrow> block_num a \<le> block_num t \<Longrightarrow> stable_row (uint (ns_security_parameter cfg)) d t
    \<Longrightarrow> get_total_native_token_transfer cfg d (Some (row_hash a)) (row_hash t) scripts cache = (r, cache')
    \<Longrightarrow> source_reach cfg scripts d cache'"

lemma cache_ok_grow:
  assumes "cache_ok cfg d scripts cache" "transfers_grow cfg scripts d d'"
  shows "cache_ok cfg d' scripts cache"
proof (cases "cache = []")
  case False
  let ?k = "uint (ns_security_parameter cfg)"
  obtain lo hi where c: "hi + ?k \<le> latest_num d"
      "cache = map (row_amount cfg d scripts) (filter (\<lambda>r. lo \<le> block_num r \<and> block_num r \<le> hi) (chain_rows d))"
    using assms(1) False by (auto simp: cache_ok_def)
  have g: "filter (stable_row ?k d) (chain_rows d') = filter (stable_row ?k d) (chain_rows d)"
      "latest_num d \<le> latest_num d'"
    using assms(2) by (simp_all add: transfers_grow_def grows_def)
  have range: "filter (\<lambda>r. lo \<le> block_num r \<and> block_num r \<le> hi) L
      = filter (\<lambda>r. lo \<le> block_num r \<and> block_num r \<le> hi) (filter (stable_row ?k d) L)" for L
    using c(1) by (auto simp: stable_row_def intro!: filter_cong)
  have "filter (\<lambda>r. lo \<le> block_num r \<and> block_num r \<le> hi) (chain_rows d')
      = filter (\<lambda>r. lo \<le> block_num r \<and> block_num r \<le> hi) (chain_rows d)"
    unfolding range [of "chain_rows d'"] range [of "chain_rows d"] g(1) ..
  then have "cache = map (row_amount cfg d' scripts) (filter (\<lambda>r. lo \<le> block_num r \<and> block_num r \<le> hi) (chain_rows d'))"
    using assms(2) c by (auto simp: transfers_grow_def stable_row_def)
  moreover have "hi + ?k \<le> latest_num d'"
    using c(1) g(2) by simp
  ultimately show ?thesis
    unfolding cache_ok_def by blast
qed (simp add: cache_ok_def)

lemma source_reach_ok:
  "source_reach cfg scripts d cache \<Longrightarrow> wf_blocks d \<and> wf_amounts cfg d scripts \<and> cache_ok cfg d scripts cache"
proof (induction rule: source_reach.induct)
  case (request d cache a t r cache')
  then show ?case
    using request_ok [of d cfg scripts a t cache] by auto
qed (auto simp: cache_ok_grow transfers_grow_def grows_def, simp add: cache_ok_def)


definition demo_source_config :: native_source_config where
  "demo_source_config = \<lparr> ns_security_parameter = 1, ns_cache_size = 10, show_address = (\<lambda>_. ''addr'') \<rparr>"

definition demo_scripts :: native_scripts where
  "demo_scripts = \<lparr> native_token_policy_id = [1], native_token_asset_name = [],
     illiquid_supply_validator_address = [] \<rparr>"

lemma demo_amounts:
  "map (block_amount demo_chain_db (to_db_asset demo_scripts) ''addr'') (chain_rows demo_chain_db) = [0, 12, 0]"
  by code_simp

lemma demo_wf: "wf_amounts demo_source_config demo_chain_db demo_scripts"
proof -
  have "set (map (block_amount demo_chain_db (to_db_asset demo_scripts) ''addr'') (chain_rows demo_chain_db)) \<subseteq> {0, 12}"
    unfolding demo_amounts by simp
  then show ?thesis
    by (force simp: wf_amounts_def demo_source_config_def)
qed


end
