(* ===== verification/NativeTransfers.thy ===== *)
theory NativeTransfers
  imports Prelude NativeTokenSource Runtime
begin

text \<open>
  The transfers of native tokens along the chain: what the inherent data provider, the pallet and the runtime's
  handler do together when every block refers to a main chain block not before its parent's.
\<close>

section \<open>One block and a chain of blocks\<close>

text \<open>
  \<open>native_block source parent_mc h\<close> is the part of a block that handles native tokens: the provider asks the source for
  the transfers up to the main chain block \<open>h\<close> of the block, the pallet creates the inherent, the inherent is applied.
\<close>

definition native_block ::
  "('hash, 'e) transfer_source \<Rightarrow> 'hash option \<Rightarrow> 'hash \<Rightarrow> native_token_pallet \<times> u128 list
    \<Rightarrow> (native_token_pallet \<times> u128 list) may_panic" where
  "native_block source parent_mc h s =
     (case native_idp_new (Ok (native_get_main_chain_scripts (fst s)) :: (_, unit) result) (Ok (native_initialized (fst s)))
             (Ok parent_mc :: (_, unit) result) source h of
        Ok token_amount \<Rightarrow>
          (case native_create_inherent (native_provide_inherent_data token_amount) of
             Some (Some call) \<Rightarrow> ok (native_dispatch handle_token_transfer (NoneOrigin :: unit origin) call s)
           | Some None \<Rightarrow> Some s
           | None \<Rightarrow> None)
      | _ \<Rightarrow> None)"

fun native_chain ::
  "('hash, 'e) transfer_source \<Rightarrow> 'hash option \<Rightarrow> 'hash list \<Rightarrow> native_token_pallet \<times> u128 list
    \<Rightarrow> (native_token_pallet \<times> u128 list) may_panic" where
  "native_chain source parent_mc [] s = Some s"
| "native_chain source parent_mc (h # hs) s =
     Option.bind (native_block source parent_mc h s) (native_chain source (Some h) hs)"

lemma native_block_eq:
  assumes "NativeScripts p = Some sc" "source (if Initialized p then parent_mc else None) h sc = Ok a"
  shows "native_block source parent_mc h (p, log)
     = Some (if a > 0 then (p \<lparr> Initialized := True \<rparr>, log @ [a]) else (p, log))"
  using assms
  by (auto simp: native_block_def native_idp_new_def native_get_main_chain_scripts_def native_initialized_def
      native_provide_inherent_data_def native_create_inherent_def get_transfered_tokens_from_inherent_data_def
      filter_option_def native_dispatch_def transfer_tokens_def handle_token_transfer_def)

section \<open>Exactly once\<close>

text \<open>
  The contract of the data source for the scripts \<open>sc\<close>: \<open>tot h\<close> is what has been transferred up to the main chain
  block \<open>h\<close>; asked without a lower bound the source returns it, asked with one it returns the difference.
\<close>

definition source_totals ::
  "('hash, 'e) transfer_source \<Rightarrow> native_scripts \<Rightarrow> ('hash \<Rightarrow> nat) \<Rightarrow> 'hash \<Rightarrow> 'hash \<Rightarrow> bool" where
  "source_totals source sc tot g h \<longleftrightarrow> tot g \<le> tot h \<and> tot h < 2 ^ 128
     \<and> source None h sc = Ok (of_nat (tot h)) \<and> source (Some g) h sc = Ok (of_nat (tot h - tot g))"

lemma native_chain_total:
  assumes "NativeScripts p = Some sc" "\<not> Initialized p \<Longrightarrow> tot g = 0" "sum_list (map unat log) = tot g"
    and "successively (source_totals source sc tot) (g # hs)"
  shows "\<exists>p' log'. native_chain source (Some g) hs (p, log) = Some (p', log')
     \<and> sum_list (map unat log') = tot (last (g # hs))"
  using assms
proof (induction hs arbitrary: p g log)
  case (Cons h hs)
  have st: "source_totals source sc tot g h" and rest: "successively (source_totals source sc tot) (h # hs)"
    using Cons.prems(4) by (cases hs; simp)+
  define a :: u128 where "a = of_nat (tot h - tot g)"
  have a: "unat a = tot h - tot g" "tot g \<le> tot h"
    using st unfolding a_def source_totals_def by (auto simp: unat_of_nat_small simp del: of_nat_diff)
  have src: "source (if Initialized p then Some g else None) h sc = Ok a"
    using st Cons.prems(2) by (auto simp: a_def source_totals_def simp del: of_nat_diff)
  have pos: "a > 0 \<longleftrightarrow> tot h \<noteq> tot g"
    using a by (auto simp: word_less_nat_alt)
  show ?case
  proof (cases "a > 0")
    case True
    then have "native_block source (Some g) h (p, log) = Some (p \<lparr> Initialized := True \<rparr>, log @ [a])"
      using native_block_eq [OF Cons.prems(1), of source "Some g" h a log] src by simp
    then show ?thesis
      using Cons.IH [of "p \<lparr> Initialized := True \<rparr>" h "log @ [a]"] Cons.prems(1,3) rest a by simp
  next
    case False
    then have "native_block source (Some g) h (p, log) = Some (p, log)" "tot h = tot g"
      using native_block_eq [OF Cons.prems(1), of source "Some g" h a log] src pos by simp_all
    then show ?thesis
      using Cons.IH [of p h log] Cons.prems(1-3) rest by simp
  qed
qed simp


text \<open>A main chain of numbered blocks in which block 3 transfers five tokens and block 7 two.\<close>

definition demo_total :: "nat \<Rightarrow> nat" where
  "demo_total h = (if 3 \<le> h then 5 else 0) + (if 7 \<le> h then 2 else 0)"

definition demo_source :: "(nat, unit) transfer_source" where
  "demo_source after_block h sc =
     Ok (of_nat (case after_block of Some g \<Rightarrow> demo_total h - demo_total g | None \<Rightarrow> demo_total h))"


end
