(* ===== verification/BlockSearch.thy ===== *)
theory BlockSearch
  imports Prelude SidechainPallet
begin

text \<open>
  Search for partner chain blocks by epoch or slot: \<^verbatim>\<open>toolkit/primitives/sidechain-block-search/src\<close>.

  The client is a record: the number of the best block, the hashes of blocks by number and the runtime's status at a
  block.  The loop of \<^verbatim>\<open>binary_search_by\<close> may run forever on some arguments, so it is a partial function whose
  outer \<open>None\<close> stands for a loop that does not end.
\<close>

section \<open>The client\<close>

datatype ordering = Less | Equal | Greater

definition cmp :: "'a::linorder \<Rightarrow> 'a \<Rightarrow> ordering" where
  "cmp a b = (if a < b then Less else if a = b then Equal else Greater)"

datatype 'api api_error = UnknownBlock u32 | Application | Backend 'api

record ('hash, 'api) client =
  best_number :: u32
  hash_of_number :: "u32 \<Rightarrow> ('hash option, 'api) result"
  status_at :: "'hash \<Rightarrow> (sidechain_status, 'api) result"

definition get_slot_of_block :: "('hash, 'api) client \<Rightarrow> u32 \<Rightarrow> (u64, 'api api_error) result" where
  "get_slot_of_block c block_number =
     rbind (map_err Backend (hash_of_number c block_number)) (\<lambda>hash_opt.
     rbind (ok_or (UnknownBlock block_number) hash_opt) (\<lambda>block_hash.
     rbind (map_err Backend (status_at c block_hash)) (\<lambda>status. Ok (status_slot status))))"

definition get_epoch_of_block :: "('hash, 'api) client \<Rightarrow> u32 \<Rightarrow> (u64, 'api api_error) result" where
  "get_epoch_of_block c block_number =
     rbind (map_err Backend (hash_of_number c block_number)) (\<lambda>hash_opt.
     rbind (ok_or (UnknownBlock block_number) hash_opt) (\<lambda>block_hash.
     rbind (map_err Backend (status_at c block_hash)) (\<lambda>status. Ok (status_epoch status))))"

section \<open>Comparison strategies\<close>

type_synonym ('hash, 'api) compare_strategy = "u32 \<Rightarrow> ('hash, 'api) client \<Rightarrow> (ordering, 'api api_error) result"

definition any_block_in_epoch :: "u64 \<Rightarrow> ('hash, 'api) compare_strategy" where
  "any_block_in_epoch epoch block c = rbind (get_epoch_of_block c block) (\<lambda>epoch_block. Ok (cmp epoch_block epoch))"

definition last_block_in_epoch :: "u64 \<Rightarrow> ('hash, 'api) compare_strategy" where
  "last_block_in_epoch epoch block c =
     rbind (get_epoch_of_block c block) (\<lambda>epoch_block.
       case cmp epoch_block epoch of
         Equal \<Rightarrow> rbind (get_epoch_of_block c (block + 1)) (\<lambda>next_epoch.
                    Ok (case cmp next_epoch epoch of Greater \<Rightarrow> Equal | _ \<Rightarrow> Less))
       | ord \<Rightarrow> Ok ord)"

definition any_block_in_slot_range :: "u64 \<times> u64 \<Rightarrow> ('hash, 'api) compare_strategy" where
  "any_block_in_slot_range slot_range block c =
     rbind (get_slot_of_block c block) (\<lambda>slot_of_block.
       Ok (if slot_of_block < fst slot_range then Less
           else if slot_of_block \<ge> snd slot_range then Greater
           else Equal))"

definition latest_block_in_slot_range :: "u64 \<times> u64 \<Rightarrow> u32 \<Rightarrow> ('hash, 'api) compare_strategy" where
  "latest_block_in_slot_range slot_range latest_block block c =
     rbind (any_block_in_slot_range slot_range block c) (\<lambda>current_block_ordering.
       case current_block_ordering of
         Equal \<Rightarrow>
           if block < latest_block
           then rbind (any_block_in_slot_range slot_range (block + 1) c) (\<lambda>next_block_ordering.
                  Ok (case next_block_ordering of Greater \<Rightarrow> Equal | _ \<Rightarrow> Less))
           else Ok Equal
       | ord \<Rightarrow> Ok ord)"

section \<open>Binary search\<close>

partial_function (option) binary_search_loop ::
  "(u32 \<Rightarrow> (ordering, 'e) result) \<Rightarrow> u32 \<Rightarrow> u32 \<Rightarrow> u32 option option" where
  [code]: "binary_search_loop f left right =
     (if left \<le> right
      then (let middle = (left + right) div 2
            in case ok (f middle) of
                 None \<Rightarrow> Some None
               | Some ord \<Rightarrow>
                   if ord = Equal then Some (Some middle)
                   else if ord = Less then binary_search_loop f (middle + 1) right
                   else binary_search_loop f left (middle - 1))
      else Some None)"

definition binary_search_by :: "u32 \<times> u32 \<Rightarrow> (u32 \<Rightarrow> (ordering, 'e) result) \<Rightarrow> u32 option option" where
  "binary_search_by bounds f = binary_search_loop f (fst bounds) (snd bounds)"

definition find_block_number ::
  "('hash, 'api) client \<Rightarrow> ('hash, 'api) compare_strategy \<Rightarrow> (u32, 'api api_error) result option" where
  "find_block_number c strategy =
     (let bounds = (1, best_number c + 1)
      in map_option (ok_or Application) (binary_search_by bounds (\<lambda>block. strategy block c)))"

definition find_block ::
  "('hash, 'api) client \<Rightarrow> ('hash, 'api) compare_strategy \<Rightarrow> ('hash, 'api api_error) result option" where
  "find_block c strategy =
     map_option (\<lambda>number. rbind number (\<lambda>block_number.
         rbind (map_err Backend (hash_of_number c block_number)) expect)) (find_block_number c strategy)"

section \<open>The loop\<close>

text \<open>The middle of a non-empty range lies in it, and the range shrinks whichever half is kept.\<close>

lemma middle_bounds:
  fixes left right :: u32
  assumes "left \<le> right" "unat right < 2 ^ 31" "1 \<le> left"
  defines "middle \<equiv> (left + right) div 2"
  shows "unat middle = (unat left + unat right) div 2" "unat left \<le> unat middle" "unat middle \<le> unat right"
    "unat (middle + 1) = unat middle + 1" "unat (middle - 1) = unat middle - 1" "1 \<le> unat middle"
proof -
  have le: "unat left \<le> unat right" "1 \<le> unat left"
    using assms(1,3) by (simp_all add: word_le_nat_alt)
  then have sum: "unat (left + right) = unat left + unat right"
    using assms(2) by (intro unat_add_no_wrap) simp
  show m: "unat middle = (unat left + unat right) div 2"
    unfolding middle_def by (simp add: unat_div_word sum)
  then show lo: "unat left \<le> unat middle" and hi: "unat middle \<le> unat right"
    using le by auto
  then show one: "1 \<le> unat middle"
    using le by simp
  show "unat (middle + 1) = unat middle + 1"
    using hi assms(2) by (subst unat_add_no_wrap) auto
  show "unat (middle - 1) = unat middle - 1"
    using one by (simp add: unat_sub word_le_nat_alt)
qed

text \<open>\<open>searchable f best\<close>: the comparison directs the search towards the blocks it accepts.\<close>

definition accepted :: "(u32 \<Rightarrow> (ordering, 'e) result) \<Rightarrow> u32 \<Rightarrow> u32 set" where
  "accepted f best = {m. 1 \<le> m \<and> m \<le> best \<and> f m = Ok Equal}"

definition searchable :: "(u32 \<Rightarrow> (ordering, 'e) result) \<Rightarrow> u32 \<Rightarrow> bool" where
  "searchable f best \<longleftrightarrow>
     (\<forall>m. 1 \<le> m \<and> m \<le> best \<longrightarrow>
        (case f m of Ok Less \<Rightarrow> (\<forall>t \<in> accepted f best. m < t) | Ok Greater \<Rightarrow> (\<forall>t \<in> accepted f best. t < m)
         | Ok Equal \<Rightarrow> True | _ \<Rightarrow> accepted f best = {}))
     \<and> ok (f (best + 1)) = None"

lemma binary_search_loop_spec:
  assumes "searchable f best" "1 \<le> left" "unat right \<le> unat best + 1" "unat best + 1 < 2 ^ 31"
    and "\<forall>t \<in> accepted f best. left \<le> t \<and> t \<le> right"
  shows "\<exists>r. binary_search_loop f left right = Some r
     \<and> (case r of Some m \<Rightarrow> m \<in> accepted f best | None \<Rightarrow> accepted f best = {})"
  using assms
proof (induction "unat right + 1 - unat left" arbitrary: left right rule: less_induct)
  case less
  show ?case
  proof (cases "left \<le> right")
    case False
    then show ?thesis
      using less.prems(5) by (auto simp: binary_search_loop.simps)
  next
    case True
    define m where "m = (left + right) div 2"
    have "unat right < 2 ^ 31"
      using less.prems(3,4) by simp
    note b = middle_bounds [OF True this less.prems(2), folded m_def]
    note step = binary_search_loop.simps [of f left right, folded m_def]
    show ?thesis
    proof (cases "m \<le> best")
      case False
      then have "unat m = unat (best + 1)"
        using b(3) less.prems(3,4) by (subst unat_add_no_wrap) (auto simp: word_le_nat_alt)
      then have "m = best + 1"
        by (simp only: word_unat_eq_iff)
      then have err: "ok (f m) = None"
        using less.prems(1) by (simp add: searchable_def)
      have "unat best < unat left"
        using False b(1) less.prems(3) by (simp add: word_le_nat_alt)
      then have "accepted f best = {}"
        using less.prems(5) by (force simp: accepted_def word_le_nat_alt)
      then show ?thesis
        using True err step by simp
    next
      case le: True
      have one: "1 \<le> m"
        using b(6) by (simp add: word_le_nat_alt)
      note dir = less.prems(1) [unfolded searchable_def, THEN conjunct1, rule_format, OF conjI [OF one le]]
      consider "f m = Ok Equal" | "f m = Ok Less" | "f m = Ok Greater" | "ok (f m) = None"
        by (cases "f m"; cases "the (ok (f m))") simp_all
      then show ?thesis
      proof cases
        case 1
        then show ?thesis
          using True step one le by (simp add: accepted_def)
      next
        case 2
        then have "\<forall>t \<in> accepted f best. m + 1 \<le> t \<and> t \<le> right"
          using dir less.prems(5) b(4) by (auto simp: word_le_nat_alt word_less_nat_alt)
        moreover have "1 \<le> m + 1"
          using b(4) by (simp add: word_le_nat_alt)
        ultimately show ?thesis
          using less.hyps [of right "m + 1"] less.prems(1,3,4) b(2,3,4) True step 2 by simp
      next
        case 3
        then have "\<forall>t \<in> accepted f best. left \<le> t \<and> t \<le> m - 1"
          using dir less.prems(5) b(5,6) by (auto simp: word_le_nat_alt word_less_nat_alt)
        moreover have "unat (m - 1) + 1 - unat left < unat right + 1 - unat left" "unat (m - 1) \<le> unat best + 1"
          using b(2,3,5,6) less.prems(3) by simp_all
        ultimately show ?thesis
          using less.hyps [of "m - 1" left] less.prems(1,2,4) True step 3 by simp
      next
        case 4
        then have "accepted f best = {}"
          using dir by (auto split: result.splits)
        then show ?thesis
          using True step 4 by simp
      qed
    qed
  qed
qed

lemma find_block_number_spec:
  assumes "searchable (\<lambda>b. strategy b c) (best_number c)" "unat (best_number c) + 1 < 2 ^ 31"
  shows "\<exists>r. find_block_number c strategy = Some r
     \<and> (case r of Ok m \<Rightarrow> m \<in> accepted (\<lambda>b. strategy b c) (best_number c)
        | Err _ \<Rightarrow> accepted (\<lambda>b. strategy b c) (best_number c) = {} | Panic \<Rightarrow> False)"
proof -
  have "unat (best_number c + 1) = unat (best_number c) + 1"
    using assms(2) by (subst unat_add_no_wrap) auto
  then have "\<exists>r. binary_search_loop (\<lambda>b. strategy b c) 1 (best_number c + 1) = Some r
     \<and> (case r of Some m \<Rightarrow> m \<in> accepted (\<lambda>b. strategy b c) (best_number c)
        | None \<Rightarrow> accepted (\<lambda>b. strategy b c) (best_number c) = {})"
    using assms by (intro binary_search_loop_spec) (auto simp: accepted_def word_le_nat_alt)
  then show ?thesis
    by (auto simp: find_block_number_def binary_search_by_def split: option.splits)
qed

section \<open>Chains of blocks\<close>

text \<open>\<open>block_values c get v\<close>: the client knows the value \<open>v\<close> of every block up to the best one, and it does not decrease.\<close>

definition block_values ::
  "('hash, 'api) client \<Rightarrow> (('hash, 'api) client \<Rightarrow> u32 \<Rightarrow> (u64, 'api api_error) result) \<Rightarrow> (u32 \<Rightarrow> u64) \<Rightarrow> bool" where
  "block_values c get v \<longleftrightarrow> (\<forall>m. 1 \<le> m \<and> m \<le> best_number c \<longrightarrow> get c m = Ok (v m))
     \<and> (\<forall>m m'. 1 \<le> m \<and> m \<le> m' \<and> m' \<le> best_number c \<longrightarrow> v m \<le> v m') \<and> ok (get c (best_number c + 1)) = None"

lemma block_values_mono:
  assumes "block_values c get v" "1 \<le> m" "m' \<le> best_number c" "v m < v m'" "1 \<le> m'" "m \<le> best_number c"
  shows "m < m'"
proof (rule ccontr)
  assume "\<not> m < m'"
  then have "v m' \<le> v m"
    using assms(1,5,6) by (simp add: block_values_def)
  then show False
    using assms(4) by simp
qed

lemma next_block:
  fixes m b :: u32
  assumes "m < b"
  shows "m + 1 \<le> b" "1 \<le> m + 1" "t \<le> m \<Longrightarrow> t + 1 \<le> m + 1" "m \<le> m + 1" "m < m + 1"
proof -
  have n: "unat (x + 1) = unat x + 1" if "x \<le> m" for x
    using that assms unat_bound [of b] by (subst unat_add_no_wrap) (auto simp: word_less_nat_alt word_le_nat_alt)
  show "m + 1 \<le> b" "1 \<le> m + 1" "t \<le> m \<Longrightarrow> t + 1 \<le> m + 1" "m \<le> m + 1" "m < m + 1"
    using assms n [of m] n [of t] by (auto simp: word_le_nat_alt word_less_nat_alt)
qed

lemma any_block_in_epoch_searchable:
  assumes "block_values c get_epoch_of_block e"
  shows "searchable (\<lambda>b. any_block_in_epoch ep b c) (best_number c)"
    "accepted (\<lambda>b. any_block_in_epoch ep b c) (best_number c) = {m. 1 \<le> m \<and> m \<le> best_number c \<and> e m = ep}"
proof -
  let ?f = "\<lambda>b. any_block_in_epoch ep b c"
  have f: "?f m = Ok (cmp (e m) ep)" if "1 \<le> m" "m \<le> best_number c" for m
    using assms that by (simp add: any_block_in_epoch_def block_values_def)
  then show acc: "accepted ?f (best_number c) = {m. 1 \<le> m \<and> m \<le> best_number c \<and> e m = ep}"
    by (auto simp: accepted_def cmp_def split: if_splits)
  have "ok (?f (best_number c + 1)) = None"
    using assms by (cases "get_epoch_of_block c (best_number c + 1)") (simp_all add: block_values_def any_block_in_epoch_def)
  then show "searchable ?f (best_number c)"
    unfolding searchable_def acc using f block_values_mono [OF assms] by (auto simp: cmp_def)
qed

lemma latest_block_in_slot_range_searchable:
  assumes "block_values c get_slot_of_block s"
  shows "searchable (\<lambda>b. latest_block_in_slot_range (lo, hi) (best_number c) b c) (best_number c)"
    "accepted (\<lambda>b. latest_block_in_slot_range (lo, hi) (best_number c) b c) (best_number c)
       = {m. 1 \<le> m \<and> m \<le> best_number c \<and> lo \<le> s m \<and> s m < hi \<and> (m < best_number c \<longrightarrow> hi \<le> s (m + 1))}"
proof -
  let ?f = "\<lambda>b. latest_block_in_slot_range (lo, hi) (best_number c) b c"
  have slot: "get_slot_of_block c m = Ok (s m)" if "1 \<le> m" "m \<le> best_number c" for m
    using assms that by (simp add: block_values_def)
  have mono: "s m \<le> s (m + 1)" if "1 \<le> m" "m < best_number c" for m
    using assms that next_block [OF that(2)] by (auto simp: block_values_def)
  have f: "?f m = Ok (if s m < lo then Less else if hi \<le> s m then Greater
      else if m < best_number c \<and> s (m + 1) < hi then Less else Equal)" if "1 \<le> m" "m \<le> best_number c" for m
    using slot [OF that] slot [of "m + 1"] next_block [of m "best_number c"] mono [OF that(1)]
    by (auto simp: latest_block_in_slot_range_def any_block_in_slot_range_def)
  then show acc: "accepted ?f (best_number c)
      = {m. 1 \<le> m \<and> m \<le> best_number c \<and> lo \<le> s m \<and> s m < hi \<and> (m < best_number c \<longrightarrow> hi \<le> s (m + 1))}"
    by (auto simp: accepted_def split: if_splits)
  have err: "ok (?f (best_number c + 1)) = None"
    using assms by (cases "get_slot_of_block c (best_number c + 1)")
      (simp_all add: block_values_def latest_block_in_slot_range_def any_block_in_slot_range_def)
  have less: "m < t" if "1 \<le> m" "m < best_number c" "s (m + 1) < hi" "1 \<le> t" "t \<le> best_number c" "t < best_number c \<longrightarrow> hi \<le> s (t + 1)" for m t
  proof (rule ccontr)
    assume "\<not> m < t"
    then have t: "t \<le> m" "t < best_number c"
      using that(2) by auto
    then have "s (t + 1) \<le> s (m + 1)"
      using assms next_block [OF that(2)] next_block(2) [OF t(2)] by (simp add: block_values_def)
    then show False
      using that(3,6) t(2) by simp
  qed
  have dir: "case ?f m of Ok Less \<Rightarrow> \<forall>t \<in> accepted ?f (best_number c). m < t
      | Ok Greater \<Rightarrow> \<forall>t \<in> accepted ?f (best_number c). t < m | Ok Equal \<Rightarrow> True | _ \<Rightarrow> accepted ?f (best_number c) = {}"
    if m: "1 \<le> m" "m \<le> best_number c" for m
  proof -
    have below: "m < t" if "s m < lo" "t \<in> accepted ?f (best_number c)" for t
      by (rule block_values_mono [OF assms]) (use that m in \<open>auto simp: acc\<close>)
    have above: "t < m" if "hi \<le> s m" "t \<in> accepted ?f (best_number c)" for t
      by (rule block_values_mono [OF assms]) (use that m in \<open>auto simp: acc\<close>)
    have between: "m < t" if "m < best_number c" "s (m + 1) < hi" "t \<in> accepted ?f (best_number c)" for t
      by (rule less) (use that m in \<open>auto simp: acc\<close>)
    show ?thesis
      unfolding f [OF m] using below above between by simp
  qed
  then show "searchable ?f (best_number c)"
    unfolding searchable_def using err by blast
qed

section \<open>Correctness\<close>

text \<open>C16. Search by epoch ends and is complete: on a chain whose epochs do not decrease, the search for a block of an
  epoch returns a block of that epoch, and it fails only if the chain has none.\<close>

theorem find_block_in_epoch:
  assumes "block_values c get_epoch_of_block e" and "unat (best_number c) + 1 < 2 ^ 31"
  shows "\<exists>r. find_block_number c (any_block_in_epoch epoch) = Some r
     \<and> (case r of Ok m \<Rightarrow> 1 \<le> m \<and> m \<le> best_number c \<and> e m = epoch
        | Err _ \<Rightarrow> (\<forall>m. 1 \<le> m \<longrightarrow> m \<le> best_number c \<longrightarrow> e m \<noteq> epoch) | Panic \<Rightarrow> False)"
  using find_block_number_spec [of "any_block_in_epoch epoch" c, OF any_block_in_epoch_searchable(1) [OF assms(1)] assms(2)]
  unfolding any_block_in_epoch_searchable(2) [OF assms(1)] by (auto split: result.splits)

definition demo_client :: "(nat, unit) client" where
  "demo_client = \<lparr> best_number = 5,
     hash_of_number = (\<lambda>n. Ok (if n \<le> 5 then Some (unat n) else None)),
     status_at = (\<lambda>n. Ok \<lparr> status_epoch = of_nat (n div 2), status_slot = of_nat (10 * n), status_slots_per_epoch = 20 \<rparr>) \<rparr>"

lemma demo_client_blocks:
  "get_epoch_of_block demo_client m = (if m \<le> 5 then Ok (of_nat (unat m div 2)) else Err (UnknownBlock m))"
  "get_slot_of_block demo_client m = (if m \<le> 5 then Ok (of_nat (10 * unat m)) else Err (UnknownBlock m))"
  by (simp_all add: get_epoch_of_block_def get_slot_of_block_def demo_client_def)

lemma demo_client_best: "best_number demo_client = 5"
  by (simp add: demo_client_def)

lemma demo_client_values_of:
  assumes "\<And>m. get demo_client m = (if m \<le> 5 then Ok (of_nat (f (unat m))) else Err (UnknownBlock m))"
    and "mono f" "f 5 < 2 ^ 64"
  shows "block_values demo_client get (\<lambda>m. of_nat (f (unat m)))"
  unfolding block_values_def demo_client_best
proof (intro conjI allI impI)
  fix m m' :: u32
  assume "1 \<le> m \<and> m \<le> m' \<and> m' \<le> 5"
  then have "unat m \<le> unat m'" "unat m' \<le> 5"
    by (simp_all add: word_le_nat_alt)
  then have "f (unat m) \<le> f (unat m')" "f (unat m') < 2 ^ 64"
    using assms(3) monoD [OF assms(2)] le_less_trans by blast+
  then show "(of_nat (f (unat m)) :: u64) \<le> of_nat (f (unat m'))"
    by (simp add: word_le_nat_alt unat_of_nat_small)
qed (simp_all add: assms(1))

lemma demo_client_values:
  "block_values demo_client get_epoch_of_block (\<lambda>m. of_nat (unat m div 2))"
  "block_values demo_client get_slot_of_block (\<lambda>m. of_nat (10 * unat m))"
  using demo_client_values_of [of get_epoch_of_block "\<lambda>n. n div 2"] demo_client_values_of [of get_slot_of_block "\<lambda>n. 10 * n"]
  by (simp_all add: demo_client_blocks mono_def div_le_mono)

theorem find_block_in_epoch_witness:
  "\<exists>m. find_block_number demo_client (any_block_in_epoch 1) = Some (Ok m) \<and> (of_nat (unat m div 2) :: u64) = 1"
proof -
  have "unat (best_number demo_client) + 1 < 2 ^ 31"
    by (simp add: demo_client_best)
  then obtain r where r: "find_block_number demo_client (any_block_in_epoch 1) = Some r"
      "case r of Ok m \<Rightarrow> 1 \<le> m \<and> m \<le> best_number demo_client \<and> of_nat (unat m div 2) = (1 :: u64)
        | Err _ \<Rightarrow> (\<forall>m. 1 \<le> m \<longrightarrow> m \<le> best_number demo_client \<longrightarrow> of_nat (unat m div 2) \<noteq> (1 :: u64)) | Panic \<Rightarrow> False"
    using find_block_in_epoch [OF demo_client_values(1)] by blast
  have "(1 :: u32) \<le> 2" "2 \<le> best_number demo_client" "of_nat (unat (2 :: u32) div 2) = (1 :: u64)"
    by (simp_all add: demo_client_best)
  then have "\<not> (\<forall>m. 1 \<le> m \<longrightarrow> m \<le> best_number demo_client \<longrightarrow> of_nat (unat m div 2) \<noteq> (1 :: u64))"
    by blast
  then obtain m where "r = Ok m" "of_nat (unat m div 2) = (1 :: u64)"
    using r(2) by (auto split: result.splits)
  then show ?thesis
    using r(1) by blast
qed

text \<open>C17. Search by slot range ends and returns the latest block: on a chain whose slots do not decrease, the search
  returns the highest block whose slot lies in the half-open range, and it fails only if no block does.\<close>

theorem find_latest_block_in_slot_range:
  fixes lo hi :: u64
  assumes "block_values c get_slot_of_block s" and "unat (best_number c) + 1 < 2 ^ 31"
  defines "eligible m \<equiv> 1 \<le> m \<and> m \<le> best_number c \<and> lo \<le> s m \<and> s m < hi"
  shows "\<exists>r. find_block_number c (latest_block_in_slot_range (lo, hi) (best_number c)) = Some r
     \<and> (case r of Ok m \<Rightarrow> eligible m \<and> (\<forall>m'. eligible m' \<longrightarrow> m' \<le> m) | Err _ \<Rightarrow> (\<nexists>m. eligible m) | Panic \<Rightarrow> False)"
proof -
  let ?A = "{m. 1 \<le> m \<and> m \<le> best_number c \<and> lo \<le> s m \<and> s m < hi \<and> (m < best_number c \<longrightarrow> hi \<le> s (m + 1))}"
  obtain r where r: "find_block_number c (latest_block_in_slot_range (lo, hi) (best_number c)) = Some r"
      "case r of Ok m \<Rightarrow> m \<in> ?A | Err _ \<Rightarrow> ?A = {} | Panic \<Rightarrow> False"
    using find_block_number_spec [of "latest_block_in_slot_range (lo, hi) (best_number c)" c,
        OF latest_block_in_slot_range_searchable(1) [OF assms(1)] assms(2)]
    unfolding latest_block_in_slot_range_searchable(2) [OF assms(1)] by blast
  have max: "m' \<le> m" if "m \<in> ?A" "eligible m'" for m m'
  proof (rule ccontr)
    assume "\<not> m' \<le> m"
    then have lt: "m < m'" "m < best_number c"
      using that(2) by (auto simp: eligible_def)
    then have "s (m + 1) \<le> s m'"
      using assms(1) that(2) next_block(1) [OF lt(1)] next_block(2) [OF lt(2)] by (simp add: block_values_def eligible_def)
    then show False
      using that lt(2) by (auto simp: eligible_def)
  qed
  have ex: "?A \<noteq> {}" if "eligible m" for m
  proof -
    let ?M = "Max {m. eligible m}"
    have M: "eligible ?M" "\<And>x. eligible x \<Longrightarrow> x \<le> ?M"
      using Max_in [of "{m. eligible m}"] Max_ge [of "{m. eligible m}"] that by auto
    have "hi \<le> s (?M + 1)" if "?M < best_number c"
    proof (rule ccontr)
      assume "\<not> hi \<le> s (?M + 1)"
      moreover have "s ?M \<le> s (?M + 1)"
        using assms(1) M(1) next_block [OF that] by (simp add: block_values_def eligible_def)
      ultimately have "eligible (?M + 1)"
        using M(1) next_block [OF that] by (auto simp: eligible_def)
      then have "?M + 1 \<le> ?M"
        by (rule M(2))
      then show False
        using next_block(5) [OF that] by simp
    qed
    then show ?thesis
      using M(1) by (auto simp: eligible_def)
  qed
  show ?thesis
  proof (cases r)
    case (Ok m)
    then have m: "m \<in> ?A"
      using r(2) by simp
    then have "eligible m"
      by (simp add: eligible_def)
    moreover have "\<forall>m'. eligible m' \<longrightarrow> m' \<le> m"
      using max [OF m] by blast
    ultimately show ?thesis
      unfolding r(1) Ok by simp
  next
    case (Err e)
    then have "\<nexists>m. eligible m"
      using r(2) ex by auto
    then show ?thesis
      unfolding r(1) Err by simp
  qed (use r(2) in simp)
qed

theorem find_latest_block_in_slot_range_witness:
  "find_block_number demo_client (latest_block_in_slot_range (15, 45) 5) = Some (Ok 4)"
proof -
  let ?e = "\<lambda>m :: u32. 1 \<le> m \<and> m \<le> 5 \<and> 15 \<le> (of_nat (10 * unat m) :: u64) \<and> (of_nat (10 * unat m) :: u64) < 45"
  have "unat (best_number demo_client) + 1 < 2 ^ 31"
    by (simp add: demo_client_best)
  from find_latest_block_in_slot_range [OF demo_client_values(2) this, of 15 45, unfolded demo_client_best]
  obtain r where r: "find_block_number demo_client (latest_block_in_slot_range (15, 45) 5) = Some r"
      "case r of Ok m \<Rightarrow> ?e m \<and> (\<forall>m'. ?e m' \<longrightarrow> m' \<le> m) | Err _ \<Rightarrow> (\<nexists>m. ?e m) | Panic \<Rightarrow> False"
    by blast
  have e4: "?e 4"
    by simp
  have unique: "m = 4" if "?e m" "\<forall>m'. ?e m' \<longrightarrow> m' \<le> m" for m
  proof -
    have "4 \<le> m" "m \<le> 5" "m \<noteq> 5"
      using that e4 by auto
    then have "unat m = 4"
      by (simp add: word_le_nat_alt word_unat_eq_iff)
    then show ?thesis
      by (simp add: word_unat_eq_iff)
  qed
  have ex: "\<exists>m. ?e m"
    by (rule exI [of _ 4], rule e4)
  show ?thesis
  proof (cases r)
    case (Ok m)
    have "m = 4"
      by (rule unique) (use r(2) Ok in simp_all)
    then show ?thesis
      using r(1) Ok by simp
  next
    case (Err e)
    have "\<nexists>m. ?e m"
      using r(2) unfolding Err result.case .
    then show ?thesis
      using ex by contradiction
  qed (use r(2) in simp)
qed

end
