(* ===== verification/NodeInherents.thy ===== *)
theory NodeInherents
  imports Prelude AuthoritySelection BlockRewards NativeTokenPallet McHash
begin

text \<open>
  The inherent data of the node: \<^verbatim>\<open>node/node/src/inherent_data.rs\<close>.

  Proposers and verifiers build the providers of inherent data from the state of the parent block, the data sources
  and the clock.  The state of the parent, read by runtime calls, is the record \<open>parent_api\<close>; the header store, the
  conversions between slots and timestamps, the slot in a header and the environment are fields of \<open>node_env\<close>.
\<close>

section \<open>Data\<close>

record create_inherent_data_config =
  cidc_mc_epoch_config :: mainchain_epoch_config
  cidc_sc_slot_config :: sc_slot_config

definition cidc_slot_duration :: "create_inherent_data_config \<Rightarrow> u64" where
  "cidc_slot_duration cfg = config_slot_duration (cidc_sc_slot_config cfg)"

record 'api parent_api =
  api_next_unset_epoch_number :: "(u64, 'api) result"
  api_get_main_chain_scripts :: "(main_chain_scripts, 'api) result"
  api_native_scripts :: "(native_scripts option, 'api) result"
  api_native_initialized :: "(bool, 'api) result"

record ('hash, 'c, 'p, 'b) node_env =
  env_slot_timestamp :: "u64 \<Rightarrow> u64 \<Rightarrow> u64 option"
  env_slot_from_timestamp :: "u64 \<Rightarrow> u64 \<Rightarrow> u64"
  env_client_header :: "'hash \<Rightarrow> (header option, 'c) result"
  env_find_pre_digest :: "header \<Rightarrow> (u64, 'p) result"
  env_var :: "string \<Rightarrow> string option"
  env_from_hex :: "string \<Rightarrow> bytes option"
  env_beneficiary :: "bytes \<Rightarrow> 'b option"

datatype ('e, 'api, 'c, 'p) cidp_error =
  McHashFailed "'e mc_hash_inherent_error"
| AriadneFailed "('e, 'api) ariadne_provider_error"
| BeneficiaryFailed beneficiary_error
| NativeTokenFailed "('e, 'api, ('c, digest_error) header_error) idp_creation_error"
| HeaderFailed 'c
| HeaderNotFound
| PreDigestFailed 'p

record 'b proposal_providers =
  prop_slot :: u64
  prop_timestamp :: u64
  prop_mc_hash :: mainchain_block
  prop_ariadne :: "authority_selection_inputs option"
  prop_beneficiary :: 'b
  prop_native_token :: "u128 option"

record verifier_providers =
  ver_timestamp :: u64
  ver_ariadne :: "authority_selection_inputs option"
  ver_native_token :: "u128 option"

section \<open>Providers\<close>

definition timestamp_and_slot_cidp :: "('hash, 'c, 'p, 'b) node_env \<Rightarrow> u64 \<Rightarrow> u64 \<Rightarrow> u64 \<times> u64" where
  "timestamp_and_slot_cidp env slot_duration now = (env_slot_from_timestamp env now slot_duration, now)"

definition slot_from_predigest :: "('hash, 'c, 'p, 'b) node_env \<Rightarrow> header \<Rightarrow> (u64 option, 'p) result" where
  "slot_from_predigest env h =
     (if header_number h = 0 then Ok None else rbind (env_find_pre_digest env h) (\<lambda>slot. Ok (Some slot)))"

definition proposal_cidp ::
  "('hash, 'c, 'p, 'b) node_env \<Rightarrow> create_inherent_data_config \<Rightarrow> 'api parent_api \<Rightarrow> 'e mc_hash_data_source
    \<Rightarrow> 'e selection_data_source \<Rightarrow> (bytes, 'e) transfer_source \<Rightarrow> u64 \<Rightarrow> 'hash
    \<Rightarrow> ('b proposal_providers, ('e, 'api, 'c, 'p) cidp_error) result" where
  "proposal_cidp env cfg api mc_hash_source selection_source native_source now parent_hash =
     (let (slot, timestamp) = timestamp_and_slot_cidp env (cidc_slot_duration cfg) now in
      rbind (map_err McHashFailed (new_proposal (env_slot_timestamp env) mc_hash_source slot (cidc_slot_duration cfg))) (\<lambda>mc_block.
      rbind (map_err AriadneFailed (ariadne_new (env_slot_timestamp env) (api_next_unset_epoch_number api)
          (api_get_main_chain_scripts api) (cidc_sc_slot_config cfg) (cidc_mc_epoch_config cfg) slot selection_source
          (mc_epoch mc_block))) (\<lambda>ariadne.
      rbind (map_err BeneficiaryFailed (beneficiary_from_env (env_var env) (env_from_hex env) (env_beneficiary env)
          ''SIDECHAIN_BLOCK_BENEFICIARY'')) (\<lambda>beneficiary.
      rbind (map_err NativeTokenFailed (native_idp_new (api_native_scripts api) (api_native_initialized api)
          (get_mc_hash_for_block (env_client_header env) parent_hash) native_source (mc_hash mc_block))) (\<lambda>native_token.
        Ok \<lparr> prop_slot = slot, prop_timestamp = timestamp, prop_mc_hash = mc_block, prop_ariadne = ariadne,
             prop_beneficiary = beneficiary, prop_native_token = native_token \<rparr>)))))"

definition current_slot :: "('hash, 'c, 'p, 'b) node_env \<Rightarrow> create_inherent_data_config \<Rightarrow> u64 \<Rightarrow> u64" where
  "current_slot env cfg now = fst (timestamp_and_slot_cidp env (cidc_slot_duration cfg) now)"

definition verifier_cidp ::
  "('hash, 'c, 'p, 'b) node_env \<Rightarrow> create_inherent_data_config \<Rightarrow> 'api parent_api \<Rightarrow> 'e mc_hash_data_source
    \<Rightarrow> 'e selection_data_source \<Rightarrow> (bytes, 'e) transfer_source \<Rightarrow> u64 \<Rightarrow> 'hash \<Rightarrow> u64 \<times> bytes
    \<Rightarrow> (verifier_providers, ('e, 'api, 'c, 'p) cidp_error) result" where
  "verifier_cidp env cfg api mc_hash_source selection_source native_source now parent_hash = (\<lambda>(verified_block_slot, mc_hash).
     rbind (map_err HeaderFailed (env_client_header env parent_hash)) (\<lambda>header_opt.
     rbind (ok_or HeaderNotFound header_opt) (\<lambda>parent_header.
     rbind (map_err PreDigestFailed (slot_from_predigest env parent_header)) (\<lambda>parent_slot.
     rbind (map_err McHashFailed (new_verification (env_slot_timestamp env) parent_header parent_slot verified_block_slot
         mc_hash (cidc_slot_duration cfg) mc_hash_source)) (\<lambda>mc_state_reference.
     rbind (map_err AriadneFailed (ariadne_new (env_slot_timestamp env) (api_next_unset_epoch_number api)
         (api_get_main_chain_scripts api) (cidc_sc_slot_config cfg) (cidc_mc_epoch_config cfg) verified_block_slot
         selection_source (mc_epoch mc_state_reference))) (\<lambda>ariadne.
     rbind (map_err NativeTokenFailed (native_idp_new (api_native_scripts api) (api_native_initialized api)
         (get_mc_hash_for_block (env_client_header env) parent_hash) native_source mc_hash)) (\<lambda>native_token.
       Ok \<lparr> ver_timestamp = now, ver_ariadne = ariadne, ver_native_token = native_token \<rparr>)))))))"

section \<open>Agreement\<close>

lemma verifier_agrees:
  assumes "proposal_cidp env cfg api mc_hash_source selection_source native_source now parent_hash = Ok p"
    and "env_client_header env parent_hash = Ok (Some h)" "slot_from_predigest env h = Ok parent_slot"
    and "new_verification (env_slot_timestamp env) h parent_slot (prop_slot p) (mc_hash (prop_mc_hash p))
      (cidc_slot_duration cfg) mc_hash_source' = Ok (prop_mc_hash p)"
  shows "verifier_cidp env cfg api mc_hash_source' selection_source native_source now' parent_hash
      (prop_slot p, mc_hash (prop_mc_hash p))
    = Ok \<lparr> ver_timestamp = now', ver_ariadne = prop_ariadne p, ver_native_token = prop_native_token p \<rparr>"
  using assms by (auto simp: proposal_cidp_def verifier_cidp_def split: prod.splits)

text \<open>Proposer and verifier agree: when the parent's author and the author of a block refer to the main chain block
  they see as the latest stable one, a verifier whose database is at most the stability margin behind the author's
  builds, from the slot and the main chain hash in the block's header, the inherent data of the author: the same
  committee inputs and the same token transfer, whatever the clock of the verifier shows.\<close>

lemma inherent_data_agreement:
  assumes "serves ch bs d ts" and "serves ch bs d' ts'" and "grows (uint (bs_security_parameter bs)) d d'"
    and "within_margin ch bs d' (d'', cache'')" and "ts \<le> ts'"
    and "env_slot_timestamp env slot (cidc_slot_duration cfg) = Some ts"
    and "new_proposal (env_slot_timestamp env) (block_data_source ch bs d cache) slot (cidc_slot_duration cfg) = Ok b"
    and "env_client_header env parent_hash = Ok (Some h)" and "slot_from_predigest env h = Ok (Some slot)"
    and "mc_hash_value_from_digest (header_digest h) = Ok (mc_hash b)"
    and "proposal_cidp env cfg api (block_data_source ch bs d' cache') selection_source native_source now parent_hash = Ok p"
    and "env_slot_timestamp env (prop_slot p) (cidc_slot_duration cfg) = Some ts'"
  shows "verifier_cidp env cfg api (block_data_source ch bs d'' cache'') selection_source native_source now' parent_hash
      (prop_slot p, mc_hash (prop_mc_hash p))
    = Ok \<lparr> ver_timestamp = now', ver_ariadne = prop_ariadne p, ver_native_token = prop_native_token p \<rparr>"
proof -
  have "new_proposal (env_slot_timestamp env) (block_data_source ch bs d' cache') (prop_slot p) (cidc_slot_duration cfg)
      = Ok (prop_mc_hash p)"
    using assms(11) by (auto simp: proposal_cidp_def split: prod.splits)
  then have "new_verification (env_slot_timestamp env) h (Some slot) (prop_slot p) (mc_hash (prop_mc_hash p))
      (cidc_slot_duration cfg) (block_data_source ch bs d'' cache'') = Ok (prop_mc_hash p)"
    using db_blocks.proposal_verified [OF assms(1,2,3,5,4,6,12) assms(7) [unfolded block_data_source_def] _ assms(10)]
    by (simp add: block_data_source_def)
  then show ?thesis
    by (rule verifier_agrees [OF assms(11,8,9)])
qed

text \<open>The parent refers to the main chain block 5, its child to block 6.\<close>

definition demo_node_env :: "(unit, unit, unit, bytes) node_env" where
  "demo_node_env = \<lparr> env_slot_timestamp = (\<lambda>s d. Some (s * d)), env_slot_from_timestamp = (\<lambda>t d. t div d),
     env_client_header = (\<lambda>_. Ok (Some \<lparr> header_number = 1, header_digest = from_mc_block_hash (replicate 32 9) \<rparr>)),
     env_find_pre_digest = (\<lambda>_. Ok 61), env_var = (\<lambda>_. Some ''00''), env_from_hex = (\<lambda>_. Some [0]), env_beneficiary = Some \<rparr>"

definition demo_cidc :: create_inherent_data_config where
  "demo_cidc = \<lparr> cidc_mc_epoch_config = bs_epoch_config demo_block_source,
     cidc_sc_slot_config = \<lparr> config_slots_per_epoch = 60, config_slot_duration = 1000 \<rparr> \<rparr>"

definition demo_selection_source :: "data_source_error selection_data_source" where
  "demo_selection_source = \<lparr> get_ariadne_parameters = (\<lambda>_ _ _. Ok \<lparr> ap_d_parameter = demo_d_parameter, ap_permissioned_candidates = [] \<rparr>),
     get_candidates = (\<lambda>_ _. Ok []), get_epoch_nonce = (\<lambda>_. Ok (Some [1])), data_epoch = (\<lambda>_. Ok 0) \<rparr>"

end
