(* ===== verification/PlutusData.thy ===== *)
theory PlutusData
  imports Prelude Domain PlutusDatum
begin

text \<open>
  The datums of the main chain contracts: \<^verbatim>\<open>toolkit/primitives/plutus-data/src\<close>.

  \<^verbatim>\<open>PlutusData\<close> of \<^verbatim>\<open>cardano_serialization_lib\<close> is an opaque type \<open>'p\<close> with its constructors and accessors in the record
  \<open>plutus_api\<close>; what the code relies on is the locale \<open>plutus_data\<close>, which the Plutus data of
  \<^verbatim>\<open>toolkit/utils/plutus\<close> satisfies.  A list is only indexed below its length, which is checked first.
\<close>

section \<open>Plutus data\<close>

record 'p plutus_api =
  as_list :: "'p \<Rightarrow> 'p list option"
  as_integer :: "'p \<Rightarrow> int option"
  as_bytes :: "'p \<Rightarrow> bytes option"
  as_constr_plutus_data :: "'p \<Rightarrow> (u64 \<times> 'p list) option"
  new_list :: "'p list \<Rightarrow> 'p"
  new_integer :: "int \<Rightarrow> 'p"
  new_bytes :: "bytes \<Rightarrow> 'p"
  new_constr_plutus_data :: "u64 \<Rightarrow> 'p list \<Rightarrow> 'p"

datatype 'p data_decoding_error = DataDecodingError 'p string string

definition as_u32 :: "'p plutus_api \<Rightarrow> 'p \<Rightarrow> u32 option" where
  "as_u32 api d = Option.bind (as_integer api d) (\<lambda>i.
     Option.bind (if 0 \<le> i \<and> i < 2 ^ 64 then Some (word_of_int i :: u64) else None) try_narrow)"

definition as_u16 :: "'p plutus_api \<Rightarrow> 'p \<Rightarrow> u16 option" where
  "as_u16 api d = Option.bind (as_u32 api d) try_narrow"

definition filter_len :: "(nat \<Rightarrow> bool) \<Rightarrow> 'p list option \<Rightarrow> 'p list option" where
  "filter_len P items = (case items of Some l \<Rightarrow> if P (length l) then Some l else None | None \<Rightarrow> None)"

text \<open>The fields of a constructor with alternative zero and enough of them.\<close>

definition constr_zero_fields :: "'p plutus_api \<Rightarrow> nat \<Rightarrow> 'p \<Rightarrow> 'p list option" where
  "constr_zero_fields api n d =
     (case as_constr_plutus_data api d of
        Some (alternative, items) \<Rightarrow> if alternative = 0 \<and> n \<le> length items then Some items else None
      | None \<Rightarrow> None)"

section \<open>Versioned datums\<close>

definition plutus_data_version_and_payload :: "'p plutus_api \<Rightarrow> 'p \<Rightarrow> (u32 \<times> 'p \<times> 'p) option" where
  "plutus_data_version_and_payload api d =
     Option.bind (filter_len (\<lambda>n. n = 3) (as_list api d)) (\<lambda>items.
       map_option (\<lambda>version. (version, items ! 0, items ! 1)) (as_u32 api (items ! 2)))"

definition versioned_decode ::
  "'p plutus_api \<Rightarrow> string \<Rightarrow> ('p \<Rightarrow> ('v, string) result) \<Rightarrow> (u32 \<Rightarrow> 'p \<Rightarrow> 'p \<Rightarrow> ('v, string) result) \<Rightarrow> 'p
    \<Rightarrow> ('v, 'p data_decoding_error) result" where
  "versioned_decode api name decode_legacy decode_versioned d =
     map_err (DataDecodingError d name)
       (case plutus_data_version_and_payload api d of
          None \<Rightarrow> decode_legacy d
        | Some (version, const_payload, mut_payload) \<Rightarrow> decode_versioned version const_payload mut_payload)"

definition versioned_generic_datum :: "'p plutus_api \<Rightarrow> 'p \<Rightarrow> 'p \<Rightarrow> u64 \<Rightarrow> 'p" where
  "versioned_generic_datum api d generic_data version =
     new_list api [d, generic_data, new_integer api (uint version)]"

definition unknown_version :: "u32 \<Rightarrow> string" where
  "unknown_version version = ''Unknown version: '' @ to_decimal (unat version)"

section \<open>D-parameter\<close>

datatype d_param_datum = DParamV0 u16 u16

definition d_param_decode_legacy :: "'p plutus_api \<Rightarrow> 'p \<Rightarrow> (d_param_datum, string) result" where
  "d_param_decode_legacy api d =
     ok_or ''Expected [u16, u16]''
       (Option.bind (filter_len (\<lambda>n. n = 2) (as_list api d)) (\<lambda>items.
        Option.bind (as_u16 api (items ! 0)) (\<lambda>permissioned.
        Option.bind (as_u16 api (items ! 1)) (\<lambda>registered. Some (DParamV0 permissioned registered)))))"

definition d_param_decode_versioned :: "'p plutus_api \<Rightarrow> u32 \<Rightarrow> 'p \<Rightarrow> 'p \<Rightarrow> (d_param_datum, string) result" where
  "d_param_decode_versioned api version const_data mut_data =
     (if version = 0
      then map_err (\<lambda>msg. ''Can not parse mutable part of data: '' @ msg) (d_param_decode_legacy api mut_data)
      else Err (unknown_version version))"

definition d_param_try_from :: "'p plutus_api \<Rightarrow> 'p \<Rightarrow> (d_param_datum, 'p data_decoding_error) result" where
  "d_param_try_from api = versioned_decode api ''DParamDatum'' (d_param_decode_legacy api) (d_param_decode_versioned api)"

definition d_parameter_from :: "d_param_datum \<Rightarrow> d_parameter" where
  "d_parameter_from dp = (case dp of DParamV0 permissioned registered \<Rightarrow>
     \<lparr> num_permissioned_candidates = permissioned, num_registered_candidates = registered \<rparr>)"

definition d_parameter_to_plutus_data :: "'p plutus_api \<Rightarrow> d_parameter \<Rightarrow> 'p" where
  "d_parameter_to_plutus_data api dp =
     versioned_generic_datum api (new_constr_plutus_data api 0 [])
       (new_list api [new_integer api (uint (num_permissioned_candidates dp)), new_integer api (uint (num_registered_candidates dp))]) 0"

section \<open>Permissioned candidates\<close>

datatype permissioned_candidate_datum_v0 = PermissionedCandidateDatumV0 bytes bytes bytes

datatype permissioned_candidate_datums = PermissionedV0 "permissioned_candidate_datum_v0 list"

definition decode_legacy_candidate_datum :: "'p plutus_api \<Rightarrow> 'p \<Rightarrow> permissioned_candidate_datum_v0 option" where
  "decode_legacy_candidate_datum api d =
     Option.bind (filter_len (\<lambda>n. n = 3) (as_list api d)) (\<lambda>datums.
     Option.bind (as_bytes api (datums ! 0)) (\<lambda>sc.
     Option.bind (as_bytes api (datums ! 1)) (\<lambda>aura.
     Option.bind (as_bytes api (datums ! 2)) (\<lambda>grandpa. Some (PermissionedCandidateDatumV0 sc aura grandpa)))))"

fun collect_options :: "('x \<Rightarrow> 'y option) \<Rightarrow> 'x list \<Rightarrow> 'y list option" where
  "collect_options f [] = Some []"
| "collect_options f (x # xs) = Option.bind (f x) (\<lambda>y. map_option ((#) y) (collect_options f xs))"

definition permissioned_decode_legacy :: "'p plutus_api \<Rightarrow> 'p \<Rightarrow> (permissioned_candidate_datums, string) result" where
  "permissioned_decode_legacy api d =
     rbind (ok_or ''Expected [[ByteString, ByteString, ByteString]]''
       (Option.bind (as_list api d) (collect_options (decode_legacy_candidate_datum api)))) (\<lambda>cs. Ok (PermissionedV0 cs))"

definition permissioned_decode_versioned ::
  "'p plutus_api \<Rightarrow> u32 \<Rightarrow> 'p \<Rightarrow> 'p \<Rightarrow> (permissioned_candidate_datums, string) result" where
  "permissioned_decode_versioned api version const_data mut_data =
     (if version = 0
      then map_err (\<lambda>msg. ''Can not parse mutable part of data: '' @ msg) (permissioned_decode_legacy api mut_data)
      else Err (unknown_version version))"

definition permissioned_try_from ::
  "'p plutus_api \<Rightarrow> 'p \<Rightarrow> (permissioned_candidate_datums, 'p data_decoding_error) result" where
  "permissioned_try_from api =
     versioned_decode api ''PermissionedCandidateDatums'' (permissioned_decode_legacy api) (permissioned_decode_versioned api)"

definition permissioned_candidate_from :: "permissioned_candidate_datum_v0 \<Rightarrow> permissioned_candidate_data" where
  "permissioned_candidate_from v = (case v of PermissionedCandidateDatumV0 sc aura grandpa \<Rightarrow>
     \<lparr> perm_sidechain_public_key = sc, perm_aura_public_key = aura, perm_grandpa_public_key = grandpa \<rparr>)"

definition permissioned_candidates_from :: "permissioned_candidate_datums \<Rightarrow> permissioned_candidate_data list" where
  "permissioned_candidates_from v = (case v of PermissionedV0 cs \<Rightarrow> map permissioned_candidate_from cs)"

definition permissioned_candidates_to_plutus_data :: "'p plutus_api \<Rightarrow> permissioned_candidate_data list \<Rightarrow> 'p" where
  "permissioned_candidates_to_plutus_data api candidates =
     versioned_generic_datum api (new_constr_plutus_data api 0 [])
       (new_list api (map (\<lambda>c. new_list api [new_bytes api (perm_sidechain_public_key c), new_bytes api (perm_aura_public_key c),
          new_bytes api (perm_grandpa_public_key c)]) candidates)) 0"

section \<open>Registered candidates\<close>

record ada_based_staking =
  staking_pub_key :: bytes
  staking_signature :: bytes

record register_validator_datum =
  rvd_stake_ownership :: ada_based_staking
  rvd_sidechain_pub_key :: bytes
  rvd_sidechain_signature :: bytes
  rvd_consumed_input :: utxo_id
  rvd_own_pkh :: bytes
  rvd_aura_pub_key :: bytes
  rvd_grandpa_pub_key :: bytes

definition decode_ada_based_staking_datum :: "'p plutus_api \<Rightarrow> 'p \<Rightarrow> ada_based_staking option" where
  "decode_ada_based_staking_datum api d =
     Option.bind (constr_zero_fields api 2 d) (\<lambda>items.
     Option.bind (as_bytes api (items ! 0)) (\<lambda>key.
     Option.bind (ok (mainchain_public_key_try_from key)) (\<lambda>pub_key.
     Option.bind (as_bytes api (items ! 1)) (\<lambda>signature.
       Some \<lparr> staking_pub_key = pub_key, staking_signature = signature \<rparr>))))"

definition decode_tx_hash_datum :: "'p plutus_api \<Rightarrow> 'p \<Rightarrow> bytes option" where
  "decode_tx_hash_datum api d =
     Option.bind (constr_zero_fields api 1 d) (\<lambda>items.
     Option.bind (as_bytes api (items ! 0)) (try_array 32))"

definition decode_utxo_id_datum :: "'p plutus_api \<Rightarrow> 'p \<Rightarrow> utxo_id option" where
  "decode_utxo_id_datum api d =
     Option.bind (constr_zero_fields api 2 d) (\<lambda>items.
     Option.bind (decode_tx_hash_datum api (items ! 0)) (\<lambda>h.
     Option.bind (as_u16 api (items ! 1)) (\<lambda>index. Some \<lparr> tx_hash = h, utxo_index = index \<rparr>)))"

definition decode_v0_register_validator_datum :: "'p plutus_api \<Rightarrow> 'p \<Rightarrow> 'p \<Rightarrow> register_validator_datum option" where
  "decode_v0_register_validator_datum api const_data mut_data =
     Option.bind (constr_zero_fields api 6 mut_data) (\<lambda>items.
     Option.bind (decode_ada_based_staking_datum api (items ! 0)) (\<lambda>stake_ownership.
     Option.bind (as_bytes api (items ! 1)) (\<lambda>sidechain_key.
     Option.bind (as_bytes api (items ! 2)) (\<lambda>signature.
     Option.bind (decode_utxo_id_datum api (items ! 3)) (\<lambda>input.
     Option.bind (as_bytes api (items ! 4)) (\<lambda>aura.
     Option.bind (as_bytes api (items ! 5)) (\<lambda>grandpa.
     Option.bind (as_bytes api const_data) (\<lambda>pkh.
     Option.bind (try_array 28 pkh) (\<lambda>own_pkh.
       Some \<lparr> rvd_stake_ownership = stake_ownership, rvd_sidechain_pub_key = sidechain_key, rvd_sidechain_signature = signature,
              rvd_consumed_input = input, rvd_own_pkh = own_pkh, rvd_aura_pub_key = aura, rvd_grandpa_pub_key = grandpa \<rparr>)))))))))"

definition decode_legacy_register_validator_datum :: "'p plutus_api \<Rightarrow> 'p \<Rightarrow> register_validator_datum option" where
  "decode_legacy_register_validator_datum api d =
     Option.bind (constr_zero_fields api 7 d) (\<lambda>items.
     Option.bind (decode_ada_based_staking_datum api (items ! 0)) (\<lambda>stake_ownership.
     Option.bind (as_bytes api (items ! 1)) (\<lambda>sidechain_key.
     Option.bind (as_bytes api (items ! 2)) (\<lambda>signature.
     Option.bind (decode_utxo_id_datum api (items ! 3)) (\<lambda>input.
     Option.bind (as_bytes api (items ! 4)) (\<lambda>pkh.
     Option.bind (try_array 28 pkh) (\<lambda>own_pkh.
     Option.bind (as_bytes api (items ! 5)) (\<lambda>aura.
     Option.bind (as_bytes api (items ! 6)) (\<lambda>grandpa.
       Some \<lparr> rvd_stake_ownership = stake_ownership, rvd_sidechain_pub_key = sidechain_key, rvd_sidechain_signature = signature,
              rvd_consumed_input = input, rvd_own_pkh = own_pkh, rvd_aura_pub_key = aura, rvd_grandpa_pub_key = grandpa \<rparr>)))))))))"

definition register_decode_legacy :: "'p plutus_api \<Rightarrow> 'p \<Rightarrow> (register_validator_datum, string) result" where
  "register_decode_legacy api d = ok_or ''Invalid data'' (decode_legacy_register_validator_datum api d)"

definition register_decode_versioned :: "'p plutus_api \<Rightarrow> u32 \<Rightarrow> 'p \<Rightarrow> 'p \<Rightarrow> (register_validator_datum, string) result" where
  "register_decode_versioned api version const_data mut_data =
     (if version = 0
      then ok_or ''Can not parse mutable part of data'' (decode_v0_register_validator_datum api const_data mut_data)
      else Err (unknown_version version))"

definition register_try_from :: "'p plutus_api \<Rightarrow> 'p \<Rightarrow> (register_validator_datum, 'p data_decoding_error) result" where
  "register_try_from api =
     versioned_decode api ''RegisterValidatorDatum'' (register_decode_legacy api) (register_decode_versioned api)"

definition tx_hash_to_plutus_data :: "'p plutus_api \<Rightarrow> bytes \<Rightarrow> 'p" where
  "tx_hash_to_plutus_data api h = new_constr_plutus_data api 0 [new_bytes api h]"

definition utxo_id_to_plutus_data :: "'p plutus_api \<Rightarrow> utxo_id \<Rightarrow> 'p" where
  "utxo_id_to_plutus_data api u =
     new_constr_plutus_data api 0 [tx_hash_to_plutus_data api (tx_hash u), new_integer api (uint (utxo_index u))]"

definition stake_ownership_to_plutus_data :: "'p plutus_api \<Rightarrow> ada_based_staking \<Rightarrow> 'p" where
  "stake_ownership_to_plutus_data api v =
     new_constr_plutus_data api 0 [new_bytes api (staking_pub_key v), new_bytes api (staking_signature v)]"

definition register_to_plutus_data :: "'p plutus_api \<Rightarrow> register_validator_datum \<Rightarrow> 'p" where
  "register_to_plutus_data api v =
     versioned_generic_datum api (new_bytes api (rvd_own_pkh v))
       (new_constr_plutus_data api 0
          [stake_ownership_to_plutus_data api (rvd_stake_ownership v), new_bytes api (rvd_sidechain_pub_key v),
           new_bytes api (rvd_sidechain_signature v), utxo_id_to_plutus_data api (rvd_consumed_input v),
           new_bytes api (rvd_aura_pub_key v), new_bytes api (rvd_grandpa_pub_key v)]) 0"

section \<open>Version oracle\<close>

record version_oracle_datum =
  version_oracle :: u32
  currency_symbol :: bytes

definition version_oracle_try_from :: "'p plutus_api \<Rightarrow> 'p \<Rightarrow> (version_oracle_datum, 'p data_decoding_error) result" where
  "version_oracle_try_from api d =
     ok_or (DataDecodingError d ''VersionOracleDatum'' ''Expected [u32, [u8;32]]'')
       (Option.bind (filter_len (\<lambda>n. n = 2) (as_list api d)) (\<lambda>items.
        Option.bind (as_u32 api (items ! 0)) (\<lambda>oracle.
        Option.bind (as_bytes api (items ! 1)) (\<lambda>bs.
        Option.bind (try_array 28 bs) (\<lambda>symbol. Some \<lparr> version_oracle = oracle, currency_symbol = symbol \<rparr>)))))"

definition version_oracle_to_plutus_data :: "'p plutus_api \<Rightarrow> version_oracle_datum \<Rightarrow> 'p" where
  "version_oracle_to_plutus_data api v =
     new_list api [new_integer api (uint (version_oracle v)), new_bytes api (currency_symbol v)]"

section \<open>Integers\<close>

lemma as_u32_eq:
  "as_u32 api d = Option.bind (as_integer api d) (\<lambda>i. if 0 \<le> i \<and> i < 2 ^ 32 then Some (word_of_int i) else None)"
proof -
  have "try_narrow (word_of_int i :: u64) = (if i < 2 ^ 32 then Some (word_of_int i) else None :: u32 option)"
    if "0 \<le> i" "i < 2 ^ 64" for i
  proof -
    have "unat (word_of_int i :: u64) = nat i"
      using that by (simp add: unsigned_of_int take_bit_int_eq_self flip: unat_eq_nat_uint)
    moreover have "(ucast (word_of_int i :: u64) :: u32) = word_of_int i"
      by (simp add: unsigned_of_int of_int_take_bit take_bit_word_eq_self)
    ultimately show ?thesis
      using that by (simp add: try_narrow_def nat_less_iff)
  qed
  then show ?thesis
    by (auto simp: as_u32_def split: bind_splits)
qed

lemma as_u16_eq:
  "as_u16 api d = Option.bind (as_integer api d) (\<lambda>i. if 0 \<le> i \<and> i < 2 ^ 16 then Some (word_of_int i) else None)"
proof -
  have "try_narrow (word_of_int i :: u32) = (if i < 2 ^ 16 then Some (word_of_int i) else None :: u16 option)"
    if "0 \<le> i" "i < 2 ^ 32" for i
  proof -
    have "unat (word_of_int i :: u32) = nat i"
      using that by (simp add: unsigned_of_int take_bit_int_eq_self flip: unat_eq_nat_uint)
    moreover have "(ucast (word_of_int i :: u32) :: u16) = word_of_int i"
      by (simp add: unsigned_of_int of_int_take_bit take_bit_word_eq_self)
    ultimately show ?thesis
      using that by (simp add: try_narrow_def nat_less_iff)
  qed
  then show ?thesis
    by (auto simp: as_u16_def as_u32_eq split: bind_splits)
qed

section \<open>What the library promises\<close>

text \<open>The accessors invert the constructors of their kind; lists are not integers and constructors are not lists.\<close>

locale plutus_data =
  fixes api :: "'p plutus_api"
  assumes of_list: "as_list api (new_list api l) = Some l" "as_integer api (new_list api l) = None"
    and of_integer: "as_integer api (new_integer api i) = Some i"
    and of_bytes: "as_bytes api (new_bytes api bs) = Some bs"
    and of_constr: "as_constr_plutus_data api (new_constr_plutus_data api c l) = Some (c, l)"
      "as_list api (new_constr_plutus_data api c l) = None"
begin

lemmas plutus_simps = of_list of_integer of_bytes of_constr as_u32_eq as_u16_eq

lemma version_of_shape:
  "plutus_data_version_and_payload api (versioned_generic_datum api d g v)
     = (if uint v < 2 ^ 32 then Some (word_of_int (uint v), d, g) else None)"
  by (simp add: plutus_data_version_and_payload_def versioned_generic_datum_def filter_len_def plutus_simps)

lemma d_param_legacy_exact:
  "d_param_decode_legacy api (new_list api [new_integer api a, new_integer api b])
     = (if 0 \<le> a \<and> a < 2 ^ 16 \<and> 0 \<le> b \<and> b < 2 ^ 16 then Ok (DParamV0 (word_of_int a) (word_of_int b))
        else Err ''Expected [u16, u16]'')"
  by (simp add: d_param_decode_legacy_def filter_len_def plutus_simps)

lemma d_param_round_trip:
  "rbind (d_param_try_from api (d_parameter_to_plutus_data api dp)) (\<lambda>v. Ok (d_parameter_from v)) = Ok dp"
proof -
  have "uint (num_permissioned_candidates dp) < 2 ^ 16" "uint (num_registered_candidates dp) < 2 ^ 16"
    using uint_lt2p [of "num_permissioned_candidates dp"] uint_lt2p [of "num_registered_candidates dp"] by simp_all
  then show ?thesis
    by (simp add: d_param_try_from_def versioned_decode_def d_parameter_to_plutus_data_def version_of_shape
        d_param_decode_versioned_def d_param_legacy_exact d_parameter_from_def)
qed

lemma collect_candidates:
  "collect_options (decode_legacy_candidate_datum api)
     (map (\<lambda>c. new_list api [new_bytes api (perm_sidechain_public_key c), new_bytes api (perm_aura_public_key c),
        new_bytes api (perm_grandpa_public_key c)]) cs)
   = Some (map (\<lambda>c. PermissionedCandidateDatumV0 (perm_sidechain_public_key c) (perm_aura_public_key c)
        (perm_grandpa_public_key c)) cs)"
  by (induction cs) (simp_all add: decode_legacy_candidate_datum_def filter_len_def plutus_simps)

lemma permissioned_round_trip:
  "rbind (permissioned_try_from api (permissioned_candidates_to_plutus_data api cs)) (\<lambda>v. Ok (permissioned_candidates_from v)) = Ok cs"
  by (simp add: permissioned_try_from_def versioned_decode_def permissioned_candidates_to_plutus_data_def version_of_shape
      permissioned_decode_versioned_def permissioned_decode_legacy_def collect_candidates plutus_simps
      permissioned_candidates_from_def permissioned_candidate_from_def comp_def) (rule map_idI, simp)

lemma register_round_trip:
  assumes "length (staking_pub_key (rvd_stake_ownership v)) = 32" "length (tx_hash (rvd_consumed_input v)) = 32"
    and "length (rvd_own_pkh v) = 28"
  shows "register_try_from api (register_to_plutus_data api v) = Ok v"
proof -
  have "uint (utxo_index (rvd_consumed_input v)) < 2 ^ 16"
    using uint_lt2p [of "utxo_index (rvd_consumed_input v)"] by simp
  then show ?thesis
    using assms
    by (simp add: register_try_from_def versioned_decode_def register_to_plutus_data_def version_of_shape
        register_decode_versioned_def decode_v0_register_validator_datum_def constr_zero_fields_def plutus_simps
        decode_ada_based_staking_datum_def stake_ownership_to_plutus_data_def decode_utxo_id_datum_def
        utxo_id_to_plutus_data_def decode_tx_hash_datum_def tx_hash_to_plutus_data_def try_array_def
        mainchain_public_key_try_from_def)
qed

lemma version_oracle_round_trip:
  assumes "length (currency_symbol v) = 28"
  shows "version_oracle_try_from api (version_oracle_to_plutus_data api v) = Ok v"
proof -
  have "uint (version_oracle v) < 2 ^ 32"
    using uint_lt2p [of "version_oracle v"] by simp
  then show ?thesis
    using assms by (simp add: version_oracle_try_from_def version_oracle_to_plutus_data_def filter_len_def plutus_simps try_array_def)
qed

end

text \<open>The Plutus data of \<^verbatim>\<open>toolkit/utils/plutus\<close>.\<close>

definition datum_api :: "datum plutus_api" where
  "datum_api = \<lparr> as_list = (\<lambda>d. case d of ListDatum l \<Rightarrow> Some l | _ \<Rightarrow> None),
     as_integer = (\<lambda>d. case d of IntegerDatum i \<Rightarrow> Some i | _ \<Rightarrow> None),
     as_bytes = as_bytestring,
     as_constr_plutus_data = (\<lambda>d. case d of ConstructorDatum c l \<Rightarrow> Some (c, l) | _ \<Rightarrow> None),
     new_list = ListDatum, new_integer = IntegerDatum, new_bytes = bytes_to_datum, new_constr_plutus_data = ConstructorDatum \<rparr>"

interpretation datum_data: plutus_data datum_api
  by unfold_locales (simp_all add: datum_api_def as_bytestring_def bytes_to_datum_def)

section \<open>Correctness\<close>

text \<open>C15. Datums round-trip: what the offchain code writes to the main chain, the follower reads back, for the
  D-parameter, the list of permissioned candidates, registrations with keys and hashes of their fixed lengths, and
  entries of the version oracle, on every library of Plutus data with the documented constructors and accessors.\<close>

theorem datum_round_trips:
  assumes "plutus_data api"
  shows "rbind (d_param_try_from api (d_parameter_to_plutus_data api dp)) (\<lambda>v. Ok (d_parameter_from v)) = Ok dp
    \<and> rbind (permissioned_try_from api (permissioned_candidates_to_plutus_data api cs))
        (\<lambda>v. Ok (permissioned_candidates_from v)) = Ok cs
    \<and> (length (staking_pub_key (rvd_stake_ownership r)) = 32 \<and> length (tx_hash (rvd_consumed_input r)) = 32
        \<and> length (rvd_own_pkh r) = 28 \<longrightarrow> register_try_from api (register_to_plutus_data api r) = Ok r)
    \<and> (length (currency_symbol vo) = 28 \<longrightarrow> version_oracle_try_from api (version_oracle_to_plutus_data api vo) = Ok vo)"
  using plutus_data.d_param_round_trip [OF assms] plutus_data.permissioned_round_trip [OF assms]
    plutus_data.register_round_trip [OF assms] plutus_data.version_oracle_round_trip [OF assms] by blast

theorem datum_round_trips_witness:
  "rbind (permissioned_try_from datum_api (permissioned_candidates_to_plutus_data datum_api
       [\<lparr> perm_sidechain_public_key = [1], perm_aura_public_key = [2], perm_grandpa_public_key = [3] \<rparr>]))
     (\<lambda>v. Ok (permissioned_candidates_from v))
   = Ok [\<lparr> perm_sidechain_public_key = [1], perm_aura_public_key = [2], perm_grandpa_public_key = [3] \<rparr>]
   \<and> version_oracle_try_from datum_api (version_oracle_to_plutus_data datum_api
       \<lparr> version_oracle = 32, currency_symbol = replicate 28 5 \<rparr>)
     = Ok \<lparr> version_oracle = 32, currency_symbol = replicate 28 5 \<rparr>"
  using datum_round_trips [OF datum_data.plutus_data_axioms,
      of _ "[\<lparr> perm_sidechain_public_key = [1], perm_aura_public_key = [2], perm_grandpa_public_key = [3] \<rparr>]" _
        "\<lparr> version_oracle = 32, currency_symbol = replicate 28 5 \<rparr>"]
  by simp

text \<open>C24. The D-parameter is read only within its bounds: a versioned datum with two integers is accepted exactly when
  its version is zero and both integers fit sixteen bits, and it is read without truncation; every other version is
  rejected as unknown and every other pair of integers as malformed.\<close>

theorem d_parameter_bounds:
  fixes api :: "'p plutus_api" and const :: 'p and a b :: int and version :: u64
  assumes "plutus_data api"
  defines "d \<equiv> versioned_generic_datum api const (new_list api [new_integer api a, new_integer api b]) version"
  shows "uint version < 2 ^ 32 \<longrightarrow> d_param_try_from api d
    = (if version \<noteq> 0
       then Err (DataDecodingError d ''DParamDatum'' (''Unknown version: '' @ to_decimal (unat version)))
       else if 0 \<le> a \<and> a < 2 ^ 16 \<and> 0 \<le> b \<and> b < 2 ^ 16 then Ok (DParamV0 (word_of_int a) (word_of_int b))
       else Err (DataDecodingError d ''DParamDatum'' ''Can not parse mutable part of data: Expected [u16, u16]''))"
proof
  assume small: "uint version < 2 ^ 32"
  have u: "uint (word_of_int (uint version) :: u32) = uint version"
    unfolding unsigned_of_int using small by (simp add: take_bit_int_eq_self)
  have zero: "(word_of_int (uint version) :: u32) = 0 \<longleftrightarrow> version = 0" "unat (word_of_int (uint version) :: u32) = unat version"
    unfolding word_uint_eq_iff unat_eq_nat_uint u by (simp_all only: unsigned_0)
  show "d_param_try_from api d
    = (if version \<noteq> 0
       then Err (DataDecodingError d ''DParamDatum'' (''Unknown version: '' @ to_decimal (unat version)))
       else if 0 \<le> a \<and> a < 2 ^ 16 \<and> 0 \<le> b \<and> b < 2 ^ 16 then Ok (DParamV0 (word_of_int a) (word_of_int b))
       else Err (DataDecodingError d ''DParamDatum'' ''Can not parse mutable part of data: Expected [u16, u16]''))"
    unfolding d_param_try_from_def versioned_decode_def d_def plutus_data.version_of_shape [OF assms(1)]
    using small zero
    by (simp add: d_param_decode_versioned_def plutus_data.d_param_legacy_exact [OF assms(1)] unknown_version_def)
qed

theorem d_parameter_bounds_witness:
  "d_param_try_from datum_api (versioned_generic_datum datum_api (ListDatum []) (ListDatum [IntegerDatum 3, IntegerDatum 65535]) 0)
     = Ok (DParamV0 3 65535)
   \<and> \<not> (\<exists>v. d_param_try_from datum_api (versioned_generic_datum datum_api (ListDatum []) (ListDatum [IntegerDatum 3, IntegerDatum 65536]) 0) = Ok v)"
  using d_parameter_bounds [OF datum_data.plutus_data_axioms, where const = "ListDatum []" and a = 3 and b = 65535 and version = 0]
    d_parameter_bounds [OF datum_data.plutus_data_axioms, where const = "ListDatum []" and a = 3 and b = 65536 and version = 0]
  by (simp add: datum_api_def)

end
