(* ===== verification/CandidatesSource.thy ===== *)
theory CandidatesSource
  imports Prelude Domain DbModel PlutusData AuthoritySelection
begin

text \<open>
  The data source of committee candidates:
  \<^verbatim>\<open>toolkit/mainchain-follower/db-sync-follower/src/candidates/mod.rs\<close>, \<^verbatim>\<open>datum.rs\<close> and \<^verbatim>\<open>cached.rs\<close>.

  The library of Plutus data, the conversion of JSON datums, the hash of keys, the printing of hashes and addresses and
  the order in which a \<^verbatim>\<open>HashMap\<close> is iterated are fields of \<open>candidates_env\<close>.  The caches are \<^verbatim>\<open>LruCache\<close>s of the crate
  \<^verbatim>\<open>lru\<close>, represented by their operations \<open>cache_ops\<close>; what the source relies on is the locale \<open>lru_cache\<close>.  The state
  behind the mutexes is passed along.
\<close>

section \<open>Registrations\<close>

record ('j, 'p) candidates_env =
  ce_plutus :: "'p plutus_api"
  ce_json_to_plutus :: "'j \<Rightarrow> 'p option"
  ce_to_hex :: "bytes \<Rightarrow> string"
  ce_from_hex :: "string \<Rightarrow> bytes option"
  ce_vkey_hash :: "bytes \<Rightarrow> bytes"
  ce_show_address :: "bytes \<Rightarrow> string"
  ce_hash_order :: "bytes list \<Rightarrow> bytes list"

datatype 'p candidates_error = SourceError data_source_error | DatumError "'p data_decoding_error"

record parsed_candidate =
  pc_utxo_info :: utxo_info
  pc_datum :: register_validator_datum
  pc_tx_inputs :: "utxo_id list"

record registered_candidate =
  rc_mainchain_pub_key :: bytes
  rc_consumed_input :: utxo_id
  rc_tx_inputs :: "utxo_id list"
  rc_sidechain_signature :: bytes
  rc_mainchain_signature :: bytes
  rc_cross_chain_signature :: bytes
  rc_sidechain_pub_key :: bytes
  rc_cross_chain_pub_key :: bytes
  rc_aura_pub_key :: bytes
  rc_grandpa_pub_key :: bytes
  rc_utxo_info :: utxo_info

definition get_epoch_of_data_storage :: "u32 \<Rightarrow> (u32, 'p candidates_error) result" where
  "get_epoch_of_data_storage epoch_of_data_usage =
     (if epoch_of_data_usage < 2 then Err (SourceError BadRequest) else Ok (epoch_of_data_usage - 2))"

definition parse_candidates :: "('j, 'p) candidates_env \<Rightarrow> 'p mainchain_tx_output list \<Rightarrow> parsed_candidate list" where
  "parse_candidates env outputs =
     List.map_filter (\<lambda>output.
       Option.bind (txo_datum output) (\<lambda>d.
       map_option (\<lambda>datum.
           \<lparr> pc_utxo_info = \<lparr> info_utxo_id = txo_utxo_id output, info_epoch_number = txo_epoch_no output,
               info_block_number = txo_block_no output, info_slot_number = txo_slot_no output,
               info_tx_index_within_block = txo_index_in_block output \<rparr>,
             pc_datum = datum, pc_tx_inputs = txo_tx_inputs output \<rparr>)
         (ok (register_try_from (ce_plutus env) d)))) outputs"

definition convert_utxos_to_candidates ::
  "('j, 'p) candidates_env \<Rightarrow> 'p mainchain_tx_output list \<Rightarrow> registered_candidate list" where
  "convert_utxos_to_candidates env outputs =
     map (\<lambda>c. let d = pc_datum c in
       \<lparr> rc_mainchain_pub_key = staking_pub_key (rvd_stake_ownership d), rc_consumed_input = rvd_consumed_input d,
         rc_tx_inputs = pc_tx_inputs c, rc_sidechain_signature = rvd_sidechain_signature d,
         rc_mainchain_signature = staking_signature (rvd_stake_ownership d),
         rc_cross_chain_signature = rvd_sidechain_signature d, rc_sidechain_pub_key = rvd_sidechain_pub_key d,
         rc_cross_chain_pub_key = rvd_sidechain_pub_key d, rc_aura_pub_key = rvd_aura_pub_key d,
         rc_grandpa_pub_key = rvd_grandpa_pub_key d, rc_utxo_info = pc_utxo_info c \<rparr>)
       (parse_candidates env outputs)"

definition get_last_block_for_epoch :: "'j db \<Rightarrow> u32 \<Rightarrow> (u32 option, 'p candidates_error) result" where
  "get_last_block_for_epoch d e =
     rbind (map_err (SourceError \<circ> SqlxError) (get_latest_block_for_epoch d e)) (\<lambda>block_option.
       Ok (map_option blk_no block_option))"

definition get_registered_candidates ::
  "('j, 'p) candidates_env \<Rightarrow> 'j db \<Rightarrow> u32 \<Rightarrow> bytes \<Rightarrow> (registered_candidate list, 'p candidates_error) result" where
  "get_registered_candidates env d e address =
     rbind (get_last_block_for_epoch d e) (\<lambda>registrations_block_for_epoch.
     rbind (case registrations_block_for_epoch of
              Some block \<Rightarrow> map_err (SourceError \<circ> SqlxError) (get_utxos_for_address (ce_to_hex env) (ce_from_hex env)
                (ce_json_to_plutus env) d (ce_show_address env address) block)
            | None \<Rightarrow> Ok []) (\<lambda>active_utxos.
       Ok (convert_utxos_to_candidates env active_utxos)))"

definition group_candidates_by_mc_pub_key ::
  "('j, 'p) candidates_env \<Rightarrow> registered_candidate list \<Rightarrow> (bytes \<times> registered_candidate list) list" where
  "group_candidates_by_mc_pub_key env candidates =
     map (\<lambda>k. (k, filter (\<lambda>c. rc_mainchain_pub_key c = k) candidates))
       (ce_hash_order env (remdups (map rc_mainchain_pub_key candidates)))"

definition make_registration_data :: "registered_candidate \<Rightarrow> registration_data" where
  "make_registration_data c =
     \<lparr> consumed_input = rc_consumed_input c, sidechain_signature = rc_sidechain_signature c,
       mainchain_signature = rc_mainchain_signature c, cross_chain_signature = rc_cross_chain_signature c,
       sidechain_pub_key = rc_sidechain_pub_key c, cross_chain_pub_key = rc_cross_chain_pub_key c,
       reg_utxo_info = rc_utxo_info c, tx_inputs = rc_tx_inputs c, aura_pub_key = rc_aura_pub_key c,
       grandpa_pub_key = rc_grandpa_pub_key c \<rparr>"

definition make_stake_map :: "(bytes \<times> u64) list \<Rightarrow> (bytes \<rightharpoonup> u64)" where
  "make_stake_map stake_pool_entries = map_of (rev stake_pool_entries)"

definition get_stake_delegation ::
  "('j, 'p) candidates_env \<Rightarrow> (bytes \<times> u64) list \<Rightarrow> bytes \<Rightarrow> u64 option" where
  "get_stake_delegation env stake_pool_entries key =
     (if stake_pool_entries = [] then None
      else Some (case make_stake_map stake_pool_entries (mainchain_address_hash_from_vkey (ce_vkey_hash env) key) of
                   Some stake \<Rightarrow> stake | None \<Rightarrow> 0))"

definition source_get_candidates ::
  "('j, 'p) candidates_env \<Rightarrow> 'j db \<Rightarrow> u32 \<Rightarrow> bytes \<Rightarrow> (candidate_registrations list, 'p candidates_error) result" where
  "source_get_candidates env d e address =
     rbind (get_epoch_of_data_storage e) (\<lambda>de.
     rbind (get_registered_candidates env d de address) (\<lambda>candidates.
     rbind (map_err (SourceError \<circ> SqlxError) (get_stake_distribution d de)) (\<lambda>stakes.
       Ok (map (\<lambda>(key, regs). \<lparr> mainchain_pub_key = key, registrations = map make_registration_data regs,
             stake_delegation = get_stake_delegation env stakes key \<rparr>)
           (group_candidates_by_mc_pub_key env candidates)))))"

section \<open>Parameters\<close>

definition raw_permissioned_candidate_data_from ::
  "permissioned_candidate_datum_v0 \<Rightarrow> raw_permissioned_candidate_data" where
  "raw_permissioned_candidate_data_from d = (case d of PermissionedCandidateDatumV0 sc aura grandpa \<Rightarrow>
     \<lparr> raw_sidechain_public_key = sc, raw_aura_public_key = aura, raw_grandpa_public_key = grandpa \<rparr>)"

definition raw_permissioned_candidate_data_vec_from ::
  "permissioned_candidate_datums \<Rightarrow> raw_permissioned_candidate_data list" where
  "raw_permissioned_candidate_data_vec_from ds = (case ds of PermissionedV0 cs \<Rightarrow> map raw_permissioned_candidate_data_from cs)"

definition not_found :: "string \<Rightarrow> 'a option \<Rightarrow> ('a, 'p candidates_error) result" where
  "not_found what = ok_or (SourceError (ExpectedDataNotFound what))"

definition source_get_ariadne_parameters ::
  "('j, 'p) candidates_env \<Rightarrow> 'j db \<Rightarrow> u32 \<Rightarrow> bytes \<Rightarrow> bytes \<Rightarrow> (ariadne_parameters, 'p candidates_error) result" where
  "source_get_ariadne_parameters env d e d_parameter_policy permissioned_candidate_policy =
     rbind (get_epoch_of_data_storage e) (\<lambda>de.
     rbind (map_err (SourceError \<circ> SqlxError)
       (get_token_utxo_for_epoch (ce_json_to_plutus env) d (permissioned_candidate_policy, []) de)) (\<lambda>candidates_output_opt.
     rbind (map_err (SourceError \<circ> SqlxError)
       (get_token_utxo_for_epoch (ce_json_to_plutus env) d (d_parameter_policy, []) de)) (\<lambda>d_output_opt.
     rbind (not_found ''DParameter'' d_output_opt) (\<lambda>d_output.
     rbind (not_found ''DParameter Datum'' (token_datum d_output)) (\<lambda>d_datum.
     rbind (map_err DatumError (d_param_try_from (ce_plutus env) d_datum)) (\<lambda>dp.
     rbind (not_found ''Permissioned Candidates List'' candidates_output_opt) (\<lambda>candidates_output.
     rbind (not_found ''Permissioned Candidates List Datum'' (token_datum candidates_output)) (\<lambda>candidates_datum.
     rbind (map_err DatumError (permissioned_try_from (ce_plutus env) candidates_datum)) (\<lambda>cs.
       Ok \<lparr> ap_d_parameter = d_parameter_from dp,
            ap_permissioned_candidates = raw_permissioned_candidate_data_vec_from cs \<rparr>)))))))))"

definition source_get_epoch_nonce :: "'j db \<Rightarrow> u32 \<Rightarrow> (bytes option, 'p candidates_error) result" where
  "source_get_epoch_nonce d e =
     rbind (get_epoch_of_data_storage e) (\<lambda>de. map_err (SourceError \<circ> SqlxError) (DbModel.get_epoch_nonce d de))"

definition source_data_epoch :: "u32 \<Rightarrow> (u32, 'p candidates_error) result" where
  "source_data_epoch for_epoch = get_epoch_of_data_storage for_epoch"

definition candidates_data_source :: "('j, 'p) candidates_env \<Rightarrow> 'j db \<Rightarrow> 'p candidates_error selection_data_source" where
  "candidates_data_source env d = \<lparr> get_ariadne_parameters = source_get_ariadne_parameters env d,
     get_candidates = source_get_candidates env d, get_epoch_nonce = source_get_epoch_nonce d,
     data_epoch = source_data_epoch \<rparr>"

section \<open>The cached source\<close>

record ('k, 'v, 'c) cache_ops =
  cache_get :: "'k \<Rightarrow> 'c \<Rightarrow> 'v option \<times> 'c"
  cache_put :: "'k \<Rightarrow> 'v \<Rightarrow> 'c \<Rightarrow> 'c"

record ('c, 'd) cached_source =
  ariadne_cache :: 'c
  candidates_cache :: 'd
  highest_seen_stable_epoch :: "u32 option"

definition can_use_caching_for_request ::
  "'j db \<Rightarrow> u32 \<Rightarrow> u32 \<Rightarrow> ('c, 'd) cached_source \<Rightarrow> (bool, 'p candidates_error) result \<times> ('c, 'd) cached_source" where
  "can_use_caching_for_request d security_parameter request_epoch st =
     (case source_data_epoch request_epoch of
        Ok de \<Rightarrow>
          if (case highest_seen_stable_epoch st of Some stable_epoch \<Rightarrow> stable_epoch \<ge> de | None \<Rightarrow> False) then (Ok True, st)
          else (case get_latest_stable_epoch d security_parameter of
                  Ok (Some stable_epoch) \<Rightarrow> (Ok (de \<le> stable_epoch), st \<lparr> highest_seen_stable_epoch := Some stable_epoch \<rparr>)
                | Ok None \<Rightarrow> (Ok False, st)
                | Err e \<Rightarrow> (Err (SourceError (SqlxError e)), st)
                | Panic \<Rightarrow> (Panic, st))
      | Err e \<Rightarrow> (Err e, st)
      | Panic \<Rightarrow> (Panic, st))"

definition get_candidates_with_caching ::
  "(u32 \<times> string, candidate_registrations list, 'd) cache_ops \<Rightarrow> ('j, 'p) candidates_env \<Rightarrow> 'j db \<Rightarrow> u32 \<Rightarrow> bytes
    \<Rightarrow> ('c, 'd) cached_source \<Rightarrow> (candidate_registrations list, 'p candidates_error) result \<times> ('c, 'd) cached_source" where
  "get_candidates_with_caching ops env d e address st =
     (let key = (e, ce_show_address env address); (hit, cache) = cache_get ops key (candidates_cache st)
      in case hit of
           Some resp \<Rightarrow> (Ok resp, st \<lparr> candidates_cache := cache \<rparr>)
         | None \<Rightarrow>
             (case source_get_candidates env d e address of
                Ok response \<Rightarrow> (Ok response, st \<lparr> candidates_cache := cache_put ops key response cache \<rparr>)
              | Err err \<Rightarrow> (Err err, st \<lparr> candidates_cache := cache \<rparr>)
              | Panic \<Rightarrow> (Panic, st \<lparr> candidates_cache := cache \<rparr>)))"

definition get_ariadne_parameters_with_caching ::
  "(u32 \<times> bytes \<times> bytes, ariadne_parameters, 'c) cache_ops \<Rightarrow> ('j, 'p) candidates_env \<Rightarrow> 'j db \<Rightarrow> u32 \<Rightarrow> bytes \<Rightarrow> bytes
    \<Rightarrow> ('c, 'd) cached_source \<Rightarrow> (ariadne_parameters, 'p candidates_error) result \<times> ('c, 'd) cached_source" where
  "get_ariadne_parameters_with_caching ops env d e d_policy p_policy st =
     (let key = (e, d_policy, p_policy); (hit, cache) = cache_get ops key (ariadne_cache st)
      in case hit of
           Some resp \<Rightarrow> (Ok resp, st \<lparr> ariadne_cache := cache \<rparr>)
         | None \<Rightarrow>
             (case source_get_ariadne_parameters env d e d_policy p_policy of
                Ok response \<Rightarrow> (Ok response, st \<lparr> ariadne_cache := cache_put ops key response cache \<rparr>)
              | Err err \<Rightarrow> (Err err, st \<lparr> ariadne_cache := cache \<rparr>)
              | Panic \<Rightarrow> (Panic, st \<lparr> ariadne_cache := cache \<rparr>)))"

definition cached_get_candidates ::
  "(u32 \<times> string, candidate_registrations list, 'd) cache_ops \<Rightarrow> ('j, 'p) candidates_env \<Rightarrow> u32 \<Rightarrow> 'j db \<Rightarrow> u32 \<Rightarrow> bytes
    \<Rightarrow> ('c, 'd) cached_source \<Rightarrow> (candidate_registrations list, 'p candidates_error) result \<times> ('c, 'd) cached_source" where
  "cached_get_candidates ops env security_parameter d e address st =
     (case can_use_caching_for_request d security_parameter e st of
        (Ok True, st') \<Rightarrow> get_candidates_with_caching ops env d e address st'
      | (Ok False, st') \<Rightarrow> (source_get_candidates env d e address, st')
      | (Err err, st') \<Rightarrow> (Err err, st')
      | (Panic, st') \<Rightarrow> (Panic, st'))"

definition cached_get_ariadne_parameters ::
  "(u32 \<times> bytes \<times> bytes, ariadne_parameters, 'c) cache_ops \<Rightarrow> ('j, 'p) candidates_env \<Rightarrow> u32 \<Rightarrow> 'j db \<Rightarrow> u32 \<Rightarrow> bytes \<Rightarrow> bytes
    \<Rightarrow> ('c, 'd) cached_source \<Rightarrow> (ariadne_parameters, 'p candidates_error) result \<times> ('c, 'd) cached_source" where
  "cached_get_ariadne_parameters ops env security_parameter d e d_policy p_policy st =
     (case can_use_caching_for_request d security_parameter e st of
        (Ok True, st') \<Rightarrow> get_ariadne_parameters_with_caching ops env d e d_policy p_policy st'
      | (Ok False, st') \<Rightarrow> (source_get_ariadne_parameters env d e d_policy p_policy, st')
      | (Err err, st') \<Rightarrow> (Err err, st')
      | (Panic, st') \<Rightarrow> (Panic, st'))"

definition cached_get_epoch_nonce :: "'j db \<Rightarrow> u32 \<Rightarrow> (bytes option, 'p candidates_error) result" where
  "cached_get_epoch_nonce d e = source_get_epoch_nonce d e"

definition cached_data_epoch :: "u32 \<Rightarrow> (u32, 'p candidates_error) result" where
  "cached_data_epoch for_epoch = source_data_epoch for_epoch"

text \<open>A cache of size zero is refused: \<^verbatim>\<open>NonZeroUsize::try_from\<close> is unwrapped.\<close>

definition cached_source_new :: "(nat \<Rightarrow> 'c) \<Rightarrow> (nat \<Rightarrow> 'd) \<Rightarrow> nat \<Rightarrow> ('c, 'd) cached_source may_panic" where
  "cached_source_new new_ariadne new_candidates cap =
     (if cap = 0 then None
      else Some \<lparr> ariadne_cache = new_ariadne cap, candidates_cache = new_candidates cap, highest_seen_stable_epoch = None \<rparr>)"

section \<open>What a cache promises\<close>

text \<open>
  \<open>contents\<close> is what a cache remembers: a lookup returns it and keeps it, and after an insertion the cache remembers at
  most the new entry and what it remembered before, since entries may be evicted.
\<close>

definition cache_agrees :: "('c \<Rightarrow> ('k \<rightharpoonup> 'v)) \<Rightarrow> ('k \<Rightarrow> bool) \<Rightarrow> ('k \<Rightarrow> ('v, 'e) result) \<Rightarrow> 'c \<Rightarrow> bool" where
  "cache_agrees contents P f c \<longleftrightarrow> (\<forall>k v. contents c k = Some v \<longrightarrow> P k \<and> f k = Ok v)"

locale lru_cache =
  fixes ops :: "('k, 'v, 'c) cache_ops"
    and contents :: "'c \<Rightarrow> ('k \<rightharpoonup> 'v)"
  assumes get_hit: "fst (cache_get ops k c) = contents c k"
    and get_contents: "contents (snd (cache_get ops k c)) = contents c"
    and put_contents: "contents (cache_put ops k v c) k' = Some v' \<Longrightarrow> (k' = k \<and> v' = v) \<or> contents c k' = Some v'"
begin

text \<open>Asking a cache that agrees with a function keeps the agreement and returns the function's value.\<close>

lemma agrees_get: "cache_agrees contents P f c \<Longrightarrow> cache_agrees contents P f (snd (cache_get ops k c))"
  by (simp add: cache_agrees_def get_contents)

lemma agrees_put: "cache_agrees contents P f c \<Longrightarrow> P k \<Longrightarrow> f k = Ok v \<Longrightarrow> cache_agrees contents P f (cache_put ops k v c)"
  using put_contents unfolding cache_agrees_def by metis

lemma agrees_hit: "cache_agrees contents P f c \<Longrightarrow> fst (cache_get ops k c) = Some v \<Longrightarrow> f k = Ok v"
  by (simp add: cache_agrees_def get_hit)

end

text \<open>A least-recently-used cache: entries in the order of their last use, at most as many as its capacity.\<close>

definition lru_get :: "'k \<Rightarrow> nat \<times> ('k \<times> 'v) list \<Rightarrow> 'v option \<times> nat \<times> ('k \<times> 'v) list" where
  "lru_get k c = (case map_of (snd c) k of
     None \<Rightarrow> (None, c)
   | Some v \<Rightarrow> (Some v, fst c, (k, v) # filter (\<lambda>e. fst e \<noteq> k) (snd c)))"

definition lru_put :: "'k \<Rightarrow> 'v \<Rightarrow> nat \<times> ('k \<times> 'v) list \<Rightarrow> nat \<times> ('k \<times> 'v) list" where
  "lru_put k v c = (fst c, take (fst c) ((k, v) # filter (\<lambda>e. fst e \<noteq> k) (snd c)))"

definition lru_ops :: "('k, 'v, nat \<times> ('k \<times> 'v) list) cache_ops" where
  "lru_ops = \<lparr> cache_get = lru_get, cache_put = lru_put \<rparr>"

definition lru_contents :: "nat \<times> ('k \<times> 'v) list \<Rightarrow> ('k \<rightharpoonup> 'v)" where
  "lru_contents c = map_of (snd c)"

lemma map_of_take: "map_of (take n xs) k = Some v \<Longrightarrow> map_of xs k = Some v"
  by (metis append_take_drop_id map_add_Some_iff map_of_append map_add_find_right)

lemma map_of_filter_other: "map_of (filter (\<lambda>e. fst e \<noteq> k) xs) k' = (if k' = k then None else map_of xs k')"
  by (induction xs) auto

interpretation lru: lru_cache lru_ops lru_contents
proof (unfold_locales, goal_cases)
  case (1 k c)
  then show ?case
    by (simp add: lru_ops_def lru_get_def lru_contents_def split: option.splits)
next
  case (2 k c)
  then show ?case
    by (auto simp: lru_ops_def lru_get_def lru_contents_def map_of_filter_other split: option.splits)
next
  case (3 k v c k' v')
  then show ?case
    by (auto simp: lru_ops_def lru_put_def lru_contents_def map_of_filter_other dest!: map_of_take split: if_splits)
qed

section \<open>A running cached source\<close>

text \<open>Requests for data of epochs that a block at the depth of the security parameter has left behind.\<close>

definition stable_request :: "u32 \<Rightarrow> 'j db \<Rightarrow> u32 \<Rightarrow> bool" where
  "stable_request k d e \<longleftrightarrow> 2 \<le> e \<and> (\<exists>s. get_latest_stable_epoch d k = Ok (Some s) \<and> e - 2 \<le> s)"

text \<open>
  The main chain advances: the latest stable epoch can still be determined and does not decrease, and what has been
  recorded for stable epochs does not change.
\<close>

definition db_advances :: "('j, 'p) candidates_env \<Rightarrow> u32 \<Rightarrow> 'j db \<Rightarrow> 'j db \<Rightarrow> bool" where
  "db_advances env k d d' \<longleftrightarrow> (\<exists>latest. get_latest_stable_epoch d' k = Ok latest)
     \<and> (\<forall>s. get_latest_stable_epoch d k = Ok (Some s) \<longrightarrow> (\<exists>s'. get_latest_stable_epoch d' k = Ok (Some s') \<and> s \<le> s'))
     \<and> (\<forall>e. stable_request k d e \<longrightarrow>
          (\<forall>a. source_get_candidates env d' e a = source_get_candidates env d e a)
          \<and> (\<forall>dp pp. source_get_ariadne_parameters env d' e dp pp = source_get_ariadne_parameters env d e dp pp))"

inductive cached_reach ::
  "(u32 \<times> bytes \<times> bytes, ariadne_parameters, 'c) cache_ops \<Rightarrow> (u32 \<times> string, candidate_registrations list, 'd) cache_ops
    \<Rightarrow> (nat \<Rightarrow> 'c) \<Rightarrow> (nat \<Rightarrow> 'd) \<Rightarrow> ('j, 'p) candidates_env \<Rightarrow> u32 \<Rightarrow> 'j db \<Rightarrow> ('c, 'd) cached_source \<Rightarrow> bool"
  for aops cops new_a new_c env k where
  start: "get_latest_stable_epoch d k = Ok latest \<Longrightarrow> cached_source_new new_a new_c n = Some st
    \<Longrightarrow> cached_reach aops cops new_a new_c env k d st"
| advance: "cached_reach aops cops new_a new_c env k d st \<Longrightarrow> db_advances env k d d'
    \<Longrightarrow> cached_reach aops cops new_a new_c env k d' st"
| candidates: "cached_reach aops cops new_a new_c env k d st \<Longrightarrow> cached_get_candidates cops env k d e a st = (r, st')
    \<Longrightarrow> cached_reach aops cops new_a new_c env k d st'"
| parameters: "cached_reach aops cops new_a new_c env k d st
    \<Longrightarrow> cached_get_ariadne_parameters aops env k d e dp pp st = (q, st')
    \<Longrightarrow> cached_reach aops cops new_a new_c env k d st'"

text \<open>Registrations are looked up by the printed address only.\<close>

definition candidates_at :: "('j, 'p) candidates_env \<Rightarrow> 'j db \<Rightarrow> u32 \<times> string \<Rightarrow> (candidate_registrations list, 'p candidates_error) result" where
  "candidates_at env d key = source_get_candidates (env \<lparr> ce_show_address := (\<lambda>_. snd key) \<rparr>) d (fst key) []"

definition parameters_at :: "('j, 'p) candidates_env \<Rightarrow> 'j db \<Rightarrow> u32 \<times> bytes \<times> bytes \<Rightarrow> (ariadne_parameters, 'p candidates_error) result" where
  "parameters_at env d key = source_get_ariadne_parameters env d (fst key) (fst (snd key)) (snd (snd key))"

lemma show_address_irrelevant:
  "convert_utxos_to_candidates (env \<lparr> ce_show_address := f \<rparr>) outs = convert_utxos_to_candidates env outs"
  "group_candidates_by_mc_pub_key (env \<lparr> ce_show_address := f \<rparr>) cs = group_candidates_by_mc_pub_key env cs"
  "get_stake_delegation (env \<lparr> ce_show_address := f \<rparr>) stakes key = get_stake_delegation env stakes key"
  by (simp_all add: convert_utxos_to_candidates_def parse_candidates_def group_candidates_by_mc_pub_key_def
      get_stake_delegation_def)

lemma candidates_at_key: "candidates_at env d (e, ce_show_address env a) = source_get_candidates env d e a"
  by (simp add: candidates_at_def source_get_candidates_def get_registered_candidates_def show_address_irrelevant
      cong: option.case_cong)

section \<open>Transparency\<close>

text \<open>The invariant: both caches agree with the source on stable requests, and the remembered epoch is not too high.\<close>

definition cached_source_ok ::
  "('c \<Rightarrow> (u32 \<times> bytes \<times> bytes \<rightharpoonup> ariadne_parameters)) \<Rightarrow> ('d \<Rightarrow> (u32 \<times> string \<rightharpoonup> candidate_registrations list))
    \<Rightarrow> ('j, 'p) candidates_env \<Rightarrow> u32 \<Rightarrow> 'j db \<Rightarrow> ('c, 'd) cached_source \<Rightarrow> bool" where
  "cached_source_ok acont ccont env k d st \<longleftrightarrow> (\<exists>latest. get_latest_stable_epoch d k = Ok latest
       \<and> (\<forall>s. highest_seen_stable_epoch st = Some s \<longrightarrow> (\<exists>s'. latest = Some s' \<and> s \<le> s')))
     \<and> cache_agrees acont (\<lambda>key. stable_request k d (fst key)) (parameters_at env d) (ariadne_cache st)
     \<and> cache_agrees ccont (\<lambda>key. stable_request k d (fst key) \<and> snd key \<in> range (ce_show_address env)) (candidates_at env d) (candidates_cache st)"

lemma can_use_caching_ok:
  assumes "cached_source_ok acont ccont env k d st" "2 \<le> e"
  shows "\<exists>b st'. can_use_caching_for_request d k e st = (Ok b, st') \<and> cached_source_ok acont ccont env k d st'
     \<and> (b \<longrightarrow> stable_request k d e)"
proof -
  obtain latest where l: "get_latest_stable_epoch d k = Ok latest"
      "\<forall>s. highest_seen_stable_epoch st = Some s \<longrightarrow> (\<exists>s'. latest = Some s' \<and> s \<le> s')"
    using assms(1) by (auto simp: cached_source_ok_def)
  have de: "source_data_epoch e = Ok (e - 2)"
    using assms(2) by (simp add: source_data_epoch_def get_epoch_of_data_storage_def)
  show ?thesis
  proof (cases "highest_seen_stable_epoch st")
    case None
    then show ?thesis
      using assms l(1) by (cases latest) (auto simp: can_use_caching_for_request_def de stable_request_def cached_source_ok_def)
  next
    case (Some s)
    then obtain s' where s': "latest = Some s'" "s \<le> s'"
      using l(2) by blast
    then have "e - 2 \<le> s \<Longrightarrow> stable_request k d e"
      using assms(2) l(1) by (auto simp: stable_request_def intro: order.trans)
    then show ?thesis
      using assms l(1) s' Some
      by (auto simp: can_use_caching_for_request_def de stable_request_def cached_source_ok_def)
  qed
qed

lemma can_use_caching_small:
  assumes "\<not> 2 \<le> e"
  shows "can_use_caching_for_request d k e st = (Err (SourceError BadRequest), st)"
    "source_get_candidates env d e a = Err (SourceError BadRequest)"
    "source_get_ariadne_parameters env d e dp pp = Err (SourceError BadRequest)"
  using assms
  by (simp_all add: can_use_caching_for_request_def source_data_epoch_def get_epoch_of_data_storage_def
      source_get_candidates_def source_get_ariadne_parameters_def not_le)

lemma candidates_with_caching_ok:
  assumes "lru_cache cops ccont" "cached_source_ok acont ccont env k d st" "stable_request k d e"
  shows "\<exists>st'. get_candidates_with_caching cops env d e a st = (source_get_candidates env d e a, st')
     \<and> cached_source_ok acont ccont env k d st'"
proof -
  obtain hit cache where g: "cache_get cops (e, ce_show_address env a) (candidates_cache st) = (hit, cache)"
    by fastforce
  have agree: "cache_agrees ccont (\<lambda>key. stable_request k d (fst key) \<and> snd key \<in> range (ce_show_address env)) (candidates_at env d) (candidates_cache st)"
    using assms(2) by (simp add: cached_source_ok_def)
  note kept = lru_cache.agrees_get [OF assms(1) agree, of "(e, ce_show_address env a)", unfolded g snd_conv]
  show ?thesis
  proof (cases hit)
    case (Some resp)
    then have "source_get_candidates env d e a = Ok resp"
      using lru_cache.agrees_hit [OF assms(1) agree, of "(e, ce_show_address env a)"] g by (simp add: candidates_at_key)
    then show ?thesis
      using assms(2) kept g Some by (simp add: get_candidates_with_caching_def cached_source_ok_def)
  next
    case None
    have "cache_agrees ccont (\<lambda>key. stable_request k d (fst key) \<and> snd key \<in> range (ce_show_address env)) (candidates_at env d)
        (cache_put cops (e, ce_show_address env a) resp cache)" if "source_get_candidates env d e a = Ok resp" for resp
      by (rule lru_cache.agrees_put [OF assms(1) kept]) (simp_all add: assms(3) candidates_at_key that)
    then show ?thesis
      using assms(2) kept g None
      by (cases "source_get_candidates env d e a") (simp_all add: get_candidates_with_caching_def cached_source_ok_def)
  qed
qed

lemma parameters_with_caching_ok:
  assumes "lru_cache aops acont" "cached_source_ok acont ccont env k d st" "stable_request k d e"
  shows "\<exists>st'. get_ariadne_parameters_with_caching aops env d e dp pp st = (source_get_ariadne_parameters env d e dp pp, st')
     \<and> cached_source_ok acont ccont env k d st'"
proof -
  obtain hit cache where g: "cache_get aops (e, dp, pp) (ariadne_cache st) = (hit, cache)"
    by fastforce
  have agree: "cache_agrees acont (\<lambda>key. stable_request k d (fst key)) (parameters_at env d) (ariadne_cache st)"
    using assms(2) by (simp add: cached_source_ok_def)
  note kept = lru_cache.agrees_get [OF assms(1) agree, of "(e, dp, pp)", unfolded g snd_conv]
  show ?thesis
  proof (cases hit)
    case (Some resp)
    then have "source_get_ariadne_parameters env d e dp pp = Ok resp"
      using lru_cache.agrees_hit [OF assms(1) agree, of "(e, dp, pp)"] g by (simp add: parameters_at_def)
    then show ?thesis
      using assms(2) kept g Some by (simp add: get_ariadne_parameters_with_caching_def cached_source_ok_def)
  next
    case None
    have "cache_agrees acont (\<lambda>key. stable_request k d (fst key)) (parameters_at env d)
        (cache_put aops (e, dp, pp) resp cache)" if "source_get_ariadne_parameters env d e dp pp = Ok resp" for resp
      by (rule lru_cache.agrees_put [OF assms(1) kept]) (simp_all add: assms(3) parameters_at_def that)
    then show ?thesis
      using assms(2) kept g None
      by (cases "source_get_ariadne_parameters env d e dp pp")
        (simp_all add: get_ariadne_parameters_with_caching_def cached_source_ok_def)
  qed
qed

lemma cached_get_candidates_ok:
  fixes env :: "('j, 'p) candidates_env"
  assumes "lru_cache cops ccont" "cached_source_ok acont ccont env k d st"
  shows "\<exists>st'. cached_get_candidates cops env k d e a st = (source_get_candidates env d e a, st')
     \<and> cached_source_ok acont ccont env k d st'"
proof (cases "2 \<le> e")
  case True
  obtain b st1 where b: "can_use_caching_for_request d k e st = (Ok b :: (bool, 'p candidates_error) result, st1)" "cached_source_ok acont ccont env k d st1"
      "b \<longrightarrow> stable_request k d e"
    using can_use_caching_ok [OF assms(2) True] by blast
  then show ?thesis
    using candidates_with_caching_ok [OF assms(1) b(2)] by (cases b) (simp_all add: cached_get_candidates_def)
qed (use assms(2) in \<open>simp add: cached_get_candidates_def can_use_caching_small\<close>)

lemma cached_get_ariadne_parameters_ok:
  fixes env :: "('j, 'p) candidates_env"
  assumes "lru_cache aops acont" "cached_source_ok acont ccont env k d st"
  shows "\<exists>st'. cached_get_ariadne_parameters aops env k d e dp pp st = (source_get_ariadne_parameters env d e dp pp, st')
     \<and> cached_source_ok acont ccont env k d st'"
proof (cases "2 \<le> e")
  case True
  obtain b st1 where b: "can_use_caching_for_request d k e st = (Ok b :: (bool, 'p candidates_error) result, st1)" "cached_source_ok acont ccont env k d st1"
      "b \<longrightarrow> stable_request k d e"
    using can_use_caching_ok [OF assms(2) True] by blast
  then show ?thesis
    using parameters_with_caching_ok [OF assms(1) b(2)] by (cases b) (simp_all add: cached_get_ariadne_parameters_def)
qed (use assms(2) in \<open>simp add: cached_get_ariadne_parameters_def can_use_caching_small\<close>)

lemma agrees_weaken:
  assumes "cache_agrees contents P f c" "\<And>k. P k \<Longrightarrow> Q k" "\<And>k. P k \<Longrightarrow> g k = f k"
  shows "cache_agrees contents Q g c"
  using assms by (simp add: cache_agrees_def)

lemma cached_source_ok_advance:
  assumes "cached_source_ok acont ccont env k d st" "db_advances env k d d'"
  shows "cached_source_ok acont ccont env k d' st"
proof -
  have stable: "stable_request k d' e" if "stable_request k d e" for e
    using that assms(2) by (fastforce simp: stable_request_def db_advances_def)
  have cs: "candidates_at env d' (e, s) = candidates_at env d (e, s)"
    if "stable_request k d e" "s \<in> range (ce_show_address env)" for e s
    using that assms(2) by (auto simp: db_advances_def candidates_at_key)
  have ps: "parameters_at env d' key = parameters_at env d key" if "stable_request k d (fst key)" for key
    using that assms(2) by (simp add: db_advances_def parameters_at_def)
  have "\<exists>latest. get_latest_stable_epoch d' k = Ok latest
       \<and> (\<forall>s. highest_seen_stable_epoch st = Some s \<longrightarrow> (\<exists>s'. latest = Some s' \<and> s \<le> s'))"
    using assms by (fastforce simp: cached_source_ok_def db_advances_def)
  moreover have "cache_agrees ccont (\<lambda>key. stable_request k d' (fst key) \<and> snd key \<in> range (ce_show_address env))
      (candidates_at env d') (candidates_cache st)"
    using assms(1) unfolding cached_source_ok_def by (elim conjE agrees_weaken) (auto simp: stable cs)
  moreover have "cache_agrees acont (\<lambda>key. stable_request k d' (fst key)) (parameters_at env d') (ariadne_cache st)"
    using assms(1) unfolding cached_source_ok_def by (elim conjE agrees_weaken) (auto simp: stable ps)
  ultimately show ?thesis
    by (simp add: cached_source_ok_def)
qed

lemma cached_reach_ok:
  assumes "lru_cache aops acont" "lru_cache cops ccont" "\<And>n. acont (new_a n) = Map.empty" "\<And>n. ccont (new_c n) = Map.empty"
    and "cached_reach aops cops new_a new_c env k d st"
  shows "cached_source_ok acont ccont env k d st"
  using assms(5)
proof (induction rule: cached_reach.induct)
  case (start d latest n st)
  then show ?case
    by (auto simp: cached_source_new_def cached_source_ok_def cache_agrees_def assms(3,4) split: if_splits)
next
  case (advance d st d')
  then show ?case
    by (simp add: cached_source_ok_advance)
next
  case (candidates d st e a r st')
  then show ?case
    using cached_get_candidates_ok [OF assms(2) candidates.IH, of e a] by auto
next
  case (parameters d st e dp pp q st')
  then show ?case
    using cached_get_ariadne_parameters_ok [OF assms(1) parameters.IH, of e dp pp] by auto
qed

text \<open>C11. The caches of the candidate source are invisible: after any sequence of requests, with the main chain advancing
  in between and keeping what it recorded for stable epochs, the cached source answers every request as the
  uncached one does, errors included.  The caches may evict entries at will.\<close>

theorem cached_candidates_transparent:
  assumes "lru_cache aops acont" and "lru_cache cops ccont"
    and "\<And>n. acont (new_a n) = Map.empty" and "\<And>n. ccont (new_c n) = Map.empty"
    and "cached_reach aops cops new_a new_c env k d st"
  shows "fst (cached_get_candidates cops env k d e a st) = source_get_candidates env d e a
    \<and> fst (cached_get_ariadne_parameters aops env k d e dp pp st) = source_get_ariadne_parameters env d e dp pp"
  using cached_get_candidates_ok [OF assms(2) cached_reach_ok [OF assms]]
    cached_get_ariadne_parameters_ok [OF assms(1) cached_reach_ok [OF assms]]
  by (metis fst_conv)

text \<open>One block of epoch 3 on top of one of epoch 2, so that epoch 1 is stable.\<close>

definition demo_candidates_env :: "(unit, datum) candidates_env" where
  "demo_candidates_env = \<lparr> ce_plutus = datum_api, ce_json_to_plutus = (\<lambda>_. None), ce_to_hex = hex_encode,
     ce_from_hex = hex_decode, ce_vkey_hash = id, ce_show_address = (\<lambda>_. ''addr''), ce_hash_order = id \<rparr>"

definition demo_epochs_db :: "unit db" where
  "demo_epochs_db = demo_db \<lparr> block_table :=
     [demo_block_row 1 5 [9] 1000 \<lparr> row_epoch_no := Some 2 \<rparr>, demo_block_row 2 6 [8] 21000 \<lparr> row_epoch_no := Some 3 \<rparr>],
     tx_out_table := [] \<rparr>"

definition demo_cached_source ::
  "(nat \<times> ((u32 \<times> bytes \<times> bytes) \<times> ariadne_parameters) list, nat \<times> ((u32 \<times> string) \<times> candidate_registrations list) list) cached_source" where
  "demo_cached_source = \<lparr> ariadne_cache = (4, []), candidates_cache = (4, []), highest_seen_stable_epoch = None \<rparr>"

theorem cached_candidates_transparent_witness:
  "fst (cached_get_candidates lru_ops demo_candidates_env 1 demo_epochs_db 3 []
      (snd (cached_get_candidates lru_ops demo_candidates_env 1 demo_epochs_db 3 [] demo_cached_source))) = Ok []"
proof -
  let ?reach = "cached_reach lru_ops lru_ops (\<lambda>n. (n, [])) (\<lambda>n. (n, [])) demo_candidates_env 1 demo_epochs_db"
  have "get_latest_stable_epoch demo_epochs_db 1 = Ok (Some 1)"
    by code_simp
  then have "?reach demo_cached_source"
    by (rule cached_reach.start [where n = 4]) (simp add: cached_source_new_def demo_cached_source_def)
  then have "?reach (snd (cached_get_candidates lru_ops demo_candidates_env 1 demo_epochs_db 3 [] demo_cached_source))"
    by (rule cached_reach.candidates) (rule prod.collapse [symmetric])
  then have "fst (cached_get_candidates lru_ops demo_candidates_env 1 demo_epochs_db 3 []
      (snd (cached_get_candidates lru_ops demo_candidates_env 1 demo_epochs_db 3 [] demo_cached_source)))
    = source_get_candidates demo_candidates_env demo_epochs_db 3 []"
    by (rule cached_candidates_transparent [where new_a = "\<lambda>n. (n, [])" and new_c = "\<lambda>n. (n, [])",
          OF lru.lru_cache_axioms lru.lru_cache_axioms, THEN conjunct1, rotated 2])
      (simp_all add: lru_contents_def)
  also have "\<dots> = Ok []"
    by code_simp
  finally show ?thesis .
qed

end
