(* ===== verification/AuraClient.thy ===== *)
theory AuraClient
  imports Prelude McHash
begin

text \<open>
  The Aura client of the node: \<^verbatim>\<open>toolkit/client/consensus/aura/src/lib.rs\<close> (the worker that authors blocks) and
  \<^verbatim>\<open>import_queue.rs\<close> (the verifier of imported blocks).

  Substrate itself is an argument.  \<open>standalone\<close> holds the functions of \<^verbatim>\<open>sc_consensus_aura::standalone\<close> and of
  \<^verbatim>\<open>sc_consensus_slots\<close>, \<open>aura_client\<close> the calls into the runtime, \<open>cidp\<close> the creator of inherent data providers and
  \<open>state_actions\<close> the tests on the state action of an import.  The auxiliary store of the equivocation check is
  passed along.  One type holds the errors of those parts; telemetry and logging are left out.
\<close>

section \<open>Data\<close>

record 'hash block_header = header +
  header_parent_hash :: 'hash

datatype compatibility_mode = NoCompatibility | UseInitializeBlock u32

datatype 'e consensus_error = InvalidAuthoritiesSet | ClientImport 'e | OtherConsensusError 'e

datatype ('hash, 'e) seal_verification_error =
  Deferred "'hash block_header" u64
| Unsealed
| BadSeal
| BadSignature
| SlotAuthorNotFound
| InvalidPreDigest 'e

datatype ('hash, 'e) aura_error =
  ClientError 'e
| HeaderUnsealed 'hash
| HeaderBadSeal 'hash
| BadHeaderSignature 'hash
| HeaderAuthorNotFound
| HeaderPreDigest 'e
| InherentError 'e
| UnknownInherentError bytes

datatype ('hash, 'e) verify_error =
  AuthoritiesNotFetched 'hash "'e consensus_error"
| AuraError "('hash, 'e) aura_error"
| InherentDigestNotRetrieved 'hash 'e
| ProvidersNotCreated 'e
| ApiVersionNotRead 'e
| TooFarInFuture 'hash

datatype 'hash checked_header =
  Checked "'hash block_header" u64 digest_item
| DeferredHeader "'hash block_header" u64

datatype fork_choice = LongestChain | Custom bool

record ('hash, 'x, 'sa) block_import_params =
  bip_own :: bool
  bip_header :: "'hash block_header"
  bip_post_digests :: "digest_item list"
  bip_body :: "'x list option"
  bip_state_action :: 'sa
  bip_fork_choice :: "fork_choice option"
  bip_post_hash :: "'hash option"

record ('sa, 'ch) state_actions =
  act_apply_changes :: "'ch \<Rightarrow> 'sa"
  act_with_state :: "'sa \<Rightarrow> bool"
  act_skip_execution_checks :: "'sa \<Rightarrow> bool"

record ('hash, 'pub, 'ks, 'aux, 'e) standalone =
  sa_header_hash :: "'hash block_header \<Rightarrow> 'hash"
  sa_claim_slot :: "u64 \<Rightarrow> 'pub list \<Rightarrow> 'ks \<Rightarrow> 'pub option"
  sa_slot_author :: "u64 \<Rightarrow> 'pub list \<Rightarrow> 'pub option"
  sa_pre_digest :: "u64 \<Rightarrow> digest_item"
  sa_find_pre_digest :: "'hash block_header \<Rightarrow> (u64, 'e) result"
  sa_seal :: "'hash \<Rightarrow> 'pub \<Rightarrow> 'ks \<Rightarrow> (digest_item, 'e consensus_error) result"
  sa_check_header_slot_and_seal :: "u64 \<Rightarrow> 'hash block_header \<Rightarrow> 'pub list
    \<Rightarrow> ('hash block_header \<times> u64 \<times> digest_item, ('hash, 'e) seal_verification_error) result"
  sa_check_equivocation :: "u64 \<Rightarrow> u64 \<Rightarrow> 'hash block_header \<Rightarrow> 'pub \<Rightarrow> 'aux
    \<Rightarrow> (('hash block_header \<times> 'hash block_header) option, 'e) result \<times> 'aux"

text \<open>The first argument of \<open>cl_authorities\<close> is the header the runtime instance was initialised with, if any.\<close>

record ('hash, 'pub, 'x, 'data, 'e) aura_client =
  cl_initialize_block :: "'hash \<Rightarrow> 'hash block_header \<Rightarrow> (unit, 'e) result"
  cl_authorities :: "'hash block_header option \<Rightarrow> 'hash \<Rightarrow> ('pub list, 'e) result"
  cl_has_block_builder_v2 :: "'hash \<Rightarrow> (bool, 'e) result"
  cl_check_inherents :: "'hash \<Rightarrow> 'hash block_header \<times> 'x list \<Rightarrow> 'data \<Rightarrow> (bool \<times> (bytes \<times> 'e) list, 'e) result"
  cl_finalized_number :: u32

record ('hash, 'prov, 'data, 'v, 'e) cidp =
  cidp_slot :: u64
  cidp_providers :: "'hash \<Rightarrow> u64 \<times> 'v \<Rightarrow> ('prov, 'e) result"
  cidp_inherent_data :: "'prov \<Rightarrow> ('data, 'e) result"
  cidp_try_handle_error :: "'prov \<Rightarrow> bytes \<Rightarrow> 'e \<Rightarrow> (unit, 'e) result option may_panic"

section \<open>Authorities\<close>

definition authorities ::
  "('hash, 'pub, 'x, 'data, 'e) aura_client \<Rightarrow> 'hash \<Rightarrow> u32 \<Rightarrow> compatibility_mode \<Rightarrow> ('pub list, 'e consensus_error) result" where
  "authorities client parent_hash context_block_number mode =
     rbind (case mode of
              NoCompatibility \<Rightarrow> Ok None
            | UseInitializeBlock until_block \<Rightarrow>
                if until_block > context_block_number
                then let h = \<lparr> header_number = context_block_number, header_digest = [], header_parent_hash = parent_hash \<rparr>
                     in rbind (map_err (\<lambda>_. InvalidAuthoritiesSet) (cl_initialize_block client parent_hash h)) (\<lambda>_. Ok (Some h))
                else Ok None)
       (\<lambda>initialized. map_err (\<lambda>_. InvalidAuthoritiesSet) (cl_authorities client initialized parent_hash))"

section \<open>The worker\<close>

record ('hash, 'pub, 'ks, 'x, 'data, 'e) aura_worker =
  aw_client :: "('hash, 'pub, 'x, 'data, 'e) aura_client"
  aw_keystore :: 'ks
  aw_force_authoring :: bool
  aw_backoff :: "(u32 \<Rightarrow> u64 \<Rightarrow> u32 \<Rightarrow> u64 \<Rightarrow> bool) option"
  aw_compatibility_mode :: compatibility_mode

definition aux_data ::
  "('hash, 'pub, 'ks, 'aux, 'e) standalone \<Rightarrow> ('hash, 'pub, 'ks, 'x, 'data, 'e) aura_worker \<Rightarrow> 'hash block_header
    \<Rightarrow> ('pub list, 'e consensus_error) result" where
  "aux_data sa w h = authorities (aw_client w) (sa_header_hash sa h) (header_number h + 1) (aw_compatibility_mode w)"

definition claim_slot ::
  "('hash, 'pub, 'ks, 'aux, 'e) standalone \<Rightarrow> ('hash, 'pub, 'ks, 'x, 'data, 'e) aura_worker \<Rightarrow> u64 \<Rightarrow> 'pub list \<Rightarrow> 'pub option" where
  "claim_slot sa w slot auths = sa_claim_slot sa slot auths (aw_keystore w)"

definition pre_digest_data :: "('hash, 'pub, 'ks, 'aux, 'e) standalone \<Rightarrow> u64 \<Rightarrow> digest_item list" where
  "pre_digest_data sa slot = [sa_pre_digest sa slot]"

definition block_import_params ::
  "('hash, 'pub, 'ks, 'aux, 'e) standalone \<Rightarrow> ('sa, 'ch) state_actions \<Rightarrow> ('hash, 'pub, 'ks, 'x, 'data, 'e) aura_worker
    \<Rightarrow> 'hash block_header \<Rightarrow> 'hash \<Rightarrow> 'x list \<Rightarrow> 'ch \<Rightarrow> 'pub
    \<Rightarrow> (('hash, 'x, 'sa) block_import_params, 'e consensus_error) result" where
  "block_import_params sa acts w h header_hash body storage_changes public =
     rbind (sa_seal sa header_hash public (aw_keystore w)) (\<lambda>signature_digest_item.
       Ok \<lparr> bip_own = True, bip_header = h, bip_post_digests = [signature_digest_item], bip_body = Some body,
            bip_state_action = act_apply_changes acts storage_changes, bip_fork_choice = Some LongestChain,
            bip_post_hash = None \<rparr>)"

definition should_backoff ::
  "('hash, 'pub, 'ks, 'aux, 'e) standalone \<Rightarrow> ('hash, 'pub, 'ks, 'x, 'data, 'e) aura_worker \<Rightarrow> u64 \<Rightarrow> 'hash block_header \<Rightarrow> bool" where
  "should_backoff sa w slot chain_head =
     (case aw_backoff w of
        Some strategy \<Rightarrow>
          (case sa_find_pre_digest sa chain_head of
             Ok chain_head_slot \<Rightarrow>
               strategy (header_number chain_head) chain_head_slot (cl_finalized_number (aw_client w)) slot
           | _ \<Rightarrow> False)
      | None \<Rightarrow> False)"

section \<open>The verifier\<close>

record ('hash, 'pub, 'x, 'prov, 'data, 'v, 'e) aura_verifier =
  av_client :: "('hash, 'pub, 'x, 'data, 'e) aura_client"
  av_cidp :: "('hash, 'prov, 'data, 'v, 'e) cidp"
  av_value_from_digest :: "digest_item list \<Rightarrow> ('v, 'e) result"
  av_check_for_equivocation :: bool
  av_compatibility_mode :: compatibility_mode

definition check_header ::
  "('hash, 'pub, 'ks, 'aux, 'e) standalone \<Rightarrow> u64 \<Rightarrow> 'hash block_header \<Rightarrow> 'hash \<Rightarrow> 'pub list \<Rightarrow> bool \<Rightarrow> 'aux
    \<Rightarrow> ('hash checked_header, ('hash, 'e) aura_error) result \<times> 'aux" where
  "check_header sa slot_now h hash auths check_for_equivocation aux =
     (case sa_check_header_slot_and_seal sa slot_now h auths of
        Ok (pre_header, slot, seal) \<Rightarrow>
          (case (check_for_equivocation, sa_slot_author sa slot auths) of
             (True, Some expected) \<Rightarrow>
               (case sa_check_equivocation sa slot_now slot pre_header expected aux of
                  (equivocation, aux') \<Rightarrow>
                    (rbind (map_err ClientError equivocation) (\<lambda>_. Ok (Checked pre_header slot seal)), aux'))
           | _ \<Rightarrow> (Ok (Checked pre_header slot seal), aux))
      | Err (Deferred h' slot) \<Rightarrow> (Ok (DeferredHeader h' slot), aux)
      | Err Unsealed \<Rightarrow> (Err (HeaderUnsealed hash), aux)
      | Err BadSeal \<Rightarrow> (Err (HeaderBadSeal hash), aux)
      | Err BadSignature \<Rightarrow> (Err (BadHeaderSignature hash), aux)
      | Err SlotAuthorNotFound \<Rightarrow> (Err HeaderAuthorNotFound, aux)
      | Err (InvalidPreDigest e) \<Rightarrow> (Err (HeaderPreDigest e), aux)
      | Panic \<Rightarrow> (Panic, aux))"

fun handle_errors ::
  "(bytes \<Rightarrow> 'e \<Rightarrow> (unit, 'e) result option may_panic) \<Rightarrow> (bytes \<times> 'e) list \<Rightarrow> (unit, ('hash, 'e) aura_error) result" where
  "handle_errors try_handle_error [] = Ok ()"
| "handle_errors try_handle_error ((i, e) # es) =
     rbind (expect (try_handle_error i e)) (\<lambda>handled.
       case handled of
         Some res \<Rightarrow> rbind (map_err InherentError res) (\<lambda>_. handle_errors try_handle_error es)
       | None \<Rightarrow> Err (UnknownInherentError i))"

definition verifier_check_inherents ::
  "('hash, 'pub, 'x, 'prov, 'data, 'v, 'e) aura_verifier \<Rightarrow> 'hash block_header \<times> 'x list \<Rightarrow> 'hash \<Rightarrow> 'prov
    \<Rightarrow> (unit, ('hash, 'e) aura_error) result" where
  "verifier_check_inherents v block at_hash providers =
     rbind (map_err InherentError (cidp_inherent_data (av_cidp v) providers)) (\<lambda>inherent_data.
     rbind (map_err ClientError (cl_check_inherents (av_client v) at_hash block inherent_data)) (\<lambda>(okay, errors).
       if \<not> okay then handle_errors (cidp_try_handle_error (av_cidp v) providers) errors else Ok ()))"

definition check_body ::
  "('hash, 'pub, 'x, 'prov, 'data, 'v, 'e) aura_verifier \<Rightarrow> 'hash \<Rightarrow> 'hash block_header \<Rightarrow> u64 \<Rightarrow> 'v \<Rightarrow> 'x list
    \<Rightarrow> (unit, ('hash, 'e) verify_error) result" where
  "check_body v parent_hash pre_header slot digest_value inner_body =
     rbind (map_err ProvidersNotCreated (cidp_providers (av_cidp v) parent_hash (slot, digest_value))) (\<lambda>providers.
     rbind (map_err ApiVersionNotRead (cl_has_block_builder_v2 (av_client v) parent_hash)) (\<lambda>has_api.
       if has_api
       then map_err AuraError (verifier_check_inherents v (pre_header, inner_body) parent_hash providers)
       else Ok ()))"

definition verify ::
  "('hash, 'pub, 'ks, 'aux, 'e) standalone \<Rightarrow> ('sa, 'ch) state_actions \<Rightarrow> ('hash, 'pub, 'x, 'prov, 'data, 'v, 'e) aura_verifier
    \<Rightarrow> ('hash, 'x, 'sa) block_import_params \<Rightarrow> 'aux
    \<Rightarrow> (('hash, 'x, 'sa) block_import_params, ('hash, 'e) verify_error) result \<times> 'aux" where
  "verify sa acts v block aux =
     (if act_with_state acts (bip_state_action block) \<or> act_skip_execution_checks acts (bip_state_action block)
      then (Ok (block \<lparr> bip_fork_choice := Some (Custom (act_with_state acts (bip_state_action block))) \<rparr>), aux)
      else
        let hash = sa_header_hash sa (bip_header block); parent_hash = header_parent_hash (bip_header block) in
        case map_err (AuthoritiesNotFetched parent_hash)
               (authorities (av_client v) parent_hash (header_number (bip_header block)) (av_compatibility_mode v)) of
          Ok auths \<Rightarrow>
            (case check_header sa (cidp_slot (av_cidp v) + 1) (bip_header block) hash auths (av_check_for_equivocation v) aux of
               (checked, aux') \<Rightarrow>
                 (rbind (map_err AuraError checked) (\<lambda>checked_header.
                  rbind (map_err (InherentDigestNotRetrieved parent_hash) (av_value_from_digest v (header_digest (bip_header block))))
                    (\<lambda>digest_value.
                    case checked_header of
                      Checked pre_header slot seal \<Rightarrow>
                        rbind (case bip_body block of
                                 Some inner_body \<Rightarrow> check_body v parent_hash pre_header slot digest_value inner_body
                               | None \<Rightarrow> Ok ())
                          (\<lambda>_. Ok (block \<lparr> bip_header := pre_header, bip_post_digests := bip_post_digests block @ [seal],
                                   bip_fork_choice := Some LongestChain, bip_post_hash := Some hash \<rparr>))
                    | DeferredHeader _ _ \<Rightarrow> Err (TooFarInFuture hash))), aux'))
        | Err e \<Rightarrow> (Err e, aux)
        | Panic \<Rightarrow> (Panic, aux))"

section \<open>What the verifier accepts\<close>

lemma handle_errors_Ok:
  "handle_errors f es = Ok () \<longleftrightarrow> (\<forall>(i, e) \<in> set es. f i e = Some (Some (Ok ())))"
  by (induction es) (auto split: option.splits)

lemma check_header_Checked:
  "fst (check_header sa slot_now h hash auths equivocations aux) = Ok (Checked pre_header slot seal) \<longleftrightarrow>
     sa_check_header_slot_and_seal sa slot_now h auths = Ok (pre_header, slot, seal)
     \<and> (equivocations \<longrightarrow> (\<forall>a. sa_slot_author sa slot auths = Some a \<longrightarrow>
          (\<exists>proof_opt. fst (sa_check_equivocation sa slot_now slot pre_header a aux) = Ok proof_opt)))"
proof (cases "sa_check_header_slot_and_seal sa slot_now h auths")
  case (Ok r)
  obtain h' slot' seal' where r: "r = (h', slot', seal')"
    by (cases r) auto
  show ?thesis
  proof (cases "equivocations \<and> sa_slot_author sa slot' auths \<noteq> None")
    case True
    then obtain a where a: "sa_slot_author sa slot' auths = Some a"
      by blast
    obtain q aux' where "sa_check_equivocation sa slot_now slot' h' a aux = (q, aux')"
      by fastforce
    then show ?thesis
      using True a by (cases q) (auto simp: check_header_def Ok r)
  next
    case False
    then show ?thesis
      by (cases equivocations) (auto simp: check_header_def Ok r)
  qed
next
  case (Err e)
  then show ?thesis
    by (cases e) (simp_all add: check_header_def)
qed (simp add: check_header_def)

definition inherents_accepted ::
  "('hash, 'pub, 'x, 'prov, 'data, 'v, 'e) aura_verifier \<Rightarrow> 'hash \<Rightarrow> 'hash block_header \<times> 'x list \<Rightarrow> 'prov \<Rightarrow> bool" where
  "inherents_accepted v at_hash block providers \<longleftrightarrow>
     (\<exists>data r. cidp_inherent_data (av_cidp v) providers = Ok data
        \<and> cl_check_inherents (av_client v) at_hash block data = Ok r
        \<and> (\<not> fst r \<longrightarrow> (\<forall>(i, e) \<in> set (snd r). cidp_try_handle_error (av_cidp v) providers i e = Some (Some (Ok ())))))"

lemma verifier_check_inherents_Ok:
  "verifier_check_inherents v block at_hash providers = Ok () \<longleftrightarrow> inherents_accepted v at_hash block providers"
proof (cases "cidp_inherent_data (av_cidp v) providers")
  case d: (Ok data)
  show ?thesis
  proof (cases "cl_check_inherents (av_client v) at_hash block data")
    case (Ok r)
    obtain okay errors where "r = (okay, errors)"
      by (cases r)
    then show ?thesis
      using d Ok by (cases okay) (simp_all add: verifier_check_inherents_def inherents_accepted_def handle_errors_Ok
          del: split_paired_Ex)
  qed (simp_all add: d verifier_check_inherents_def inherents_accepted_def)
qed (simp_all add: verifier_check_inherents_def inherents_accepted_def)

lemma check_body_Ok:
  "check_body v parent_hash pre_header slot digest_value xs = Ok () \<longleftrightarrow>
     (\<exists>providers has_api. cidp_providers (av_cidp v) parent_hash (slot, digest_value) = Ok providers
        \<and> cl_has_block_builder_v2 (av_client v) parent_hash = Ok has_api
        \<and> (has_api \<longrightarrow> inherents_accepted v parent_hash (pre_header, xs) providers))"
  by (cases "cidp_providers (av_cidp v) parent_hash (slot, digest_value)"; cases "cl_has_block_builder_v2 (av_client v) parent_hash")
    (simp_all add: check_body_def verifier_check_inherents_Ok)

lemma verify_Ok:
  fixes block :: "('hash, 'x, 'sa) block_import_params"
  assumes "\<not> act_with_state acts (bip_state_action block)" and "\<not> act_skip_execution_checks acts (bip_state_action block)"
  defines "h \<equiv> bip_header block"
  shows "fst (verify sa acts v block aux) = Ok block' \<longleftrightarrow>
    (\<exists>auths pre_header slot seal digest_value.
       authorities (av_client v) (header_parent_hash h) (header_number h) (av_compatibility_mode v) = Ok auths
     \<and> fst (check_header sa (cidp_slot (av_cidp v) + 1) h (sa_header_hash sa h) auths (av_check_for_equivocation v) aux)
         = Ok (Checked pre_header slot seal)
     \<and> av_value_from_digest v (header_digest h) = Ok digest_value
     \<and> (\<forall>xs. bip_body block = Some xs \<longrightarrow> check_body v (header_parent_hash h) pre_header slot digest_value xs = Ok ())
     \<and> block' = block \<lparr> bip_header := pre_header, bip_post_digests := bip_post_digests block @ [seal],
         bip_fork_choice := Some LongestChain, bip_post_hash := Some (sa_header_hash sa h) \<rparr>)"
proof (cases "authorities (av_client v) (header_parent_hash h) (header_number h) (av_compatibility_mode v)")
  case (Ok auths)
  obtain checked aux' where c: "check_header sa (cidp_slot (av_cidp v) + 1) h (sa_header_hash sa h) auths
      (av_check_for_equivocation v) aux = (checked, aux')"
    by fastforce
  show ?thesis
  proof (cases checked)
    case (Ok ch)
    then show ?thesis
      using assms(1,2) c \<open>authorities _ _ _ _ = Ok auths\<close>
      by (cases ch; cases "bip_body block"; simp add: verify_def Let_def flip: h_def) (auto simp: h_def)
  qed (use assms(1,2) c Ok in \<open>simp_all add: verify_def Let_def flip: h_def\<close>)
qed (use assms(1,2) in \<open>simp_all add: verify_def Let_def flip: h_def\<close>)

text \<open>C7. The verifier accepts exactly the blocks that were checked.  A block that is to be executed is accepted if and
  only if the authorities of its parent can be read, its seal is that of the author of its slot, at most one slot
  ahead of the clock, the main chain reference can be read from its digest, and, when it has a body, its inherents
  agree with the data the node creates itself for the slot and the reference of the header.  What it passes on is the
  block with the seal moved out of the header and the body unchanged.\<close>

theorem verify_accepts_exactly:
  assumes "\<not> act_with_state acts (bip_state_action block)" and "\<not> act_skip_execution_checks acts (bip_state_action block)"
  shows "fst (verify sa acts v block aux) = Ok block' \<longleftrightarrow>
    (\<exists>auths pre_header slot seal digest_value.
       authorities (av_client v) (header_parent_hash (bip_header block)) (header_number (bip_header block))
         (av_compatibility_mode v) = Ok auths
     \<and> sa_check_header_slot_and_seal sa (cidp_slot (av_cidp v) + 1) (bip_header block) auths = Ok (pre_header, slot, seal)
     \<and> (av_check_for_equivocation v \<longrightarrow> (\<forall>a. sa_slot_author sa slot auths = Some a \<longrightarrow>
          (\<exists>r. fst (sa_check_equivocation sa (cidp_slot (av_cidp v) + 1) slot pre_header a aux) = Ok r)))
     \<and> av_value_from_digest v (header_digest (bip_header block)) = Ok digest_value
     \<and> (\<forall>xs. bip_body block = Some xs \<longrightarrow> (\<exists>providers has_api.
          cidp_providers (av_cidp v) (header_parent_hash (bip_header block)) (slot, digest_value) = Ok providers
          \<and> cl_has_block_builder_v2 (av_client v) (header_parent_hash (bip_header block)) = Ok has_api
          \<and> (has_api \<longrightarrow> inherents_accepted v (header_parent_hash (bip_header block)) (pre_header, xs) providers)))
     \<and> block' = block \<lparr> bip_header := pre_header, bip_post_digests := bip_post_digests block @ [seal],
         bip_fork_choice := Some LongestChain, bip_post_hash := Some (sa_header_hash sa (bip_header block)) \<rparr>)"
  unfolding verify_Ok [OF assms] check_header_Checked check_body_Ok by simp

text \<open>A block of slot 5, accepted by a node whose clock shows slot 4, and rejected with another body.\<close>

definition demo_check_seal ::
  "u64 \<Rightarrow> unit block_header \<Rightarrow> unit list \<Rightarrow> (unit block_header \<times> u64 \<times> digest_item, (unit, unit) seal_verification_error) result" where
  "demo_check_seal slot_now h auths = (if 5 \<le> slot_now then Ok (h \<lparr> header_digest := [] \<rparr>, 5, Seal [] []) else Err (Deferred h 5))"

definition demo_sealing :: "(unit, unit, unit, unit, unit) standalone" where
  "demo_sealing = \<lparr> sa_header_hash = (\<lambda>_. ()), sa_claim_slot = (\<lambda>_ _ _. Some ()), sa_slot_author = (\<lambda>_ _. Some ()),
     sa_pre_digest = (\<lambda>_. PreRuntime [] []), sa_find_pre_digest = (\<lambda>_. Ok 5), sa_seal = (\<lambda>_ _ _. Ok (Seal [] [])),
     sa_check_header_slot_and_seal = demo_check_seal, sa_check_equivocation = (\<lambda>_ _ _ _ aux. (Ok None, aux)) \<rparr>"

definition demo_import_actions :: "(unit, unit) state_actions" where
  "demo_import_actions = \<lparr> act_apply_changes = (\<lambda>_. ()), act_with_state = (\<lambda>_. False), act_skip_execution_checks = (\<lambda>_. False) \<rparr>"

definition demo_verifier :: "(unit, unit, nat, unit, unit, unit, unit) aura_verifier" where
  "demo_verifier = \<lparr>
     av_client = \<lparr> cl_initialize_block = (\<lambda>_ _. Ok ()), cl_authorities = (\<lambda>_ _. Ok [()]), cl_has_block_builder_v2 = (\<lambda>_. Ok True),
       cl_check_inherents = (\<lambda>_ (_, xs) _. Ok (xs = [7], [([1], ())])), cl_finalized_number = 0 \<rparr>,
     av_cidp = \<lparr> cidp_slot = 4, cidp_providers = (\<lambda>_ _. Ok ()), cidp_inherent_data = Ok,
       cidp_try_handle_error = (\<lambda>_ _ _. Some None) \<rparr>,
     av_value_from_digest = (\<lambda>_. Ok ()), av_check_for_equivocation = True, av_compatibility_mode = NoCompatibility \<rparr>"

definition demo_import :: "nat list \<Rightarrow> (unit, nat, unit) block_import_params" where
  "demo_import xs = \<lparr> bip_own = False, bip_header = \<lparr> header_number = 3, header_digest = [Seal [] []], header_parent_hash = () \<rparr>,
     bip_post_digests = [], bip_body = Some xs, bip_state_action = (), bip_fork_choice = None, bip_post_hash = None \<rparr>"

theorem verify_accepts_exactly_witness:
  "(\<exists>block'. fst (verify demo_sealing demo_import_actions demo_verifier (demo_import [7]) ()) = Ok block')
   \<and> \<not> (\<exists>block'. fst (verify demo_sealing demo_import_actions demo_verifier (demo_import [8]) ()) = Ok block')"
proof -
  have acts: "\<not> act_with_state demo_import_actions (bip_state_action (demo_import xs))"
      "\<not> act_skip_execution_checks demo_import_actions (bip_state_action (demo_import xs))" for xs
    by (simp_all add: demo_import_actions_def)
  have "inherents_accepted demo_verifier () (h, xs) () \<longleftrightarrow> xs = [7]" for h xs
    by (simp add: inherents_accepted_def demo_verifier_def)
  then show ?thesis
    unfolding verify_accepts_exactly [OF acts]
    by (simp add: demo_import_def demo_sealing_def demo_check_seal_def authorities_def) (auto simp: demo_verifier_def)
qed

end
