(* ===== verification/NodeImport.thy ===== *)
theory NodeImport
  imports NodeInherents RuntimeAgreement AuraClient
begin

text \<open>
  The node put together, as \<^verbatim>\<open>node/node/src/service.rs\<close> does: the author runs the Aura worker with the proposal
  providers of inherent data and the proposer that adds the main chain reference to the header; the importing node runs
  the Aura verifier with the verification providers; both call the runtime on the state of the parent block.

  The wrapped proposer, the slot author and seal functions of Aura and the authorities the runtime reports are
  arguments, with their documented behaviour in \<open>standalone_ok\<close> and \<open>proposes_on\<close>.
\<close>

section \<open>Wiring\<close>

definition runtime_parent_api :: "('a, 'k, 'acc, 's, 'b) runtime_state \<Rightarrow> 'api parent_api" where
  "runtime_parent_api st = \<lparr> api_next_unset_epoch_number = Ok (get_next_unset_epoch_number (committee_of st)),
     api_get_main_chain_scripts = Ok (MainChainScriptsConfiguration (committee_of st)),
     api_native_scripts = Ok (native_get_main_chain_scripts (native_st st)),
     api_native_initialized = Ok (native_initialized (native_st st)) \<rparr>"

definition proposal_data :: "'b proposal_providers \<Rightarrow> (authority_selection_inputs, 'b) block_inherent_data" where
  "proposal_data p = \<lparr> committee_data = ariadne_provide_inherent_data (prop_ariadne p),
     beneficiary_data = beneficiary_provide_inherent_data (prop_beneficiary p),
     token_data = native_provide_inherent_data (prop_native_token p) \<rparr>"

definition verifier_data :: "verifier_providers \<Rightarrow> (authority_selection_inputs, 'b) block_inherent_data" where
  "verifier_data q = \<lparr> committee_data = ariadne_provide_inherent_data (ver_ariadne q), beneficiary_data = Ok None,
     token_data = native_provide_inherent_data (ver_native_token q) \<rparr>"

datatype ('e, 'api, 'c, 'p) node_error =
  CidpError "('e, 'api, 'c, 'p) cidp_error"
| DigestReadError digest_error
| RuntimeInherentError runtime_inherent_error
| RuntimePanicked
| SubstrateError

primrec inherent_identifier :: "runtime_inherent_error \<Rightarrow> bytes" where
  "inherent_identifier (CommitteeInherentError _) = [47, 97, 114, 105, 97, 100, 110, 101]"
| "inherent_identifier (RewardsInherentError _) = [98, 101, 110, 101, 102, 105, 99, 114]"
| "inherent_identifier (NativeInherentError _) = [110, 97, 116, 116, 111, 107, 101, 110]"

definition node_client ::
  "('a, 'k, 'acc, 's, authority_selection_inputs) runtime_env \<Rightarrow> ('a, 'k, 'acc, 's, 'b) runtime_state
    \<Rightarrow> ('hash block_header option \<Rightarrow> 'hash \<Rightarrow> ('pub list, ('e, 'api, 'c, 'p) node_error) result)
    \<Rightarrow> ('hash, 'pub, ('a, 'k, 'b, 'acc) extrinsic, (authority_selection_inputs, 'b) block_inherent_data,
        ('e, 'api, 'c, 'p) node_error) aura_client" where
  "node_client renv st auths_api =
     \<lparr> cl_initialize_block = (\<lambda>_ _. Ok ()), cl_authorities = auths_api, cl_has_block_builder_v2 = (\<lambda>_. Ok True),
       cl_check_inherents = (\<lambda>_ (_, xs) data.
         case check_inherents renv st data xs of
           Ok _ \<Rightarrow> Ok (True, [])
         | Err e \<Rightarrow> Ok (False, [(inherent_identifier e, RuntimeInherentError e)])
         | Panic \<Rightarrow> Err RuntimePanicked),
       cl_finalized_number = 0 \<rparr>"

record 'e data_sources =
  ds_mc_hash :: "'e mc_hash_data_source"
  ds_authority_selection :: "'e selection_data_source"
  ds_native_token :: "(bytes, 'e) transfer_source"

definition node_verifier ::
  "('hash, 'c, 'p, 'b) node_env \<Rightarrow> create_inherent_data_config \<Rightarrow> 'api parent_api \<Rightarrow> 'e data_sources \<Rightarrow> u64
    \<Rightarrow> (bytes \<Rightarrow> ('e, 'api, 'c, 'p) node_error \<Rightarrow> (unit, ('e, 'api, 'c, 'p) node_error) result option may_panic)
    \<Rightarrow> bool \<Rightarrow> compatibility_mode \<Rightarrow> ('hash, 'pub, 'x, (authority_selection_inputs, 'b) block_inherent_data,
        ('e, 'api, 'c, 'p) node_error) aura_client
    \<Rightarrow> ('hash, 'pub, 'x, verifier_providers, (authority_selection_inputs, 'b) block_inherent_data, bytes,
        ('e, 'api, 'c, 'p) node_error) aura_verifier" where
  "node_verifier env cfg api sources now try_handle_error check_for_equivocation mode client =
     \<lparr> av_client = client,
       av_cidp = \<lparr> cidp_slot = NodeInherents.current_slot env cfg now,
         cidp_providers = (\<lambda>parent_hash extra. map_err CidpError (verifier_cidp env cfg api (ds_mc_hash sources)
           (ds_authority_selection sources) (ds_native_token sources) now parent_hash extra)),
         cidp_inherent_data = (\<lambda>q. Ok (verifier_data q)),
         cidp_try_handle_error = (\<lambda>_. try_handle_error) \<rparr>,
       av_value_from_digest = (\<lambda>digest. map_err DigestReadError (mc_hash_value_from_digest digest)),
       av_check_for_equivocation = check_for_equivocation,
       av_compatibility_mode = mode \<rparr>"

section \<open>What Substrate promises\<close>

definition standalone_ok :: "bytes \<Rightarrow> ('hash, 'pub, 'ks, 'aux, 'e) standalone \<Rightarrow> bool" where
  "standalone_ok engine_id sa \<longleftrightarrow>
     engine_id \<noteq> MC_HASH_DIGEST_ID
   \<and> (\<forall>slot auths ks p. sa_claim_slot sa slot auths ks = Some p \<longrightarrow> sa_slot_author sa slot auths = Some p)
   \<and> (\<forall>slot. \<exists>d. sa_pre_digest sa slot = PreRuntime engine_id d)
   \<and> (\<forall>h slot rest. header_digest h = sa_pre_digest sa slot # rest \<longrightarrow> (\<forall>d. PreRuntime engine_id d \<notin> set rest)
        \<longrightarrow> sa_find_pre_digest sa h = Ok slot)
   \<and> (\<forall>h slot auths p ks seal slot_now. sa_find_pre_digest sa h = Ok slot \<longrightarrow> sa_slot_author sa slot auths = Some p
        \<longrightarrow> sa_seal sa (sa_header_hash sa h) p ks = Ok seal \<longrightarrow> slot \<le> slot_now
        \<longrightarrow> sa_check_header_slot_and_seal sa slot_now (h \<lparr> header_digest := header_digest h @ [seal] \<rparr>) auths = Ok (h, slot, seal))"

text \<open>A proposer builds on the given parent and starts the digest of the header with the given logs; the items the
  runtime adds are no pre-runtime items.\<close>

definition proposes_on ::
  "('hash, 'pub, 'ks, 'aux, 'e) standalone \<Rightarrow> 'hash block_header \<Rightarrow> ('d \<Rightarrow> digest_item list \<Rightarrow> 'hash block_header) \<Rightarrow> bool" where
  "proposes_on sa parent proposer \<longleftrightarrow>
     (\<forall>data logs. header_parent_hash (proposer data logs) = sa_header_hash sa parent
        \<and> header_number (proposer data logs) = header_number parent + 1
        \<and> (\<exists>rest. header_digest (proposer data logs) = logs @ rest \<and> (\<forall>i d. PreRuntime i d \<notin> set rest)))"

section \<open>Authored blocks\<close>

text \<open>What the slot worker of Substrate does with the parts of the node: it reads the authorities, claims the slot,
  has the header proposed with the pre-digest of the slot, and seals it.\<close>

definition authored_header ::
  "('hash, 'pub, 'ks, 'aux, 'e) standalone \<Rightarrow> ('sa, 'ch) state_actions \<Rightarrow> ('hash, 'pub, 'ks, 'x, 'data, 'e) aura_worker
    \<Rightarrow> 'hash block_header \<Rightarrow> (bytes inherent_data \<Rightarrow> digest_item list \<Rightarrow> 'hash block_header) \<Rightarrow> 'b proposal_providers
    \<Rightarrow> 'x list \<Rightarrow> 'ch \<Rightarrow> ('hash, 'x, 'sa) block_import_params \<Rightarrow> bool" where
  "authored_header sa acts w parent proposer p xs changes own \<longleftrightarrow>
     (\<exists>auths public h. aux_data sa w parent = Ok auths \<and> claim_slot sa w (prop_slot p) auths = Some public
      \<and> partner_chains_propose mc_hash_from_inherent_data proposer (mc_hash_provide_inherent_data (prop_mc_hash p))
          (pre_digest_data sa (prop_slot p)) = Some h
      \<and> block_import_params sa acts w h (sa_header_hash sa h) xs changes public = Ok own)"

text \<open>The block as other nodes receive it: the seal is part of the header.\<close>

definition received :: "'sa \<Rightarrow> ('hash, 'x, 'sa) block_import_params \<Rightarrow> ('hash, 'x, 'sa) block_import_params" where
  "received action own =
     \<lparr> bip_own = False, bip_header = (bip_header own) \<lparr> header_digest := header_digest (bip_header own) @ bip_post_digests own \<rparr>,
       bip_post_digests = [], bip_body = bip_body own, bip_state_action = action, bip_fork_choice = None, bip_post_hash = None \<rparr>"

lemma check_inherents_beneficiary:
  "check_inherents env st (data \<lparr> beneficiary_data := b \<rparr>) xs = check_inherents env st data xs"
proof -
  have "check_inherent_call env st (data \<lparr> beneficiary_data := b \<rparr>) c = check_inherent_call env st data c" for c
    by (simp add: check_inherent_call_def rewards_check_inherent_def split: runtime_call.splits)
  then have "check_calls env st (data \<lparr> beneficiary_data := b \<rparr>) cs = check_calls env st data cs" for cs
    by (induction cs) simp_all
  then show ?thesis
    by (simp add: check_inherents_def rewards_is_inherent_required_def)
qed

lemma authored_header_sealed:
  assumes "standalone_ok engine_id sa" and "proposes_on sa parent proposer"
    and "authored_header sa acts w parent proposer p xs changes own"
    and "length (mc_hash (prop_mc_hash p)) = 32" and "prop_slot p \<le> slot_now"
  obtains auths h seal where "aux_data sa w parent = Ok auths"
    "header_parent_hash h = sa_header_hash sa parent" "header_number h = header_number parent + 1"
    "bip_header (received action own) = h \<lparr> header_digest := header_digest h @ [seal] \<rparr>"
    "bip_body (received action own) = Some xs" "bip_header own = h" "bip_post_digests own = [seal]"
    "sa_check_header_slot_and_seal sa slot_now (bip_header (received action own)) auths = Ok (h, prop_slot p, seal)"
    "mc_hash_value_from_digest (header_digest (bip_header (received action own))) = Ok (mc_hash (prop_mc_hash p))"
proof -
  obtain auths public h where a: "aux_data sa w parent = Ok auths" "claim_slot sa w (prop_slot p) auths = Some public"
      "partner_chains_propose mc_hash_from_inherent_data proposer (mc_hash_provide_inherent_data (prop_mc_hash p))
         (pre_digest_data sa (prop_slot p)) = Some h"
      "block_import_params sa acts w h (sa_header_hash sa h) xs changes public = Ok own"
    using assms(3) unfolding authored_header_def by blast
  obtain seal where seal: "sa_seal sa (sa_header_hash sa h) public (aw_keystore w) = Ok seal" "bip_header own = h"
      "bip_post_digests own = [seal]" "bip_body own = Some xs"
    using a(4) by (auto simp: block_import_params_def)
  have author: "sa_slot_author sa (prop_slot p) auths = Some public"
    using assms(1) a(2) by (simp add: standalone_ok_def claim_slot_def)
  obtain d where d: "sa_pre_digest sa (prop_slot p) = PreRuntime engine_id d" and ne: "engine_id \<noteq> MC_HASH_DIGEST_ID"
    using assms(1) unfolding standalone_ok_def by blast
  let ?logs = "[sa_pre_digest sa (prop_slot p), PreRuntime MC_HASH_DIGEST_ID (mc_hash (prop_mc_hash p))]"
  have "h = proposer (Ok (Some (mc_hash (prop_mc_hash p)))) ?logs"
    using a(3) by (simp add: partner_chains_propose_def mc_hash_from_inherent_data_def mc_hash_provide_inherent_data_def
        from_mc_block_hash_def pre_digest_data_def)
  then obtain rest where h: "header_digest h = ?logs @ rest"
      "\<forall>i d. PreRuntime i d \<notin> set rest" "header_parent_hash h = sa_header_hash sa parent" "header_number h = header_number parent + 1"
    using assms(2) unfolding proposes_on_def by blast
  then have "sa_find_pre_digest sa h = Ok (prop_slot p)"
    using assms(1) ne by (auto simp: standalone_ok_def)
  then have "sa_check_header_slot_and_seal sa slot_now (h \<lparr> header_digest := header_digest h @ [seal] \<rparr>) auths = Ok (h, prop_slot p, seal)"
    using assms(1,5) author seal(1) unfolding standalone_ok_def by blast
  moreover have "mc_hash_value_from_digest (header_digest h @ [seal]) = Ok (mc_hash (prop_mc_hash p))"
    using h(1) d ne assms(4) by simp
  ultimately show ?thesis
    using that a(1) h seal by (simp add: received_def)
qed

lemma reachable_block_ok:
  assumes "runtime_reach renv st hist" "hist = [] \<or> runtime_state.current_slot st < slot" "complete_data renv data"
    and "author_block renv slot data st = Some xs"
  obtains st' e b where "check_inherents renv st data xs = Ok ()" "execute_block renv slot xs st = Some st'"
    "runtime_reach renv st' (hist @ [(e, b)])"
proof -
  have inv: "chain_inv renv st" "CurrentBlockBeneficiary (rewards_st st) = None" "block_number st = length hist"
    using runtime_reach_inv [OF assms(1)] by auto
  then have slot: "block_number st = 0 \<or> runtime_state.current_slot st < slot"
    using assms(2) by auto
  obtain e b xs' st' where "author_block renv slot data st = Some xs'" "check_inherents renv st data xs' = Ok ()"
      "list_all (\<lambda>x. bounded_call (snd x)) xs'" "block_beneficiary xs' None = Some b"
      "execute_block renv slot xs' st = Some st'" "sidechain_st st' = (sidechain_st st) \<lparr> EpochNumber := Some e \<rparr>"
    using author_block_ok [OF inv(1) slot assms(3) inv(2)] by metis
  then show ?thesis
    using that runtime_reach.block [OF assms(1) slot, of xs data st' e b] assms(4) by simp
qed

lemma verifier_data_proposal:
  "check_inherents env st (verifier_data \<lparr> ver_timestamp = now, ver_ariadne = prop_ariadne p, ver_native_token = prop_native_token p \<rparr>) xs
    = check_inherents env st (proposal_data p) xs"
proof -
  have "verifier_data \<lparr> ver_timestamp = now, ver_ariadne = prop_ariadne p, ver_native_token = prop_native_token p \<rparr>
      = (proposal_data p) \<lparr> beneficiary_data := Ok None \<rparr>"
    by (simp add: verifier_data_def proposal_data_def)
  then show ?thesis
    by (simp add: check_inherents_beneficiary)
qed

lemma node_body_checked:
  assumes "verifier_cidp env cfg api (ds_mc_hash sources) (ds_authority_selection sources) (ds_native_token sources) now
      parent_hash (slot, v) = Ok q"
    and "check_inherents renv st (verifier_data q) xs = Ok ()"
  shows "check_body (node_verifier env cfg api sources now f eq mode (node_client renv st auths_api)) parent_hash h slot v xs = Ok ()"
  using assms by (simp add: check_body_def verifier_check_inherents_def node_verifier_def node_client_def)

section \<open>Correctness\<close>


section \<open>An instance\<close>

text \<open>A chain with one block at slot 61, which refers to the main chain block 5; its child at slot 81 refers to block 6.\<close>

definition demo_runtime_env :: "(nat, nat, nat, nat \<Rightarrow> nat, authority_selection_inputs) runtime_env" where
  "demo_runtime_env = \<lparr> env_js_compat = True, env_into = (\<lambda>a. a), env_inc = (\<lambda>a s. s(a := Suc (s a))),
     env_dec = (\<lambda>a s. if s a = 0 then Err () else Ok (s(a := s a - 1))), env_key_ids = [0, 1],
     env_select = (\<lambda>_ _ _. Some (Some [(3, 3), (4, 4)])) \<rparr>"

definition demo_genesis :: "(nat, nat, nat, nat \<Rightarrow> nat, bytes) runtime_state" where
  "demo_genesis = the (runtime_genesis demo_runtime_env (demo_utxo 0) 60 [(1, 1), (2, 2)]
     \<lparr> committee_candidate_address = [], d_parameter_policy_id = [], permissioned_candidates_policy_id = [] \<rparr>
     \<lparr> native_token_policy_id = [1], native_token_asset_name = [], illiquid_supply_validator_address = [] \<rparr> [] (\<lambda>_. 0))"

lemmas demo_genesis_unfold = demo_genesis_def runtime_genesis_def session_genesis_build_def session_config_of_def
  demo_runtime_env_def runtime_session_config_def session_new_session_genesis_def vm_new_session_genesis_def
  rotate_validators_eq Let_def

lemma demo_genesis_reach: "runtime_reach demo_runtime_env demo_genesis []"
proof (rule runtime_reach.genesis)
  show "runtime_genesis demo_runtime_env (demo_utxo 0) 60 [(1, 1), (2, 2)]
     \<lparr> committee_candidate_address = [], d_parameter_policy_id = [], permissioned_candidates_policy_id = [] \<rparr>
     \<lparr> native_token_policy_id = [1], native_token_asset_name = [], illiquid_supply_validator_address = [] \<rparr> [] (\<lambda>_. 0)
     = Some demo_genesis"
    by (simp add: demo_genesis_unfold)
qed simp

lemma demo_genesis_committee:
  "SlotsPerEpoch (sidechain_st demo_genesis) = 60" "NextCommittee (committee_of demo_genesis) = None"
  by (simp_all add: demo_genesis_unfold sidechain_genesis_build_def committee_genesis_build_def vm_start_session_def log_event_def)

lemma demo_complete:
  "committee_data data = Ok (Some i) \<Longrightarrow> beneficiary_data data = Ok (Some b) \<Longrightarrow> token_data data = Ok t
    \<Longrightarrow> complete_data demo_runtime_env data"
  by (simp add: complete_data_def demo_runtime_env_def max_validators_def)

lemma demo_parent_state:
  "\<exists>(st :: (nat, nat, nat, nat \<Rightarrow> nat, bytes) runtime_state) hist. runtime_reach demo_runtime_env st hist \<and> runtime_state.current_slot st = 61
     \<and> get_next_unset_epoch_number (committee_of st) = 3"
proof -
  let ?data = "\<lparr> committee_data = Ok (Some demo_inputs), beneficiary_data = Ok (Some [0 :: u8]), token_data = Ok None \<rparr>"
  have inv: "chain_inv demo_runtime_env demo_genesis" "CurrentBlockBeneficiary (rewards_st demo_genesis) = None"
      "block_number demo_genesis = 0"
    using runtime_reach_inv [OF demo_genesis_reach] by auto
  then have slot: "block_number demo_genesis = 0 \<or> runtime_state.current_slot demo_genesis < 61"
    by simp
  obtain e b xs st where blk: "current_epoch_number 61 (sidechain_st demo_genesis) = Some e"
      "check_inherents demo_runtime_env demo_genesis ?data xs = Ok ()" "list_all (\<lambda>x. bounded_call (snd x)) xs"
      "block_beneficiary xs None = Some b" "execute_block demo_runtime_env 61 xs demo_genesis = Some st"
      "NextCommittee (committee_of st) \<noteq> None" "sidechain_st st = (sidechain_st demo_genesis) \<lparr> EpochNumber := Some e \<rparr>"
      "runtime_state.current_slot st = 61"
      "CurrentCommittee (committee_of st) = CurrentCommittee (committees_after e (block_number demo_genesis + 1) (committee_of demo_genesis))"
    using author_block_ok [OF inv(1) slot demo_complete inv(2), of ?data demo_inputs "[0]" None] by (simp, metis)
  have "e = 1"
    using blk(1) demo_genesis_committee(1)
    by (simp add: current_epoch_number_def pallet_slots_per_epoch_def epoch_number_def div_or_panic_def)
  then have current: "epoch (CurrentCommittee (committee_of st)) = 1"
    using blk(9) inv(3) demo_genesis_committee(2) by (simp add: committees_after_def committee_on_initialize_def)
  have reach: "runtime_reach demo_runtime_env st [(e, b)]"
    using runtime_reach.block [OF demo_genesis_reach slot blk(3,2,5) _ blk(4), of e] blk(7) by simp
  then have "committee_inv max_validators (committee_of st)"
    using runtime_reach_inv [OF reach] by (auto simp: chain_inv_def)
  then have "get_next_unset_epoch_number (committee_of st) = 3"
    using blk(6) current by (auto simp: committee_inv_def get_next_unset_epoch_number_def)
  then show ?thesis
    using reach blk(8) by blast
qed

lemma demo_proposal:
  fixes st :: "('a, 'k, 'acc, 's, 'b) runtime_state"
  assumes "get_next_unset_epoch_number (committee_of st) = 3"
  shows "\<exists>p. proposal_cidp demo_node_env demo_cidc (runtime_parent_api st :: unit parent_api)
      (block_data_source demo_chrono demo_block_source (demo_ref_db [demo_new_row]) [])
      demo_selection_source (\<lambda>_ _ _. Ok 7) 81000 () = Ok p
     \<and> prop_slot p = 81 \<and> length (mc_hash (prop_mc_hash p)) = 32 \<and> prop_ariadne p \<noteq> None"
proof -
  let ?mc = "mc_block (demo_block_row 1 6 (replicate 32 8) 21000)"
  have "timestamp_to_mainchain_epoch (cidc_mc_epoch_config demo_cidc) 180000 = Ok 2"
    by (subst timestamp_to_mainchain_epoch_eq_Ok) (simp_all add: demo_cidc_def demo_block_source_def)
  then have "mc_epoch_for_next_ariadne_cidp (env_slot_timestamp demo_node_env) (Ok 3 :: (u64, unit) result)
      (cidc_sc_slot_config demo_cidc) (cidc_mc_epoch_config demo_cidc) 81 = (Ok 2 :: (_, (data_source_error, unit) ariadne_provider_error) result)"
    by (simp add: mc_epoch_for_next_ariadne_cidp_def sc_epoch_to_mc_epoch_def epoch_start_time_def config_first_slot_number_def
        sc_first_slot_number_def demo_node_env_def demo_cidc_def)
  moreover have "new_proposal (env_slot_timestamp demo_node_env) (block_data_source demo_chrono demo_block_source (demo_ref_db [demo_new_row]) [])
      81 (cidc_slot_duration demo_cidc) = Ok ?mc"
    by code_simp
  moreover have "timestamp_and_slot_cidp demo_node_env (cidc_slot_duration demo_cidc) 81000 = (81, 81000)"
    by code_simp
  moreover have "mc_hash_value_from_digest (from_mc_block_hash (replicate 32 9)) = Ok (replicate 32 9)"
    by (simp add: from_mc_block_hash_def)
  moreover have "mc_epoch ?mc = 1" "length (mc_hash ?mc) = 32"
    by (simp_all add: mc_block_def demo_block_row_def)
  ultimately show ?thesis
    using assms
    by (simp add: proposal_cidp_def ariadne_new_def runtime_parent_api_def)
      (simp add: demo_selection_source_def demo_node_env_def ariadne_from_mc_data_def inputs_from_mc_data_def
        beneficiary_from_env_def native_idp_new_def get_mc_hash_for_block_def get_inherent_digest_value_for_block_def
        split: option.split)
qed

text \<open>Slots are taken in turns; the pre-digest codes a slot by its length and the seal names its author.\<close>

type_synonym demo_error = "(data_source_error, unit, unit, unit) node_error"

definition demo_engine_id :: bytes where
  "demo_engine_id = [97, 117, 114, 97]"

definition demo_slot_author :: "u64 \<Rightarrow> nat list \<Rightarrow> nat option" where
  "demo_slot_author slot auths = (if auths = [] then None else Some (auths ! (unat slot mod length auths)))"

definition demo_find_pre_digest :: "unit block_header \<Rightarrow> (u64, demo_error) result" where
  "demo_find_pre_digest h =
     (case header_digest h of
        PreRuntime i d # _ \<Rightarrow> if i = demo_engine_id then Ok (of_nat (length d)) else Err SubstrateError
      | _ \<Rightarrow> Err SubstrateError)"

definition demo_seal :: "nat \<Rightarrow> digest_item" where
  "demo_seal author = Seal demo_engine_id (replicate author 0)"

definition demo_check_header ::
  "u64 \<Rightarrow> unit block_header \<Rightarrow> nat list \<Rightarrow> (unit block_header \<times> u64 \<times> digest_item, (unit, demo_error) seal_verification_error) result" where
  "demo_check_header slot_now h auths =
     (let pre_header = h \<lparr> header_digest := butlast (header_digest h) \<rparr>; seal = last (header_digest h) in
      rbind (map_err InvalidPreDigest (demo_find_pre_digest pre_header)) (\<lambda>slot.
      if slot > slot_now then Err (Deferred h slot)
      else rbind (ok_or SlotAuthorNotFound (demo_slot_author slot auths)) (\<lambda>author.
        if seal = demo_seal author then Ok (pre_header, slot, seal) else Err BadSignature)))"

definition demo_standalone :: "(unit, nat, unit, unit, demo_error) standalone" where
  "demo_standalone = \<lparr> sa_header_hash = (\<lambda>_. ()), sa_claim_slot = (\<lambda>slot auths _. demo_slot_author slot auths),
     sa_slot_author = demo_slot_author, sa_pre_digest = (\<lambda>slot. PreRuntime demo_engine_id (replicate (unat slot) 0)),
     sa_find_pre_digest = demo_find_pre_digest, sa_seal = (\<lambda>_ author _. Ok (demo_seal author)),
     sa_check_header_slot_and_seal = demo_check_header, sa_check_equivocation = (\<lambda>_ _ _ _ aux. (Ok None, aux)) \<rparr>"

lemma demo_standalone_ok: "standalone_ok demo_engine_id demo_standalone"
  by (auto simp: standalone_ok_def demo_standalone_def demo_engine_id_def MC_HASH_DIGEST_ID_def demo_find_pre_digest_def
      demo_check_header_def Let_def not_less)

definition demo_parent :: "unit block_header" where
  "demo_parent = \<lparr> header_number = 1, header_digest = from_mc_block_hash (replicate 32 9), header_parent_hash = () \<rparr>"

definition demo_proposer :: "bytes inherent_data \<Rightarrow> digest_item list \<Rightarrow> unit block_header" where
  "demo_proposer data logs = \<lparr> header_number = 2, header_digest = logs @ [Consensus [1] [2]], header_parent_hash = () \<rparr>"

lemma demo_proposes: "proposes_on demo_standalone demo_parent demo_proposer"
  by (simp add: proposes_on_def demo_proposer_def demo_standalone_def demo_parent_def)

definition demo_actions :: "(bool, unit) state_actions" where
  "demo_actions = \<lparr> act_apply_changes = (\<lambda>_. True), act_with_state = (\<lambda>_. False), act_skip_execution_checks = Not \<rparr>"


end
