(* ===== verification/SelectionOrder.thy ===== *)
theory SelectionOrder
  imports Prelude AuthoritySelection CandidatesSource
begin

text \<open>
  Committee selection and the order of its inputs.  The candidates data source groups registrations in a hash map
  (\<^verbatim>\<open>group_candidates_by_mc_pub_key\<close> in \<^verbatim>\<open>candidates/mod.rs\<close>), whose iteration order differs from node to node;
  \<^verbatim>\<open>select_authorities\<close> sorts the weighted candidates by account.  The sort removes the influence of the hash map when
  the accounts are distinct, and only then.
\<close>

section \<open>Permuted inputs\<close>

lemma mset_map_filter: "mset (List.map_filter f xs) = image_mset (the \<circ> f) (filter_mset (\<lambda>x. f x \<noteq> None) (mset xs))"
  by (induction xs) (auto simp: map_filter_simps split: option.splits)

lemma mset_map_filter_cong: "mset xs = mset ys \<Longrightarrow> mset (List.map_filter f xs) = mset (List.map_filter f ys)"
  by (simp add: mset_map_filter)

lemma sum_list_mset_cong: "mset xs = mset ys \<Longrightarrow> sum_list (map f xs) = (sum_list (map f ys) :: 'b::comm_monoid_add)"
  by (metis mset_map sum_mset_sum_list)

lemma sort_key_mset_cong:
  assumes "mset xs = mset ys" "distinct (map f xs)"
  shows "sort_key f xs = sort_key f ys"
proof (rule sort_key_inj_key_eq)
  show "mset xs = mset (sort_key f ys)"
    using assms(1) by simp
  show "inj_on f (set xs)"
    using assms(2) by (simp add: distinct_map)
qed simp

definition accounts_of ::
  "primitives \<Rightarrow> ('a, 'k) accounts \<Rightarrow> utxo_id \<Rightarrow> authority_selection_inputs \<Rightarrow> 'a list" where
  "accounts_of pr acc g i =
     map (\<lambda>c. account_id (cws_candidate c)) (filter_trustless_candidates_registrations pr acc (in_registered_candidates i) g)
     @ map account_id (filter_invalid_permissioned_candidates acc (in_permissioned_candidates i))"

lemma candidates_with_weight_perm:
  assumes "mset crs = mset (in_registered_candidates i)" "distinct (accounts_of pr acc g i)"
  shows "candidates_with_weight pr acc g (i \<lparr> in_registered_candidates := crs \<rparr>) = candidates_with_weight pr acc g i"
proof -
  let ?T = "\<lambda>crs. filter_trustless_candidates_registrations pr acc crs g"
    and ?P = "filter_invalid_permissioned_candidates acc (in_permissioned_candidates i)"
  let ?W = "\<lambda>crs. trustless_candidates_with_weights (?T crs) (in_d_parameter i) (length ?P)
    @ permissioned_candidates_with_weights ?P (in_d_parameter i) (?T crs)"
  have T: "mset (?T crs) = mset (?T (in_registered_candidates i))"
    unfolding filter_trustless_candidates_registrations_def by (rule mset_map_filter_cong) (rule assms(1))
  then have "mset (?W crs) = mset (?W (in_registered_candidates i))"
    using sum_list_mset_cong [OF T, of cws_stake_delegation]
    by (simp add: trustless_candidates_with_weights_def permissioned_candidates_with_weights_def Let_def mset_map)
  moreover have "map (\<lambda>cw. account_id (fst cw)) (?W (in_registered_candidates i)) = accounts_of pr acc g i"
    by (simp add: trustless_candidates_with_weights_def permissioned_candidates_with_weights_def Let_def accounts_of_def comp_def)
  then have "distinct (map (\<lambda>cw. account_id (fst cw)) (?W (in_registered_candidates i)))"
    using assms(2) by simp
  ultimately have "sort_key (\<lambda>cw. account_id (fst cw)) (?W crs) = sort_key (\<lambda>cw. account_id (fst cw)) (?W (in_registered_candidates i))"
    by (intro sort_key_mset_cong [symmetric]) simp_all
  then show ?thesis
    by (simp add: candidates_with_weight_def Let_def)
qed

lemma select_authorities_perm:
  assumes "mset crs = mset (in_registered_candidates i)" "distinct (accounts_of pr acc g i)"
  shows "select_authorities pr acc rnd m g (i \<lparr> in_registered_candidates := crs \<rparr>) ep = select_authorities pr acc rnd m g i ep"
  using candidates_with_weight_perm [OF assms] by (simp add: select_authorities_def)

section \<open>Hash maps of different nodes\<close>

definition hash_order :: "(bytes list \<Rightarrow> bytes list) \<Rightarrow> bool" where
  "hash_order order \<longleftrightarrow> (\<forall>ks. mset (order ks) = mset ks)"

lemma source_get_candidates_order:
  assumes "hash_order (ce_hash_order env)" "hash_order order" "source_get_candidates env d e a = Ok crs"
  obtains crs' where "source_get_candidates (env \<lparr> ce_hash_order := order \<rparr>) d e a = Ok crs'" "mset crs' = mset crs"
proof -
  have same: "get_registered_candidates (env \<lparr> ce_hash_order := order \<rparr>) d e' a = get_registered_candidates env d e' a"
      "get_stake_delegation (env \<lparr> ce_hash_order := order \<rparr>) = get_stake_delegation env" for e'
    by (simp_all add: get_registered_candidates_def convert_utxos_to_candidates_def parse_candidates_def get_stake_delegation_def
        fun_eq_iff cong: option.case_cong)
  obtain de candidates stakes where s: "get_epoch_of_data_storage e = (Ok de :: (_, 'b candidates_error) result)"
      "get_registered_candidates env d de a = Ok candidates" "get_stake_distribution d de = Ok stakes"
      "crs = map (\<lambda>(key, regs). \<lparr> mainchain_pub_key = key, registrations = map make_registration_data regs,
         stake_delegation = get_stake_delegation env stakes key \<rparr>) (group_candidates_by_mc_pub_key env candidates)"
    using assms(3) by (auto simp: source_get_candidates_def)
  have "mset (group_candidates_by_mc_pub_key (env \<lparr> ce_hash_order := order \<rparr>) candidates) = mset (group_candidates_by_mc_pub_key env candidates)"
    using assms(1,2) by (simp add: group_candidates_by_mc_pub_key_def hash_order_def)
  then show ?thesis
    using that s same by (simp add: source_get_candidates_def)
qed


text \<open>A main chain with a D-parameter, an empty list of permissioned candidates and the registrations of two candidates.\<close>

definition demo_out :: "nat \<Rightarrow> nat \<Rightarrow> string \<Rightarrow> tx_out_row" where
  "demo_out i tx a = \<lparr> row_out_id = i, row_out_tx_id = tx, row_out_index = int i, row_out_address = a, row_out_data_hash = Some [of_nat i] \<rparr>"

definition demo_registrations_db :: "nat db" where
  "demo_registrations_db = \<lparr> block_table = [demo_block_row 1 5 [9] 1000],
     tx_table = [\<lparr> row_tx_id = 1, row_tx_hash = replicate 32 1, row_tx_block_id = 1, row_tx_block_index = 0 \<rparr>,
       \<lparr> row_tx_id = 2, row_tx_hash = replicate 32 2, row_tx_block_id = 1, row_tx_block_index = 1 \<rparr>],
     tx_out_table = [demo_out 0 1 ''genesis'', demo_out 1 2 ''params'', demo_out 2 2 ''params'', demo_out 3 2 ''addr'', demo_out 4 2 ''addr''],
     tx_in_table = [\<lparr> row_in_id = 1, row_in_tx_in_id = 2, row_in_tx_out_id = 1, row_in_tx_out_index = 0 \<rparr>],
     ma_tx_out_table = [\<lparr> row_ma_quantity = 1, row_ma_tx_out_id = 1, row_ma_ident = 1 \<rparr>,
       \<lparr> row_ma_quantity = 1, row_ma_tx_out_id = 2, row_ma_ident = 2 \<rparr>],
     multi_asset_table = [\<lparr> row_asset_id = 1, row_asset_policy = [7], row_asset_name = [] \<rparr>,
       \<lparr> row_asset_id = 2, row_asset_policy = [8], row_asset_name = [] \<rparr>],
     datum_table = map (\<lambda>i. \<lparr> row_datum_hash = [of_nat i], row_datum_value = i \<rparr>) [1, 2, 3, 4],
     epoch_stake_table = [\<lparr> row_stake_pool_id = 1, row_stake_epoch_no = 1, row_stake_amount = 1000 \<rparr>],
     pool_hash_table = [(1, [5])], epoch_param_table = [] \<rparr>"

definition demo_register :: "nat \<Rightarrow> register_validator_datum" where
  "demo_register n = \<lparr> rvd_stake_ownership = \<lparr> staking_pub_key = replicate 32 (of_nat n), staking_signature = replicate 64 0 \<rparr>,
     rvd_sidechain_pub_key = replicate 33 (of_nat n), rvd_sidechain_signature = replicate 64 0, rvd_consumed_input = demo_utxo 0,
     rvd_own_pkh = replicate 28 0, rvd_aura_pub_key = replicate 32 (of_nat n), rvd_grandpa_pub_key = replicate 32 (of_nat n) \<rparr>"

definition demo_main_chain_datum :: "nat \<Rightarrow> datum" where
  "demo_main_chain_datum n =
     (if n = 1 then d_parameter_to_plutus_data datum_api demo_d_parameter
      else if n = 2 then permissioned_candidates_to_plutus_data datum_api []
      else register_to_plutus_data datum_api (demo_register n))"

definition demo_registrations_env :: "(nat, datum) candidates_env" where
  "demo_registrations_env = \<lparr> ce_plutus = datum_api, ce_json_to_plutus = (\<lambda>n. Some (demo_main_chain_datum n)), ce_to_hex = (\<lambda>_. ''ab''),
     ce_from_hex = (\<lambda>_. Some (replicate 32 1)), ce_vkey_hash = (\<lambda>_. [5]), ce_show_address = (\<lambda>_. ''addr''), ce_hash_order = id \<rparr>"

lemmas demo_query_simps = demo_registrations_db_def outputs_with_origin_def inner_join_def left_join_def demo_out_def
  demo_block_row_def order_by_desc_def order_by_desc_nullable_def col_def fetch_optional_def not_null_def decode_unsigned_def
  decode_datum_def bind_signed_def


lemma demo_tokens:
  fixes f :: "nat \<Rightarrow> datum"
  shows "get_token_utxo_for_epoch (\<lambda>n. Some (f n)) demo_registrations_db ([7], []) 1
      = Ok (Some \<lparr> origin_tx_hash = replicate 32 2, token_utxo_index = 1, token_tx_epoch_no = 1, token_tx_block_no = 5,
          token_tx_slot_no = 100, token_tx_block_index = 1, token_datum = Some (f 1) \<rparr>)"
    and "get_token_utxo_for_epoch (\<lambda>n. Some (f n)) demo_registrations_db ([8], []) 1
      = Ok (Some \<lparr> origin_tx_hash = replicate 32 2, token_utxo_index = 2, token_tx_epoch_no = 1, token_tx_block_no = 5,
          token_tx_slot_no = 100, token_tx_block_index = 1, token_datum = Some (f 2) \<rparr>)"
  by (simp_all add: get_token_utxo_for_epoch_def demo_query_simps)

lemma demo_utxo_from_str: "utxo_id_from_str (\<lambda>_. Some (replicate 32 1)) (''ab#'' @ to_decimal 0) = Ok (demo_utxo 0)"
proof -
  have "to_decimal 0 = ''0''"
    by code_simp
  moreover have "utxo_index_from_str (to_decimal 0) = Some 0"
    using utxo_index_from_str_to_decimal [of 0] by simp
  ultimately show ?thesis
    by (simp add: utxo_id_from_str_def decode_hex_array_def demo_utxo_def)
qed

lemma demo_utxos:
  fixes f :: "nat \<Rightarrow> datum"
  shows "get_utxos_for_address (\<lambda>_. ''ab'') (\<lambda>_. Some (replicate 32 1)) (\<lambda>n. Some (f n)) demo_registrations_db ''addr'' 5
    = Ok (map (\<lambda>i. \<lparr> txo_utxo_id = utxo_id_new (replicate 32 2) (of_nat i), txo_block_no = 5, txo_slot_no = 100, txo_epoch_no = 1,
        txo_index_in_block = 1, txo_address = ''addr'', txo_datum = Some (f i), txo_tx_inputs = [demo_utxo 0] \<rparr>) [3, 4])"
proof -
  have "filter (\<lambda>(out, tx, b). row_out_address out = ''addr'' \<and> col (\<lambda>n. n \<le> bind_signed (5 :: u32)) (row_block_no b)
       \<and> spent_after demo_registrations_db 5 out) (outputs_with_origin demo_registrations_db)
     = map (\<lambda>i. (demo_out i 2 ''addr'', tx_table demo_registrations_db ! 1, demo_block_row 1 5 [9] 1000)) [3, 4]"
    by (simp add: demo_query_simps spent_after_def)
  then have "left_join (\<lambda>(out, tx, b) value_row. row_out_data_hash out = Some (row_datum_hash value_row))
      (filter (\<lambda>(out, tx, b). row_out_address out = ''addr'' \<and> col (\<lambda>n. n \<le> bind_signed (5 :: u32)) (row_block_no b)
         \<and> spent_after demo_registrations_db 5 out) (outputs_with_origin demo_registrations_db)) (datum_table demo_registrations_db)
    = map (\<lambda>i. ((demo_out i 2 ''addr'', tx_table demo_registrations_db ! 1, demo_block_row 1 5 [9] 1000),
        Some \<lparr> row_datum_hash = [of_nat i], row_datum_value = i \<rparr>)) [3, 4]"
    by (simp add: left_join_def demo_registrations_db_def demo_out_def)
  moreover have "consumed_inputs (\<lambda>_. ''ab'') demo_registrations_db (tx_table demo_registrations_db ! 1) = [''ab#'' @ to_decimal 0]"
    by (simp add: consumed_inputs_def demo_query_simps)
  ultimately show ?thesis
    by (simp only: get_utxos_for_address_def)
      (simp add: fetch_all_def decode_tx_output_def demo_utxo_from_str [simplified] demo_out_def demo_block_row_def not_null_def decode_unsigned_def
        decode_datum_def, simp add: demo_registrations_db_def)
qed


definition demo_registered :: "nat \<Rightarrow> candidate_registrations" where
  "demo_registered n = \<lparr> mainchain_pub_key = replicate 32 (of_nat n),
     registrations = [\<lparr> consumed_input = demo_utxo 0, sidechain_signature = replicate 64 0, mainchain_signature = replicate 64 0,
       cross_chain_signature = replicate 64 0, sidechain_pub_key = replicate 33 (of_nat n), cross_chain_pub_key = replicate 33 (of_nat n),
       reg_utxo_info = \<lparr> info_utxo_id = utxo_id_new (replicate 32 2) (of_nat n), info_epoch_number = 1, info_block_number = 5,
         info_slot_number = 100, info_tx_index_within_block = 1 \<rparr>,
       tx_inputs = [demo_utxo 0], aura_pub_key = replicate 32 (of_nat n), grandpa_pub_key = replicate 32 (of_nat n) \<rparr>],
     stake_delegation = Some 1000 \<rparr>"

lemma demo_register_decoded: "register_try_from datum_api (register_to_plutus_data datum_api (demo_register n)) = Ok (demo_register n)"
  by (rule datum_data.register_round_trip) (simp_all add: demo_register_def demo_utxo_def)

lemma demo_candidates:
  "source_get_candidates demo_registrations_env demo_registrations_db 3 a = Ok [demo_registered 3, demo_registered 4]"
proof -
  let ?f = demo_main_chain_datum
  have "get_latest_block_for_epoch demo_registrations_db 1 = Ok (Some \<lparr> blk_no = 5, blk_hash = [9], blk_epoch_no = 1, blk_slot_no = 100, blk_time = 1000 \<rparr>)"
    "get_stake_distribution demo_registrations_db 1 = Ok [([5], 1000)]"
    by (simp_all add: get_latest_block_for_epoch_def get_stake_distribution_def fetch_all_def decode_block_def demo_query_simps)
  moreover have "replicate 32 3 \<noteq> (replicate 32 4 :: bytes)"
    by (simp add: numeral_eq_Suc)
  moreover have "register_try_from datum_api (?f 3) = Ok (demo_register 3)" "register_try_from datum_api (?f 4) = Ok (demo_register 4)"
    using demo_register_decoded by (simp_all add: demo_main_chain_datum_def)
  ultimately show ?thesis
    by (simp add: source_get_candidates_def get_epoch_of_data_storage_def get_registered_candidates_def get_last_block_for_epoch_def
        demo_registrations_env_def demo_utxos convert_utxos_to_candidates_def parse_candidates_def map_filter_simps
        group_candidates_by_mc_pub_key_def demo_register_def make_registration_data_def demo_registered_def get_stake_delegation_def
        make_stake_map_def mainchain_address_hash_from_vkey_def)
qed

lemma demo_parameters:
  "source_get_ariadne_parameters demo_registrations_env demo_registrations_db 3 [7] [8]
    = Ok \<lparr> ap_d_parameter = demo_d_parameter, ap_permissioned_candidates = [] \<rparr>"
  using datum_data.d_param_round_trip [of demo_d_parameter] datum_data.permissioned_round_trip [of "[]"]
  by (simp add: source_get_ariadne_parameters_def get_epoch_of_data_storage_def demo_registrations_env_def demo_tokens not_found_def
      demo_main_chain_datum_def)
    (auto simp: raw_permissioned_candidate_data_vec_from_def permissioned_candidates_from_def split: permissioned_candidate_datums.splits)

definition demo_committee_scripts :: main_chain_scripts where
  "demo_committee_scripts = \<lparr> committee_candidate_address = [], d_parameter_policy_id = [7], permissioned_candidates_policy_id = [8] \<rparr>"

definition demo_registered_inputs :: authority_selection_inputs where
  "demo_registered_inputs = \<lparr> in_d_parameter = demo_d_parameter, in_permissioned_candidates = [],
     in_registered_candidates = [demo_registered 3, demo_registered 4], in_epoch_nonce = [] \<rparr>"

lemma demo_inputs_read:
  "inputs_from_mc_data (candidates_data_source demo_registrations_env demo_registrations_db) 3 demo_committee_scripts = Ok demo_registered_inputs"
proof -
  have "source_get_epoch_nonce demo_registrations_db 3 = (Ok None :: (_, datum candidates_error) result)"
    by (simp add: source_get_epoch_nonce_def get_epoch_of_data_storage_def DbModel.get_epoch_nonce_def fetch_optional_def demo_registrations_db_def)
  then show ?thesis
    by (simp add: inputs_from_mc_data_def candidates_data_source_def demo_committee_scripts_def demo_parameters demo_candidates demo_registered_inputs_def)
qed

lemma demo_registered_accounts: "accounts_of demo_primitives demo_accounts g demo_registered_inputs = [replicate 33 3, replicate 33 4]"
proof -
  have "registration_valid demo_primitives k (hd (registrations (demo_registered n))) g" for k n
    by (auto simp: registration_valid_def demo_primitives_def demo_registered_def)
  then have "map_option (account_id \<circ> cws_candidate) (select_latest_valid_candidate demo_primitives demo_accounts (demo_registered n) g)
      = Some (replicate 33 (of_nat n))" for n
    by (simp add: select_latest_valid_candidate_def valid_registrations_map_filter demo_registered_def validate_stake_def
        stake_is_zero_def registration_candidate_def demo_accounts_def)
  from this [of 3] this [of 4] show ?thesis
    by (auto simp: accounts_of_def filter_trustless_candidates_registrations_def demo_registered_inputs_def map_filter_simps
        filter_invalid_permissioned_candidates_def)
qed


section \<open>Shared accounts\<close>

text \<open>Two main chain keys register the same sidechain key, with different Aura keys.\<close>

definition demo_shared :: "u8 \<Rightarrow> u8 \<Rightarrow> candidate_registrations" where
  "demo_shared mc aura = \<lparr> mainchain_pub_key = replicate 32 mc,
     registrations = [demo_registration 8 2 \<lparr> aura_pub_key := replicate 32 aura \<rparr>], stake_delegation = Some 1000 \<rparr>"

definition demo_shared_inputs :: "candidate_registrations list \<Rightarrow> authority_selection_inputs" where
  "demo_shared_inputs crs = \<lparr> in_d_parameter = \<lparr> num_permissioned_candidates = 0, num_registered_candidates = 1 \<rparr>,
     in_permissioned_candidates = [], in_registered_candidates = crs, in_epoch_nonce = [] \<rparr>"

lemma demo_shared_candidate:
  "select_latest_valid_candidate demo_primitives demo_accounts (demo_shared mc aura) g
    = Some \<lparr> cws_candidate = \<lparr> account_id = replicate 33 2, account_keys = (replicate 32 aura, replicate 32 2) \<rparr>,
        cws_stake_delegation = 1000 \<rparr>"
proof -
  have "registration_valid demo_primitives k (demo_registration 8 2 \<lparr> aura_pub_key := replicate 32 aura \<rparr>) g" for k
    by (auto simp: registration_valid_def demo_primitives_def demo_registration_def)
  then show ?thesis
    by (simp add: select_latest_valid_candidate_def valid_registrations_map_filter demo_shared_def validate_stake_def
        stake_is_zero_def registration_candidate_def demo_accounts_def demo_registration_def)
qed

lemma demo_shared_committee:
  "select_authorities demo_primitives demo_accounts demo_randomness 32 g (demo_shared_inputs [demo_shared m a, demo_shared m' b]) 0
    = Some (Some [(replicate 33 2, (replicate 32 a, replicate 32 2))])"
proof -
  have "seed_from_nonce_and_sc_epoch (u256_from_bytes demo_randomness) (u256_to_bytes demo_randomness) [] 0 = [32]"
    by (simp add: seed_from_nonce_and_sc_epoch_def demo_randomness_def)
  moreover have "select_loop (rng_gen_range demo_randomness) [(x, 1000), (y, 1000)] 2000 (Suc 0) [] (rng_from_seed demo_randomness [32]) = Some [x]"
    for x y :: "(bytes, bytes \<times> bytes) candidate"
    by (simp add: select_loop.simps [of _ _ _ _ "[]"] select_loop.simps [of _ _ _ _ "[x]"] select_with_weight_def
        demo_randomness_def counter_gen_range_def)
  ultimately show ?thesis
    by (simp add: select_authorities_def candidates_with_weight_def filter_trustless_candidates_registrations_def map_filter_simps
        demo_shared_candidate demo_shared_inputs_def filter_invalid_permissioned_candidates_def
        trustless_candidates_with_weights_def permissioned_candidates_with_weights_def weighted_selection_def
        weighted_select_authorities_def truncate_from_def)
qed


end
