(* ===== verification/CommitteeQuery.thy ===== *)
theory CommitteeQuery
  imports Prelude RuntimeAgreement BlockSearch DbModel
begin

text \<open>
  Queries about committees and candidates: \<^verbatim>\<open>toolkit/primitives/session-validator-management/query/src\<close> and the RPC
  methods of \<^verbatim>\<open>toolkit/pallets/session-validator-management/rpc/src/lib.rs\<close> on top of it.

  The client of the block search is extended with the hashes and the runtime API calls the queries make.  Rendering
  of bytes and of addresses (\<^verbatim>\<open>sp_core\<close>) is a parameter.  The lemmas show that the registrations reported for a
  candidate lead with the very registration from which the committee selection builds the candidate, and what the
  committee query answers for every epoch.
\<close>

section \<open>Responses\<close>

record query_env =
  qe_to_hex :: "bytes \<Rightarrow> string"
  qe_account_ss58 :: "bytes \<Rightarrow> string"

record get_committee_response =
  resp_sidechain_epoch :: u64
  resp_committee :: "string list"

definition committee_member_new :: "query_env \<Rightarrow> bytes \<Rightarrow> string" where
  "committee_member_new env bytes = qe_to_hex env bytes"

definition get_committee_response_new :: "query_env \<Rightarrow> ('a \<Rightarrow> bytes) \<Rightarrow> u64 \<Rightarrow> 'a list \<Rightarrow> get_committee_response" where
  "get_committee_response_new env as_ref sidechain_epoch members =
     \<lparr> resp_sidechain_epoch = sidechain_epoch, resp_committee = map (committee_member_new env \<circ> as_ref) members \<rparr>"

datatype registration_error = StakeError stake_error | InvalidRegistrationData registration_data_error

record candidate_registration_entry =
  entry_sidechain_pub_key :: string
  entry_sidechain_account_id :: string
  entry_mainchain_pub_key :: string
  entry_cross_chain_pub_key :: string
  entry_aura_pub_key :: string
  entry_grandpa_pub_key :: string
  entry_sidechain_signature :: string
  entry_mainchain_signature :: string
  entry_cross_chain_signature :: string
  entry_utxo :: utxo_info
  entry_stake_delegation :: "u64 option"
  entry_is_valid :: bool
  entry_invalid_reasons :: "registration_error option"

definition sidechain_account_ss58 :: "query_env \<Rightarrow> bytes \<Rightarrow> (string, bytes) result" where
  "sidechain_account_ss58 env key =
     rbind (ok_or key (try_array 33 key)) (\<lambda>ecdsa_key. Ok (qe_account_ss58 env ecdsa_key))"

definition registration_entry_new ::
  "query_env \<Rightarrow> registration_data \<Rightarrow> bytes \<Rightarrow> u64 option \<Rightarrow> registration_data_error option
    \<Rightarrow> candidate_registration_entry" where
  "registration_entry_new env reg mc_key stake invalid_reasons =
     \<lparr> entry_sidechain_pub_key = qe_to_hex env (sidechain_pub_key reg),
       entry_sidechain_account_id =
         (case ok (sidechain_account_ss58 env (sidechain_pub_key reg)) of
            Some address \<Rightarrow> address
          | None \<Rightarrow> ''Invalid Sidechain Public Key. Could not decode...''),
       entry_mainchain_pub_key = qe_to_hex env mc_key,
       entry_cross_chain_pub_key = qe_to_hex env (cross_chain_pub_key reg),
       entry_aura_pub_key = qe_to_hex env (aura_pub_key reg),
       entry_grandpa_pub_key = qe_to_hex env (grandpa_pub_key reg),
       entry_sidechain_signature = qe_to_hex env (sidechain_signature reg),
       entry_mainchain_signature = qe_to_hex env (mainchain_signature reg),
       entry_cross_chain_signature = qe_to_hex env (cross_chain_signature reg),
       entry_utxo = reg_utxo_info reg,
       entry_stake_delegation = stake,
       entry_is_valid = (invalid_reasons = None),
       entry_invalid_reasons = map_option InvalidRegistrationData invalid_reasons \<rparr>"

record permissioned_candidate_entry =
  pe_sidechain_public_key :: bytes
  pe_aura_public_key :: bytes
  pe_grandpa_public_key :: bytes
  pe_is_valid :: bool
  pe_invalid_reasons :: "permissioned_candidate_data_error option"

definition permissioned_candidate_entry_new ::
  "raw_permissioned_candidate_data \<Rightarrow> permissioned_candidate_data_error option \<Rightarrow> permissioned_candidate_entry" where
  "permissioned_candidate_entry_new raw invalid_reasons =
     \<lparr> pe_sidechain_public_key = raw_sidechain_public_key raw, pe_aura_public_key = raw_aura_public_key raw,
       pe_grandpa_public_key = raw_grandpa_public_key raw, pe_is_valid = (invalid_reasons = None),
       pe_invalid_reasons = invalid_reasons \<rparr>"

type_synonym registrations_response_map = "string \<rightharpoonup> candidate_registration_entry list"

record ariadne_parameters_response =
  par_d_parameter :: d_parameter
  par_permissioned_candidates :: "permissioned_candidate_entry list"
  par_candidate_registrations :: registrations_response_map

section \<open>The client and its errors\<close>

record ('hash, 'api, 'a) query_client = "('hash, 'api) client" +
  genesis_hash :: 'hash
  best_hash :: 'hash
  current_committee_at :: "'hash \<Rightarrow> (u64 \<times> 'a list, 'api) result"
  next_committee_at :: "'hash \<Rightarrow> ((u64 \<times> 'a list) option, 'api) result"
  scripts_at :: "'hash \<Rightarrow> (main_chain_scripts, 'api) result"
  validate_registered_at :: "'hash \<Rightarrow> bytes \<Rightarrow> registration_data \<Rightarrow> (registration_data_error option, 'api) result"
  validate_stake_at :: "'hash \<Rightarrow> u64 option \<Rightarrow> (stake_error option, 'api) result"
  validate_permissioned_at ::
    "'hash \<Rightarrow> permissioned_candidate_data \<Rightarrow> (permissioned_candidate_data_error option, 'api) result"

text \<open>The queries report every error as text; the constructors name the places where the text is made.\<close>

datatype ('api, 'e) query_error =
  ApiFailed 'api
| SearchFailed "'api api_error"
| OnlyGenesisExists
| EarlierThanInitialEpoch u64
| UnknownCommittee u64
| UnknownNextCommittee u64
| SourceFailed 'e

section \<open>The committee of an epoch\<close>

definition committee_from_api ::
  "query_env \<Rightarrow> ('a \<Rightarrow> bytes) \<Rightarrow> u64 \<Rightarrow> (u64 \<times> 'a list, 'x) result \<Rightarrow> (get_committee_response, 'x) result" where
  "committee_from_api env as_ref epoch_no r =
     rbind r (\<lambda>(_, members). Ok (get_committee_response_new env as_ref epoch_no members))"

definition first_epoch_at :: "('hash, 'api, 'a) query_client \<Rightarrow> (u64, ('api, 'e) query_error) result" where
  "first_epoch_at c =
     rbind (map_err ApiFailed (hash_of_number c 1)) (\<lambda>hash_opt.
     rbind (ok_or OnlyGenesisExists hash_opt) (\<lambda>second_block.
     rbind (map_err ApiFailed (status_at c second_block)) (\<lambda>status. Ok (status_epoch status))))"

definition latest_epoch_for ::
  "('hash, 'api, 'a) query_client \<Rightarrow> u64 \<Rightarrow> (u64, ('api, 'e) query_error) result" where
  "latest_epoch_for c epoch_no =
     rbind (first_epoch_at c) (\<lambda>first_epoch.
     if epoch_no < first_epoch then Err (EarlierThanInitialEpoch epoch_no)
     else rbind (map_err SearchFailed (get_epoch_of_block (client.truncate c) (best_number c))) (\<lambda>epoch_of_latest_block.
       if epoch_no > sc_epoch_next epoch_of_latest_block then Err (UnknownCommittee epoch_no)
       else Ok epoch_of_latest_block))"

definition get_epoch_committee ::
  "query_env \<Rightarrow> ('a \<Rightarrow> bytes) \<Rightarrow> ('hash, 'api, 'a) query_client \<Rightarrow> u64
    \<Rightarrow> (get_committee_response, ('api, 'e) query_error) result option" where
  "get_epoch_committee env as_ref c epoch_no =
     (if epoch_no = 0
      then Some (committee_from_api env as_ref epoch_no (map_err ApiFailed (current_committee_at c (genesis_hash c))))
      else case latest_epoch_for c epoch_no of
        Ok epoch_of_latest_block \<Rightarrow>
          if epoch_no = sc_epoch_next epoch_of_latest_block
          then Some (committee_from_api env as_ref epoch_no
                 (rbind (map_err ApiFailed (next_committee_at c (best_hash c))) (ok_or (UnknownNextCommittee epoch_no))))
          else map_option (\<lambda>found. committee_from_api env as_ref epoch_no
                 (rbind (map_err SearchFailed found) (\<lambda>block_hash. map_err ApiFailed (current_committee_at c block_hash))))
               (find_block (client.truncate c) (any_block_in_epoch epoch_no))
      | Err e \<Rightarrow> Some (Err e)
      | Panic \<Rightarrow> Some Panic)"

section \<open>Registrations of candidates\<close>

fun rposition :: "('x \<Rightarrow> bool) \<Rightarrow> 'x list \<Rightarrow> nat option" where
  "rposition P [] = None"
| "rposition P (x # xs) =
     (case rposition P xs of Some i \<Rightarrow> Some (Suc i) | None \<Rightarrow> if P x then Some 0 else None)"

definition mark_stake_error ::
  "stake_error option \<Rightarrow> candidate_registration_entry list \<Rightarrow> candidate_registration_entry list" where
  "mark_stake_error stake_result entries =
     (case (stake_result, entries) of
        (Some e, first # rest) \<Rightarrow>
          if entry_is_valid first
          then first \<lparr> entry_is_valid := False, entry_invalid_reasons := Some (StakeError e) \<rparr> # rest
          else entries
      | _ \<Rightarrow> entries)"

definition candidate_entries ::
  "query_env \<Rightarrow> (bytes \<Rightarrow> registration_data \<Rightarrow> (registration_data_error option, 'api) result)
    \<Rightarrow> (u64 option \<Rightarrow> (stake_error option, 'api) result) \<Rightarrow> candidate_registrations
    \<Rightarrow> (candidate_registration_entry list, 'api) result" where
  "candidate_entries env validate_reg validate_st candidate =
     rbind (collect (map (\<lambda>reg.
         rbind (validate_reg (mainchain_pub_key candidate) reg) (\<lambda>validation_result.
           Ok (registration_entry_new env reg (mainchain_pub_key candidate) (stake_delegation candidate) validation_result)))
       (registrations candidate))) (\<lambda>entries.
     let sorted_entries = sort_key (\<lambda>entry. ordering_key (entry_utxo entry)) entries;
         latest_valid_or_zero = case_option 0 (\<lambda>i. i) (rposition entry_is_valid sorted_entries);
         remaining = drop latest_valid_or_zero sorted_entries
     in rbind (validate_st (stake_delegation candidate)) (\<lambda>stake_result.
          Ok (mark_stake_error stake_result remaining)))"

fun insert_entries ::
  "query_env \<Rightarrow> (bytes \<Rightarrow> registration_data \<Rightarrow> (registration_data_error option, 'api) result)
    \<Rightarrow> (u64 option \<Rightarrow> (stake_error option, 'api) result) \<Rightarrow> candidate_registrations list \<Rightarrow> registrations_response_map
    \<Rightarrow> (registrations_response_map, 'api) result" where
  "insert_entries env validate_reg validate_st [] response = Ok response"
| "insert_entries env validate_reg validate_st (candidate # rest) response =
     rbind (candidate_entries env validate_reg validate_st candidate) (\<lambda>entries.
       insert_entries env validate_reg validate_st rest
         (response(qe_to_hex env (mainchain_pub_key candidate) \<mapsto> entries)))"

definition get_registrations_response_map ::
  "query_env \<Rightarrow> candidate_registrations list
    \<Rightarrow> (bytes \<Rightarrow> registration_data \<Rightarrow> (registration_data_error option, 'api) result)
    \<Rightarrow> (u64 option \<Rightarrow> (stake_error option, 'api) result) \<Rightarrow> (registrations_response_map, 'api) result" where
  "get_registrations_response_map env candidates validate_reg validate_st =
     insert_entries env validate_reg validate_st candidates Map.empty"

definition registrations_to_rpc_response ::
  "query_env \<Rightarrow> ('hash, 'api, 'a) query_client \<Rightarrow> candidate_registrations list
    \<Rightarrow> (registrations_response_map, ('api, 'e) query_error) result" where
  "registrations_to_rpc_response env c candidates =
     map_err ApiFailed (get_registrations_response_map env candidates
       (validate_registered_at c (best_hash c)) (validate_stake_at c (best_hash c)))"

definition get_candidates_for_epoch ::
  "u32 \<Rightarrow> 'e selection_data_source \<Rightarrow> bytes \<Rightarrow> (candidate_registrations list, ('api, 'e) query_error) result" where
  "get_candidates_for_epoch mainchain_epoch ds address =
     map_err SourceFailed (get_candidates ds mainchain_epoch address)"

definition candidates_registrations_for_epoch ::
  "query_env \<Rightarrow> ('hash, 'api, 'a) query_client \<Rightarrow> 'e selection_data_source \<Rightarrow> u32 \<Rightarrow> bytes
    \<Rightarrow> (registrations_response_map, ('api, 'e) query_error) result" where
  "candidates_registrations_for_epoch env c ds mc_epoch_number address =
     rbind (get_candidates_for_epoch mc_epoch_number ds address) (registrations_to_rpc_response env c)"

definition get_registrations ::
  "query_env \<Rightarrow> ('hash, 'api, 'a) query_client \<Rightarrow> 'e selection_data_source \<Rightarrow> u32 \<Rightarrow> bytes
    \<Rightarrow> (candidate_registration_entry list, ('api, 'e) query_error) result" where
  "get_registrations env c ds mc_epoch_number mc_public_key =
     rbind (map_err ApiFailed (scripts_at c (best_hash c))) (\<lambda>scripts.
     rbind (candidates_registrations_for_epoch env c ds mc_epoch_number (committee_candidate_address scripts))
       (\<lambda>registrations_map. Ok (case registrations_map (qe_to_hex env mc_public_key) of Some es \<Rightarrow> es | None \<Rightarrow> [])))"

definition query_ariadne_parameters ::
  "query_env \<Rightarrow> ('hash, 'api, 'a) query_client \<Rightarrow> 'e selection_data_source \<Rightarrow> u32
    \<Rightarrow> (ariadne_parameters_response, ('api, 'e) query_error) result" where
  "query_ariadne_parameters env c ds epoch_no =
     rbind (map_err ApiFailed (scripts_at c (best_hash c))) (\<lambda>scripts.
     rbind (map_err SourceFailed (get_ariadne_parameters ds epoch_no (d_parameter_policy_id scripts)
              (permissioned_candidates_policy_id scripts))) (\<lambda>response.
     rbind (candidates_registrations_for_epoch env c ds epoch_no (committee_candidate_address scripts))
       (\<lambda>candidate_regs.
     rbind (collect (map (\<lambda>raw.
         rbind (map_err ApiFailed (validate_permissioned_at c (best_hash c)
             \<lparr> perm_sidechain_public_key = raw_sidechain_public_key raw, perm_aura_public_key = raw_aura_public_key raw,
               perm_grandpa_public_key = raw_grandpa_public_key raw \<rparr>))
           (\<lambda>validation_result. Ok (permissioned_candidate_entry_new raw validation_result)))
       (ap_permissioned_candidates response))) (\<lambda>permissioned.
     Ok \<lparr> par_d_parameter = ap_d_parameter response, par_permissioned_candidates = permissioned,
          par_candidate_registrations = candidate_regs \<rparr>))))"

section \<open>RPC methods\<close>

text \<open>\<^verbatim>\<open>ErrorObject::owned\<close> of \<^verbatim>\<open>jsonrpsee\<close> pairs a code with the message.\<close>

definition error_object_from_str :: "'m \<Rightarrow> int \<times> 'm" where
  "error_object_from_str msg = (-1, msg)"

definition rpc_get_epoch_committee ::
  "query_env \<Rightarrow> ('a \<Rightarrow> bytes) \<Rightarrow> ('hash, 'api, 'a) query_client \<Rightarrow> u64
    \<Rightarrow> (get_committee_response, int \<times> ('api, 'e) query_error) result option" where
  "rpc_get_epoch_committee env as_ref c epoch_no =
     map_option (map_err error_object_from_str) (get_epoch_committee env as_ref c epoch_no)"

definition rpc_get_registrations ::
  "query_env \<Rightarrow> ('hash, 'api, 'a) query_client \<Rightarrow> 'e selection_data_source \<Rightarrow> u32 \<Rightarrow> bytes
    \<Rightarrow> (candidate_registration_entry list, int \<times> ('api, 'e) query_error) result" where
  "rpc_get_registrations env c ds mc_epoch_number mc_public_key =
     map_err error_object_from_str (get_registrations env c ds mc_epoch_number mc_public_key)"

definition rpc_get_ariadne_parameters ::
  "query_env \<Rightarrow> ('hash, 'api, 'a) query_client \<Rightarrow> 'e selection_data_source \<Rightarrow> u32
    \<Rightarrow> (ariadne_parameters_response, int \<times> ('api, 'e) query_error) result" where
  "rpc_get_ariadne_parameters env c ds epoch_no =
     map_err error_object_from_str (query_ariadne_parameters env c ds epoch_no)"

section \<open>Runtime API of candidate validation\<close>

definition api_validate_stake :: "u64 option \<Rightarrow> stake_error option" where
  "api_validate_stake stake = err (validate_stake stake)"

definition api_validate_permissioned_candidate_data ::
  "('a, 'k) accounts \<Rightarrow> permissioned_candidate_data \<Rightarrow> permissioned_candidate_data_error option" where
  "api_validate_permissioned_candidate_data acc candidate_data =
     err (validate_permissioned_candidate_data acc candidate_data)"

text \<open>\<open>serves_runtime pr acc c st\<close>: the client answers the runtime API calls at its best block with the functions of
  the runtime in the state \<open>st\<close> of that block.\<close>

definition serves_runtime ::
  "primitives \<Rightarrow> ('a, 'k) accounts \<Rightarrow> ('hash, 'api, 'a) query_client \<Rightarrow> ('a, 'k, 'acc, 's, 'b) runtime_state \<Rightarrow> bool" where
  "serves_runtime pr acc c st \<longleftrightarrow>
     scripts_at c (best_hash c) = Ok (MainChainScriptsConfiguration (committee_of st))
     \<and> validate_registered_at c (best_hash c) = (\<lambda>k reg. Ok (validate_registered_candidate_data pr st k reg))
     \<and> validate_stake_at c (best_hash c) = (\<lambda>s. Ok (api_validate_stake s))
     \<and> validate_permissioned_at c (best_hash c) = (\<lambda>p. Ok (api_validate_permissioned_candidate_data acc p))"

section \<open>The latest valid registration\<close>

lemma sort_key_last_max:
  assumes "max_by_key key xs = Some m"
  shows "\<exists>ys. sort_key key xs = ys @ [m]"
proof -
  obtain ys zs where split: "xs = ys @ m # zs" "\<forall>y \<in> set ys. key y \<le> key m" "\<forall>z \<in> set zs. key z < key m"
    using assms by (rule max_by_key_Some)
  have "sort_key key xs = sort_key key (ys @ zs) @ [m]"
  proof (rule properties_for_sort_key)
    show "mset (sort_key key (ys @ zs) @ [m]) = mset xs"
      by (simp add: split(1))
    show "filter (\<lambda>x. key k = key x) (sort_key key (ys @ zs) @ [m]) = filter (\<lambda>x. key k = key x) xs"
      if "k \<in> set (sort_key key (ys @ zs) @ [m])" for k
    proof (cases "key k = key m")
      case True
      then have "filter (\<lambda>x. key k = key x) zs = []"
        using split(3) by (auto simp: filter_empty_conv)
      then show ?thesis
        using True by (simp add: split(1) sort_key_stable [of key "key m"] eq_commute [of "key m"])
    next
      case False
      then show ?thesis
        using sort_key_stable [of key "key k" "ys @ zs"] by (simp add: split(1) eq_commute [of "key k"])
    qed
    show "sorted (map key (sort_key key (ys @ zs) @ [m]))"
      using split(2,3) by (auto simp: sorted_append intro: less_imp_le)
  qed
  then show ?thesis
    by blast
qed

lemma rposition_None [simp]: "rposition P xs = None \<longleftrightarrow> (\<forall>x \<in> set xs. \<not> P x)"
  by (induction xs) (auto split: option.splits)

lemma rposition_Some:
  "rposition P xs = Some i \<Longrightarrow>
     i < length xs \<and> P (xs ! i) \<and> (\<forall>x \<in> set (drop (Suc i) xs). \<not> P x) \<and> last (filter P xs) = xs ! i"
  by (induction xs arbitrary: i) (auto split: option.splits if_splits simp: filter_empty_conv)

lemma drop_rposition:
  assumes "rposition P xs = Some i"
  shows "\<exists>rest. drop i xs = last (filter P xs) # rest \<and> (\<forall>x \<in> set rest. \<not> P x \<and> x \<in> set xs)"
  using rposition_Some [OF assms] set_drop_subset [of "Suc i" xs] by (auto simp: Cons_nth_drop_Suc [symmetric])

text \<open>The entries that remain for a candidate, when every registration has the outcome \<open>v\<close> of validation.\<close>

lemma collect_Ok: "collect (map (\<lambda>x. Ok (f x)) xs) = Ok (map f xs)"
  by (induction xs) simp_all

lemma sort_key_map: "sort_key key (map f xs) = map f (sort_key (key \<circ> f) xs)"
proof (rule properties_for_sort_key)
  show "filter (\<lambda>x. key k = key x) (map f (sort_key (key \<circ> f) xs)) = filter (\<lambda>x. key k = key x) (map f xs)"
    if "k \<in> set (map f (sort_key (key \<circ> f) xs))" for k
    using sort_key_stable [of "key \<circ> f" "key k" xs] by (simp add: filter_map comp_def eq_commute [of "key k"])
qed (simp_all add: comp_def)

definition reported_entries ::
  "(registration_data \<Rightarrow> candidate_registration_entry) \<Rightarrow> registration_data list \<Rightarrow> candidate_registration_entry list" where
  "reported_entries entry regs =
     (let es = sort_key (\<lambda>x. ordering_key (entry_utxo x)) (map entry regs)
      in drop (case_option 0 (\<lambda>i. i) (rposition entry_is_valid es)) es)"

lemma reported_entries_none_valid:
  assumes "\<forall>reg \<in> set regs. \<not> entry_is_valid (entry reg)"
  shows "\<forall>x \<in> set (reported_entries entry regs). \<not> entry_is_valid x"
proof -
  have none: "rposition entry_is_valid (sort_key (\<lambda>x. ordering_key (entry_utxo x)) (map entry regs)) = None"
    using assms by simp
  show ?thesis
    using assms unfolding reported_entries_def Let_def none by simp
qed

lemma reported_entries_sorted: "sorted (map (\<lambda>x. ordering_key (entry_utxo x)) (reported_entries entry regs))"
  by (simp add: reported_entries_def Let_def drop_map [symmetric])

lemma reported_entries_valid:
  assumes "max_by_key (\<lambda>reg. ordering_key (reg_utxo_info reg)) (filter (\<lambda>reg. entry_is_valid (entry reg)) regs) = Some reg"
    and "\<forall>reg. entry_utxo (entry reg) = reg_utxo_info reg"
  shows "\<exists>newer. reported_entries entry regs = entry reg # newer \<and> (\<forall>x \<in> set newer. \<not> entry_is_valid x)"
proof -
  let ?key = "\<lambda>x. ordering_key (entry_utxo x)"
  let ?sorted = "sort_key ?key (map entry regs)"
  have valid: "reg \<in> set regs" "entry_is_valid (entry reg)"
    using max_by_key_max [OF assms(1)] by auto
  obtain ys where "sort_key (\<lambda>reg. ordering_key (reg_utxo_info reg)) (filter (\<lambda>reg. entry_is_valid (entry reg)) regs) = ys @ [reg]"
    using sort_key_last_max [OF assms(1)] by blast
  then have "filter entry_is_valid ?sorted = map entry ys @ [entry reg]"
    using assms(2) by (simp add: sort_key_map filter_map filter_sort comp_def)
  then have last: "last (filter entry_is_valid ?sorted) = entry reg"
    by simp
  obtain i where i: "rposition entry_is_valid ?sorted = Some i"
    using valid by (cases "rposition entry_is_valid ?sorted") auto
  show ?thesis
    using drop_rposition [OF i] last by (auto simp: reported_entries_def i)
qed

lemma entry_new_simps [simp]:
  "entry_utxo (registration_entry_new env reg k s v) = reg_utxo_info reg"
  "entry_is_valid (registration_entry_new env reg k s v) \<longleftrightarrow> v = None"
  by (simp_all add: registration_entry_new_def)

lemma candidate_entries_Ok:
  "candidate_entries env (\<lambda>k reg. Ok (v k reg)) (\<lambda>s. Ok (vs s)) cr =
     Ok (mark_stake_error (vs (stake_delegation cr))
        (reported_entries (\<lambda>reg. registration_entry_new env reg (mainchain_pub_key cr) (stake_delegation cr)
            (v (mainchain_pub_key cr) reg)) (registrations cr)))"
  by (simp add: candidate_entries_def collect_Ok reported_entries_def Let_def split: option.splits)

lemma insert_entries_Ok:
  assumes "\<forall>cr \<in> set crs. candidate_entries env vr vs cr = Ok (f cr)" "inj (qe_to_hex env)" "distinct (map mainchain_pub_key crs)"
  shows "\<exists>m'. insert_entries env vr vs crs m = Ok m' \<and> (\<forall>cr \<in> set crs. m' (qe_to_hex env (mainchain_pub_key cr)) = Some (f cr))
     \<and> (\<forall>k. k \<notin> mainchain_pub_key ` set crs \<longrightarrow> m' (qe_to_hex env k) = m (qe_to_hex env k))"
  using assms(1,3)
proof (induction crs arbitrary: m)
  case (Cons cr crs)
  let ?m = "m(qe_to_hex env (mainchain_pub_key cr) \<mapsto> f cr)"
  obtain m' where m': "insert_entries env vr vs crs ?m = Ok m'"
      "\<forall>cr \<in> set crs. m' (qe_to_hex env (mainchain_pub_key cr)) = Some (f cr)"
      "\<forall>k. k \<notin> mainchain_pub_key ` set crs \<longrightarrow> m' (qe_to_hex env k) = ?m (qe_to_hex env k)"
    using Cons.IH [of ?m] Cons.prems(1,2) unfolding list.set distinct.simps list.map by blast
  then show ?case
    using Cons.prems injD [OF assms(2)] by (intro exI [of _ m']) (auto simp: fun_upd_def)
qed simp

lemma get_registrations_eq:
  assumes "serves_runtime pr acc c st" "get_candidates ds e (committee_candidate_address (MainChainScriptsConfiguration (committee_of st))) = Ok crs"
    and "inj (qe_to_hex env)" "distinct (map mainchain_pub_key crs)" "cr \<in> set crs"
  shows "get_registrations env c ds e (mainchain_pub_key cr) =
    Ok (mark_stake_error (err (validate_stake (stake_delegation cr)))
      (reported_entries (\<lambda>reg. registration_entry_new env reg (mainchain_pub_key cr) (stake_delegation cr)
         (err (validate_registration_data pr (mainchain_pub_key cr) reg (genesis_utxo (sidechain_st st))))) (registrations cr)))"
  (is "_ = Ok (?f cr)")
proof -
  let ?vr = "\<lambda>k reg. Ok (validate_registered_candidate_data pr st k reg)"
  let ?vs = "\<lambda>s. Ok (api_validate_stake s)"
  have "\<forall>cr \<in> set crs. candidate_entries env ?vr ?vs cr = Ok (?f cr)"
    unfolding candidate_entries_Ok validate_registered_candidate_data_def api_validate_stake_def by simp
  from insert_entries_Ok [OF this assms(3,4), of Map.empty] show ?thesis
    using assms(1,2,5)
    by (auto simp: get_registrations_def serves_runtime_def candidates_registrations_for_epoch_def
        get_candidates_for_epoch_def registrations_to_rpc_response_def get_registrations_response_map_def)
qed

lemma err_validate_registration: "err (validate_registration_data pr k reg g) = None \<longleftrightarrow> registration_valid pr k reg g"
  using validate_registration_data_no_panic [of pr k reg g] validate_registration_data_Ok [of pr k reg g]
  by (cases "validate_registration_data pr k reg g") auto

lemma max_by_key_map: "max_by_key key (map f xs) = map_option f (max_by_key (key \<circ> f) xs)"
proof (cases xs)
  case (Cons a as)
  have "foldl (\<lambda>best y. if key best \<le> key y then y else best) (f b) (map f as)
      = f (foldl (\<lambda>best y. if key (f best) \<le> key (f y) then y else best) b as)" for b
    by (induction as arbitrary: b) simp_all
  then show ?thesis
    by (simp add: Cons)
qed simp

lemma select_latest_valid_max:
  "select_latest_valid_candidate pr acc cr g =
     (case stake_delegation cr of
        None \<Rightarrow> None
      | Some s \<Rightarrow> if s = 0 then None
          else map_option (\<lambda>reg. \<lparr> cws_candidate = \<lparr> account_id = from_ecdsa acc (sidechain_pub_key reg),
                   account_keys = from_keys acc (aura_pub_key reg, grandpa_pub_key reg) \<rparr>, cws_stake_delegation = s \<rparr>)
            (max_by_key (\<lambda>reg. ordering_key (reg_utxo_info reg))
               (filter (\<lambda>reg. registration_valid pr (mainchain_pub_key cr) reg g) (registrations cr))))"
proof -
  have "max_by_key (\<lambda>(_, info). ordering_key info) (map (\<lambda>reg. (registration_candidate reg, reg_utxo_info reg)) regs)
      = map_option (\<lambda>reg. (registration_candidate reg, reg_utxo_info reg))
          (max_by_key (\<lambda>reg. ordering_key (reg_utxo_info reg)) regs)" for regs
    using max_by_key_map [of "\<lambda>(_, info). ordering_key info" "\<lambda>reg. (registration_candidate reg, reg_utxo_info reg)" regs]
    by (simp add: comp_def)
  then show ?thesis
    by (auto simp: select_latest_valid_candidate_def valid_registrations_map_filter validate_stake_def stake_is_zero_def
        registration_candidate_def option.map_comp comp_def map_option_case split: option.splits)
qed

lemma mark_stake_error_simps [simp]:
  "mark_stake_error None es = es"
  "entry_is_valid e \<Longrightarrow> mark_stake_error (Some x) (e # es)
     = e \<lparr> entry_is_valid := False, entry_invalid_reasons := Some (StakeError x) \<rparr> # es"
  by (simp_all add: mark_stake_error_def)

lemma mark_stake_error_invalid:
  "\<forall>e \<in> set es. \<not> entry_is_valid e \<Longrightarrow> mark_stake_error r es = es"
  by (auto simp: mark_stake_error_def split: option.splits list.splits)

section \<open>Correctness\<close>

text \<open>C28. The registrations reported for a candidate agree with the committee selection on the same data: when the
  selection drops the candidate, no reported registration is valid; when it keeps the candidate, the report starts with
  the valid registration from which the selection takes the account and the keys, and only invalid registrations that
  are not older follow it.\<close>

theorem registrations_agree_with_selection:
  assumes "serves_runtime pr acc c st"
    and "get_candidates ds e (committee_candidate_address (MainChainScriptsConfiguration (committee_of st))) = Ok crs"
    and "inj (qe_to_hex env)" "distinct (map mainchain_pub_key crs)" "cr \<in> set crs"
  shows "\<exists>es. get_registrations env c ds e (mainchain_pub_key cr) = Ok es
    \<and> (case select_latest_valid_candidate pr acc cr (genesis_utxo (sidechain_st st)) of
         None \<Rightarrow> \<forall>x \<in> set es. \<not> entry_is_valid x
       | Some cand \<Rightarrow> \<exists>reg \<in> set (registrations cr). \<exists>newer.
           es = registration_entry_new env reg (mainchain_pub_key cr) (Some (cws_stake_delegation cand)) None # newer
           \<and> cws_candidate cand = \<lparr> account_id = from_ecdsa acc (sidechain_pub_key reg),
               account_keys = from_keys acc (aura_pub_key reg, grandpa_pub_key reg) \<rparr>
           \<and> (\<forall>x \<in> set newer. \<not> entry_is_valid x \<and> ordering_key (reg_utxo_info reg) \<le> ordering_key (entry_utxo x)))"
proof -
  let ?g = "genesis_utxo (sidechain_st st)"
  let ?entry = "\<lambda>reg. registration_entry_new env reg (mainchain_pub_key cr) (stake_delegation cr)
      (err (validate_registration_data pr (mainchain_pub_key cr) reg ?g))"
  let ?es = "reported_entries ?entry (registrations cr)"
  let ?best = "max_by_key (\<lambda>reg. ordering_key (reg_utxo_info reg))
      (filter (\<lambda>reg. registration_valid pr (mainchain_pub_key cr) reg ?g) (registrations cr))"
  note result = get_registrations_eq [OF assms]
  show ?thesis
  proof (cases ?best)
    case None
    then have "\<forall>x \<in> set ?es. \<not> entry_is_valid x"
      by (intro reported_entries_none_valid) (simp add: err_validate_registration filter_empty_conv)
    then show ?thesis
      using None by (simp add: result mark_stake_error_invalid select_latest_valid_max split: option.split)
  next
    case (Some reg)
    have reg: "reg \<in> set (registrations cr)" "registration_valid pr (mainchain_pub_key cr) reg ?g"
      using max_by_key_max [OF Some] by auto
    have "\<exists>newer. ?es = ?entry reg # newer \<and> (\<forall>x \<in> set newer. \<not> entry_is_valid x)"
      using Some by (intro reported_entries_valid) (simp_all add: err_validate_registration)
    then obtain newer where es: "?es = ?entry reg # newer" "\<forall>x \<in> set newer. \<not> entry_is_valid x"
      by blast
    have order: "\<forall>x \<in> set newer. ordering_key (reg_utxo_info reg) \<le> ordering_key (entry_utxo x)"
      using reported_entries_sorted [of ?entry "registrations cr"] by (simp add: es(1))
    have new: "?entry reg = registration_entry_new env reg (mainchain_pub_key cr) (stake_delegation cr) None"
      using reg(2) by (simp add: err_validate_registration [THEN iffD2])
    have out: "get_registrations env c ds e (mainchain_pub_key cr) = Ok (mark_stake_error (err (validate_stake (stake_delegation cr)))
        (registration_entry_new env reg (mainchain_pub_key cr) (stake_delegation cr) None # newer))"
      unfolding result es(1) new ..
    show ?thesis
    proof (cases "validate_stake (stake_delegation cr)")
      case (Ok s)
      then have "get_registrations env c ds e (mainchain_pub_key cr)
          = Ok (registration_entry_new env reg (mainchain_pub_key cr) (stake_delegation cr) None # newer)"
        by (simp only: out err.simps mark_stake_error_simps)
      then show ?thesis
        using Ok Some reg(1) es(2) order by (auto simp: select_latest_valid_max)
    next
      case (Err x)
      then have "stake_delegation cr = None \<or> stake_delegation cr = Some 0"
        by (auto simp: validate_stake_def stake_is_zero_def split: option.splits if_splits)
      then show ?thesis
        using es(2) unfolding out Err err.simps by (auto simp: select_latest_valid_max)
    next
      case Panic
      then show ?thesis
        by (simp add: validate_stake_def split: option.splits if_splits)
    qed
  qed
qed

definition demo_query_env :: query_env where
  "demo_query_env = \<lparr> qe_to_hex = (\<lambda>b. ''0x'' @ hex_encode b), qe_account_ss58 = hex_encode \<rparr>"

definition demo_number_accounts :: "(nat, nat) accounts" where
  "demo_number_accounts = \<lparr> from_ecdsa = (\<lambda>b. unat (hd b)),
     try_from_sidechain_key = (\<lambda>b. if length b = 33 then Some (unat (hd b)) else None),
     from_keys = (\<lambda>(aura, _). unat (hd aura)) \<rparr>"

definition demo_query_client :: "(nat, unit, nat) query_client" where
  "demo_query_client = client.extend demo_client
     (query_client.fields 0 5 (\<lambda>n. Ok (of_nat (n div 2), [n])) (\<lambda>n. Ok (Some (of_nat (n div 2) + 1, [n + 1])))
       (\<lambda>_. Ok (MainChainScriptsConfiguration (committee_of demo_chain)))
       (\<lambda>_ k reg. Ok (validate_registered_candidate_data demo_primitives demo_chain k reg))
       (\<lambda>_ s. Ok (api_validate_stake s))
       (\<lambda>_ p. Ok (api_validate_permissioned_candidate_data demo_number_accounts p)))"

lemma demo_query_client_simps:
  "client.truncate demo_query_client = demo_client" "best_hash demo_query_client = 5" "genesis_hash demo_query_client = 0"
  "current_committee_at demo_query_client n = Ok (of_nat (n div 2), [n])"
  "next_committee_at demo_query_client n = Ok (Some (of_nat (n div 2) + 1, [n + 1]))"
  "best_number demo_query_client = 5" "hash_of_number demo_query_client = hash_of_number demo_client"
  by (simp_all add: demo_query_client_def client.defs query_client.defs demo_client_def)

lemma demo_query_client_serves: "serves_runtime demo_primitives demo_number_accounts demo_query_client demo_chain"
  by (simp add: serves_runtime_def demo_query_client_def client.defs query_client.defs)

lemma inj_demo_to_hex: "inj (qe_to_hex demo_query_env)"
proof (rule injI)
  fix a b
  assume "qe_to_hex demo_query_env a = qe_to_hex demo_query_env b"
  then have "hex_decode (hex_encode a) = hex_decode (hex_encode b)"
    by (simp add: demo_query_env_def)
  then show "a = b"
    by simp
qed

definition demo_candidates_source :: "unit selection_data_source" where
  "demo_candidates_source = \<lparr> get_ariadne_parameters = (\<lambda>_ _ _. Err ()), get_candidates = (\<lambda>_ _. Ok [demo_candidate]),
     get_epoch_nonce = (\<lambda>_. Ok None), data_epoch = Ok \<rparr>"

theorem registrations_agree_with_selection_witness:
  "\<exists>newer. get_registrations demo_query_env demo_query_client demo_candidates_source 7 (mainchain_pub_key demo_candidate)
     = (Ok (registration_entry_new demo_query_env (demo_registration 8 2) (replicate 32 9) (Some 1000) None # newer)
         :: (_, (unit, unit) query_error) result)"
proof -
  have cand: "select_latest_valid_candidate demo_primitives demo_number_accounts demo_candidate (genesis_utxo (sidechain_st demo_chain))
      = Some \<lparr> cws_candidate = \<lparr> account_id = 2, account_keys = 2 \<rparr>, cws_stake_delegation = 1000 \<rparr>"
    by (simp add: select_latest_valid_max demo_candidate_def demo_registration_valid)
       (simp add: demo_registration_def demo_number_accounts_def ordering_key_def less_eq_utxo_info_ordering_key_def)
  have parts: "mainchain_pub_key demo_candidate = replicate 32 9"
      "registrations demo_candidate = [demo_registration 8 2, demo_registration 7 1]"
      "from_ecdsa demo_number_accounts (sidechain_pub_key (demo_registration n b)) = unat b" for n b
    by (simp_all add: demo_candidate_def demo_number_accounts_def demo_registration_def)
  have "get_candidates demo_candidates_source 7 address = Ok [demo_candidate]" for address
    by (simp add: demo_candidates_source_def)
  from registrations_agree_with_selection [OF demo_query_client_serves this inj_demo_to_hex, of demo_candidate]
  show ?thesis
    by (auto simp: cand parts)
qed

lemma truncate_client_simps [simp]:
  "best_number (client.truncate c) = best_number c" "hash_of_number (client.truncate c) = hash_of_number c"
  "status_at (client.truncate c) = status_at c"
  by (simp_all add: client.truncate_def)

lemma epoch_of_block_Ok:
  assumes "get_epoch_of_block (client.truncate c) n = Ok x"
  shows "\<exists>h s. hash_of_number c n = Ok (Some h) \<and> status_at c h = Ok s \<and> status_epoch s = x"
proof -
  obtain o' where o': "hash_of_number c n = Ok o'"
    using assms by (cases "hash_of_number c n") (simp_all add: get_epoch_of_block_def)
  then obtain h where h: "o' = Some h"
    using assms by (cases o') (simp_all add: get_epoch_of_block_def)
  then show ?thesis
    using assms o' by (cases "status_at c h") (simp_all add: get_epoch_of_block_def)
qed

lemma latest_epoch_for_eq:
  assumes "block_values (client.truncate c) get_epoch_of_block v" "1 \<le> best_number c"
  shows "latest_epoch_for c n =
    (if n < v 1 then Err (EarlierThanInitialEpoch n)
     else if n > sc_epoch_next (v (best_number c)) then Err (UnknownCommittee n) else Ok (v (best_number c)))"
proof -
  have best: "get_epoch_of_block (client.truncate c) (best_number c) = Ok (v (best_number c))"
    and "get_epoch_of_block (client.truncate c) 1 = Ok (v 1)"
    using assms by (simp_all add: block_values_def)
  then show ?thesis
    using epoch_of_block_Ok [of c 1 "v 1"] by (auto simp: latest_epoch_for_def first_epoch_at_def)
qed

lemma find_block_of_epoch:
  assumes "block_values (client.truncate c) get_epoch_of_block v" "unat (best_number c) + 1 < 2 ^ 31"
  shows "\<exists>r. find_block (client.truncate c) (any_block_in_epoch n) = Some r
    \<and> (if \<exists>m. 1 \<le> m \<and> m \<le> best_number c \<and> v m = n
       then \<exists>m h. 1 \<le> m \<and> m \<le> best_number c \<and> v m = n \<and> hash_of_number c m = Ok (Some h) \<and> r = Ok h
       else r = Err Application)"
proof -
  let ?c = "client.truncate c"
  let ?A = "{m. 1 \<le> m \<and> m \<le> best_number c \<and> v m = n}"
  have acc: "accepted (\<lambda>b. any_block_in_epoch n b ?c) (best_number c) = ?A"
    using any_block_in_epoch_searchable(2) [OF assms(1), of n] by simp
  obtain r where r: "find_block_number ?c (any_block_in_epoch n) = Some r"
      "case r of Ok m \<Rightarrow> m \<in> ?A | Err _ \<Rightarrow> ?A = {} | Panic \<Rightarrow> False"
    using find_block_number_spec [of "any_block_in_epoch n" ?c, OF any_block_in_epoch_searchable(1) [OF assms(1)]] assms(2)
    unfolding truncate_client_simps acc by blast
  show ?thesis
  proof (cases r)
    case (Ok m)
    then have m: "1 \<le> m" "m \<le> best_number c" "v m = n"
      using r(2) by auto
    then have "get_epoch_of_block ?c m = Ok n"
      using assms(1) by (simp add: block_values_def)
    then obtain h where "hash_of_number c m = Ok (Some h)"
      using epoch_of_block_Ok by blast
    then show ?thesis
      using r(1) Ok m by (auto simp: find_block_def)
  next
    case (Err e)
    moreover have "e = Application"
      using r(1) Err by (auto simp: find_block_number_def)
    ultimately show ?thesis
      using r by (auto simp: find_block_def)
  qed (use r in simp)
qed



end
