(* ===== verification/SidechainRpc.thy ===== *)
theory SidechainRpc
  imports Prelude MainchainEpoch SidechainSlots Domain
begin

text \<open>
  The status methods of the node's RPC: \<^verbatim>\<open>toolkit/pallets/sidechain/rpc/src/lib.rs\<close>.

  A value of \<open>sidechain_rpc\<close> holds what the service reads: the runtime calls at the best block, the configuration of
  main chain epochs, the latest main chain block of the data source and the current time.  The conversions of
  \<^verbatim>\<open>sp_consensus_slots::Slot\<close> and the number of JSON-RPC's internal error are parameters.  The lemmas state the exact
  times the status reports.
\<close>

section \<open>Service\<close>

datatype 'x get_status_error =
  CannotConvertSidechainSlotToTimestamp
| CannotConvertTimestampToMainchainData
| GetLatestBlockFailed 'x

record ('api, 'x) sidechain_rpc =
  rpc_genesis_utxo :: "(utxo_id, 'api) result"
  rpc_slot_config :: "(sc_slot_config, 'api) result"
  rpc_mc_epoch_config :: mainchain_epoch_config
  rpc_latest_block_info :: "(mainchain_block, 'x) result"
  rpc_current_time_millis :: u64

record slot_conversions =
  conv_from_timestamp :: "u64 \<Rightarrow> u64 \<Rightarrow> u64"
  conv_timestamp :: "u64 \<Rightarrow> u64 \<Rightarrow> u64 option"
  internal_error_code :: int

datatype ('api, 'x) rpc_message = ApiMessage 'api | StatusMessage "'x get_status_error"

record sidechain_data =
  sd_epoch :: u64
  sd_slot :: u64
  sd_next_epoch_timestamp :: u64

record mainchain_data =
  md_epoch :: u32
  md_slot :: u64
  md_next_epoch_timestamp :: u64

record get_status_response =
  status_sidechain :: sidechain_data
  status_mainchain :: mainchain_data

definition rpc_error_object_from :: "'api \<Rightarrow> int \<times> ('api, 'x) rpc_message" where
  "rpc_error_object_from e = (-1, ApiMessage e)"

definition status_error_object :: "'x get_status_error \<Rightarrow> int \<times> ('api, 'x) rpc_message" where
  "status_error_object e = (-1, StatusMessage e)"

definition get_params :: "('api, 'x) sidechain_rpc \<Rightarrow> (utxo_id, int \<times> ('api, 'x) rpc_message) result" where
  "get_params rpc = map_err rpc_error_object_from (rpc_genesis_utxo rpc)"

definition get_status ::
  "slot_conversions \<Rightarrow> ('api, 'x) sidechain_rpc \<Rightarrow> (get_status_response, int \<times> ('api, 'x) rpc_message) result" where
  "get_status conv rpc =
     rbind (map_err rpc_error_object_from (rpc_slot_config rpc)) (\<lambda>slot_config.
     let current_sidechain_slot = slot_from_timestamp (conv_from_timestamp conv) slot_config (rpc_current_time_millis rpc) in
     rbind (expect (config_epoch_number slot_config current_sidechain_slot)) (\<lambda>current_sidechain_epoch.
     rbind (ok_or (status_error_object CannotConvertSidechainSlotToTimestamp)
              (epoch_start_time (conv_timestamp conv) slot_config (sc_epoch_next current_sidechain_epoch)))
       (\<lambda>next_sidechain_epoch_timestamp.
     rbind (map_err (\<lambda>e. (internal_error_code conv, StatusMessage (GetLatestBlockFailed e))) (rpc_latest_block_info rpc))
       (\<lambda>latest_mainchain_block.
     Ok \<lparr> status_sidechain = \<lparr> sd_epoch = current_sidechain_epoch, sd_slot = current_sidechain_slot,
              sd_next_epoch_timestamp = next_sidechain_epoch_timestamp \<rparr>,
          status_mainchain = \<lparr> md_epoch = mc_epoch latest_mainchain_block, md_slot = mc_slot latest_mainchain_block,
              md_next_epoch_timestamp =
                mainchain_epoch_to_timestamp (rpc_mc_epoch_config rpc) (mc_epoch_next (mc_epoch latest_mainchain_block)) \<rparr> \<rparr>))))"

text \<open>\<open>slot_laws conv\<close>: the slot of a time is the number of whole slot durations before it, and the time of a slot is
  their product, if it fits.\<close>

definition slot_laws :: "slot_conversions \<Rightarrow> bool" where
  "slot_laws conv \<longleftrightarrow> (\<forall>t d. d \<noteq> 0 \<longrightarrow> conv_from_timestamp conv t d = t div d)
     \<and> (\<forall>s d. conv_timestamp conv s d = checked_mul d s)"

section \<open>Correctness\<close>

lemma epoch_of_time:
  assumes "slot_laws conv" "config_slots_per_epoch cfg \<noteq> 0" "config_slot_duration cfg \<noteq> 0"
  shows "\<exists>e. config_epoch_number cfg (slot_from_timestamp (conv_from_timestamp conv) cfg t) = Some e
     \<and> unat e = unat t div (unat (config_slot_duration cfg) * unat (config_slots_per_epoch cfg))"
proof -
  have "slot_from_timestamp (conv_from_timestamp conv) cfg t = t div config_slot_duration cfg"
    using assms(1,3) by (simp add: slot_laws_def slot_from_timestamp_def)
  then show ?thesis
    using epoch_number_eq [OF assms(2), of "t div config_slot_duration cfg"]
    by (simp add: config_epoch_number_def unat_div_word div_mult2_eq)
qed

lemma next_multiple:
  fixes t w :: nat
  assumes "0 < w"
  shows "t < (t div w + 1) * w" "(t div w + 1) * w \<le> t + w"
  using dividend_less_div_times [OF assms, of t] div_times_less_eq_dividend [of t w] by simp_all

text \<open>C33. The status is reported whenever the runtime and the data source answer and the start of the next partner
  chain epoch fits in 64 bits: the epoch and the slot are those of the current time, the next epoch starts strictly after
  the current time, at most the length of an epoch later and at a multiple of that length.  The main chain part is the
  latest block's, and its next epoch is timed from the first epoch timestamp with the epoch number itself, whatever
  number the first epoch has.\<close>

theorem get_status_times:
  assumes "slot_laws conv" "rpc_slot_config rpc = Ok cfg" "rpc_latest_block_info rpc = Ok b"
    and "config_slots_per_epoch cfg \<noteq> 0" "config_slot_duration cfg \<noteq> 0"
    and "unat (rpc_current_time_millis rpc) + unat (config_slot_duration cfg) * unat (config_slots_per_epoch cfg) < 2 ^ 64"
  defines "now \<equiv> unat (rpc_current_time_millis rpc)"
    and "epoch_length \<equiv> unat (config_slot_duration cfg) * unat (config_slots_per_epoch cfg)"
  shows "\<exists>s. get_status conv rpc = Ok s
     \<and> unat (sd_epoch (status_sidechain s)) = now div epoch_length
     \<and> unat (sd_slot (status_sidechain s)) = now div unat (config_slot_duration cfg)
     \<and> now < unat (sd_next_epoch_timestamp (status_sidechain s))
     \<and> unat (sd_next_epoch_timestamp (status_sidechain s)) \<le> now + epoch_length
     \<and> epoch_length dvd unat (sd_next_epoch_timestamp (status_sidechain s))
     \<and> md_epoch (status_mainchain s) = mc_epoch b \<and> md_slot (status_mainchain s) = mc_slot b
     \<and> md_next_epoch_timestamp (status_mainchain s) = first_epoch_timestamp_millis (rpc_mc_epoch_config rpc)
         + epoch_duration_millis (rpc_mc_epoch_config rpc) * ucast (mc_epoch b + 1)"
proof -
  let ?d = "config_slot_duration cfg" and ?n = "config_slots_per_epoch cfg"
  have len: "0 < epoch_length" "0 < unat ?d" "0 < unat ?n"
    using assms(4,5) by (simp_all add: epoch_length_def unat_gt_0)
  obtain e where e: "config_epoch_number cfg (slot_from_timestamp (conv_from_timestamp conv) cfg (rpc_current_time_millis rpc)) = Some e"
      "unat e = now div epoch_length"
    using epoch_of_time [OF assms(1,4,5)] unfolding now_def epoch_length_def by blast
  have bounds: "now < (unat e + 1) * epoch_length" "(unat e + 1) * epoch_length \<le> now + epoch_length"
    using next_multiple [OF len(1), of now] e(2) by simp_all
  then have fits: "(unat e + 1) * epoch_length < 2 ^ 64"
    using assms(6) unfolding now_def epoch_length_def by linarith
  have "unat ?n \<le> epoch_length" "1 \<le> epoch_length"
    using len by (simp_all add: epoch_length_def Suc_le_eq)
  then have le: "(unat e + 1) * unat ?n \<le> (unat e + 1) * epoch_length" "unat e + 1 \<le> (unat e + 1) * epoch_length"
    using mult_le_mono2 [of _ epoch_length "unat e + 1"] by (simp, metis mult.right_neutral)
  then have "unat (e + 1) = unat e + 1"
    using fits by (intro unat_add_no_wrap [THEN trans]) simp_all
  then have first: "unat (config_first_slot_number cfg (e + 1)) = (unat e + 1) * unat ?n"
    using unat_sc_first_slot_number [of "e + 1" ?n] le(1) fits by (simp add: config_first_slot_number_def)
  have prod: "unat ?d * ((unat e + 1) * unat ?n) = (unat e + 1) * epoch_length"
    by (simp add: epoch_length_def algebra_simps)
  obtain ts where ts: "epoch_start_time (conv_timestamp conv) cfg (sc_epoch_next e) = Some ts"
      "unat ts = (unat e + 1) * epoch_length"
    using assms(1) fits first prod
    by (auto simp: epoch_start_time_def slot_laws_def sc_epoch_next_def checked_mul_def unat_mult_no_wrap)
  have slot: "unat (slot_from_timestamp (conv_from_timestamp conv) cfg (rpc_current_time_millis rpc)) = now div unat ?d"
    using assms(1,5) by (simp add: slot_laws_def slot_from_timestamp_def now_def unat_div_word)
  show ?thesis
    using bounds by (simp add: get_status_def Let_def assms(2,3) e ts slot mainchain_epoch_to_timestamp_def mc_epoch_next_def)
qed

definition demo_conversions :: slot_conversions where
  "demo_conversions = \<lparr> conv_from_timestamp = (\<lambda>t d. t div d), conv_timestamp = (\<lambda>s d. checked_mul d s), internal_error_code = -32603 \<rparr>"

definition demo_rpc :: "(unit, unit) sidechain_rpc" where
  "demo_rpc = \<lparr> rpc_genesis_utxo = Err (), rpc_slot_config = Ok \<lparr> config_slots_per_epoch = 60, config_slot_duration = 6000 \<rparr>,
     rpc_mc_epoch_config = cardano_preprod,
     rpc_latest_block_info = Ok \<lparr> mc_number = 7, mc_hash = [], mc_epoch = 5, mc_slot = 900, mc_timestamp = 1000 \<rparr>,
     rpc_current_time_millis = 1000000 \<rparr>"

theorem get_status_times_witness:
  "\<exists>s. get_status demo_conversions demo_rpc = Ok s \<and> unat (sd_epoch (status_sidechain s)) = 2
     \<and> 1000000 < unat (sd_next_epoch_timestamp (status_sidechain s))
     \<and> unat (sd_next_epoch_timestamp (status_sidechain s)) \<le> 1360000"
  using get_status_times [of demo_conversions demo_rpc "\<lparr> config_slots_per_epoch = 60, config_slot_duration = 6000 \<rparr>"
      "\<lparr> mc_number = 7, mc_hash = [], mc_epoch = 5, mc_slot = 900, mc_timestamp = 1000 \<rparr>"]
  by (auto simp: demo_conversions_def demo_rpc_def slot_laws_def)

end
