(* ===== verification/RegistrationSignatures.thy ===== *)
theory RegistrationSignatures
  imports Prelude Domain PlutusDatum FilterCandidates
begin

text \<open>
  Signing of registrations: the command and the signing functions of \<^verbatim>\<open>toolkit/cli/commands/src\<close>, which the registration
  \<^verbatim>\<open>toolkit/partner-chains-cli/src/register\<close>.

  Key types, signing and hashing of the \<^verbatim>\<open>ed25519-zebra\<close>, \<^verbatim>\<open>secp256k1\<close> and \<^verbatim>\<open>blake2\<close> crates are gathered in the record
  \<open>signing\<close>; \<open>signing_laws\<close> states what they have in common with the verifying functions of the runtime.  The lemmas
  show that what the commands sign is what the runtime checks.
\<close>

section \<open>Keys\<close>

record ('mk, 'sk) signing =
  ed25519_sign :: "'mk \<Rightarrow> bytes \<Rightarrow> bytes"
  ed25519_verification_key :: "'mk \<Rightarrow> bytes"
  ed25519_from_bytes :: "bytes \<Rightarrow> 'mk option"
  secp_sign_compact :: "'sk \<Rightarrow> bytes \<Rightarrow> bytes"
  secp_public_serialized :: "'sk \<Rightarrow> bytes"
  secp_secret_from_str :: "string \<Rightarrow> 'sk option"
  secp_public_from_str :: "string \<Rightarrow> bytes option"
  blake2_256 :: "bytes \<Rightarrow> bytes"

datatype key_error = Secp256k1Error | HexError | Ed25519Error

text \<open>\<^verbatim>\<open>str::trim_start_matches\<close> removes the pattern as often as it occurs at the start.\<close>

fun trim_start_0x :: "string \<Rightarrow> string" where
  "trim_start_0x (c # d # s) = (if c = CHR ''0'' \<and> d = CHR ''x'' then trim_start_0x s else c # d # s)"
| "trim_start_0x s = s"

definition sidechain_signing_key_from_str :: "('mk, 'sk) signing \<Rightarrow> string \<Rightarrow> ('sk, key_error) result" where
  "sidechain_signing_key_from_str sg s = ok_or Secp256k1Error (secp_secret_from_str sg (trim_start_0x s))"

definition sidechain_public_key_display :: "(bytes \<Rightarrow> string) \<Rightarrow> bytes \<Rightarrow> string" where
  "sidechain_public_key_display to_hex key = ''0x'' @ to_hex key"

definition sidechain_public_key_from_str :: "('mk, 'sk) signing \<Rightarrow> string \<Rightarrow> (bytes, key_error) result" where
  "sidechain_public_key_from_str sg s = ok_or Secp256k1Error (secp_public_from_str sg (trim_start_0x s))"

definition mainchain_signing_key_from_str ::
  "('mk, 'sk) signing \<Rightarrow> (string \<Rightarrow> bytes option) \<Rightarrow> string \<Rightarrow> ('mk, key_error) result" where
  "mainchain_signing_key_from_str sg from_hex s =
     rbind (ok_or HexError (from_hex (trim_start_0x s))) (\<lambda>bs. ok_or Ed25519Error (ed25519_from_bytes sg bs))"

section \<open>Signing\<close>

definition datum_hash :: "primitives \<Rightarrow> ('mk, 'sk) signing \<Rightarrow> datum \<Rightarrow> bytes" where
  "datum_hash pr sg msg = blake2_256 sg (to_datum_cbor_bytes (cbor_emit pr) (to_bytes_be pr) msg)"

definition sc_public_key_and_signature :: "('mk, 'sk) signing \<Rightarrow> 'sk \<Rightarrow> bytes \<Rightarrow> (bytes \<times> bytes) may_panic" where
  "sc_public_key_and_signature sg key hashed =
     map_option (\<lambda>message. (secp_public_serialized sg key, secp_sign_compact sg key message)) (try_array 32 hashed)"

definition sc_public_key_and_signature_for_datum ::
  "primitives \<Rightarrow> ('mk, 'sk) signing \<Rightarrow> 'sk \<Rightarrow> datum \<Rightarrow> (bytes \<times> bytes) may_panic" where
  "sc_public_key_and_signature_for_datum pr sg key msg = sc_public_key_and_signature sg key (datum_hash pr sg msg)"

definition mainchain_public_key_and_signature ::
  "primitives \<Rightarrow> ('mk, 'sk) signing \<Rightarrow> 'mk \<Rightarrow> datum \<Rightarrow> bytes \<times> bytes" where
  "mainchain_public_key_and_signature pr sg key msg =
     (let message = to_datum_cbor_bytes (cbor_emit pr) (to_bytes_be pr) msg
      in (ed25519_verification_key sg key, ed25519_sign sg key message))"

section \<open>The registration-signatures command\<close>

record register_validator_message =
  rvm_genesis_utxo :: utxo_id
  rvm_sidechain_pub_key :: bytes
  rvm_input_utxo :: utxo_id

definition register_validator_message_to_datum :: "register_validator_message \<Rightarrow> datum" where
  "register_validator_message_to_datum m =
     ConstructorDatum 0 [utxo_id_to_datum (rvm_genesis_utxo m), bytes_to_datum (rvm_sidechain_pub_key m),
       utxo_id_to_datum (rvm_input_utxo m)]"

definition register_validator_message_new ::
  "('mk, 'sk) signing \<Rightarrow> utxo_id \<Rightarrow> 'sk \<Rightarrow> utxo_id \<Rightarrow> register_validator_message" where
  "register_validator_message_new sg genesis key input =
     \<lparr> rvm_genesis_utxo = genesis, rvm_sidechain_pub_key = secp_public_serialized sg key, rvm_input_utxo = input \<rparr>"

record registration_cmd_output =
  out_spo_public_key :: bytes
  out_spo_signature :: bytes
  out_sidechain_public_key :: bytes
  out_sidechain_signature :: bytes

definition sign_and_prepare_registration_cmd_output ::
  "primitives \<Rightarrow> ('mk, 'sk) signing \<Rightarrow> register_validator_message \<Rightarrow> 'mk \<Rightarrow> 'sk \<Rightarrow> registration_cmd_output may_panic" where
  "sign_and_prepare_registration_cmd_output pr sg m mainchain_key sidechain_key =
     (let (mc_pub_key, mc_signature) =
            mainchain_public_key_and_signature pr sg mainchain_key (register_validator_message_to_datum m)
      in map_option (\<lambda>(sc_pub_key, sc_signature).
             \<lparr> out_spo_public_key = mc_pub_key, out_spo_signature = mc_signature,
               out_sidechain_public_key = sc_pub_key, out_sidechain_signature = sc_signature \<rparr>)
           (sc_public_key_and_signature_for_datum pr sg sidechain_key (register_validator_message_to_datum m)))"

record ('mk, 'sk) registration_signatures_cmd =
  cmd_genesis_utxo :: utxo_id
  cmd_mainchain_signing_key :: 'mk
  cmd_sidechain_signing_key :: 'sk
  cmd_registration_utxo :: utxo_id

definition to_register_validator_message ::
  "('mk, 'sk) signing \<Rightarrow> ('mk, 'sk) registration_signatures_cmd \<Rightarrow> utxo_id \<Rightarrow> register_validator_message" where
  "to_register_validator_message sg cmd genesis =
     register_validator_message_new sg genesis (cmd_sidechain_signing_key cmd) (cmd_registration_utxo cmd)"

definition registration_signatures_execute ::
  "primitives \<Rightarrow> ('mk, 'sk) signing \<Rightarrow> ('mk, 'sk) registration_signatures_cmd \<Rightarrow> registration_cmd_output may_panic" where
  "registration_signatures_execute pr sg cmd =
     sign_and_prepare_registration_cmd_output pr sg (to_register_validator_message sg cmd (cmd_genesis_utxo cmd))
       (cmd_mainchain_signing_key cmd) (cmd_sidechain_signing_key cmd)"

section \<open>Signing and verification\<close>

text \<open>\<open>signing_laws pr sg\<close>: keys and signatures have their documented lengths, the runtime accepts an Ed25519 signature
  under the key that made it, and it accepts a compact ECDSA signature of the BLAKE2 hash of a message with one of the
  two recovery values.\<close>

definition signing_laws :: "primitives \<Rightarrow> ('mk, 'sk) signing \<Rightarrow> bool" where
  "signing_laws pr sg \<longleftrightarrow>
     (\<forall>k m. length (ed25519_sign sg k m) = 64 \<and> ed25519_verify pr (ed25519_sign sg k m) m (ed25519_verification_key sg k))
     \<and> (\<forall>m. length (blake2_256 sg m) = 32)
     \<and> (\<forall>k. length (secp_public_serialized sg k) = 33)
     \<and> (\<forall>k m. length (secp_sign_compact sg k (blake2_256 sg m)) = 64
          \<and> (\<exists>v \<in> {27, 28}. ecdsa_verify pr (secp_sign_compact sg k (blake2_256 sg m) @ [v]) m (secp_public_serialized sg k)))"

lemma signed_message_matches:
  assumes "sidechain_pub_key reg = rvm_sidechain_pub_key m" "consumed_input reg = rvm_input_utxo m"
  shows "to_datum_cbor_bytes (cbor_emit pr) (to_bytes_be pr) (register_validator_message_to_datum m)
     = signed_message_bytes pr reg (rvm_genesis_utxo m)"
  by (simp add: signed_message_bytes_def signed_message_to_datum_def register_validator_message_to_datum_def assms)

lemma execute_output:
  fixes cmd :: "('mk, 'sk) registration_signatures_cmd"
  assumes "signing_laws pr sg"
  defines "m \<equiv> register_validator_message_new sg (cmd_genesis_utxo cmd) (cmd_sidechain_signing_key cmd) (cmd_registration_utxo cmd)"
  defines "bytes \<equiv> to_datum_cbor_bytes (cbor_emit pr) (to_bytes_be pr) (register_validator_message_to_datum m)"
  shows "registration_signatures_execute pr sg cmd = Some
     \<lparr> out_spo_public_key = ed25519_verification_key sg (cmd_mainchain_signing_key cmd),
       out_spo_signature = ed25519_sign sg (cmd_mainchain_signing_key cmd) bytes,
       out_sidechain_public_key = secp_public_serialized sg (cmd_sidechain_signing_key cmd),
       out_sidechain_signature = secp_sign_compact sg (cmd_sidechain_signing_key cmd) (blake2_256 sg bytes) \<rparr>"
  using assms(1)
  by (simp add: registration_signatures_execute_def sign_and_prepare_registration_cmd_output_def
      to_register_validator_message_def mainchain_public_key_and_signature_def sc_public_key_and_signature_for_datum_def
      sc_public_key_and_signature_def datum_hash_def try_array_def signing_laws_def m_def bytes_def Let_def)

text \<open>\<open>registration_carries out input reg\<close>: an on-chain registration made from the output of the command, in a
  transaction that spends the registration UTXO.\<close>

definition registration_carries :: "registration_cmd_output \<Rightarrow> utxo_id \<Rightarrow> registration_data \<Rightarrow> bool" where
  "registration_carries out input reg \<longleftrightarrow>
     sidechain_pub_key reg = out_sidechain_public_key out \<and> sidechain_signature reg = out_sidechain_signature out
     \<and> mainchain_signature reg = out_spo_signature out \<and> consumed_input reg = input \<and> input \<in> set (tx_inputs reg)
     \<and> length (aura_pub_key reg) = 32 \<and> length (grandpa_pub_key reg) = 32"

lemma registration_valid_from_output:
  assumes "signing_laws pr sg" "registration_signatures_execute pr sg cmd = Some out"
    and "registration_carries out (cmd_registration_utxo cmd) reg"
  shows "registration_valid pr (out_spo_public_key out) reg (cmd_genesis_utxo cmd)"
proof -
  let ?m = "register_validator_message_new sg (cmd_genesis_utxo cmd) (cmd_sidechain_signing_key cmd) (cmd_registration_utxo cmd)"
  have out: "out = \<lparr> out_spo_public_key = ed25519_verification_key sg (cmd_mainchain_signing_key cmd),
       out_spo_signature = ed25519_sign sg (cmd_mainchain_signing_key cmd) (signed_message_bytes pr reg (cmd_genesis_utxo cmd)),
       out_sidechain_public_key = secp_public_serialized sg (cmd_sidechain_signing_key cmd),
       out_sidechain_signature = secp_sign_compact sg (cmd_sidechain_signing_key cmd)
         (blake2_256 sg (signed_message_bytes pr reg (cmd_genesis_utxo cmd))) \<rparr>"
    using execute_output [OF assms(1), of cmd] signed_message_matches [of reg ?m pr] assms(2,3)
    by (auto simp: register_validator_message_new_def registration_carries_def)
  have laws: "length (ed25519_sign sg k m) = 64" "ed25519_verify pr (ed25519_sign sg k m) m (ed25519_verification_key sg k)"
      "length (secp_public_serialized sg k') = 33" "length (secp_sign_compact sg k' (blake2_256 sg m)) = 64"
      "\<exists>v \<in> {27, 28}. ecdsa_verify pr (secp_sign_compact sg k' (blake2_256 sg m) @ [v]) m (secp_public_serialized sg k')"
    for k k' m
    using assms(1) by (simp_all add: signing_laws_def)
  have carries: "sidechain_pub_key reg = out_sidechain_public_key out" "sidechain_signature reg = out_sidechain_signature out"
      "mainchain_signature reg = out_spo_signature out" "consumed_input reg \<in> set (tx_inputs reg)"
      "length (aura_pub_key reg) = 32" "length (grandpa_pub_key reg) = 32"
    using assms(3) by (auto simp: registration_carries_def)
  show ?thesis
    unfolding registration_valid_def carries(1-3)
    using carries(4-6) laws by (simp add: out)
qed

section \<open>Correctness\<close>

text \<open>C20. Signatures made by the command are accepted: the command always produces its output, the runtime validates
  every on-chain registration that carries the output and whose transaction spends the registration UTXO, and the
  selection keeps every candidate that has such a registration and a positive stake.\<close>

theorem signed_registration_accepted:
  assumes "signing_laws pr sg"
  shows "\<exists>out. registration_signatures_execute pr sg cmd = Some out
    \<and> (\<forall>reg. registration_carries out (cmd_registration_utxo cmd) reg \<longrightarrow>
         validate_registration_data pr (out_spo_public_key out) reg (cmd_genesis_utxo cmd)
           = Ok \<lparr> account_id = out_sidechain_public_key out, account_keys = (aura_pub_key reg, grandpa_pub_key reg) \<rparr>)
    \<and> (\<forall>cr s reg. mainchain_pub_key cr = out_spo_public_key out \<and> stake_delegation cr = Some s \<and> s \<noteq> 0
         \<and> reg \<in> set (registrations cr) \<and> registration_carries out (cmd_registration_utxo cmd) reg \<longrightarrow>
           select_latest_valid_candidate pr acc cr (cmd_genesis_utxo cmd) \<noteq> None)"
proof -
  obtain out where out: "registration_signatures_execute pr sg cmd = Some out"
    using execute_output [OF assms, of cmd] by blast
  note valid = registration_valid_from_output [OF assms out]
  have "validate_registration_data pr (out_spo_public_key out) reg (cmd_genesis_utxo cmd)
      = Ok \<lparr> account_id = out_sidechain_public_key out, account_keys = (aura_pub_key reg, grandpa_pub_key reg) \<rparr>"
    if "registration_carries out (cmd_registration_utxo cmd) reg" for reg
    using valid [OF that] that by (simp add: validate_registration_data_Ok registration_candidate_def registration_carries_def)
  moreover have "select_latest_valid_candidate pr acc cr (cmd_genesis_utxo cmd) \<noteq> None"
    if "mainchain_pub_key cr = out_spo_public_key out \<and> stake_delegation cr = Some s \<and> s \<noteq> 0
         \<and> reg \<in> set (registrations cr) \<and> registration_carries out (cmd_registration_utxo cmd) reg" for cr s reg
    using valid [of reg] that by (auto simp: select_latest_valid_candidate_None)
  ultimately show ?thesis
    using out by blast
qed

text \<open>A toy signature scheme: a signature is the key followed by padding, and verification compares the key.\<close>

definition demo_signing :: "(u8, u8) signing" where
  "demo_signing = \<lparr> ed25519_sign = (\<lambda>k _. replicate 64 k), ed25519_verification_key = (\<lambda>k. replicate 32 k),
     ed25519_from_bytes = (\<lambda>bs. if length bs = 32 then Some (hd bs) else None), secp_sign_compact = (\<lambda>k _. replicate 64 k),
     secp_public_serialized = (\<lambda>k. replicate 33 k), secp_secret_from_str = (\<lambda>_. None), secp_public_from_str = (\<lambda>_. None),
     blake2_256 = (\<lambda>_. replicate 32 0) \<rparr>"

definition demo_checking_primitives :: primitives where
  "demo_checking_primitives = \<lparr> ed25519_verify = (\<lambda>s m k. hd s = hd k), ecdsa_verify = (\<lambda>s m k. hd s = hd k \<and> last s = 28),
     cbor_emit = demo_emit, to_bytes_be = (\<lambda>n. replicate n 0) \<rparr>"

definition demo_cmd :: "(u8, u8) registration_signatures_cmd" where
  "demo_cmd = \<lparr> cmd_genesis_utxo = demo_utxo 4, cmd_mainchain_signing_key = 5, cmd_sidechain_signing_key = 6,
     cmd_registration_utxo = demo_utxo 0 \<rparr>"

theorem signed_registration_accepted_witness:
  "select_latest_valid_candidate demo_checking_primitives demo_accounts
     \<lparr> mainchain_pub_key = replicate 32 5, registrations = [demo_registration 8 6 \<lparr> sidechain_signature := replicate 64 6,
         mainchain_signature := replicate 64 5 \<rparr>], stake_delegation = Some 1000 \<rparr> (demo_utxo 4) \<noteq> None"
proof -
  have "signing_laws demo_checking_primitives demo_signing"
    by (simp add: signing_laws_def demo_checking_primitives_def demo_signing_def)
  from signed_registration_accepted [OF this, of demo_cmd demo_accounts] obtain out where
    out: "registration_signatures_execute demo_checking_primitives demo_signing demo_cmd = Some out"
    and kept: "\<And>cr s reg. mainchain_pub_key cr = out_spo_public_key out \<and> stake_delegation cr = Some s \<and> s \<noteq> 0
         \<and> reg \<in> set (registrations cr) \<and> registration_carries out (cmd_registration_utxo demo_cmd) reg \<longrightarrow>
           select_latest_valid_candidate demo_checking_primitives demo_accounts cr (cmd_genesis_utxo demo_cmd) \<noteq> None"
    by blast
  have "out = \<lparr> out_spo_public_key = replicate 32 5, out_spo_signature = replicate 64 5,
      out_sidechain_public_key = replicate 33 6, out_sidechain_signature = replicate 64 6 \<rparr>"
    using out \<open>signing_laws _ _\<close> by (simp add: execute_output) (simp add: demo_signing_def demo_cmd_def)
  then show ?thesis
    using kept [of "\<lparr> mainchain_pub_key = replicate 32 5, registrations = [demo_registration 8 6
        \<lparr> sidechain_signature := replicate 64 6, mainchain_signature := replicate 64 5 \<rparr>], stake_delegation = Some 1000 \<rparr>" 1000
        "demo_registration 8 6 \<lparr> sidechain_signature := replicate 64 6, mainchain_signature := replicate 64 5 \<rparr>"]
    by (simp add: demo_cmd_def registration_carries_def demo_registration_def)
qed

end
