(* ===== verification/CollateralSelection.thy ===== *)
theory CollateralSelection
  imports Prelude "HOL-Library.Multiset"
begin

text \<open>
  Selection of collateral inputs: \<^verbatim>\<open>toolkit/offchain/src/collateral_selection.rs\<close>.

  Only the lovelace of an input matters to the algorithm, which is therefore a parameter.  The loop pops inputs until the
  sum suffices and never leaves when they run out, so it is a partial function whose \<open>None\<close> stands for a loop that does
  not end.  The lemmas show that it ends and selects as few inputs as possible.
\<close>

section \<open>The algorithm\<close>

definition min_required_collateral :: u64 where
  "min_required_collateral = 5000000"

datatype collateral_error =
  NotEnoughLovelace u64 u64
| TooManyInputs u64 u32

definition total_lovelace :: "('u \<Rightarrow> u64) \<Rightarrow> 'u list \<Rightarrow> u64" where
  "total_lovelace lovelace inputs = sum_list (map lovelace inputs)"

partial_function (option) select_inputs ::
  "('u \<Rightarrow> u64) \<Rightarrow> u64 \<Rightarrow> 'u list \<Rightarrow> u64 \<Rightarrow> 'u list \<Rightarrow> 'u list option" where
  [code]: "select_inputs lovelace amount_required available amount selected =
     (if amount < amount_required
      then (if available = [] then select_inputs lovelace amount_required available amount selected
            else select_inputs lovelace amount_required (butlast available) (amount + lovelace (last available))
                   (selected @ [last available]))
      else Some selected)"

definition largest_first ::
  "('u \<Rightarrow> u64) \<Rightarrow> 'u list \<Rightarrow> u64 \<Rightarrow> u32 \<Rightarrow> u64 \<Rightarrow> ('u list, collateral_error) result option" where
  "largest_first lovelace inputs_available requested max_collateral_inputs min_required =
     (let amount_required = max requested min_required;
          amount_available = total_lovelace lovelace inputs_available
      in if amount_available < amount_required then Some (Err (NotEnoughLovelace amount_available amount_required))
         else map_option
           (\<lambda>inputs_selected.
              if (of_nat (length inputs_selected) :: u32) > max_collateral_inputs
              then Err (TooManyInputs amount_required max_collateral_inputs)
              else Ok inputs_selected)
           (select_inputs lovelace amount_required (sort_key lovelace inputs_available) 0 []))"

section \<open>Sums of largest inputs\<close>

abbreviation nat_sum :: "('u \<Rightarrow> u64) \<Rightarrow> 'u list \<Rightarrow> nat" where
  "nat_sum lovelace us \<equiv> sum_list (map (\<lambda>u. unat (lovelace u)) us)"

lemma nat_sum_mset: "mset us = mset vs \<Longrightarrow> nat_sum f us = nat_sum f vs"
  by (metis mset_map sum_mset_sum_list)

lemma nat_sum_subset:
  assumes "mset us \<subseteq># mset vs"
  shows "nat_sum f us \<le> nat_sum f vs" "length us \<le> length vs"
proof -
  obtain ws where "mset vs = mset (us @ ws)"
    using assms by (metis ex_mset mset_append mset_subset_eq_exists_conv)
  then have "nat_sum f vs = nat_sum f (us @ ws)" "length vs = length (us @ ws)"
    by (rule nat_sum_mset, rule mset_eq_length)
  then show "nat_sum f us \<le> nat_sum f vs" "length us \<le> length vs"
    by simp_all
qed

lemma unat_total_lovelace:
  "nat_sum f us < 2 ^ 64 \<Longrightarrow> unat (total_lovelace f us) = nat_sum f us"
proof (induction us)
  case (Cons u us)
  then have "unat (total_lovelace f us) = nat_sum f us"
    by simp
  then show ?case
    using Cons.prems by (simp add: total_lovelace_def unat_add_no_wrap)
qed (simp add: total_lovelace_def)

text \<open>In a list in descending order the first inputs are worth most.\<close>

lemma prefix_worth_most:
  assumes "sorted_wrt (\<lambda>a b. unat (f b) \<le> unat (f a)) us" "mset vs \<subseteq># mset us"
  shows "nat_sum f vs \<le> nat_sum f (take (length vs) us)"
  using assms
proof (induction us arbitrary: vs)
  case (Cons u us)
  show ?case
  proof (cases "u \<in> set vs")
    case True
    then obtain n where n: "length vs = Suc n"
      by (cases vs) auto
    have vs: "mset vs = mset (u # remove1 u vs)"
      using True by simp
    then have "add_mset u (mset (remove1 u vs)) \<subseteq># add_mset u (mset us)"
      using Cons.prems(2) by (simp only: mset.simps)
    then have "mset (remove1 u vs) \<subseteq># mset us"
      by simp
    then have "nat_sum f (remove1 u vs) \<le> nat_sum f (take n us)"
      using Cons.IH [of "remove1 u vs"] Cons.prems(1) True n by (simp add: length_remove1)
    then show ?thesis
      using nat_sum_mset [OF vs, of f] n by simp
  next
    case False
    then have "count (mset vs) a \<le> count (mset us) a" for a
      using mset_subset_eq_count [OF Cons.prems(2), of a] by (cases "a = u") (simp_all add: count_mset_0_iff [THEN iffD2])
    then have "mset vs \<subseteq># mset us"
      by (rule mset_subset_eqI)
    moreover have "sorted_wrt (\<lambda>a b. unat (f b) \<le> unat (f a)) us"
      using Cons.prems(1) by simp
    ultimately have IH: "nat_sum f vs \<le> nat_sum f (take (length vs) us)" "length vs \<le> length us"
      using Cons.IH [of vs] nat_sum_subset(2) by blast+
    show ?thesis
    proof (cases "length vs")
      case (Suc n)
      then have "take (Suc n) us = take n us @ [us ! n]" "us ! n \<in> set us"
        using IH(2) by (simp_all add: take_Suc_conv_app_nth)
      then show ?thesis
        using IH(1) Cons.prems(1) Suc by auto
    qed simp
  qed
qed simp

section \<open>The loop\<close>

lemma select_inputs_spec:
  assumes "unat need \<le> unat amount + nat_sum f available" "unat amount + nat_sum f available < 2 ^ 64"
  shows "\<exists>k \<le> length available. select_inputs f need available amount selected = Some (selected @ take k (rev available))
     \<and> unat need \<le> unat amount + nat_sum f (take k (rev available))
     \<and> (\<forall>j < k. unat amount + nat_sum f (take j (rev available)) < unat need)"
  using assms
proof (induction available arbitrary: amount selected rule: rev_induct)
  case Nil
  then show ?case
    by (subst select_inputs.simps) (simp add: word_less_nat_alt)
next
  case (snoc u us)
  show ?case
  proof (cases "amount < need")
    case True
    have add: "unat (amount + f u) = unat amount + unat (f u)"
      using snoc.prems(2) by (intro unat_add_no_wrap) simp
    then obtain k where k: "k \<le> length us"
        "select_inputs f need us (amount + f u) (selected @ [u]) = Some (selected @ [u] @ take k (rev us))"
        "unat need \<le> unat amount + unat (f u) + nat_sum f (take k (rev us))"
        "\<forall>j < k. unat amount + unat (f u) + nat_sum f (take j (rev us)) < unat need"
      using snoc.IH [of "amount + f u" "selected @ [u]"] snoc.prems by auto
    have "\<forall>j < Suc k. unat amount + nat_sum f (take j (u # rev us)) < unat need"
      using k(4) True by (auto simp: less_Suc_eq_0_disj word_less_nat_alt)
    then show ?thesis
      using k(1-3) True by (intro exI [of _ "Suc k"]) (subst select_inputs.simps, simp)
  next
    case False
    then show ?thesis
      by (intro exI [of _ 0]) (subst select_inputs.simps, simp add: word_less_nat_alt)
  qed
qed

lemma rev_sorted_descending:
  "sorted_wrt (\<lambda>a b. unat (f b) \<le> unat (f a)) (rev (sort_key f us))"
  unfolding sorted_wrt_rev
  using sorted_sort_key [of f us] by (simp add: sorted_map word_le_nat_alt)

text \<open>\<open>covers f need us vs\<close>: the inputs \<open>vs\<close> are among \<open>us\<close> and worth at least \<open>need\<close>.\<close>

definition covers :: "('u \<Rightarrow> u64) \<Rightarrow> nat \<Rightarrow> 'u list \<Rightarrow> 'u list \<Rightarrow> bool" where
  "covers f need us vs \<longleftrightarrow> mset vs \<subseteq># mset us \<and> need \<le> nat_sum f vs"

lemma select_inputs_minimal:
  assumes "unat need \<le> nat_sum f us" "nat_sum f us < 2 ^ 64"
  shows "\<exists>sel. select_inputs f need (sort_key f us) 0 [] = Some sel \<and> covers f (unat need) us sel
     \<and> (\<forall>vs. covers f (unat need) us vs \<longrightarrow> length sel \<le> length vs)"
proof -
  let ?sorted = "sort_key f us"
  have "nat_sum f ?sorted = nat_sum f us"
    by (rule nat_sum_mset) simp
  then obtain k where k: "k \<le> length ?sorted" "select_inputs f need ?sorted 0 [] = Some (take k (rev ?sorted))"
      "unat need \<le> nat_sum f (take k (rev ?sorted))" "\<forall>j < k. nat_sum f (take j (rev ?sorted)) < unat need"
    using select_inputs_spec [of need 0 f ?sorted "[]"] assms by auto
  have "mset (take k (rev ?sorted)) \<subseteq># mset us"
    using mset_subset_eq_add_left [of "mset (take k (rev ?sorted))" "mset (drop k (rev ?sorted))"]
    unfolding mset_append [symmetric] append_take_drop_id by simp
  then have "covers f (unat need) us (take k (rev ?sorted))"
    using k(3) by (simp add: covers_def)
  moreover have "k \<le> length vs" if "covers f (unat need) us vs" for vs
  proof (rule ccontr)
    assume "\<not> k \<le> length vs"
    then have "nat_sum f (take (length vs) (rev ?sorted)) < unat need"
      using k(4) by simp
    then show False
      using prefix_worth_most [OF rev_sorted_descending [of f us], of vs] that by (simp add: covers_def)
  qed
  ultimately show ?thesis
    using k(1,2) by (intro exI [of _ "take k (rev ?sorted)"]) simp
qed

section \<open>Correctness\<close>

text \<open>C22. The selection always ends.  It fails for lack of lovelace exactly if all inputs together are not worth the
  required amount; otherwise it returns inputs worth the amount, as few as any such choice of inputs has, and it fails
  for the number of inputs exactly if every sufficient choice exceeds the allowed number.\<close>

theorem largest_first_fewest:
  fixes requested min_required :: u64
  assumes "nat_sum f us < 2 ^ 64" "length us < 2 ^ 32"
  defines "need \<equiv> max requested min_required"
  shows "\<exists>r. largest_first f us requested max_inputs min_required = Some r
    \<and> (if nat_sum f us < unat need then r = Err (NotEnoughLovelace (total_lovelace f us) need)
       else if \<exists>vs. covers f (unat need) us vs \<and> length vs \<le> unat max_inputs
       then \<exists>sel. r = Ok sel \<and> covers f (unat need) us sel \<and> length sel \<le> unat max_inputs
              \<and> (\<forall>vs. covers f (unat need) us vs \<longrightarrow> length sel \<le> length vs)
       else r = Err (TooManyInputs need max_inputs))"
proof (cases "nat_sum f us < unat need")
  case True
  then show ?thesis
    using unat_total_lovelace [OF assms(1)] by (simp add: largest_first_def need_def word_less_nat_alt Let_def)
next
  case False
  then obtain sel where sel: "select_inputs f need (sort_key f us) 0 [] = Some sel" "covers f (unat need) us sel"
      "\<forall>vs. covers f (unat need) us vs \<longrightarrow> length sel \<le> length vs"
    using select_inputs_minimal [OF _ assms(1), of need] by auto
  have "length sel < 2 ^ 32"
    using sel(2) nat_sum_subset(2) [of sel us] assms(2) by (simp add: covers_def)
  then have "max_inputs < (of_nat (length sel) :: u32) \<longleftrightarrow> unat max_inputs < length sel"
    by (simp add: word_less_nat_alt unat_of_nat_small)
  then have run: "largest_first f us requested max_inputs min_required = Some
      (if unat max_inputs < length sel then Err (TooManyInputs need max_inputs) else Ok sel)"
    using False unat_total_lovelace [OF assms(1)] sel(1)
    by (simp add: largest_first_def need_def [symmetric] word_less_nat_alt Let_def)
  show ?thesis
    using False sel(2,3) unfolding run by (auto dest: le_trans)
qed

theorem largest_first_fewest_witness:
  "\<exists>sel. largest_first (\<lambda>u. u) [10, 30, 20, 50] 55 3 10 = Some (Ok sel) \<and> length sel \<le> 2"
proof -
  let ?us = "[10, 30, 20, 50] :: u64 list"
  have max: "max (55 :: u64) 10 = 55"
    by (simp add: max_def)
  have "mset [50, 30] \<subseteq># mset ?us"
    by (simp add: add_mset_commute)
  then have "covers (\<lambda>u. u) (unat (55 :: u64)) ?us [50, 30]"
    by (simp add: covers_def)
  then show ?thesis
    using largest_first_fewest [where f = "\<lambda>u. u" and us = ?us and requested = 55 and min_required = 10 and max_inputs = 3] unfolding max by (force split: if_splits)
qed

end
