(* ===== verification/Ogmios.thy ===== *)
theory Ogmios
  imports Prelude Domain PlutusDatum "HOL-Library.AList"
begin

text \<open>
  Types of the Ogmios client: \<^verbatim>\<open>toolkit/utils/ogmios-client/src/types.rs\<close> and the responses of
  \<^verbatim>\<open>query_ledger_state.rs\<close> and \<^verbatim>\<open>transactions.rs\<close> that transaction building uses.

  The tokens of a value are a hash map in the code and an association list here, in its order of iteration.  The parser
  of values works on the JSON type of \<^verbatim>\<open>PlutusDatum\<close>.
\<close>

section \<open>Types\<close>

record ogmios_asset =
  asset_name :: bytes
  asset_amount :: int

record ogmios_value =
  lovelace :: u64
  native_tokens :: "(bytes \<times> ogmios_asset list) list"

datatype native_script =
  ScriptSignature bytes
| ScriptAll "native_script list"
| ScriptAny "native_script list"
| ScriptSome "native_script list" u32
| ScriptBefore u64

datatype ogmios_script = PlutusScriptRef string bytes | NativeScriptRef native_script

record ogmios_utxo =
  ou_transaction :: bytes
  ou_index :: u16
  ou_address :: string
  ou_value :: ogmios_value
  ou_datum :: "bytes option"
  ou_datum_hash :: "bytes option"
  ou_script :: "ogmios_script option"

definition ogmios_utxo_display :: "(bytes \<Rightarrow> string) \<Rightarrow> ogmios_utxo \<Rightarrow> string" where
  "ogmios_utxo_display to_hex u = to_hex (ou_transaction u) @ CHR ''#'' # to_decimal (unat (ou_index u))"

definition new_lovelace :: "u64 \<Rightarrow> ogmios_value" where
  "new_lovelace amount = \<lparr> lovelace = amount, native_tokens = [] \<rparr>"

record plutus_cost_models =
  cost_v1 :: "int list"
  cost_v2 :: "int list"
  cost_v3 :: "int list"

record protocol_parameters =
  min_fee_coefficient :: u32
  min_fee_constant :: ogmios_value
  stake_pool_deposit :: ogmios_value
  stake_credential_deposit :: ogmios_value
  max_value_size :: u32
  max_transaction_size :: u32
  min_utxo_deposit_coefficient :: u64
  price_memory :: "u64 \<times> u64"
  price_cpu :: "u64 \<times> u64"
  cost_models :: plutus_cost_models
  max_collateral_inputs :: u32
  collateral_percentage :: u32

record ogmios_budget =
  budget_memory :: u64
  budget_cpu :: u64

record evaluate_response =
  er_validator_index :: u32
  er_purpose :: string
  er_budget :: ogmios_budget

section \<open>Parsing of values\<close>

definition json_as_object :: "json \<Rightarrow> (string \<times> json) list option" where
  "json_as_object v = (case v of JObject kvs \<Rightarrow> Some kvs | _ \<Rightarrow> None)"

definition json_as_i128 :: "json \<Rightarrow> int option" where
  "json_as_i128 v = (case v of JNumber n \<Rightarrow> if - (2 ^ 127) \<le> n \<and> n < 2 ^ 127 then Some n else None | _ \<Rightarrow> None)"

definition parse_asset :: "(string \<Rightarrow> bytes option) \<Rightarrow> string \<times> json \<Rightarrow> (ogmios_asset, string) result" where
  "parse_asset from_hex entry =
     (let name = ok_or ''expected asset name to be hexstring'' (from_hex (fst entry));
          amount = ok_or ''expected amount to be i128'' (json_as_i128 (snd entry))
      in rbind name (\<lambda>n. rbind amount (\<lambda>a. Ok \<lparr> asset_name = n, asset_amount = a \<rparr>)))"

definition parse_value_entry ::
  "(string \<Rightarrow> bytes option) \<Rightarrow> string \<times> json \<Rightarrow> ogmios_value \<Rightarrow> (ogmios_value, string) result" where
  "parse_value_entry from_hex entry value =
     rbind (ok_or ''expected an object'' (json_as_object (snd entry))) (\<lambda>asset_to_amount.
       if fst entry = ''ada''
       then rbind (ok_or ''expected lovelace amount'' (map_of asset_to_amount ''lovelace'')) (\<lambda>amount.
            rbind (ok_or ''expected lovelace amount to be u64'' (json_as_u64 amount)) (\<lambda>l. Ok (value \<lparr> lovelace := l \<rparr>)))
       else rbind (ok_or ''expected policy id to be hexstring'' (from_hex (fst entry))) (\<lambda>decoded.
            rbind (ok_or ''expected policy id to be 28 bytes'' (try_array 28 decoded)) (\<lambda>policy_id.
            rbind (collect_results (parse_asset from_hex) asset_to_amount) (\<lambda>assets.
              Ok (value \<lparr> native_tokens := AList.update policy_id assets (native_tokens value) \<rparr>)))))"

fun parse_value_entries ::
  "(string \<Rightarrow> bytes option) \<Rightarrow> (string \<times> json) list \<Rightarrow> ogmios_value \<Rightarrow> (ogmios_value, string) result" where
  "parse_value_entries from_hex [] value = Ok value"
| "parse_value_entries from_hex (entry # entries) value =
     rbind (parse_value_entry from_hex entry value) (parse_value_entries from_hex entries)"

definition ogmios_value_try_from :: "(string \<Rightarrow> bytes option) \<Rightarrow> json \<Rightarrow> (ogmios_value, string) result" where
  "ogmios_value_try_from from_hex v =
     rbind (ok_or ''expected top level object'' (json_as_object v)) (\<lambda>entries.
       parse_value_entries from_hex entries (new_lovelace 0))"

section \<open>Rendered values are read back\<close>

text \<open>The JSON form in which Ogmios sends a value.\<close>

definition ogmios_value_json :: "(bytes \<Rightarrow> string) \<Rightarrow> ogmios_value \<Rightarrow> json" where
  "ogmios_value_json to_hex v =
     JObject ((''ada'', JObject [(''lovelace'', JNumber (uint (lovelace v)))])
       # map (\<lambda>(policy, assets). (to_hex policy,
             JObject (map (\<lambda>a. (to_hex (asset_name a), JNumber (asset_amount a))) assets))) (native_tokens v))"

definition wf_value :: "ogmios_value \<Rightarrow> bool" where
  "wf_value v \<longleftrightarrow> distinct (map fst (native_tokens v))
     \<and> (\<forall>(policy, assets) \<in> set (native_tokens v). length policy = 28
          \<and> (\<forall>a \<in> set assets. - (2 ^ 127) \<le> asset_amount a \<and> asset_amount a < 2 ^ 127))"

lemma parse_assets:
  assumes "\<forall>bs. from_hex (to_hex bs) = Some bs" "\<forall>a \<in> set assets. - (2 ^ 127) \<le> asset_amount a \<and> asset_amount a < 2 ^ 127"
  shows "collect_results (parse_asset from_hex) (map (\<lambda>a. (to_hex (asset_name a), JNumber (asset_amount a))) assets) = Ok assets"
  using assms(2) by (induction assets) (simp_all add: assms(1) parse_asset_def json_as_i128_def Let_def)

lemma update_fresh: "k \<notin> set (map fst al) \<Longrightarrow> AList.update k v al = al @ [(k, v)]"
  by (induction al) auto

lemma parse_tokens:
  assumes hex: "\<forall>bs. from_hex (to_hex bs) = Some bs" "\<forall>bs. to_hex bs \<noteq> ''ada''"
    and "\<forall>(policy, assets) \<in> set tokens. length policy = 28
          \<and> (\<forall>a \<in> set assets. - (2 ^ 127) \<le> asset_amount a \<and> asset_amount a < 2 ^ 127)"
    and "distinct (map fst (native_tokens v) @ map fst tokens)"
  shows "parse_value_entries from_hex (map (\<lambda>(policy, assets). (to_hex policy,
       JObject (map (\<lambda>a. (to_hex (asset_name a), JNumber (asset_amount a))) assets))) tokens) v
     = Ok (v \<lparr> native_tokens := native_tokens v @ tokens \<rparr>)"
  using assms(3,4)
proof (induction tokens arbitrary: v)
  case (Cons t tokens)
  obtain policy assets where t: "t = (policy, assets)"
    by fastforce
  have fresh: "AList.update policy assets (native_tokens v) = native_tokens v @ [(policy, assets)]"
    using Cons.prems(2) t by (simp add: update_fresh)
  show ?case
    using Cons.IH [of "v \<lparr> native_tokens := native_tokens v @ [(policy, assets)] \<rparr>"] Cons.prems hex
      parse_assets [OF hex(1), of assets]
    by (simp add: t parse_value_entry_def json_as_object_def fresh try_array_def)
qed simp

lemma ogmios_value_read_back:
  assumes "\<forall>bs. from_hex (to_hex bs) = Some bs" "\<forall>bs. to_hex bs \<noteq> ''ada''" "wf_value v"
  shows "ogmios_value_try_from from_hex (ogmios_value_json to_hex v) = Ok v"
proof -
  have "uint (lovelace v) < 2 ^ 64"
    using uint_lt2p [of "lovelace v"] by simp
  then have first: "parse_value_entry from_hex (''ada'', JObject [(''lovelace'', JNumber (uint (lovelace v)))]) (new_lovelace 0)
      = Ok \<lparr> lovelace = lovelace v, native_tokens = [] \<rparr>"
    by (simp add: parse_value_entry_def json_as_object_def json_as_u64_def new_lovelace_def)
  show ?thesis
    using parse_tokens [OF assms(1,2), of "native_tokens v" "\<lparr> lovelace = lovelace v, native_tokens = [] \<rparr>"] assms(3)
    by (simp add: ogmios_value_try_from_def ogmios_value_json_def json_as_object_def first wf_value_def)
qed

end
