(* ===== verification/Csl.thy ===== *)
theory Csl
  imports Prelude Ogmios "HOL-Library.Multiset"
begin

text \<open>
  Transaction building: \<^verbatim>\<open>toolkit/offchain/src/csl.rs\<close> and \<^verbatim>\<open>toolkit/offchain/src/plutus_script.rs\<close>.

  The cardano-serialization-lib is a parameter: \<open>csl\<close> gathers its functions over abstract addresses, keys, outputs,
  builders and transactions.  Its plain data values (amounts, inputs, redeemers, witnesses) are records of the arguments
  they are constructed with.  The lemmas describe which collateral the balancing loop settles on and when an amount can
  be converted.
\<close>

section \<open>The library\<close>

datatype network_id_kind = MainnetId | TestnetId

datatype language_kind = PlutusV1 | PlutusV2 | PlutusV3

record plutus_script =
  script_bytes :: bytes
  script_language :: language_kind

record csl_value =
  val_coin :: u64
  val_assets :: "(bytes \<times> (bytes \<times> u64) list) list option"

record tx_input =
  ti_transaction :: bytes
  ti_index :: u32

record ex_units =
  ex_mem :: u64
  ex_steps :: u64

datatype redeemer_tag = SpendTag | MintTag

record 'p redeemer =
  red_tag :: redeemer_tag
  red_index :: u32
  red_data :: 'p
  red_ex_units :: ex_units

record builder_config =
  bc_fee_coefficient :: u32
  bc_fee_constant :: u64
  bc_pool_deposit :: u64
  bc_key_deposit :: u64
  bc_max_value_size :: u32
  bc_max_tx_size :: u32
  bc_mem_price :: "u64 \<times> u64"
  bc_step_price :: "u64 \<times> u64"
  bc_coins_per_utxo_byte :: u64

record ('x, 'ad, 'p, 'k, 'cfg, 'o, 'ib, 'b, 't) csl =
  blake2b_28 :: "bytes \<Rightarrow> bytes"
  blake2b_32 :: "bytes \<Rightarrow> bytes"
  script_enterprise_address :: "u8 \<Rightarrow> bytes \<Rightarrow> 'ad"
  key_enterprise_address :: "u8 \<Rightarrow> bytes \<Rightarrow> 'ad"
  to_bech32 :: "'ad \<Rightarrow> (string, 'x) result"
  from_bech32 :: "string \<Rightarrow> ('ad, 'x) result"
  asset_name_new :: "bytes \<Rightarrow> (bytes, 'x) result"
  private_key_from_bytes :: "bytes \<Rightarrow> ('k, 'x) result"
  public_key_bytes :: "'k \<Rightarrow> bytes"
  public_key_hash :: "'k \<Rightarrow> bytes"
  private_key_sign :: "'k \<Rightarrow> bytes \<Rightarrow> bytes"
  empty_constr_data :: "u64 \<Rightarrow> 'p"
  config_build :: "builder_config \<Rightarrow> ('cfg, 'x) result"
  output_build :: "'ad \<Rightarrow> 'p \<Rightarrow> u64 \<Rightarrow> (bytes \<times> (bytes \<times> u64) list) list \<Rightarrow> ('o, 'x) result"
  calculate_ada :: "'o \<Rightarrow> u64 \<Rightarrow> (u64, 'x) result"
  inputs_new :: 'ib
  add_regular_input :: "'ad \<Rightarrow> tx_input \<Rightarrow> csl_value \<Rightarrow> 'ib \<Rightarrow> ('ib, 'x) result"
  add_plutus_script_input :: "plutus_script \<times> 'p redeemer \<Rightarrow> tx_input \<Rightarrow> csl_value \<Rightarrow> 'ib \<Rightarrow> 'ib"
  add_key_input :: "bytes \<Rightarrow> tx_input \<Rightarrow> csl_value \<Rightarrow> 'ib \<Rightarrow> 'ib"
  builder_new :: "'cfg \<Rightarrow> 'b"
  add_output :: "'o \<Rightarrow> 'b \<Rightarrow> ('b, 'x) result"
  set_mint_asset :: "plutus_script \<times> 'p redeemer \<Rightarrow> bytes \<Rightarrow> int \<Rightarrow> 'b \<Rightarrow> ('b, 'x) result"
  set_inputs :: "'ib \<Rightarrow> 'b \<Rightarrow> 'b"
  set_collateral :: "'ib \<Rightarrow> 'b \<Rightarrow> 'b"
  add_required_signer :: "bytes \<Rightarrow> 'b \<Rightarrow> 'b"
  set_script_data_hash :: "bytes \<Rightarrow> 'b \<Rightarrow> 'b"
  calc_script_data_hash :: "plutus_cost_models \<Rightarrow> 'b \<Rightarrow> ('b, 'x) result"
  add_inputs_from_and_change :: "(tx_input \<times> 'ad \<times> csl_value) list \<Rightarrow> 'ad \<Rightarrow> 'b \<Rightarrow> ('b, 'x) result"
  add_inputs_from_and_change_with_collateral_return ::
    "(tx_input \<times> 'ad \<times> csl_value) list \<Rightarrow> 'ad \<Rightarrow> u32 \<Rightarrow> 'b \<Rightarrow> ('b, 'x) result"
  build_tx :: "'b \<Rightarrow> ('t, 'x) result"
  tx_body_bytes :: "'t \<Rightarrow> bytes"
  tx_vkeys :: "'t \<Rightarrow> (bytes \<times> bytes) list option"
  tx_with_vkeys :: "'t \<Rightarrow> (bytes \<times> bytes) list \<Rightarrow> 't"
  tx_to_bytes :: "'t \<Rightarrow> bytes"

datatype 'x js_error =
  CslError 'x
| AmountTooLarge int
| InvalidAssetName 'x
| InvalidAddress 'x
| NoValidatorBudget
| CouldNotBalance "'x js_error"

section \<open>Conversions\<close>

definition network_to_csl :: "network_type \<Rightarrow> network_id_kind" where
  "network_to_csl n = (case n of Mainnet \<Rightarrow> MainnetId | Testnet \<Rightarrow> TestnetId)"

definition network_id_kind_to_u8 :: "network_id_kind \<Rightarrow> u8" where
  "network_id_kind_to_u8 n = (case n of MainnetId \<Rightarrow> 1 | TestnetId \<Rightarrow> 0)"

definition language_kind_to_u8 :: "language_kind \<Rightarrow> u8" where
  "language_kind_to_u8 l = (case l of PlutusV1 \<Rightarrow> 1 | PlutusV2 \<Rightarrow> 2 | PlutusV3 \<Rightarrow> 3)"

definition plutus_script_hash ::
  "('x, 'ad, 'p, 'k, 'cfg, 'o, 'ib, 'b, 't) csl \<Rightarrow> bytes \<Rightarrow> language_kind \<Rightarrow> bytes" where
  "plutus_script_hash lib bs language = blake2b_28 lib (language_kind_to_u8 language # bs)"

definition script_address ::
  "('x, 'ad, 'p, 'k, 'cfg, 'o, 'ib, 'b, 't) csl \<Rightarrow> bytes \<Rightarrow> network_id_kind \<Rightarrow> language_kind \<Rightarrow> 'ad" where
  "script_address lib bs network language =
     script_enterprise_address lib (network_id_kind_to_u8 network) (plutus_script_hash lib bs language)"

definition payment_address :: "('x, 'ad, 'p, 'k, 'cfg, 'o, 'ib, 'b, 't) csl \<Rightarrow> bytes \<Rightarrow> network_id_kind \<Rightarrow> 'ad" where
  "payment_address lib key_bytes network =
     key_enterprise_address lib (network_id_kind_to_u8 network) (blake2b_28 lib key_bytes)"

definition key_hash_address :: "('x, 'ad, 'p, 'k, 'cfg, 'o, 'ib, 'b, 't) csl \<Rightarrow> bytes \<Rightarrow> network_id_kind \<Rightarrow> 'ad" where
  "key_hash_address lib pub_key_hash network = key_enterprise_address lib (network_id_kind_to_u8 network) pub_key_hash"

definition ps_address :: "('x, 'ad, 'p, 'k, 'cfg, 'o, 'ib, 'b, 't) csl \<Rightarrow> plutus_script \<Rightarrow> network_id_kind \<Rightarrow> 'ad" where
  "ps_address lib s network = script_address lib (script_bytes s) network (script_language s)"

definition ps_address_bech32 ::
  "('x, 'ad, 'p, 'k, 'cfg, 'o, 'ib, 'b, 't) csl \<Rightarrow> plutus_script \<Rightarrow> network_id_kind \<Rightarrow> (string, 'x) result" where
  "ps_address_bech32 lib s network = to_bech32 lib (ps_address lib s network)"

definition ps_script_hash :: "('x, 'ad, 'p, 'k, 'cfg, 'o, 'ib, 'b, 't) csl \<Rightarrow> plutus_script \<Rightarrow> bytes" where
  "ps_script_hash lib s = plutus_script_hash lib (script_bytes s) (script_language s)"

fun convert_assets ::
  "('x, 'ad, 'p, 'k, 'cfg, 'o, 'ib, 'b, 't) csl \<Rightarrow> ogmios_asset list \<Rightarrow> (bytes \<times> u64) list
    \<Rightarrow> ((bytes \<times> u64) list, 'x js_error) result" where
  "convert_assets lib [] acc = Ok acc"
| "convert_assets lib (asset # assets) acc =
     rbind (if 0 \<le> asset_amount asset \<and> asset_amount asset < 2 ^ 64 then Ok (of_int (asset_amount asset))
            else Err (AmountTooLarge (asset_amount asset))) (\<lambda>amount.
     rbind (map_err InvalidAssetName (asset_name_new lib (asset_name asset))) (\<lambda>name.
       convert_assets lib assets (AList.update name amount acc)))"

fun convert_tokens ::
  "('x, 'ad, 'p, 'k, 'cfg, 'o, 'ib, 'b, 't) csl \<Rightarrow> (bytes \<times> ogmios_asset list) list
    \<Rightarrow> (bytes \<times> (bytes \<times> u64) list) list \<Rightarrow> ((bytes \<times> (bytes \<times> u64) list) list, 'x js_error) result" where
  "convert_tokens lib [] acc = Ok acc"
| "convert_tokens lib ((policy_id, assets) # tokens) acc =
     rbind (convert_assets lib assets []) (\<lambda>csl_assets.
       convert_tokens lib tokens (AList.update policy_id csl_assets acc))"

definition convert_value ::
  "('x, 'ad, 'p, 'k, 'cfg, 'o, 'ib, 'b, 't) csl \<Rightarrow> ogmios_value \<Rightarrow> (csl_value, 'x js_error) result" where
  "convert_value lib v =
     (if native_tokens v \<noteq> []
      then rbind (convert_tokens lib (native_tokens v) []) (\<lambda>multiasset.
             Ok \<lparr> val_coin = lovelace v, val_assets = Some multiasset \<rparr>)
      else Ok \<lparr> val_coin = lovelace v, val_assets = None \<rparr>)"

definition get_builder_config ::
  "('x, 'ad, 'p, 'k, 'cfg, 'o, 'ib, 'b, 't) csl \<Rightarrow> protocol_parameters \<Rightarrow> ('cfg, 'x js_error) result" where
  "get_builder_config lib pp =
     rbind (convert_value lib (stake_pool_deposit pp)) (\<lambda>pool_deposit.
     rbind (convert_value lib (stake_credential_deposit pp)) (\<lambda>key_deposit.
       map_err CslError (config_build lib
         \<lparr> bc_fee_coefficient = min_fee_coefficient pp, bc_fee_constant = lovelace (min_fee_constant pp),
           bc_pool_deposit = val_coin pool_deposit, bc_key_deposit = val_coin key_deposit,
           bc_max_value_size = max_value_size pp, bc_max_tx_size = max_transaction_size pp,
           bc_mem_price = price_memory pp, bc_step_price = price_cpu pp,
           bc_coins_per_utxo_byte = min_utxo_deposit_coefficient pp \<rparr>)))"

definition convert_ex_units :: "ogmios_budget \<Rightarrow> ex_units" where
  "convert_ex_units v = \<lparr> ex_mem = budget_memory v, ex_steps = budget_cpu v \<rparr>"

definition get_first_validator_budget :: "evaluate_response list \<Rightarrow> (ex_units, 'x js_error) result" where
  "get_first_validator_budget responses =
     (case responses of
        response # _ \<Rightarrow> Ok (convert_ex_units (er_budget response))
      | [] \<Rightarrow> Err NoValidatorBudget)"

definition to_csl_tx_input :: "ogmios_utxo \<Rightarrow> tx_input" where
  "to_csl_tx_input u = \<lparr> ti_transaction = ou_transaction u, ti_index = ucast (ou_index u) \<rparr>"

definition utxo_to_csl ::
  "('x, 'ad, 'p, 'k, 'cfg, 'o, 'ib, 'b, 't) csl \<Rightarrow> ogmios_utxo \<Rightarrow> (tx_input \<times> 'ad \<times> csl_value, 'x js_error) result" where
  "utxo_to_csl lib u =
     rbind (map_err InvalidAddress (from_bech32 lib (ou_address u))) (\<lambda>address.
     rbind (convert_value lib (ou_value u)) (\<lambda>v. Ok (to_csl_tx_input u, address, v)))"

definition utxo_to_domain :: "ogmios_utxo \<Rightarrow> utxo_id" where
  "utxo_to_domain u = \<lparr> tx_hash = ou_transaction u, utxo_index = ou_index u \<rparr>"

definition utxos_to_csl ::
  "('x, 'ad, 'p, 'k, 'cfg, 'o, 'ib, 'b, 't) csl \<Rightarrow> ogmios_utxo list
    \<Rightarrow> ((tx_input \<times> 'ad \<times> csl_value) list, 'x js_error) result" where
  "utxos_to_csl lib us = collect_results (utxo_to_csl lib) us"

section \<open>Context\<close>

record 'k transaction_context =
  ctx_payment_key :: 'k
  ctx_payment_key_utxos :: "ogmios_utxo list"
  ctx_network :: network_id_kind
  ctx_protocol_parameters :: protocol_parameters

definition payment_key_hash :: "('x, 'ad, 'p, 'k, 'cfg, 'o, 'ib, 'b, 't) csl \<Rightarrow> 'k transaction_context \<Rightarrow> bytes" where
  "payment_key_hash lib ctx = public_key_hash lib (ctx_payment_key ctx)"

definition ctx_payment_address :: "('x, 'ad, 'p, 'k, 'cfg, 'o, 'ib, 'b, 't) csl \<Rightarrow> 'k transaction_context \<Rightarrow> 'ad" where
  "ctx_payment_address lib ctx = key_hash_address lib (payment_key_hash lib ctx) (ctx_network ctx)"

definition ctx_sign :: "('x, 'ad, 'p, 'k, 'cfg, 'o, 'ib, 'b, 't) csl \<Rightarrow> 'k transaction_context \<Rightarrow> 't \<Rightarrow> 't" where
  "ctx_sign lib ctx tx =
     (let signature = private_key_sign lib (ctx_payment_key ctx) (blake2b_32 lib (tx_body_bytes lib tx));
          vkeywitnesses = (case tx_vkeys lib tx of Some ws \<Rightarrow> ws | None \<Rightarrow> [])
      in tx_with_vkeys lib tx (vkeywitnesses @ [(public_key_bytes lib (ctx_payment_key ctx), signature)]))"

section \<open>Builders\<close>

definition empty_asset_name :: "('x, 'ad, 'p, 'k, 'cfg, 'o, 'ib, 'b, 't) csl \<Rightarrow> (bytes, 'x js_error) result" where
  "empty_asset_name lib = expect (ok (asset_name_new lib []))"

definition add_output_with_one_script_token ::
  "('x, 'ad, 'p, 'k, 'cfg, 'o, 'ib, 'b, 't) csl \<Rightarrow> plutus_script \<Rightarrow> plutus_script \<Rightarrow> 'p \<Rightarrow> 'k transaction_context \<Rightarrow> 'b \<Rightarrow> ('b, 'x js_error) result" where
  "add_output_with_one_script_token lib validator policy data ctx b =
     (let build = (\<lambda>coin name. map_err CslError (output_build lib (ps_address lib validator (ctx_network ctx)) data coin
                     [(ps_script_hash lib policy, [(name, 1)])]))
      in rbind (empty_asset_name lib) (\<lambda>name.
         rbind (build 0 name) (\<lambda>output.
         rbind (map_err CslError (calculate_ada lib output
                  (min_utxo_deposit_coefficient (ctx_protocol_parameters ctx)))) (\<lambda>min_ada.
         rbind (build min_ada name) (\<lambda>output. map_err CslError (add_output lib output b))))))"

fun add_collateral_to ::
  "('x, 'ad, 'p, 'k, 'cfg, 'o, 'ib, 'b, 't) csl \<Rightarrow> 'k transaction_context \<Rightarrow> ogmios_utxo list \<Rightarrow> 'ib \<Rightarrow> ('ib, 'x js_error) result" where
  "add_collateral_to lib ctx [] ib = Ok ib"
| "add_collateral_to lib ctx (u # us) ib =
     rbind (convert_value lib (ou_value u)) (\<lambda>v.
     rbind (map_err CslError (add_regular_input lib (ctx_payment_address lib ctx) (to_csl_tx_input u) v ib))
       (add_collateral_to lib ctx us))"

definition add_collateral_inputs ::
  "('x, 'ad, 'p, 'k, 'cfg, 'o, 'ib, 'b, 't) csl \<Rightarrow> 'k transaction_context \<Rightarrow> ogmios_utxo list \<Rightarrow> 'b \<Rightarrow> ('b, 'x js_error) result" where
  "add_collateral_inputs lib ctx us b =
     rbind (add_collateral_to lib ctx us (inputs_new lib)) (\<lambda>ib. Ok (set_collateral lib ib b))"

definition add_mint_one_script_token ::
  "('x, 'ad, 'p, 'k, 'cfg, 'o, 'ib, 'b, 't) csl \<Rightarrow> plutus_script \<Rightarrow> ex_units \<Rightarrow> 'b \<Rightarrow> ('b, 'x js_error) result" where
  "add_mint_one_script_token lib script units b =
     rbind (empty_asset_name lib) (\<lambda>name.
       map_err CslError (set_mint_asset lib
         (script, \<lparr> red_tag = MintTag, red_index = 0, red_data = empty_constr_data lib 0, red_ex_units = units \<rparr>) name 1 b))"

definition add_script_utxo_input ::
  "('x, 'ad, 'p, 'k, 'cfg, 'o, 'ib, 'b, 't) csl \<Rightarrow> ogmios_utxo \<Rightarrow> plutus_script \<Rightarrow> ex_units \<Rightarrow> 'ib \<Rightarrow> ('ib, 'x js_error) result" where
  "add_script_utxo_input lib u script units ib =
     rbind (convert_value lib (ou_value u)) (\<lambda>amount.
       Ok (add_plutus_script_input lib
         (script, \<lparr> red_tag = SpendTag, red_index = 0, red_data = empty_constr_data lib 0, red_ex_units = units \<rparr>)
         (to_csl_tx_input u) amount ib))"

fun add_key_inputs :: "('x, 'ad, 'p, 'k, 'cfg, 'o, 'ib, 'b, 't) csl \<Rightarrow> ogmios_utxo list \<Rightarrow> bytes \<Rightarrow> 'ib \<Rightarrow> ('ib, 'x js_error) result" where
  "add_key_inputs lib [] key ib = Ok ib"
| "add_key_inputs lib (u # us) key ib =
     rbind (convert_value lib (ou_value u)) (\<lambda>v. add_key_inputs lib us key (add_key_input lib key (to_csl_tx_input u) v ib))"

definition with_key_inputs :: "('x, 'ad, 'p, 'k, 'cfg, 'o, 'ib, 'b, 't) csl \<Rightarrow> ogmios_utxo list \<Rightarrow> bytes \<Rightarrow> ('ib, 'x js_error) result" where
  "with_key_inputs lib us key = add_key_inputs lib us key (inputs_new lib)"

section \<open>Balancing\<close>

definition max_possible_collaterals :: "'k transaction_context \<Rightarrow> ogmios_utxo list" where
  "max_possible_collaterals ctx =
     take (unat (max_collateral_inputs (ctx_protocol_parameters ctx)))
       (sort_key (\<lambda>u. - uint (lovelace (ou_value u))) (ctx_payment_key_utxos ctx))"

definition try_balance ::
  "('x, 'ad, 'p, 'k, 'cfg, 'o, 'ib, 'b, 't) csl \<Rightarrow> 'b \<Rightarrow> ogmios_utxo list \<Rightarrow> 'k transaction_context \<Rightarrow> ('t, 'x js_error) result" where
  "try_balance lib b collateral_inputs ctx =
     (let b = add_required_signer lib (payment_key_hash lib ctx) b
      in rbind
           (if collateral_inputs = []
            then rbind (utxos_to_csl lib (ctx_payment_key_utxos ctx)) (\<lambda>us.
                   map_err CslError (add_inputs_from_and_change lib us (ctx_payment_address lib ctx) b))
            else rbind (add_collateral_inputs lib ctx collateral_inputs b) (\<lambda>b.
                 let b = set_script_data_hash lib (replicate 32 0) b in
                 rbind (utxos_to_csl lib (ctx_payment_key_utxos ctx)) (\<lambda>us.
                 rbind (map_err CslError (add_inputs_from_and_change_with_collateral_return lib us
                          (ctx_payment_address lib ctx) (collateral_percentage (ctx_protocol_parameters ctx)) b)) (\<lambda>b.
                   map_err CslError (calc_script_data_hash lib (cost_models (ctx_protocol_parameters ctx)) b)))))
           (\<lambda>b. map_err CslError (build_tx lib b)))"

fun balance_loop ::
  "('x, 'ad, 'p, 'k, 'cfg, 'o, 'ib, 'b, 't) csl \<Rightarrow> 'b \<Rightarrow> 'k transaction_context \<Rightarrow> ogmios_utxo list \<Rightarrow> ogmios_utxo list \<Rightarrow> ('t, 'x js_error) result" where
  "balance_loop lib b ctx selected [] = map_err CouldNotBalance (try_balance lib b selected ctx)"
| "balance_loop lib b ctx selected (u # us) =
     (case try_balance lib b selected ctx of
        Ok tx \<Rightarrow> Ok tx
      | Err _ \<Rightarrow> balance_loop lib b ctx (selected @ [u]) us
      | Panic \<Rightarrow> Panic)"

definition balance_update_and_build :: "('x, 'ad, 'p, 'k, 'cfg, 'o, 'ib, 'b, 't) csl \<Rightarrow> 'k transaction_context \<Rightarrow> 'b \<Rightarrow> ('t, 'x js_error) result" where
  "balance_update_and_build lib ctx b = balance_loop lib b ctx [] (max_possible_collaterals ctx)"

section \<open>The collateral the loop settles on\<close>

lemma balance_loop_result:
  fixes lib :: "('x, 'ad, 'p, 'k, 'cfg, 'o, 'ib, 'b, 't) csl"
  assumes "\<forall>us. try_balance lib b us ctx \<noteq> Panic"
  shows "(\<exists>k tx. k \<le> length us \<and> balance_loop lib b ctx selected us = Ok tx \<and> try_balance lib b (selected @ take k us) ctx = Ok tx
            \<and> (\<forall>j < k. \<exists>e. try_balance lib b (selected @ take j us) ctx = Err e))
     \<or> (\<exists>e. balance_loop lib b ctx selected us = Err (CouldNotBalance e)
            \<and> (\<forall>j \<le> length us. \<exists>e. try_balance lib b (selected @ take j us) ctx = Err e))"
proof (induction us arbitrary: selected)
  case Nil
  then show ?case
    using assms by (cases "try_balance lib b selected ctx") auto
next
  case (Cons u us)
  show ?case
  proof (cases "try_balance lib b selected ctx")
    case (Ok tx)
    then show ?thesis
      by (intro disjI1 exI [of _ 0] exI [of _ tx]) simp
  next
    case (Err e)
    have step: "(\<forall>j < Suc k. \<exists>e. try_balance lib b (selected @ take j (u # us)) ctx = Err e)
        \<longleftrightarrow> (\<forall>j < k. \<exists>e. try_balance lib b ((selected @ [u]) @ take j us) ctx = Err e)" for k
      using Err by (simp add: All_less_Suc2)
    show ?thesis
      using Cons.IH [of "selected @ [u]"]
    proof (elim disjE exE conjE)
      fix k tx
      assume "k \<le> length us" "balance_loop lib b ctx (selected @ [u]) us = Ok tx"
        "try_balance lib b ((selected @ [u]) @ take k us) ctx = Ok tx"
        "\<forall>j < k. \<exists>e. try_balance lib b ((selected @ [u]) @ take j us) ctx = Err e"
      then show ?thesis
        using Err step [of k] by (intro disjI1 exI [of _ "Suc k"] exI [of _ tx]) simp
    next
      fix e'
      assume "balance_loop lib b ctx (selected @ [u]) us = Err (CouldNotBalance e')"
        "\<forall>j \<le> length us. \<exists>e. try_balance lib b ((selected @ [u]) @ take j us) ctx = Err e"
      then show ?thesis
        using Err step [of "Suc (length us)"] by (intro disjI2 exI [of _ e']) (simp add: less_Suc_eq_le)
    qed
  qed (use assms in simp)
qed

text \<open>\<open>csl_total lib\<close>: the fallible functions of the library return a value or an error.\<close>

definition csl_total :: "('x, 'ad, 'p, 'k, 'cfg, 'o, 'ib, 'b, 't) csl \<Rightarrow> bool" where
  "csl_total lib \<longleftrightarrow> (\<forall>a. from_bech32 lib a \<noteq> Panic) \<and> (\<forall>n. asset_name_new lib n \<noteq> Panic)
     \<and> (\<forall>a i v ib. add_regular_input lib a i v ib \<noteq> Panic) \<and> (\<forall>us a b. add_inputs_from_and_change lib us a b \<noteq> Panic)
     \<and> (\<forall>us a n b. add_inputs_from_and_change_with_collateral_return lib us a n b \<noteq> Panic)
     \<and> (\<forall>m b. calc_script_data_hash lib m b \<noteq> Panic) \<and> (\<forall>b. build_tx lib b \<noteq> Panic)"

lemma convert_value_no_panic:
  assumes "csl_total lib"
  shows "convert_value lib v \<noteq> Panic"
proof -
  have assets: "convert_assets lib as acc \<noteq> Panic" for as acc
    using assms by (induction as arbitrary: acc) (auto simp: csl_total_def)
  have "convert_tokens lib ts acc \<noteq> Panic" for ts acc
    by (induction ts arbitrary: acc) (auto simp: assets)
  then show ?thesis
    by (simp add: convert_value_def)
qed

lemma utxos_to_csl_no_panic:
  assumes "csl_total lib"
  shows "utxos_to_csl lib us \<noteq> Panic"
proof -
  have "utxo_to_csl lib u \<noteq> Panic" for u
    using assms convert_value_no_panic [OF assms] by (auto simp: utxo_to_csl_def csl_total_def)
  then show ?thesis
    unfolding utxos_to_csl_def by (induction us) auto
qed

lemma add_collateral_inputs_no_panic:
  fixes lib :: "('x, 'ad, 'p, 'k, 'cfg, 'o, 'ib, 'b, 't) csl"
  assumes "csl_total lib"
  shows "add_collateral_inputs lib ctx us b \<noteq> Panic"
proof -
  have "add_collateral_to lib ctx us ib \<noteq> Panic" for ib
    using assms convert_value_no_panic [OF assms] by (induction us arbitrary: ib) (auto simp: csl_total_def)
  then show ?thesis
    by (simp add: add_collateral_inputs_def)
qed

lemma try_balance_no_panic:
  fixes lib :: "('x, 'ad, 'p, 'k, 'cfg, 'o, 'ib, 'b, 't) csl"
  assumes "csl_total lib"
  shows "try_balance lib b us ctx \<noteq> Panic"
  using assms utxos_to_csl_no_panic [OF assms] add_collateral_inputs_no_panic [OF assms]
  by (auto simp: try_balance_def csl_total_def Let_def)

lemma take_sorted_largest:
  assumes "v \<in># mset us - mset (take n (sort_key (\<lambda>u. - uint (f u)) us))" "u \<in> set (take n (sort_key (\<lambda>u. - uint (f u)) us))"
  shows "f v \<le> f u"
proof -
  let ?s = "sort_key (\<lambda>u. - uint (f u)) us"
  have "mset us = mset (take n ?s) + mset (drop n ?s)"
    unfolding mset_append [symmetric] append_take_drop_id by simp
  then have "v \<in> set (drop n ?s)"
    using assms(1) by simp
  moreover have "sorted (map (\<lambda>u. - uint (f u)) (take n ?s @ drop n ?s))"
    by (simp del: map_append)
  ultimately show ?thesis
    using assms(2) unfolding map_append sorted_append by (auto simp: word_le_def)
qed

text \<open>C21. Balancing settles on the smallest collateral that works: the transaction it returns was built with the \<open>k\<close>
  largest payment UTXOs as collateral, where \<open>k\<close> is at most the protocol's maximum and every smaller number of them
  failed, and no UTXO left out is larger than one of them; it fails only if every number up to the maximum fails.\<close>

theorem balance_smallest_collateral:
  fixes lib :: "('x, 'ad, 'p, 'k, 'cfg, 'o, 'ib, 'b, 't) csl"
  assumes "csl_total lib"
  shows "(\<exists>k tx. balance_update_and_build lib ctx b = Ok tx \<and> k \<le> unat (max_collateral_inputs (ctx_protocol_parameters ctx))
       \<and> try_balance lib b (take k (max_possible_collaterals ctx)) ctx = Ok tx
       \<and> (\<forall>j < k. \<exists>e. try_balance lib b (take j (max_possible_collaterals ctx)) ctx = Err e)
       \<and> (\<forall>v \<in># mset (ctx_payment_key_utxos ctx) - mset (take k (max_possible_collaterals ctx)).
            \<forall>u \<in> set (take k (max_possible_collaterals ctx)). lovelace (ou_value v) \<le> lovelace (ou_value u)))
    \<or> (\<exists>e. balance_update_and_build lib ctx b = Err (CouldNotBalance e)
       \<and> (\<forall>j. \<exists>e. try_balance lib b (take j (max_possible_collaterals ctx)) ctx = Err e))"
proof -
  let ?c = "max_possible_collaterals ctx"
  have len: "length ?c \<le> unat (max_collateral_inputs (ctx_protocol_parameters ctx))"
    by (simp add: max_possible_collaterals_def)
  have largest: "\<forall>v \<in># mset (ctx_payment_key_utxos ctx) - mset (take k (max_possible_collaterals ctx)).
      \<forall>u \<in> set (take k (max_possible_collaterals ctx)). lovelace (ou_value v) \<le> lovelace (ou_value u)" for k
    unfolding max_possible_collaterals_def take_take using take_sorted_largest [where f = "\<lambda>u. lovelace (ou_value u)"] by blast
  have loop: "(\<exists>k tx. k \<le> length ?c \<and> balance_update_and_build lib ctx b = Ok tx \<and> try_balance lib b (take k ?c) ctx = Ok tx
        \<and> (\<forall>j < k. \<exists>e. try_balance lib b (take j ?c) ctx = Err e))
      \<or> (\<exists>e. balance_update_and_build lib ctx b = Err (CouldNotBalance e)
        \<and> (\<forall>j \<le> length ?c. \<exists>e. try_balance lib b (take j ?c) ctx = Err e))"
    using balance_loop_result [where selected = "[]" and us = ?c, of lib b ctx] try_balance_no_panic [OF assms]
    unfolding balance_update_and_build_def by simp
  then consider (built) k tx where "k \<le> length ?c" "balance_update_and_build lib ctx b = Ok tx"
      "try_balance lib b (take k ?c) ctx = Ok tx" "\<forall>j < k. \<exists>e. try_balance lib b (take j ?c) ctx = Err e"
    | (failed) e where "balance_update_and_build lib ctx b = Err (CouldNotBalance e)"
      "\<forall>j \<le> length ?c. \<exists>e. try_balance lib b (take j ?c) ctx = Err e"
    by blast
  then show ?thesis
  proof cases
    case built
    then show ?thesis
      using len largest [of k] by (intro disjI1 exI [of _ k] exI [of _ tx]) simp
  next
    case failed
    have "\<exists>e. try_balance lib b (take j ?c) ctx = Err e" for j
      using failed(2) by (cases "j \<le> length ?c") auto
    then show ?thesis
      using failed(1) by blast
  qed
qed

section \<open>A recording library\<close>

text \<open>An instance that records the calls it receives; a transaction can be built once collateral is set.\<close>

datatype recorded_input =
  RegularInput bytes tx_input csl_value
| ScriptInput plutus_script "datum redeemer" tx_input csl_value
| KeyInput bytes tx_input csl_value

datatype recorded_call =
  OutputCall bytes datum u64 "(bytes \<times> (bytes \<times> u64) list) list"
| MintCall plutus_script "datum redeemer" bytes int
| InputsCall "recorded_input list"
| CollateralCall "recorded_input list"
| SignerCall bytes
| ScriptDataHashCall bytes
| CalcScriptDataHashCall
| ChangeCall bytes

definition recording :: "(string, bytes, datum, u8, builder_config, bytes \<times> datum \<times> u64 \<times> (bytes \<times> (bytes \<times> u64) list) list,
    recorded_input list, recorded_call list, recorded_call list \<times> (bytes \<times> bytes) list) csl" where
  "recording = \<lparr> blake2b_28 = (\<lambda>bs. take 28 bs), blake2b_32 = (\<lambda>bs. take 32 bs),
     script_enterprise_address = (\<lambda>n h. (16 + n) # h), key_enterprise_address = (\<lambda>n h. n # h),
     to_bech32 = (\<lambda>a. Ok (map (\<lambda>b. char_of (unat b)) a)), from_bech32 = (\<lambda>s. Ok (map of_char s)),
     asset_name_new = (\<lambda>n. if length n \<le> 32 then Ok n else Err ''name''), private_key_from_bytes = (\<lambda>bs. Ok (hd bs)),
     public_key_bytes = (\<lambda>k. [k]), public_key_hash = (\<lambda>k. [k]), private_key_sign = (\<lambda>k m. k # m),
     empty_constr_data = (\<lambda>n. ConstructorDatum n []), config_build = Ok, output_build = (\<lambda>a d c m. Ok (a, d, c, m)),
     calculate_ada = (\<lambda>_ n. Ok (100 * n)), inputs_new = [], add_regular_input = (\<lambda>a i v ib. Ok (ib @ [RegularInput a i v])),
     add_plutus_script_input = (\<lambda>w i v ib. ib @ [ScriptInput (fst w) (snd w) i v]),
     add_key_input = (\<lambda>k i v ib. ib @ [KeyInput k i v]), builder_new = (\<lambda>_. []),
     add_output = (\<lambda>(a, d, c, m) b. Ok (b @ [OutputCall a d c m])),
     set_mint_asset = (\<lambda>w n q b. Ok (b @ [MintCall (fst w) (snd w) n q])), set_inputs = (\<lambda>ib b. b @ [InputsCall ib]),
     set_collateral = (\<lambda>ib b. b @ [CollateralCall ib]), add_required_signer = (\<lambda>h b. b @ [SignerCall h]),
     set_script_data_hash = (\<lambda>h b. b @ [ScriptDataHashCall h]), calc_script_data_hash = (\<lambda>_ b. Ok (b @ [CalcScriptDataHashCall])),
     add_inputs_from_and_change = (\<lambda>_ a b. Ok (b @ [ChangeCall a])),
     add_inputs_from_and_change_with_collateral_return = (\<lambda>_ a _ b. Ok (b @ [ChangeCall a])),
     build_tx = (\<lambda>b. if list_ex (\<lambda>c. case c of CollateralCall _ \<Rightarrow> True | _ \<Rightarrow> False) b then Ok (b, []) else Err ''collateral''),
     tx_body_bytes = (\<lambda>t. [of_nat (length (fst t))]), tx_vkeys = (\<lambda>t. if snd t = [] then None else Some (snd t)),
     tx_with_vkeys = (\<lambda>t ws. (fst t, ws)), tx_to_bytes = (\<lambda>t. of_nat (length (fst t)) # concat (map snd (snd t))) \<rparr>"

lemma recording_total: "csl_total recording"
  by (simp add: csl_total_def recording_def)

definition demo_payment_utxo :: "u8 \<Rightarrow> u64 \<Rightarrow> ogmios_utxo" where
  "demo_payment_utxo n amount = \<lparr> ou_transaction = replicate 32 n, ou_index = 0, ou_address = [], ou_value = new_lovelace amount,
     ou_datum = None, ou_datum_hash = None, ou_script = None \<rparr>"

definition demo_parameters :: protocol_parameters where
  "demo_parameters = \<lparr> min_fee_coefficient = 44, min_fee_constant = new_lovelace 155381, stake_pool_deposit = new_lovelace 500000000,
     stake_credential_deposit = new_lovelace 2000000, max_value_size = 5000, max_transaction_size = 16384,
     min_utxo_deposit_coefficient = 4310, price_memory = (577, 10000), price_cpu = (721, 10000000),
     cost_models = \<lparr> cost_v1 = [], cost_v2 = [], cost_v3 = [] \<rparr>, max_collateral_inputs = 3, collateral_percentage = 150 \<rparr>"

definition demo_context :: "u8 transaction_context" where
  "demo_context = \<lparr> ctx_payment_key = 7, ctx_payment_key_utxos = [demo_payment_utxo 1 1200000, demo_payment_utxo 4 1500000],
     ctx_network = TestnetId, ctx_protocol_parameters = demo_parameters \<rparr>"

lemma demo_collaterals: "max_possible_collaterals demo_context = [demo_payment_utxo 4 1500000, demo_payment_utxo 1 1200000]"
  by (simp add: max_possible_collaterals_def demo_context_def demo_parameters_def demo_payment_utxo_def new_lovelace_def)

lemma demo_try_balance:
  "try_balance recording b [] demo_context = Err (CslError ''collateral'')
     \<longleftrightarrow> \<not> list_ex (\<lambda>c. case c of CollateralCall _ \<Rightarrow> True | _ \<Rightarrow> False) b"
  "\<exists>tx. try_balance recording b [demo_payment_utxo 4 1500000] demo_context = Ok tx"
  by (simp_all add: try_balance_def recording_def utxos_to_csl_def utxo_to_csl_def convert_value_def demo_context_def
      demo_payment_utxo_def new_lovelace_def add_collateral_inputs_def Let_def)

theorem balance_smallest_collateral_witness:
  "\<exists>tx. balance_update_and_build recording demo_context [] = Ok tx
     \<and> try_balance recording [] [demo_payment_utxo 4 1500000] demo_context = Ok tx"
proof -
  have fail: "try_balance recording [] [] demo_context = Err (CslError ''collateral'')"
    using demo_try_balance(1) [of "[]"] by simp
  obtain tx where tx: "try_balance recording [] [demo_payment_utxo 4 1500000] demo_context = Ok tx"
    using demo_try_balance(2) by blast
  have one: "take 1 (max_possible_collaterals demo_context) = [demo_payment_utxo 4 1500000]"
    by (simp add: demo_collaterals)
  from balance_smallest_collateral [OF recording_total, of demo_context "[]"] show ?thesis
  proof (elim disjE exE conjE)
    fix k tx'
    assume k: "balance_update_and_build recording demo_context [] = Ok tx'"
      "try_balance recording [] (take k (max_possible_collaterals demo_context)) demo_context = Ok tx'"
      "\<forall>j < k. \<exists>e. try_balance recording [] (take j (max_possible_collaterals demo_context)) demo_context = Err e"
    have "k \<noteq> 0"
      using k(2) fail by (cases k) auto
    moreover have "\<not> 1 < k"
      using k(3) tx one by force
    ultimately have "k = 1"
      by simp
    then show ?thesis
      using k(1,2) one by simp
  next
    fix e
    assume "\<forall>j. \<exists>e. try_balance recording [] (take j (max_possible_collaterals demo_context)) demo_context = Err e"
    then show ?thesis
      using tx one by (metis result.distinct(1))
  qed
qed

end
