(* ===== verification/SmartContracts.thy ===== *)
theory SmartContracts
  imports Prelude Csl FilterCandidates
begin

text \<open>
  The scripts of the partner chain and their parameters: \<^verbatim>\<open>toolkit/offchain/src/plutus_script.rs\<close>,
  \<^verbatim>\<open>untyped_plutus.rs\<close> and \<^verbatim>\<open>scripts_data.rs\<close>.

  The \<^verbatim>\<open>uplc\<close> crate, which decodes scripts and applies data to them, and the compiled scripts of \<^verbatim>\<open>raw_scripts\<close> are
  parameters.  The lemmas show how the identifiers of the scripts depend on each other.
\<close>

section \<open>Scripts with parameters\<close>

record ('x, 'ad, 'p, 'u) uplc =
  uplc_plutus_data :: "bytes \<Rightarrow> 'u option"
  uplc_decode :: "bytes \<Rightarrow> ('u, 'x) result"
  uplc_as_bounded_bytes :: "'u \<Rightarrow> bytes option"
  uplc_bounded_bytes :: "bytes \<Rightarrow> 'u"
  uplc_array :: "'u list \<Rightarrow> 'u"
  uplc_int :: "int \<Rightarrow> 'u"
  program_from_cbor :: "bytes \<Rightarrow> (bytes, 'x) result"
  program_apply_data :: "bytes \<Rightarrow> 'u \<Rightarrow> bytes"
  program_to_cbor :: "bytes \<Rightarrow> bytes option"
  plutus_data_from_address :: "'ad \<Rightarrow> ('p, 'x) result"
  plutus_data_serialize :: "'p \<Rightarrow> (bytes, 'x) result"

datatype ('x, 'e) offchain_error =
  ExternalError 'x
| JsFailed "'x js_error"
| ExpectedBoundedBytes
| CouldNotEncodeScript
| ClientFailed 'e
| MissingDatum
| UndecodableDatum 'x
| InvalidDatum string
| EvaluateFailed 'e
| SubmitFailed 'e
| NoUtxoToChoose
| GenesisUtxoNotFound utxo_id

definition datum_to_uplc_plutus_data ::
  "primitives \<Rightarrow> ('x, 'ad, 'p, 'u) uplc \<Rightarrow> datum \<Rightarrow> ('u, ('x, 'e) offchain_error) result" where
  "datum_to_uplc_plutus_data pr up d =
     expect (uplc_plutus_data up (to_datum_cbor_bytes (cbor_emit pr) (to_bytes_be pr) d))"

definition csl_plutus_data_to_uplc ::
  "('x, 'ad, 'p, 'u) uplc \<Rightarrow> 'p \<Rightarrow> ('u, ('x, 'e) offchain_error) result" where
  "csl_plutus_data_to_uplc up d =
     rbind (map_err ExternalError (plutus_data_serialize up d)) (\<lambda>bs. map_err ExternalError (uplc_decode up bs))"

definition unwrap_one_layer_of_cbor ::
  "('x, 'ad, 'p, 'u) uplc \<Rightarrow> bytes \<Rightarrow> (bytes, ('x, 'e) offchain_error) result" where
  "unwrap_one_layer_of_cbor up raw =
     rbind (map_err ExternalError (uplc_decode up raw)) (\<lambda>d. ok_or ExpectedBoundedBytes (uplc_as_bounded_bytes up d))"

definition from_wrapped_cbor ::
  "('x, 'ad, 'p, 'u) uplc \<Rightarrow> bytes \<Rightarrow> language_kind \<Rightarrow> (plutus_script, ('x, 'e) offchain_error) result" where
  "from_wrapped_cbor up cbor language =
     rbind (unwrap_one_layer_of_cbor up cbor) (\<lambda>bs. Ok \<lparr> script_bytes = bs, script_language = language \<rparr>)"

definition apply_uplc_data ::
  "('x, 'ad, 'p, 'u) uplc \<Rightarrow> 'u \<Rightarrow> plutus_script \<Rightarrow> (plutus_script, ('x, 'e) offchain_error) result" where
  "apply_uplc_data up d s =
     rbind (map_err ExternalError (program_from_cbor up (script_bytes s))) (\<lambda>program.
     rbind (ok_or CouldNotEncodeScript (program_to_cbor up (program_apply_data up program d))) (\<lambda>bs.
       Ok (s \<lparr> script_bytes := bs \<rparr>)))"

definition apply_data ::
  "primitives \<Rightarrow> ('x, 'ad, 'p, 'u) uplc \<Rightarrow> datum \<Rightarrow> plutus_script \<Rightarrow> (plutus_script, ('x, 'e) offchain_error) result" where
  "apply_data pr up d s = rbind (datum_to_uplc_plutus_data pr up d) (\<lambda>u. apply_uplc_data up u s)"

definition address_data ::
  "('x, 'ad, 'p, 'k, 'cfg, 'o, 'ib, 'b, 't) csl \<Rightarrow> ('x, 'ad, 'p, 'u) uplc \<Rightarrow> network_id_kind \<Rightarrow> plutus_script
    \<Rightarrow> ('u, ('x, 'e) offchain_error) result" where
  "address_data lib up network s =
     rbind (map_err ExternalError (plutus_data_from_address up (ps_address lib s network))) (csl_plutus_data_to_uplc up)"

section \<open>The scripts of a chain\<close>

record raw_scripts =
  raw_version_oracle_validator :: bytes
  raw_version_oracle_policy :: bytes
  raw_committee_candidate_validator :: bytes
  raw_d_parameter_validator :: bytes
  raw_d_parameter_policy :: bytes
  raw_permissioned_candidates_validator :: bytes
  raw_permissioned_candidates_policy :: bytes
  raw_illiquid_circulation_supply_validator :: bytes
  raw_reserve_validator :: bytes
  raw_reserve_auth_policy :: bytes
  raw_multi_sig_policy :: bytes

text \<open>What script derivation depends on besides the chain: the libraries and the compiled scripts.\<close>

record ('x, 'ad, 'p, 'k, 'cfg, 'o, 'ib, 'b, 't, 'u) offchain_env =
  oe_csl :: "('x, 'ad, 'p, 'k, 'cfg, 'o, 'ib, 'b, 't) csl"
  oe_uplc :: "('x, 'ad, 'p, 'u) uplc"
  oe_primitives :: primitives
  oe_raw :: raw_scripts

definition version_oracle_scripts ::
  "('x, 'ad, 'p, 'k, 'cfg, 'o, 'ib, 'b, 't, 'u) offchain_env \<Rightarrow> utxo_id \<Rightarrow> network_id_kind
    \<Rightarrow> (plutus_script \<times> bytes \<times> 'u, ('x, 'e) offchain_error) result" where
  "version_oracle_scripts env genesis_utxo network =
     (let up = oe_uplc env; apply = (\<lambda>d. apply_data (oe_primitives env) up d)
      in rbind (from_wrapped_cbor up (raw_version_oracle_validator (oe_raw env)) PlutusV2) (\<lambda>s.
         rbind (apply (utxo_id_to_datum genesis_utxo) s) (\<lambda>validator.
         rbind (from_wrapped_cbor up (raw_version_oracle_policy (oe_raw env)) PlutusV2) (\<lambda>s.
         rbind (apply (utxo_id_to_datum genesis_utxo) s) (\<lambda>s.
         rbind (address_data (oe_csl env) up network validator) (\<lambda>address.
         rbind (apply_uplc_data up address s) (\<lambda>policy_script.
           let policy = ps_script_hash (oe_csl env) policy_script
           in Ok (validator, policy, uplc_bounded_bytes up policy))))))))"

text \<open>The D-parameter and the permissioned candidates have scripts of the same form: a validator with the genesis UTXO and
  the version oracle policy, and a policy with both and the address of the validator.\<close>

definition validator_and_policy ::
  "('x, 'ad, 'p, 'k, 'cfg, 'o, 'ib, 'b, 't, 'u) offchain_env \<Rightarrow> bytes \<Rightarrow> bytes \<Rightarrow> utxo_id \<Rightarrow> network_id_kind
    \<Rightarrow> (plutus_script \<times> plutus_script, ('x, 'e) offchain_error) result" where
  "validator_and_policy env raw_validator raw_policy genesis_utxo network =
     (let up = oe_uplc env; apply = (\<lambda>d. apply_data (oe_primitives env) up d)
      in rbind (version_oracle_scripts env genesis_utxo network) (\<lambda>(_, version_oracle_policy, _).
         rbind (from_wrapped_cbor up raw_validator PlutusV2) (\<lambda>s.
         rbind (apply (utxo_id_to_datum genesis_utxo) s) (\<lambda>s.
         rbind (apply (bytes_to_datum version_oracle_policy) s) (\<lambda>validator.
         rbind (from_wrapped_cbor up raw_policy PlutusV2) (\<lambda>s.
         rbind (apply (utxo_id_to_datum genesis_utxo) s) (\<lambda>s.
         rbind (apply (bytes_to_datum version_oracle_policy) s) (\<lambda>s.
         rbind (address_data (oe_csl env) up network validator) (\<lambda>address.
         rbind (apply_uplc_data up address s) (\<lambda>policy. Ok (validator, policy)))))))))))"

definition d_parameter_scripts ::
  "('x, 'ad, 'p, 'k, 'cfg, 'o, 'ib, 'b, 't, 'u) offchain_env \<Rightarrow> utxo_id \<Rightarrow> network_id_kind
    \<Rightarrow> (plutus_script \<times> plutus_script, ('x, 'e) offchain_error) result" where
  "d_parameter_scripts env = validator_and_policy env (raw_d_parameter_validator (oe_raw env)) (raw_d_parameter_policy (oe_raw env))"

definition permissioned_candidates_scripts ::
  "('x, 'ad, 'p, 'k, 'cfg, 'o, 'ib, 'b, 't, 'u) offchain_env \<Rightarrow> utxo_id \<Rightarrow> network_id_kind
    \<Rightarrow> (plutus_script \<times> plutus_script, ('x, 'e) offchain_error) result" where
  "permissioned_candidates_scripts env =
     validator_and_policy env (raw_permissioned_candidates_validator (oe_raw env)) (raw_permissioned_candidates_policy (oe_raw env))"

definition multisig_governance_policy_configuration :: "('x, 'ad, 'p, 'u) uplc \<Rightarrow> bytes \<Rightarrow> 'u" where
  "multisig_governance_policy_configuration up governance_authority =
     uplc_array up [uplc_array up [uplc_bounded_bytes up governance_authority], uplc_int up 1]"

record script_identifiers =
  si_committee_candidate :: string
  si_d_parameter :: string
  si_illiquid_circulation_supply :: string
  si_permissioned_candidates :: string
  si_reserve :: string
  si_version_oracle :: string

record validator_hashes =
  vh_committee_candidate :: bytes
  vh_d_parameter :: bytes
  vh_illiquid_circulation_supply :: bytes
  vh_permissioned_candidates :: bytes
  vh_reserve :: bytes
  vh_version_oracle :: bytes

record policy_ids =
  pi_d_parameter :: bytes
  pi_permissioned_candidates :: bytes
  pi_reserve_auth :: bytes
  pi_version_oracle :: bytes
  pi_governance :: bytes

record scripts_data =
  sd_addresses :: script_identifiers
  sd_validator_hashes :: validator_hashes
  sd_policy_ids :: policy_ids

definition get_scripts_data ::
  "('x, 'ad, 'p, 'k, 'cfg, 'o, 'ib, 'b, 't, 'u) offchain_env \<Rightarrow> utxo_id \<Rightarrow> network_id_kind
    \<Rightarrow> (scripts_data, ('x, 'e) offchain_error) result" where
  "get_scripts_data env genesis_utxo network =
     (let up = oe_uplc env; lib = oe_csl env; raw = oe_raw env; apply = (\<lambda>d. apply_data (oe_primitives env) up d);
          bech32 = (\<lambda>s. map_err ExternalError (ps_address_bech32 lib s network));
          with_data = (\<lambda>bs d. rbind (from_wrapped_cbor up bs PlutusV2) (apply_uplc_data up d))
      in rbind (version_oracle_scripts env genesis_utxo network) (\<lambda>(version_oracle_validator, version_oracle_policy, policy_data).
         rbind (rbind (from_wrapped_cbor up (raw_committee_candidate_validator raw) PlutusV2) (apply (utxo_id_to_datum genesis_utxo)))
           (\<lambda>committee_candidate_validator.
         rbind (d_parameter_scripts env genesis_utxo network) (\<lambda>(d_parameter_validator, d_parameter_policy).
         rbind (with_data (raw_illiquid_circulation_supply_validator raw) policy_data) (\<lambda>illiquid_validator.
         rbind (permissioned_candidates_scripts env genesis_utxo network) (\<lambda>(permissioned_validator, permissioned_policy).
         rbind (with_data (raw_reserve_validator raw) policy_data) (\<lambda>reserve_validator.
         rbind (with_data (raw_multi_sig_policy raw)
             (multisig_governance_policy_configuration up (blake2b_28 lib (replicate 32 0)))) (\<lambda>governance_policy.
         rbind (with_data (raw_reserve_auth_policy raw) policy_data) (\<lambda>reserve_auth_policy.
         rbind (bech32 committee_candidate_validator) (\<lambda>committee_address.
         rbind (bech32 d_parameter_validator) (\<lambda>d_parameter_address.
         rbind (bech32 illiquid_validator) (\<lambda>illiquid_address.
         rbind (bech32 permissioned_validator) (\<lambda>permissioned_address.
         rbind (bech32 reserve_validator) (\<lambda>reserve_address.
         rbind (bech32 version_oracle_validator) (\<lambda>version_oracle_address.
         Ok \<lparr> sd_addresses =
                \<lparr> si_committee_candidate = committee_address, si_d_parameter = d_parameter_address,
                  si_illiquid_circulation_supply = illiquid_address, si_permissioned_candidates = permissioned_address,
                  si_reserve = reserve_address, si_version_oracle = version_oracle_address \<rparr>,
              sd_validator_hashes =
                \<lparr> vh_committee_candidate = ps_script_hash lib committee_candidate_validator,
                  vh_d_parameter = ps_script_hash lib d_parameter_validator,
                  vh_illiquid_circulation_supply = ps_script_hash lib illiquid_validator,
                  vh_permissioned_candidates = ps_script_hash lib permissioned_validator,
                  vh_reserve = ps_script_hash lib reserve_validator,
                  vh_version_oracle = ps_script_hash lib version_oracle_validator \<rparr>,
              sd_policy_ids =
                \<lparr> pi_d_parameter = ps_script_hash lib d_parameter_policy,
                  pi_permissioned_candidates = ps_script_hash lib permissioned_policy,
                  pi_reserve_auth = ps_script_hash lib reserve_auth_policy, pi_version_oracle = version_oracle_policy,
                  pi_governance = ps_script_hash lib governance_policy \<rparr> \<rparr>)))))))))))))))"

lemma scripts_data_identifiers:
  assumes "get_scripts_data env g n = (Ok sd :: (_, ('x, 'e) offchain_error) result)"
  shows "\<exists>v p. d_parameter_scripts env g n = (Ok (v, p) :: (_, ('x, 'e) offchain_error) result)
       \<and> ps_address_bech32 (oe_csl env) v n = Ok (si_d_parameter (sd_addresses sd))
       \<and> ps_script_hash (oe_csl env) p = pi_d_parameter (sd_policy_ids sd)"
    "\<exists>v p. permissioned_candidates_scripts env g n = (Ok (v, p) :: (_, ('x, 'e) offchain_error) result)
       \<and> ps_address_bech32 (oe_csl env) v n = Ok (si_permissioned_candidates (sd_addresses sd))
       \<and> ps_script_hash (oe_csl env) p = pi_permissioned_candidates (sd_policy_ids sd)"
  using assms by (auto simp: get_scripts_data_def Let_def)

end
