(* ===== verification/Upsert.thy ===== *)
theory Upsert
  imports Prelude SmartContracts PlutusData "HOL-Library.Product_Lexorder" "HOL-Library.List_Lexorder"
begin

text \<open>
  Writing of the D-parameter, of the permissioned candidates and of the governance version to the main chain:
  \<^verbatim>\<open>toolkit/offchain/src/d_param.rs\<close>, \<^verbatim>\<open>permissioned_candidates.rs\<close> and \<^verbatim>\<open>init_governance\<close>.

  The Ogmios service is the record \<open>ogmios_client\<close>; an operation returns the transactions it submitted, in order, with
  its result.  The lemmas show when an upsert submits a transaction, what the transaction carries, and which script the
  updates attach to the UTXO they spend.
\<close>

section \<open>Client and context\<close>

record 'e ogmios_client =
  oc_network :: "(network_type, 'e) result"
  oc_protocol_parameters :: "(protocol_parameters, 'e) result"
  oc_query_utxos :: "string list \<Rightarrow> (ogmios_utxo list, 'e) result"
  oc_evaluate :: "bytes \<Rightarrow> (evaluate_response list, 'e) result"
  oc_submit :: "bytes \<Rightarrow> (bytes, 'e) result"

type_synonym ('a, 'x, 'e) action = "bytes list \<times> ('a, ('x, 'e) offchain_error) result"

definition act_bind ::
  "('a, ('x, 'e) offchain_error) result \<Rightarrow> ('a \<Rightarrow> ('b, 'x, 'e) action) \<Rightarrow> ('b, 'x, 'e) action" where
  "act_bind r f = (case r of Ok a \<Rightarrow> f a | Err e \<Rightarrow> ([], Err e) | Panic \<Rightarrow> ([], Panic))"

definition for_payment_key ::
  "('x, 'ad, 'p, 'k, 'cfg, 'o, 'ib, 'b, 't) csl \<Rightarrow> bytes \<Rightarrow> 'e ogmios_client
    \<Rightarrow> ('k transaction_context, ('x, 'e) offchain_error) result" where
  "for_payment_key lib payment_signing_key client =
     rbind (map_err ExternalError (private_key_from_bytes lib payment_signing_key)) (\<lambda>payment_key.
     rbind (map_err ClientFailed (oc_network client)) (\<lambda>network_kind.
     rbind (map_err ClientFailed (oc_protocol_parameters client)) (\<lambda>parameters.
     let network = network_to_csl network_kind; address = key_hash_address lib (public_key_hash lib payment_key) network in
     rbind (map_err ExternalError (to_bech32 lib address)) (\<lambda>bech32.
     rbind (map_err ClientFailed (oc_query_utxos client [bech32])) (\<lambda>utxos.
       Ok \<lparr> ctx_payment_key = payment_key, ctx_payment_key_utxos = utxos, ctx_network = network,
            ctx_protocol_parameters = parameters \<rparr>)))))"

text \<open>The common course of the submissions: build with zero costs, evaluate, build with the evaluated costs, sign and
  submit.\<close>

definition build_evaluate_submit ::
  "('x, 'ad, 'p, 'k, 'cfg, 'o, 'ib, 'b, 't) csl \<Rightarrow> 'e ogmios_client \<Rightarrow> 'k transaction_context
    \<Rightarrow> (ex_units \<Rightarrow> ('t, ('x, 'e) offchain_error) result) \<Rightarrow> (bytes, 'x, 'e) action" where
  "build_evaluate_submit lib client ctx build =
     act_bind
       (rbind (build \<lparr> ex_mem = 0, ex_steps = 0 \<rparr>) (\<lambda>tx.
        rbind (map_err EvaluateFailed (oc_evaluate client (tx_to_bytes lib tx))) (\<lambda>response.
        rbind (map_err JsFailed (get_first_validator_budget response)) build)))
       (\<lambda>tx. let signed_tx = tx_to_bytes lib (ctx_sign lib ctx tx)
             in ([signed_tx], map_err SubmitFailed (oc_submit client signed_tx)))"

section \<open>D-parameter\<close>

definition get_current_d_parameter ::
  "'p plutus_api \<Rightarrow> (bytes \<Rightarrow> ('p, 'x) result) \<Rightarrow> ogmios_utxo list
    \<Rightarrow> ((ogmios_utxo \<times> d_parameter) option, ('x, 'e) offchain_error) result" where
  "get_current_d_parameter api from_bytes validator_utxos =
     (case validator_utxos of
        utxo # _ \<Rightarrow>
          rbind (ok_or MissingDatum (ou_datum utxo)) (\<lambda>bs.
          rbind (map_err UndecodableDatum (from_bytes bs)) (\<lambda>plutus_data.
          rbind (map_err (\<lambda>(DataDecodingError _ _ msg) \<Rightarrow> InvalidDatum msg) (d_param_try_from api plutus_data)) (\<lambda>datum.
            Ok (Some (utxo, d_parameter_from datum)))))
      | [] \<Rightarrow> Ok None)"

definition mint_d_param_token_tx ::
  "('x, 'ad, 'p, 'k, 'cfg, 'o, 'ib, 'b, 't) csl \<Rightarrow> 'p plutus_api \<Rightarrow> plutus_script \<Rightarrow> plutus_script \<Rightarrow> d_parameter
    \<Rightarrow> 'k transaction_context \<Rightarrow> ex_units \<Rightarrow> ('t, 'x js_error) result" where
  "mint_d_param_token_tx lib api validator policy d ctx units =
     rbind (get_builder_config lib (ctx_protocol_parameters ctx)) (\<lambda>cfg.
     rbind (add_mint_one_script_token lib policy units (builder_new lib cfg)) (\<lambda>b.
     rbind (add_output_with_one_script_token lib validator policy (d_parameter_to_plutus_data api d) ctx b) (\<lambda>b.
       balance_update_and_build lib ctx b)))"

definition update_d_param_tx ::
  "('x, 'ad, 'p, 'k, 'cfg, 'o, 'ib, 'b, 't) csl \<Rightarrow> 'p plutus_api \<Rightarrow> plutus_script \<Rightarrow> plutus_script \<Rightarrow> d_parameter
    \<Rightarrow> ogmios_utxo \<Rightarrow> 'k transaction_context \<Rightarrow> ex_units \<Rightarrow> ('t, 'x js_error) result" where
  "update_d_param_tx lib api validator policy d script_utxo ctx units =
     rbind (get_builder_config lib (ctx_protocol_parameters ctx)) (\<lambda>cfg.
     rbind (add_script_utxo_input lib script_utxo validator units (inputs_new lib)) (\<lambda>ib.
     rbind (add_output_with_one_script_token lib validator policy (d_parameter_to_plutus_data api d) ctx
              (set_inputs lib ib (builder_new lib cfg))) (\<lambda>b.
       balance_update_and_build lib ctx b)))"

definition insert_d_param ::
  "('x, 'ad, 'p, 'k, 'cfg, 'o, 'ib, 'b, 't) csl \<Rightarrow> 'p plutus_api \<Rightarrow> plutus_script \<Rightarrow> plutus_script \<Rightarrow> d_parameter
    \<Rightarrow> 'k transaction_context \<Rightarrow> 'e ogmios_client \<Rightarrow> (bytes, 'x, 'e) action" where
  "insert_d_param lib api validator policy d ctx client =
     build_evaluate_submit lib client ctx (\<lambda>units. map_err JsFailed (mint_d_param_token_tx lib api validator policy d ctx units))"

definition update_d_param ::
  "('x, 'ad, 'p, 'k, 'cfg, 'o, 'ib, 'b, 't) csl \<Rightarrow> 'p plutus_api \<Rightarrow> plutus_script \<Rightarrow> plutus_script \<Rightarrow> d_parameter
    \<Rightarrow> ogmios_utxo \<Rightarrow> 'k transaction_context \<Rightarrow> 'e ogmios_client \<Rightarrow> (bytes, 'x, 'e) action" where
  "update_d_param lib api validator policy d current_utxo ctx client =
     build_evaluate_submit lib client ctx
       (\<lambda>units. map_err JsFailed (update_d_param_tx lib api validator policy d current_utxo ctx units))"

definition upsert_d_param ::
  "('x, 'ad, 'p, 'k, 'cfg, 'o, 'ib, 'b, 't, 'u) offchain_env \<Rightarrow> 'p plutus_api \<Rightarrow> (bytes \<Rightarrow> ('p, 'x) result)
    \<Rightarrow> utxo_id \<Rightarrow> d_parameter \<Rightarrow> bytes \<Rightarrow> 'e ogmios_client \<Rightarrow> (bytes option, 'x, 'e) action" where
  "upsert_d_param env api from_bytes genesis_utxo d payment_signing_key client =
     (let lib = oe_csl env
      in act_bind
           (rbind (for_payment_key lib payment_signing_key client) (\<lambda>ctx.
            rbind (d_parameter_scripts env genesis_utxo (ctx_network ctx)) (\<lambda>(validator, policy).
            rbind (map_err ExternalError (ps_address_bech32 lib validator (ctx_network ctx))) (\<lambda>validator_address.
            rbind (map_err ClientFailed (oc_query_utxos client [validator_address])) (\<lambda>validator_utxos.
            rbind (get_current_d_parameter api from_bytes validator_utxos) (\<lambda>current. Ok (ctx, validator, policy, current)))))))
           (\<lambda>(ctx, validator, policy, current).
              case current of
                Some (current_utxo, current_d_param) \<Rightarrow>
                  if current_d_param = d then ([], Ok None)
                  else (let (submitted, r) = update_d_param lib api validator policy d current_utxo ctx client
                        in (submitted, rbind r (\<lambda>h. Ok (Some h))))
              | None \<Rightarrow> (let (submitted, r) = insert_d_param lib api validator policy d ctx client
                         in (submitted, rbind r (\<lambda>h. Ok (Some h))))))"

section \<open>Permissioned candidates\<close>

text \<open>The derived order of candidates compares the keys in their order of declaration.\<close>

definition sort_candidates :: "permissioned_candidate_data list \<Rightarrow> permissioned_candidate_data list" where
  "sort_candidates = sort_key (\<lambda>c. (perm_sidechain_public_key c, perm_aura_public_key c, perm_grandpa_public_key c))"

definition get_current_permissioned_candidates ::
  "'p plutus_api \<Rightarrow> (bytes \<Rightarrow> ('p, 'x) result) \<Rightarrow> ogmios_utxo list
    \<Rightarrow> ((ogmios_utxo \<times> permissioned_candidate_data list) option, ('x, 'e) offchain_error) result" where
  "get_current_permissioned_candidates api from_bytes validator_utxos =
     (case validator_utxos of
        utxo # _ \<Rightarrow>
          rbind (ok_or MissingDatum (ou_datum utxo)) (\<lambda>bs.
          rbind (map_err UndecodableDatum (from_bytes bs)) (\<lambda>plutus_data.
          rbind (map_err (\<lambda>(DataDecodingError _ _ msg) \<Rightarrow> InvalidDatum msg) (permissioned_try_from api plutus_data)) (\<lambda>datums.
            Ok (Some (utxo, sort_candidates (permissioned_candidates_from datums))))))
      | [] \<Rightarrow> Ok None)"

definition mint_permissioned_candidates_token_tx ::
  "('x, 'ad, 'p, 'k, 'cfg, 'o, 'ib, 'b, 't) csl \<Rightarrow> 'p plutus_api \<Rightarrow> plutus_script \<Rightarrow> plutus_script
    \<Rightarrow> permissioned_candidate_data list \<Rightarrow> 'k transaction_context \<Rightarrow> ex_units \<Rightarrow> ('t, 'x js_error) result" where
  "mint_permissioned_candidates_token_tx lib api validator policy candidates ctx units =
     rbind (get_builder_config lib (ctx_protocol_parameters ctx)) (\<lambda>cfg.
     rbind (add_mint_one_script_token lib policy units (builder_new lib cfg)) (\<lambda>b.
     rbind (add_output_with_one_script_token lib validator policy (permissioned_candidates_to_plutus_data api candidates) ctx b) (\<lambda>b.
       balance_update_and_build lib ctx b)))"

definition update_permissioned_candidates_tx ::
  "('x, 'ad, 'p, 'k, 'cfg, 'o, 'ib, 'b, 't) csl \<Rightarrow> 'p plutus_api \<Rightarrow> plutus_script \<Rightarrow> plutus_script
    \<Rightarrow> permissioned_candidate_data list \<Rightarrow> ogmios_utxo \<Rightarrow> 'k transaction_context \<Rightarrow> ex_units \<Rightarrow> ('t, 'x js_error) result" where
  "update_permissioned_candidates_tx lib api validator policy candidates script_utxo ctx units =
     rbind (get_builder_config lib (ctx_protocol_parameters ctx)) (\<lambda>cfg.
     rbind (add_script_utxo_input lib script_utxo policy units (inputs_new lib)) (\<lambda>ib.
     rbind (add_output_with_one_script_token lib validator policy (permissioned_candidates_to_plutus_data api candidates) ctx
              (set_inputs lib ib (builder_new lib cfg))) (\<lambda>b.
       balance_update_and_build lib ctx b)))"

definition insert_permissioned_candidates ::
  "('x, 'ad, 'p, 'k, 'cfg, 'o, 'ib, 'b, 't) csl \<Rightarrow> 'p plutus_api \<Rightarrow> plutus_script \<Rightarrow> plutus_script
    \<Rightarrow> permissioned_candidate_data list \<Rightarrow> 'k transaction_context \<Rightarrow> 'e ogmios_client \<Rightarrow> (bytes, 'x, 'e) action" where
  "insert_permissioned_candidates lib api validator policy candidates ctx client =
     build_evaluate_submit lib client ctx
       (\<lambda>units. map_err JsFailed (mint_permissioned_candidates_token_tx lib api validator policy candidates ctx units))"

definition update_permissioned_candidates ::
  "('x, 'ad, 'p, 'k, 'cfg, 'o, 'ib, 'b, 't) csl \<Rightarrow> 'p plutus_api \<Rightarrow> plutus_script \<Rightarrow> plutus_script
    \<Rightarrow> permissioned_candidate_data list \<Rightarrow> ogmios_utxo \<Rightarrow> 'k transaction_context \<Rightarrow> 'e ogmios_client
    \<Rightarrow> (bytes, 'x, 'e) action" where
  "update_permissioned_candidates lib api validator policy candidates current_utxo ctx client =
     build_evaluate_submit lib client ctx
       (\<lambda>units. map_err JsFailed (update_permissioned_candidates_tx lib api validator policy candidates current_utxo ctx units))"

definition upsert_permissioned_candidates ::
  "('x, 'ad, 'p, 'k, 'cfg, 'o, 'ib, 'b, 't, 'u) offchain_env \<Rightarrow> 'p plutus_api \<Rightarrow> (bytes \<Rightarrow> ('p, 'x) result)
    \<Rightarrow> utxo_id \<Rightarrow> permissioned_candidate_data list \<Rightarrow> bytes \<Rightarrow> 'e ogmios_client \<Rightarrow> (bytes option, 'x, 'e) action" where
  "upsert_permissioned_candidates env api from_bytes genesis_utxo requested payment_signing_key client =
     (let lib = oe_csl env; candidates = sort_candidates requested
      in act_bind
           (rbind (for_payment_key lib payment_signing_key client) (\<lambda>ctx.
            rbind (permissioned_candidates_scripts env genesis_utxo (ctx_network ctx)) (\<lambda>(validator, policy).
            rbind (map_err ExternalError (ps_address_bech32 lib validator (ctx_network ctx))) (\<lambda>validator_address.
            rbind (map_err ClientFailed (oc_query_utxos client [validator_address])) (\<lambda>validator_utxos.
            rbind (get_current_permissioned_candidates api from_bytes validator_utxos) (\<lambda>current.
              Ok (ctx, validator, policy, current)))))))
           (\<lambda>(ctx, validator, policy, current).
              case current of
                Some (current_utxo, current_candidates) \<Rightarrow>
                  if current_candidates = candidates then ([], Ok None)
                  else (let (submitted, r) = update_permissioned_candidates lib api validator policy candidates current_utxo ctx client
                        in (submitted, rbind r (\<lambda>h. Ok (Some h))))
              | None \<Rightarrow> (let (submitted, r) = insert_permissioned_candidates lib api validator policy candidates ctx client
                         in (submitted, rbind r (\<lambda>h. Ok (Some h))))))"

section \<open>What is submitted\<close>

lemma act_bind_simps [simp]:
  "act_bind (Ok a) f = f a" "act_bind (Err e) f = ([], Err e)" "act_bind Panic f = ([], Panic)"
  by (simp_all add: act_bind_def)

text \<open>A submission is of one signed transaction that the builder made with some costs.\<close>

lemma build_evaluate_submit_one:
  assumes "build_evaluate_submit lib client ctx build = (submitted, r)"
  shows "(submitted = [] \<and> (\<forall>h. r \<noteq> Ok h))
     \<or> (\<exists>units tx. build units = Ok tx \<and> submitted = [tx_to_bytes lib (ctx_sign lib ctx tx)]
          \<and> r = map_err SubmitFailed (oc_submit client (tx_to_bytes lib (ctx_sign lib ctx tx))))"
proof -
  let ?r = "rbind (build \<lparr> ex_mem = 0, ex_steps = 0 \<rparr>) (\<lambda>tx.
        rbind (map_err EvaluateFailed (oc_evaluate client (tx_to_bytes lib tx))) (\<lambda>response.
        rbind (map_err JsFailed (get_first_validator_budget response)) build))"
  show ?thesis
  proof (cases ?r)
    case (Ok tx)
    then obtain units where "build units = Ok tx"
      by auto
    then show ?thesis
      using assms Ok by (auto simp: build_evaluate_submit_def Let_def)
  qed (use assms in \<open>auto simp: build_evaluate_submit_def\<close>)
qed

text \<open>Reading back what an upsert wrote.\<close>

lemma get_current_d_parameter_written:
  assumes "plutus_data api" "ou_datum u = Some bs" "from_bytes bs = Ok (d_parameter_to_plutus_data api d)"
  shows "get_current_d_parameter api from_bytes (u # us) = Ok (Some (u, d))"
proof -
  obtain v where "d_param_try_from api (d_parameter_to_plutus_data api d) = Ok v" "d_parameter_from v = d"
    using plutus_data.d_param_round_trip [OF assms(1), of d] by auto
  then show ?thesis
    using assms(2,3) by (simp add: get_current_d_parameter_def)
qed

lemma sort_candidates_eq:
  assumes "mset cs = mset cs'"
  shows "sort_candidates cs = sort_candidates cs'"
proof -
  have "inj (\<lambda>c :: permissioned_candidate_data. (perm_sidechain_public_key c, perm_aura_public_key c, perm_grandpa_public_key c))"
    by (intro injI) (simp add: permissioned_candidate_data.equality)
  then show ?thesis
    unfolding sort_candidates_def using assms by (intro sort_key_inj_key_eq) (auto intro: inj_on_subset)
qed

lemma get_current_permissioned_written:
  assumes "plutus_data api" "ou_datum u = Some bs" "from_bytes bs = Ok (permissioned_candidates_to_plutus_data api cs)"
  shows "get_current_permissioned_candidates api from_bytes (u # us) = Ok (Some (u, sort_candidates cs))"
proof -
  obtain v where "permissioned_try_from api (permissioned_candidates_to_plutus_data api cs) = Ok v" "permissioned_candidates_from v = cs"
    using plutus_data.permissioned_round_trip [OF assms(1), of cs] by auto
  then show ?thesis
    using assms(2,3) by (simp add: get_current_permissioned_candidates_def)
qed

section \<open>Correctness\<close>

text \<open>C19. Upserts are idempotent: when the first UTXO at the validator's address holds the requested D-parameter, or the
  requested candidates in any order, nothing is submitted and the upsert reports so.\<close>

theorem upsert_idempotent:
  assumes "plutus_data api" "for_payment_key (oe_csl env) key client = (Ok ctx :: (_, ('x, 'e) offchain_error) result)"
    and scripts: "d_parameter_scripts env g (ctx_network ctx) = (Ok (v, p) :: (_, ('x, 'e) offchain_error) result)"
      "permissioned_candidates_scripts env g (ctx_network ctx) = (Ok (v', p') :: (_, ('x, 'e) offchain_error) result)"
    and addresses: "ps_address_bech32 (oe_csl env) v (ctx_network ctx) = Ok a" "ps_address_bech32 (oe_csl env) v' (ctx_network ctx) = Ok a'"
    and "oc_query_utxos client [a] = Ok (u # us)" "ou_datum u = Some bs" "from_bytes bs = Ok (d_parameter_to_plutus_data api d)"
    and "oc_query_utxos client [a'] = Ok (u' # us')" "ou_datum u' = Some bs'"
      "from_bytes bs' = Ok (permissioned_candidates_to_plutus_data api cs')" "mset cs' = mset cs"
  shows "upsert_d_param env api from_bytes g d key client = ([], Ok None)
    \<and> upsert_permissioned_candidates env api from_bytes g cs key client = ([], Ok None)"
proof -
  have "get_current_d_parameter api from_bytes (u # us) = (Ok (Some (u, d)) :: (_, ('x, 'e) offchain_error) result)"
    "get_current_permissioned_candidates api from_bytes (u' # us')
       = (Ok (Some (u', sort_candidates cs)) :: (_, ('x, 'e) offchain_error) result)"
    using get_current_d_parameter_written [where from_bytes = from_bytes, OF assms(1,8,9)]
      get_current_permissioned_written [where from_bytes = from_bytes, OF assms(1,11,12)] sort_candidates_eq [OF assms(13)]
    by simp_all
  then show ?thesis
    using assms(2) scripts addresses assms(7,10)
    by (simp add: upsert_d_param_def upsert_permissioned_candidates_def Let_def)
qed

section \<open>Calls of the library\<close>

text \<open>Calls that decide what a transaction spends, mints and pays; balancing makes none of them.\<close>

definition essential :: "recorded_call \<Rightarrow> bool" where
  "essential c = (case c of OutputCall _ _ _ _ \<Rightarrow> True | MintCall _ _ _ _ \<Rightarrow> True | InputsCall _ \<Rightarrow> True | _ \<Rightarrow> False)"

lemma try_balance_essential:
  assumes "try_balance recording b us ctx = Ok tx"
  shows "filter essential (fst tx) = filter essential b"
proof -
  have collateral: "\<exists>ib. add_collateral_inputs recording ctx us c = Ok (c @ [CollateralCall ib])"
    if "add_collateral_inputs recording ctx us c = Ok c'" for c c'
    using that by (auto simp: add_collateral_inputs_def recording_def)
  show ?thesis
    using assms collateral
    by (auto simp: try_balance_def Let_def recording_def essential_def add_collateral_inputs_def split: if_splits)
qed

lemma balance_essential:
  assumes "balance_update_and_build recording ctx b = Ok tx"
  shows "filter essential (fst tx) = filter essential b"
proof -
  have "\<exists>us. try_balance recording b us ctx = Ok tx"
    using balance_loop_result [where lib = recording and b = b and ctx = ctx and selected = "[]"
        and us = "max_possible_collaterals ctx"] try_balance_no_panic [OF recording_total] assms
    unfolding balance_update_and_build_def by auto
  then show ?thesis
    using try_balance_essential by blast
qed

lemma recording_calls:
  "add_output_with_one_script_token recording v p d ctx b = Ok b'
     \<Longrightarrow> \<exists>coin. b' = b @ [OutputCall (ps_address recording v (ctx_network ctx)) d coin [(ps_script_hash recording p, [([], 1)])]]"
  "add_script_utxo_input recording u s units ib = Ok ib'
     \<Longrightarrow> \<exists>r x. ib' = ib @ [ScriptInput s r (to_csl_tx_input u) x] \<and> red_tag r = SpendTag \<and> red_ex_units r = units"
  "add_mint_one_script_token recording s units b = Ok b'
     \<Longrightarrow> \<exists>r. b' = b @ [MintCall s r [] 1] \<and> red_tag r = MintTag \<and> red_ex_units r = units"
  "set_inputs recording ib b = b @ [InputsCall ib]" "builder_new recording cfg = []" "inputs_new recording = []"
  by (auto simp: add_output_with_one_script_token_def add_script_utxo_input_def add_mint_one_script_token_def
      empty_asset_name_def recording_def)

lemma update_d_param_calls:
  assumes "update_d_param_tx recording api v p d u ctx units = Ok tx"
  shows "\<exists>r x coin. filter essential (fst tx) = [InputsCall [ScriptInput v r (to_csl_tx_input u) x],
     OutputCall (ps_address recording v (ctx_network ctx)) (d_parameter_to_plutus_data api d) coin [(ps_script_hash recording p, [([], 1)])]]"
proof -
  obtain ib b where ib: "add_script_utxo_input recording u v units [] = Ok ib"
    and b: "add_output_with_one_script_token recording v p (d_parameter_to_plutus_data api d) ctx [InputsCall ib] = Ok b"
    and tx: "balance_update_and_build recording ctx b = Ok tx"
    using assms by (auto simp: update_d_param_tx_def recording_calls(4-6))
  show ?thesis
    using recording_calls(2) [OF ib] recording_calls(1) [OF b] unfolding balance_essential [OF tx]
    by (auto simp: essential_def)
qed

lemma update_permissioned_calls:
  assumes "update_permissioned_candidates_tx recording api v p cs u ctx units = Ok tx"
  shows "\<exists>r x coin. filter essential (fst tx) = [InputsCall [ScriptInput p r (to_csl_tx_input u) x],
     OutputCall (ps_address recording v (ctx_network ctx)) (permissioned_candidates_to_plutus_data api cs) coin
       [(ps_script_hash recording p, [([], 1)])]]"
proof -
  obtain ib b where ib: "add_script_utxo_input recording u p units [] = Ok ib"
    and b: "add_output_with_one_script_token recording v p (permissioned_candidates_to_plutus_data api cs) ctx [InputsCall ib] = Ok b"
    and tx: "balance_update_and_build recording ctx b = Ok tx"
    using assms by (auto simp: update_permissioned_candidates_tx_def recording_calls(4-6))
  show ?thesis
    using recording_calls(2) [OF ib] recording_calls(1) [OF b] unfolding balance_essential [OF tx]
    by (auto simp: essential_def)
qed

text \<open>The scripts attached to spent UTXOs and the outputs of a recorded transaction.\<close>

definition attached_scripts :: "recorded_call list \<Rightarrow> plutus_script list" where
  "attached_scripts calls = concat (map (\<lambda>c. case c of
     InputsCall ibs \<Rightarrow> List.map_filter (\<lambda>i. case i of ScriptInput s _ _ _ \<Rightarrow> Some s | _ \<Rightarrow> None) ibs | _ \<Rightarrow> []) calls)"

definition recorded_outputs :: "recorded_call list \<Rightarrow> (bytes \<times> datum \<times> (bytes \<times> (bytes \<times> u64) list) list) list" where
  "recorded_outputs calls = List.map_filter (\<lambda>c. case c of OutputCall a d _ m \<Rightarrow> Some (a, d, m) | _ \<Rightarrow> None) calls"

lemma essential_suffices:
  "attached_scripts calls = attached_scripts (filter essential calls)"
  "recorded_outputs calls = recorded_outputs (filter essential calls)"
  by (induction calls)
    (auto simp: attached_scripts_def recorded_outputs_def List.map_filter_simps essential_def split: recorded_call.splits)


definition demo_script_utxo :: ogmios_utxo where
  "demo_script_utxo = (demo_payment_utxo 9 1060260) \<lparr> ou_datum := Some [0] \<rparr>"

definition demo_script :: "u8 \<Rightarrow> plutus_script" where
  "demo_script n = \<lparr> script_bytes = [n], script_language = PlutusV2 \<rparr>"

lemma demo_balance: "\<exists>tx. balance_update_and_build recording demo_context b = Ok tx"
  using demo_try_balance(2) [of b] try_balance_no_panic [OF recording_total, of b "[]" demo_context]
  by (cases "try_balance recording b [] demo_context") (auto simp: balance_update_and_build_def demo_collaterals)

lemma demo_updates:
  "\<exists>tx. update_d_param_tx recording datum_api (demo_script 1) (demo_script 2) d demo_script_utxo demo_context units = Ok tx"
  "\<exists>tx. update_permissioned_candidates_tx recording datum_api (demo_script 1) (demo_script 2) cs demo_script_utxo demo_context units = Ok tx"
  using demo_balance
  by (simp_all add: update_d_param_tx_def update_permissioned_candidates_tx_def get_builder_config_def convert_value_def
      demo_context_def demo_parameters_def new_lovelace_def add_script_utxo_input_def demo_script_utxo_def demo_payment_utxo_def
      add_output_with_one_script_token_def empty_asset_name_def recording_def)


definition demo_uplc :: "(string, bytes, datum, datum) uplc" where
  "demo_uplc = \<lparr> uplc_plutus_data = (\<lambda>bs. Some (ByteStringDatum bs)), uplc_decode = (\<lambda>bs. Ok (ByteStringDatum bs)),
     uplc_as_bounded_bytes = (\<lambda>d. case d of ByteStringDatum bs \<Rightarrow> Some bs | _ \<Rightarrow> None), uplc_bounded_bytes = ByteStringDatum,
     uplc_array = ListDatum, uplc_int = IntegerDatum, program_from_cbor = Ok, program_apply_data = (\<lambda>bs d. bs @ [0]),
     program_to_cbor = Some, plutus_data_from_address = (\<lambda>a. Ok (ByteStringDatum a)),
     plutus_data_serialize = (\<lambda>d. case d of ByteStringDatum bs \<Rightarrow> Ok bs | _ \<Rightarrow> Err ''data'') \<rparr>"

definition demo_raw_scripts :: raw_scripts where
  "demo_raw_scripts = \<lparr> raw_version_oracle_validator = [1], raw_version_oracle_policy = [2], raw_committee_candidate_validator = [3],
     raw_d_parameter_validator = [4], raw_d_parameter_policy = [5], raw_permissioned_candidates_validator = [6],
     raw_permissioned_candidates_policy = [7], raw_illiquid_circulation_supply_validator = [8], raw_reserve_validator = [9],
     raw_reserve_auth_policy = [10], raw_multi_sig_policy = [11] \<rparr>"

definition demo_offchain_env :: "(string, bytes, datum, u8, builder_config, bytes \<times> datum \<times> u64 \<times> (bytes \<times> (bytes \<times> u64) list) list,
    recorded_input list, recorded_call list, recorded_call list \<times> (bytes \<times> bytes) list, datum) offchain_env" where
  "demo_offchain_env = \<lparr> oe_csl = recording, oe_uplc = demo_uplc, oe_primitives = demo_primitives, oe_raw = demo_raw_scripts \<rparr>"

definition demo_perm :: "u8 \<Rightarrow> permissioned_candidate_data" where
  "demo_perm n = \<lparr> perm_sidechain_public_key = [n], perm_aura_public_key = [n], perm_grandpa_public_key = [n] \<rparr>"

definition demo_from_bytes :: "bytes \<Rightarrow> (datum, string) result" where
  "demo_from_bytes bs =
     (if bs = [0] then Ok (d_parameter_to_plutus_data datum_api \<lparr> num_permissioned_candidates = 3, num_registered_candidates = 2 \<rparr>)
      else if bs = [1] then Ok (permissioned_candidates_to_plutus_data datum_api [demo_perm 1, demo_perm 2])
      else Err ''bytes'')"

definition demo_ogmios :: "string ogmios_client" where
  "demo_ogmios = \<lparr> oc_network = Ok Testnet, oc_protocol_parameters = Ok demo_parameters,
     oc_query_utxos = (\<lambda>as. Ok [demo_script_utxo \<lparr> ou_datum := Some [if length (hd as) > 2 \<and> hd as ! 2 = char_of (6 :: nat) then 1 else 0] \<rparr>]),
     oc_evaluate = (\<lambda>_. Ok []), oc_submit = (\<lambda>_. Err ''submit'') \<rparr>"

lemma demo_scripts:
  "d_parameter_scripts demo_offchain_env g TestnetId
     = (Ok (\<lparr> script_bytes = [4, 0, 0], script_language = PlutusV2 \<rparr>, \<lparr> script_bytes = [5, 0, 0, 0], script_language = PlutusV2 \<rparr>)
         :: (_, (string, string) offchain_error) result)"
  "permissioned_candidates_scripts demo_offchain_env g TestnetId
     = (Ok (\<lparr> script_bytes = [6, 0, 0], script_language = PlutusV2 \<rparr>, \<lparr> script_bytes = [7, 0, 0, 0], script_language = PlutusV2 \<rparr>)
         :: (_, (string, string) offchain_error) result)"
  by (simp_all add: d_parameter_scripts_def permissioned_candidates_scripts_def validator_and_policy_def version_oracle_scripts_def
      demo_offchain_env_def demo_uplc_def demo_raw_scripts_def recording_def from_wrapped_cbor_def unwrap_one_layer_of_cbor_def
      apply_data_def apply_uplc_data_def datum_to_uplc_plutus_data_def address_data_def csl_plutus_data_to_uplc_def Let_def)

theorem upsert_idempotent_witness:
  "upsert_d_param demo_offchain_env datum_api demo_from_bytes (demo_utxo 4) \<lparr> num_permissioned_candidates = 3, num_registered_candidates = 2 \<rparr>
       [7] demo_ogmios = ([], Ok None)
   \<and> upsert_permissioned_candidates demo_offchain_env datum_api demo_from_bytes (demo_utxo 4) [demo_perm 2, demo_perm 1]
       [7] demo_ogmios = ([], Ok None)"
proof -
  let ?ctx = "\<lparr> ctx_payment_key = 7, ctx_payment_key_utxos = [demo_script_utxo], ctx_network = TestnetId, ctx_protocol_parameters = demo_parameters \<rparr>"
  have ctx: "for_payment_key (oe_csl demo_offchain_env) [7] demo_ogmios
      = (Ok ?ctx :: (_, (string, string) offchain_error) result)"
    by (simp add: for_payment_key_def demo_offchain_env_def recording_def demo_ogmios_def network_to_csl_def key_hash_address_def
        demo_script_utxo_def demo_payment_utxo_def Let_def)
  have scripts: "d_parameter_scripts demo_offchain_env (demo_utxo 4) (ctx_network ?ctx)
      = (Ok (\<lparr> script_bytes = [4, 0, 0], script_language = PlutusV2 \<rparr>, \<lparr> script_bytes = [5, 0, 0, 0], script_language = PlutusV2 \<rparr>)
          :: (_, (string, string) offchain_error) result)"
    "permissioned_candidates_scripts demo_offchain_env (demo_utxo 4) (ctx_network ?ctx)
      = (Ok (\<lparr> script_bytes = [6, 0, 0], script_language = PlutusV2 \<rparr>, \<lparr> script_bytes = [7, 0, 0, 0], script_language = PlutusV2 \<rparr>)
          :: (_, (string, string) offchain_error) result)"
    using demo_scripts by simp_all
  have bech: "ps_address_bech32 (oe_csl demo_offchain_env) \<lparr> script_bytes = n # bs, script_language = PlutusV2 \<rparr> (ctx_network ?ctx)
      = Ok (char_of (16 :: nat) # char_of (2 :: nat) # char_of (unat n) # map (\<lambda>b. char_of (unat b)) (take 26 bs))" for n bs
    by (simp add: ps_address_bech32_def ps_address_def script_address_def demo_offchain_env_def recording_def
        plutus_script_hash_def language_kind_to_u8_def network_id_kind_to_u8_def)
  show ?thesis
    by (rule upsert_idempotent [OF datum_data.plutus_data_axioms ctx scripts bech bech, where us = "[]" and us' = "[]"
          and u = "demo_script_utxo" and u' = "demo_script_utxo \<lparr> ou_datum := Some [1] \<rparr>" and bs = "[0]" and bs' = "[1]"
          and cs' = "[demo_perm 1, demo_perm 2]"])
      (simp_all add: demo_ogmios_def demo_script_utxo_def demo_from_bytes_def char_of_eq_iff add_mset_commute)
qed

end
