(* ===== verification/InitGovernance.thy ===== *)
theory InitGovernance
  imports Prelude Upsert
begin

text \<open>
  Initialisation of governance: \<^verbatim>\<open>toolkit/offchain/src/init_governance\<close>.

  The transaction spends the genesis UTXO, mints the version oracle token and stores the governance policy as a reference
  script.  Outputs with a reference script and the JSON form of transactions are two more functions of the
  cardano-serialization-lib.
\<close>

section \<open>The transaction\<close>

record ('x, 'ad, 'p, 'o, 't) governance_lib =
  output_build_with_script_ref ::
    "'ad \<Rightarrow> 'p \<Rightarrow> plutus_script \<Rightarrow> u64 \<Rightarrow> (bytes \<times> (bytes \<times> u64) list) list \<Rightarrow> ('o, 'x) result"
  tx_to_json :: "'t \<Rightarrow> (string, 'x) result"

definition governance_script_id :: u32 where
  "governance_script_id = 32"

definition version_oracle_asset_name ::
  "('x, 'ad, 'p, 'k, 'cfg, 'o, 'ib, 'b, 't) csl \<Rightarrow> (bytes, ('x, 'e) offchain_error) result" where
  "version_oracle_asset_name lib = expect (ok (asset_name_new lib (map of_char ''Version oracle'')))"

definition mint_witness ::
  "('x, 'ad, 'p, 'k, 'cfg, 'o, 'ib, 'b, 't) csl \<Rightarrow> 'p plutus_api \<Rightarrow> plutus_script \<Rightarrow> plutus_script \<Rightarrow> ex_units
    \<Rightarrow> plutus_script \<times> 'p redeemer" where
  "mint_witness lib api version_oracle_policy multi_sig_policy units =
     (version_oracle_policy,
      \<lparr> red_tag = MintTag, red_index = 0,
        red_data = new_constr_plutus_data api 0
          [new_integer api (uint governance_script_id), new_bytes api (ps_script_hash lib multi_sig_policy)],
        red_ex_units = units \<rparr>)"

definition version_oracle_datum_output ::
  "('x, 'ad, 'p, 'k, 'cfg, 'o, 'ib, 'b, 't) csl \<Rightarrow> ('x, 'ad, 'p, 'o, 't) governance_lib \<Rightarrow> 'p plutus_api
    \<Rightarrow> plutus_script \<Rightarrow> plutus_script \<Rightarrow> plutus_script \<Rightarrow> network_id_kind \<Rightarrow> 'k transaction_context
    \<Rightarrow> ('o, ('x, 'e) offchain_error) result" where
  "version_oracle_datum_output lib glib api validator policy multi_sig_policy network ctx =
     (let data = version_oracle_to_plutus_data api
            \<lparr> version_oracle = governance_script_id, currency_symbol = ps_script_hash lib policy \<rparr>;
          build = (\<lambda>coin name. map_err ExternalError (output_build_with_script_ref glib (ps_address lib validator network) data
            multi_sig_policy coin [(ps_script_hash lib policy, [(name, 1)])]))
      in rbind (version_oracle_asset_name lib) (\<lambda>name.
         rbind (build 0 name) (\<lambda>output.
         rbind (map_err ExternalError (calculate_ada lib output
                  (min_utxo_deposit_coefficient (ctx_protocol_parameters ctx)))) (\<lambda>min_ada. build min_ada name))))"

definition init_governance_transaction ::
  "('x, 'ad, 'p, 'k, 'cfg, 'o, 'ib, 'b, 't, 'u) offchain_env \<Rightarrow> ('x, 'ad, 'p, 'o, 't) governance_lib \<Rightarrow> 'p plutus_api
    \<Rightarrow> bytes \<Rightarrow> 'k transaction_context \<Rightarrow> ogmios_utxo \<Rightarrow> ex_units \<Rightarrow> ('t, ('x, 'e) offchain_error) result" where
  "init_governance_transaction env glib api governance_authority ctx genesis_utxo units =
     (let up = oe_uplc env; lib = oe_csl env; raw = oe_raw env;
          genesis_data = datum_to_uplc_plutus_data (oe_primitives env) up (utxo_id_to_datum (utxo_to_domain genesis_utxo))
      in rbind (from_wrapped_cbor up (raw_multi_sig_policy raw) PlutusV2) (\<lambda>s.
         rbind (apply_uplc_data up (multisig_governance_policy_configuration up governance_authority) s) (\<lambda>multi_sig_policy.
         rbind (from_wrapped_cbor up (raw_version_oracle_validator raw) PlutusV2) (\<lambda>s.
         rbind genesis_data (\<lambda>d.
         rbind (apply_uplc_data up d s) (\<lambda>version_oracle_validator.
         rbind (from_wrapped_cbor up (raw_version_oracle_policy raw) PlutusV2) (\<lambda>s.
         rbind (apply_uplc_data up d s) (\<lambda>s.
         rbind (address_data lib up (ctx_network ctx) version_oracle_validator) (\<lambda>address.
         rbind (apply_uplc_data up address s) (\<lambda>version_oracle_policy.
         rbind (map_err JsFailed (get_builder_config lib (ctx_protocol_parameters ctx))) (\<lambda>cfg.
         rbind (version_oracle_asset_name lib) (\<lambda>name.
         rbind (map_err ExternalError (set_mint_asset lib (mint_witness lib api version_oracle_policy multi_sig_policy units) name 1
                  (builder_new lib cfg))) (\<lambda>b.
         rbind (version_oracle_datum_output lib glib api version_oracle_validator version_oracle_policy multi_sig_policy
                  (ctx_network ctx) ctx) (\<lambda>output.
         rbind (map_err ExternalError (add_output lib output b)) (\<lambda>b.
         rbind (map_err JsFailed (with_key_inputs lib [genesis_utxo] (payment_key_hash lib ctx))) (\<lambda>ib.
           map_err JsFailed (balance_update_and_build lib ctx (set_inputs lib ib b))))))))))))))))))"

section \<open>The operation\<close>

definition choose_genesis_utxo ::
  "utxo_id option \<Rightarrow> ogmios_utxo list \<Rightarrow> (ogmios_utxo, ('x, 'e) offchain_error) result" where
  "choose_genesis_utxo genesis_utxo_id own_utxos =
     (case genesis_utxo_id of
        None \<Rightarrow> (case own_utxos of utxo # _ \<Rightarrow> Ok utxo | [] \<Rightarrow> Err NoUtxoToChoose)
      | Some i \<Rightarrow> ok_or (GenesisUtxoNotFound i)
          (List.find (\<lambda>utxo. ou_transaction utxo = tx_hash i \<and> ou_index utxo = utxo_index i) own_utxos))"

definition run_init_governance ::
  "('x, 'ad, 'p, 'k, 'cfg, 'o, 'ib, 'b, 't, 'u) offchain_env \<Rightarrow> ('x, 'ad, 'p, 'o, 't) governance_lib \<Rightarrow> 'p plutus_api
    \<Rightarrow> bytes \<Rightarrow> bytes \<Rightarrow> utxo_id option \<Rightarrow> 'e ogmios_client \<Rightarrow> (bytes, 'x, 'e) action" where
  "run_init_governance env glib api governance_authority payment_key genesis_utxo_id client =
     (let lib = oe_csl env
      in act_bind
           (rbind (expect (ok (private_key_from_bytes lib payment_key))) (\<lambda>key.
            rbind (map_err ClientFailed (oc_network client)) (\<lambda>network_kind.
            let network = network_to_csl network_kind; own_address = key_hash_address lib (public_key_hash lib key) network in
            rbind (expect (ok (to_bech32 lib own_address))) (\<lambda>bech32.
            rbind (map_err ClientFailed (oc_query_utxos client [bech32])) (\<lambda>own_utxos.
            rbind (map_err ClientFailed (oc_protocol_parameters client)) (\<lambda>parameters.
            rbind (choose_genesis_utxo genesis_utxo_id own_utxos) (\<lambda>genesis_utxo.
            let ctx = \<lparr> ctx_payment_key = key, ctx_payment_key_utxos = own_utxos, ctx_network = network,
                        ctx_protocol_parameters = parameters \<rparr>;
                build = init_governance_transaction env glib api governance_authority ctx genesis_utxo in
            rbind (build \<lparr> ex_mem = 0, ex_steps = 0 \<rparr>) (\<lambda>unsigned.
            rbind (map_err ExternalError (tx_to_json glib unsigned)) (\<lambda>_.
            rbind (map_err ClientFailed (oc_evaluate client (tx_to_bytes lib unsigned))) (\<lambda>all_costs.
            rbind (map_err JsFailed (get_first_validator_budget all_costs)) (\<lambda>cost.
            rbind (build cost) (\<lambda>tx. Ok (ctx, tx)))))))))))))
           (\<lambda>(ctx, tx). let signed = tx_to_bytes lib (ctx_sign lib ctx tx)
              in ([signed], map_err ClientFailed (oc_submit client signed))))"

section \<open>What the transaction spends\<close>

lemma choose_genesis_utxo_own:
  "choose_genesis_utxo i us = Ok u \<Longrightarrow> u \<in> set us \<and> (\<forall>id. i = Some id \<longrightarrow> utxo_to_domain u = id)"
  by (auto simp: choose_genesis_utxo_def utxo_to_domain_def find_Some_iff split: option.splits list.splits
      intro: utxo_id.equality)

text \<open>With the recording library: the transaction spends exactly the chosen UTXO, besides what balancing adds, and mints one
  token of a policy that has the UTXO as a parameter.\<close>

definition recording_governance :: "(string, bytes, datum, bytes \<times> datum \<times> u64 \<times> (bytes \<times> (bytes \<times> u64) list) list,
    recorded_call list \<times> (bytes \<times> bytes) list) governance_lib" where
  "recording_governance = \<lparr> output_build_with_script_ref = (\<lambda>a d _ c m. Ok (a, d, c, m)), tx_to_json = (\<lambda>_. Ok ''tx'') \<rparr>"

lemma init_governance_calls:
  assumes "init_governance_transaction env recording_governance datum_api authority ctx u units
      = (Ok tx :: (_, (string, 'e) offchain_error) result)" "oe_csl env = recording"
  shows "\<exists>policy r a data coin v. filter essential (fst tx) = [MintCall policy r (map of_char ''Version oracle'') 1,
     OutputCall a data coin [(ps_script_hash recording policy, [(map of_char ''Version oracle'', 1)])],
     InputsCall [KeyInput (payment_key_hash recording ctx) (to_csl_tx_input u) v]]"
proof -
  have name: "version_oracle_asset_name recording = (Ok (map of_char ''Version oracle'') :: (_, (string, 'e) offchain_error) result)"
    by (simp add: version_oracle_asset_name_def recording_def)
  obtain policy ms b1 b2 paid v ib where
    b1: "set_mint_asset recording (mint_witness recording datum_api policy ms units) (map of_char ''Version oracle'') 1 [] = Ok b1"
    and out: "version_oracle_datum_output recording recording_governance datum_api v policy ms (ctx_network ctx) ctx
      = (Ok paid :: (_, (string, 'e) offchain_error) result)"
    and b2: "add_output recording paid b1 = Ok b2"
    and ib: "with_key_inputs recording [u] (payment_key_hash recording ctx) = Ok ib"
    and tx: "balance_update_and_build recording ctx (b2 @ [InputsCall ib]) = Ok tx"
    using assms by (auto simp: init_governance_transaction_def Let_def name recording_calls(4-6))
  obtain x where "ib = [KeyInput (payment_key_hash recording ctx) (to_csl_tx_input u) x]"
    using ib by (auto simp: with_key_inputs_def recording_def)
  moreover obtain a data coin where "paid = (a, data, coin, [(ps_script_hash recording policy, [(map of_char ''Version oracle'', 1)])])"
    using out name by (auto simp: version_oracle_datum_output_def recording_governance_def Let_def)
  ultimately show ?thesis
    using b1 b2 unfolding balance_essential [OF tx] by (auto simp: recording_def mint_witness_def essential_def)
qed

end
