(* ===== verification/Spec2Isabelle.thy ===== *)
theory Spec2Isabelle
  imports Prelude MainchainEpoch SidechainSlots CommitteePallet SessionPallet SessionManager Domain
    WeightedRandom PlutusDatum FilterCandidates AuthoritySelection SidechainPallet BlockRewards
    NativeTokenPallet Runtime RuntimeSafety RuntimeAgreement RuntimeRewards
    DbModel DbChain BlockSource McHash NativeTokenSource NativeTransfers
    BlockSearch NodeInherents PlutusData CandidatesSource AuraClient NodeImport SelectionOrder CommitteeQuery SidechainRpc
    RegistrationSignatures CollateralSelection Ogmios Csl SmartContracts Upsert InitGovernance
begin

text \<open>
  A verification library for the partner-chains node: a Substrate chain whose block producers are
  elected from registrations observed on Cardano.

  \<^bold>\<open>Parts\<close>

  \<^item> \<^verbatim>\<open>MainchainEpoch\<close> models \<^verbatim>\<open>toolkit/primitives/domain/src/mainchain_epoch.rs\<close>.
  \<^item> \<^verbatim>\<open>SidechainSlots\<close> models \<^verbatim>\<open>toolkit/primitives/sidechain-slots/src/lib.rs\<close>.
\<close>

end
